(* ===== verification/Prelude.thy ===== *)
theory Prelude
  imports Complex_Main "HOL-Library.AList"
begin

text \<open>
  Shared ground of the development: the exceptions the back end raises, programs that pass a
  state and may raise, and the pieces of Python's \<open>str\<close>, \<open>list\<close> and \<open>dict\<close> the sources use.

  A Python string is a HOL \<open>string\<close>; a HOL character stands for one code point below 256. A
  Python \<open>dict\<close> is an association list without duplicate keys, in insertion order: \<open>AList.update\<close>
  overwrites a present key in place and appends an absent one, as \<open>d[k] = v\<close> does.
\<close>

named_theorems prog_simps \<open>unfolding rules of the program combinators\<close>
named_theorems preserving \<open>programs that preserve an invariant\<close>
named_theorems str_simps \<open>rewrite rules for the string operations\<close>

section \<open>Exceptions and programs\<close>

datatype os_kind =
    FileNotFoundError | FileExistsError | PermissionError | IsADirectoryError
  | NotADirectoryError | OtherOSError

datatype exn =
    RpcException string string
  | RpcCallError string string
  | RuntimeError string
  | OSError os_kind string
  | ConfigValidationError string
  | ConfigApplyError string
  | LsblkError string
  | LvmError string
  | MdadmError string
  | MkfsError string
  | PartedError string
  | MountUnitError string
  | AclError string
  | SystemUserError string
  | DBusError string
  | UnitTimeoutError string
  | TimeoutError
  | ConnectionError string
  | FirewallError string
  | AssertionError
  | ValueError string
  | KeyError string
  | IndexError
  | AttributeError string
  | TypeError string
  | ValidationError string
  | ServiceError string string
  | IntegrityError string
  | HTTPException nat string

text \<open>\<open>str(exc)\<close>; \<open>RpcException\<close> passes \<open>code: message\<close> to its base class.\<close>

fun str_exn :: "exn \<Rightarrow> string" where
  "str_exn (RpcException c m) = c @ '': '' @ m"
| "str_exn (RpcCallError c m) = c @ '': '' @ m"
| "str_exn (RuntimeError m) = m"
| "str_exn (OSError _ m) = m"
| "str_exn (ConfigValidationError m) = m"
| "str_exn (ConfigApplyError m) = m"
| "str_exn (LsblkError m) = m"
| "str_exn (LvmError m) = m"
| "str_exn (MdadmError m) = m"
| "str_exn (MkfsError m) = m"
| "str_exn (PartedError m) = m"
| "str_exn (MountUnitError m) = m"
| "str_exn (AclError m) = m"
| "str_exn (SystemUserError m) = m"
| "str_exn (DBusError m) = m"
| "str_exn (UnitTimeoutError m) = m"
| "str_exn TimeoutError = []"
| "str_exn (ConnectionError m) = m"
| "str_exn (FirewallError m) = m"
| "str_exn AssertionError = []"
| "str_exn (ValueError m) = m"
| "str_exn (KeyError m) = m"
| "str_exn IndexError = ''list index out of range''"
| "str_exn (AttributeError m) = m"
| "str_exn (TypeError m) = m"
| "str_exn (ValidationError m) = m"
| "str_exn (ServiceError _ m) = m"
| "str_exn (IntegrityError m) = m"
| "str_exn (HTTPException _ m) = m"

text \<open>The tests the \<open>except\<close> clauses make; splitting all constructors of \<open>exn\<close> is slow.\<close>

lemma case_ConfigValidationError:
  "(case e of ConfigValidationError d \<Rightarrow> f d | _ \<Rightarrow> y) =
     (if \<exists>d. e = ConfigValidationError d then f (str_exn e) else y)"
  by (cases e) auto

lemma case_ConfigApplyError:
  "(case e of ConfigApplyError d \<Rightarrow> f d | _ \<Rightarrow> y) =
     (if \<exists>d. e = ConfigApplyError d then f (str_exn e) else y)"
  by (cases e) auto

type_synonym ('s, 'a) prog = "'s \<Rightarrow> (exn + 'a) \<times> 's"

definition ret :: "'a \<Rightarrow> ('s, 'a) prog" where
  "ret x s = (Inr x, s)"

definition raise :: "exn \<Rightarrow> ('s, 'a) prog" where
  "raise e s = (Inl e, s)"

definition bindE :: "('s, 'a) prog \<Rightarrow> ('a \<Rightarrow> ('s, 'b) prog) \<Rightarrow> ('s, 'b) prog" where
  "bindE m k s = (case m s of (Inl e, s') \<Rightarrow> (Inl e, s') | (Inr x, s') \<Rightarrow> k x s')"

definition thenE :: "('s, 'a) prog \<Rightarrow> ('s, 'b) prog \<Rightarrow> ('s, 'b) prog" where
  "thenE m n = bindE m (\<lambda>_. n)"

text \<open>\<open>try: m except ...: h\<close>; the handler re-raises what it does not name.\<close>

definition tryE :: "('s, 'a) prog \<Rightarrow> (exn \<Rightarrow> ('s, 'a) prog) \<Rightarrow> ('s, 'a) prog" where
  "tryE m h s = (case m s of (Inl e, s') \<Rightarrow> h e s' | (Inr x, s') \<Rightarrow> (Inr x, s'))"

definition getsE :: "('s \<Rightarrow> 'a) \<Rightarrow> ('s, 'a) prog" where
  "getsE f s = (Inr (f s), s)"

definition modifyE :: "('s \<Rightarrow> 's) \<Rightarrow> ('s, unit) prog" where
  "modifyE f s = (Inr (), f s)"

definition whenE :: "bool \<Rightarrow> ('s, unit) prog \<Rightarrow> ('s, unit) prog" where
  "whenE b m = (if b then m else ret ())"

definition liftE :: "exn + 'a \<Rightarrow> ('s, 'a) prog" where
  "liftE r s = (r, s)"

fun forE :: "('x \<Rightarrow> ('s, unit) prog) \<Rightarrow> 'x list \<Rightarrow> ('s, unit) prog" where
  "forE f [] = ret ()"
| "forE f (x # xs) = thenE (f x) (forE f xs)"

fun mapE :: "('x \<Rightarrow> ('s, 'y) prog) \<Rightarrow> 'x list \<Rightarrow> ('s, 'y list) prog" where
  "mapE f [] = ret []"
| "mapE f (x # xs) = bindE (f x) (\<lambda>y. bindE (mapE f xs) (\<lambda>ys. ret (y # ys)))"

lemma mapE_cong [fundef_cong]:
  "xs = ys \<Longrightarrow> (\<And>x. x \<in> set ys \<Longrightarrow> f x = g x) \<Longrightarrow> mapE f xs = mapE g ys"
  by (induction xs arbitrary: ys) auto

lemma ret_apply [simp, prog_simps]: "ret x s = (Inr x, s)" by (simp add: ret_def)
lemma raise_apply [simp, prog_simps]: "raise e s = (Inl e, s)" by (simp add: raise_def)
lemma getsE_apply [simp, prog_simps]: "getsE f s = (Inr (f s), s)" by (simp add: getsE_def)
lemma modifyE_apply [simp, prog_simps]: "modifyE f s = (Inr (), f s)" by (simp add: modifyE_def)
lemma liftE_apply [simp, prog_simps]: "liftE r s = (r, s)" by (simp add: liftE_def)
lemma whenE_apply [simp, prog_simps]: "whenE b m s = (if b then m s else (Inr (), s))"
  by (simp add: whenE_def)

lemma bindE_Inr [simp]: "m s = (Inr x, s') \<Longrightarrow> bindE m k s = k x s'" by (simp add: bindE_def)
lemma bindE_Inl [simp]: "m s = (Inl e, s') \<Longrightarrow> bindE m k s = (Inl e, s')" by (simp add: bindE_def)

lemma thenE_apply [prog_simps]:
  "thenE m n s = (case m s of (Inl e, s') \<Rightarrow> (Inl e, s') | (Inr _, s') \<Rightarrow> n s')"
  by (simp add: thenE_def bindE_def)

lemmas [prog_simps] = bindE_def tryE_def

lemma bindE_eq_Inr:
  "bindE m k s = (Inr y, t) \<longleftrightarrow> (\<exists>x s'. m s = (Inr x, s') \<and> k x s' = (Inr y, t))"
  by (auto simp: bindE_def split: prod.splits sum.splits)

lemma bindE_InrE:
  assumes "bindE m k s = (Inr y, t)"
  obtains x s' where "m s = (Inr x, s')" "k x s' = (Inr y, t)"
  using assms bindE_eq_Inr by metis

lemma bindE_eq_Inl:
  "bindE m k s = (Inl e, t) \<longleftrightarrow>
     m s = (Inl e, t) \<or> (\<exists>x s'. m s = (Inr x, s') \<and> k x s' = (Inl e, t))"
  by (auto simp: bindE_def split: prod.splits sum.splits)

lemma bind_ret_snd: "snd (bindE m (\<lambda>x. ret (f x)) s) = snd (m s)"
  by (simp add: bindE_def split: prod.split sum.split)

lemma tryE_eq_Inr:
  "tryE m h s = (Inr y, t) \<longleftrightarrow> m s = (Inr y, t) \<or> (\<exists>e s'. m s = (Inl e, s') \<and> h e s' = (Inr y, t))"
  by (auto simp: tryE_def split: prod.splits sum.splits)

lemma tryE_raises: "(\<And>e s y t. h e s \<noteq> (Inr y, t)) \<Longrightarrow> tryE m h s = (Inr y, t) \<longleftrightarrow> m s = (Inr y, t)"
  by (simp add: tryE_eq_Inr)

text \<open>A state invariant carried through the combinators.\<close>

definition keeps :: "('s \<Rightarrow> 's \<Rightarrow> bool) \<Rightarrow> ('s, 'a) prog \<Rightarrow> bool" where
  "keeps R m \<longleftrightarrow> (\<forall>s. R s (snd (m s)))"

lemma keepsI: "(\<And>s. R s (snd (m s))) \<Longrightarrow> keeps R m" by (simp add: keeps_def)
lemma keepsD: "keeps R m \<Longrightarrow> m s = (r, t) \<Longrightarrow> R s t" by (metis keeps_def snd_conv)

lemma keeps_ret [intro]: "reflp R \<Longrightarrow> keeps R (ret x)" by (simp add: keeps_def reflpD)
lemma keeps_raise [intro]: "reflp R \<Longrightarrow> keeps R (raise x)" by (simp add: keeps_def reflpD)
lemma keeps_liftE [intro]: "reflp R \<Longrightarrow> keeps R (liftE x)" by (simp add: keeps_def reflpD)
lemma keeps_getsE [intro]: "reflp R \<Longrightarrow> keeps R (getsE x)" by (simp add: keeps_def reflpD)

lemma keeps_bindE [intro]:
  assumes "transp R" "keeps R m" "\<And>x. keeps R (k x)"
  shows "keeps R (bindE m k)"
proof (rule keepsI)
  fix s
  obtain r s' where ms: "m s = (r, s')" by fastforce
  then have 1: "R s s'" using assms(2) by (rule keepsD [rotated])
  show "R s (snd (bindE m k s))"
  proof (cases r)
    case (Inl e)
    with ms 1 show ?thesis by (simp add: bindE_def)
  next
    case (Inr x)
    have "R s' (snd (k x s'))" using assms(3) [of x] by (simp add: keeps_def)
    with ms Inr 1 assms(1) show ?thesis by (auto simp: bindE_def dest: transpD)
  qed
qed

lemma keeps_thenE [intro]:
  "transp R \<Longrightarrow> keeps R m \<Longrightarrow> keeps R n \<Longrightarrow> keeps R (thenE m n)"
  by (auto simp: thenE_def)

lemma keeps_whenE [intro]: "reflp R \<Longrightarrow> keeps R m \<Longrightarrow> keeps R (whenE b m)"
  by (simp add: keeps_def reflpD)

lemma keeps_tryE [intro]:
  assumes "transp R" "keeps R m" "\<And>e. keeps R (h e)"
  shows "keeps R (tryE m h)"
proof (rule keepsI)
  fix s
  obtain r s' where ms: "m s = (r, s')" by fastforce
  then have 1: "R s s'" using assms(2) by (rule keepsD [rotated])
  show "R s (snd (tryE m h s))"
  proof (cases r)
    case (Inl e)
    have "R s' (snd (h e s'))" using assms(3) [of e] by (simp add: keeps_def)
    with ms Inl 1 assms(1) show ?thesis by (auto simp: tryE_def dest: transpD)
  next
    case (Inr x)
    with ms 1 show ?thesis by (simp add: tryE_def)
  qed
qed

lemma keeps_forE [intro]:
  "reflp R \<Longrightarrow> transp R \<Longrightarrow> (\<And>x. x \<in> set xs \<Longrightarrow> keeps R (f x)) \<Longrightarrow> keeps R (forE f xs)"
  by (induction xs) auto

lemma keeps_mapE [intro]:
  "reflp R \<Longrightarrow> transp R \<Longrightarrow> (\<And>x. x \<in> set xs \<Longrightarrow> keeps R (f x)) \<Longrightarrow> keeps R (mapE f xs)"
  by (induction xs) auto

section \<open>Invariants\<close>

definition preserves :: "('s \<Rightarrow> bool) \<Rightarrow> ('s, 'b) prog \<Rightarrow> bool" where
  "preserves I m \<longleftrightarrow> (\<forall>s. I s \<longrightarrow> I (snd (m s)))"

lemma preservesI: "(\<And>s. I s \<Longrightarrow> I (snd (m s))) \<Longrightarrow> preserves I m" by (simp add: preserves_def)
lemma preservesD: "preserves I m \<Longrightarrow> I s \<Longrightarrow> m s = (r, t) \<Longrightarrow> I t" by (metis preserves_def snd_conv)

lemma preserves_basic [preserving]:
  "preserves I (ret x)" "preserves I (raise e)" "preserves I (getsE f)" "preserves I (liftE r)"
  by (simp_all add: preserves_def)

lemma preserves_bindE [preserving]:
  assumes "preserves I m" "\<And>x. preserves I (k x)" shows "preserves I (bindE m k)"
  using assms by (auto simp: preserves_def bindE_def split: prod.split sum.split)

lemma preserves_thenE [preserving]: "preserves I m \<Longrightarrow> preserves I n \<Longrightarrow> preserves I (thenE m n)"
  by (simp add: thenE_def preserves_bindE)

lemma preserves_tryE [preserving]:
  assumes "preserves I m" "\<And>e. preserves I (h e)" shows "preserves I (tryE m h)"
  using assms by (auto simp: preserves_def tryE_def split: prod.split sum.split)

lemma preserves_split [preserving]:
  "preserves I a \<Longrightarrow> (\<And>y. preserves I (f y)) \<Longrightarrow> preserves I (case x of None \<Rightarrow> a | Some y \<Rightarrow> f y)"
  "(b \<Longrightarrow> preserves I m) \<Longrightarrow> (\<not> b \<Longrightarrow> preserves I n) \<Longrightarrow> preserves I (if b then m else n)"
  "(\<And>y z. preserves I (g y z)) \<Longrightarrow> preserves I (case p of (y, z) \<Rightarrow> g y z)"
  "(\<And>e. preserves I (h e)) \<Longrightarrow> preserves I (Let v h)"
  by (simp_all split: option.split prod.split)

lemma preserves_exn [preserving]:
  "preserves I (raise e) \<Longrightarrow> (\<And>c t. preserves I (f c t)) \<Longrightarrow>
     preserves I (case e of ServiceError c t \<Rightarrow> f c t | _ \<Rightarrow> raise e)"
  "preserves I (raise e) \<Longrightarrow> (\<And>c t. preserves I (f c t)) \<Longrightarrow>
     preserves I (case e of RpcCallError c t \<Rightarrow> f c t | _ \<Rightarrow> raise e)"
  "(\<And>c t. preserves I (f c t)) \<Longrightarrow> (\<And>c t. preserves I (g c t)) \<Longrightarrow>
     preserves I (case e of ServiceError c t \<Rightarrow> f c t | RpcCallError c t \<Rightarrow> g c t | _ \<Rightarrow> raise e)"
  by (cases e; simp add: preserves_basic)+

lemma preserves_mapE [preserving]: "(\<And>x. preserves I (f x)) \<Longrightarrow> preserves I (mapE f xs)"
  by (induction xs) (auto intro: preserving)

text \<open>What was just read may be used by what follows.\<close>

lemma preserves_known:
  assumes "\<And>s. I s \<Longrightarrow> J (f s) s" "\<And>x s. J x s \<Longrightarrow> I s" "\<And>x. preserves (J x) (k x)"
  shows "preserves I (bindE (getsE f) k)"
proof (rule preservesI)
  fix s assume "I s"
  with assms(1,3) have "J (f s) (snd (k (f s) s))" by (simp add: preserves_def)
  with assms(2) show "I (snd (bindE (getsE f) k s))" by (simp add: bindE_def)
qed

section \<open>Characters and strings\<close>

definition code :: "char \<Rightarrow> nat" where
  "code c = of_char c"

definition is_digit :: "char \<Rightarrow> bool" where
  "is_digit c \<longleftrightarrow> 48 \<le> code c \<and> code c \<le> 57"

definition is_lower :: "char \<Rightarrow> bool" where
  "is_lower c \<longleftrightarrow> 97 \<le> code c \<and> code c \<le> 122"

definition is_upper :: "char \<Rightarrow> bool" where
  "is_upper c \<longleftrightarrow> 65 \<le> code c \<and> code c \<le> 90"

text \<open>\<open>str.isspace\<close> and the line boundaries of \<open>str.splitlines\<close>, below code point 256.\<close>

definition is_space :: "char \<Rightarrow> bool" where
  "is_space c \<longleftrightarrow> (9 \<le> code c \<and> code c \<le> 13) \<or> (28 \<le> code c \<and> code c \<le> 32)
     \<or> code c = 133 \<or> code c = 160"

definition is_break :: "char \<Rightarrow> bool" where
  "is_break c \<longleftrightarrow> (10 \<le> code c \<and> code c \<le> 13) \<or> (28 \<le> code c \<and> code c \<le> 30) \<or> code c = 133"

definition LF :: char where "LF = CHR 0x0A"
definition CR :: char where "CR = CHR 0x0D"
definition nl :: string where "nl = [LF]"

definition lower_char :: "char \<Rightarrow> char" where
  "lower_char c = (if (65 \<le> code c \<and> code c \<le> 90) \<or> (192 \<le> code c \<and> code c \<le> 222 \<and> code c \<noteq> 215)
     then char_of (code c + 32) else c)"

definition lower :: "string \<Rightarrow> string" where
  "lower = map lower_char"

definition startswith :: "string \<Rightarrow> string \<Rightarrow> bool" where
  "startswith s p \<longleftrightarrow> take (length p) s = p"

definition endswith :: "string \<Rightarrow> string \<Rightarrow> bool" where
  "endswith s p \<longleftrightarrow> startswith (rev s) (rev p)"

text \<open>\<open>needle in s\<close>.\<close>

fun contains :: "string \<Rightarrow> string \<Rightarrow> bool" where
  "contains s p = (startswith s p \<or> (case s of [] \<Rightarrow> False | _ # t \<Rightarrow> contains t p))"

declare contains.simps [simp del]

definition lstrip :: "string \<Rightarrow> string" where
  "lstrip = dropWhile is_space"

definition rstrip_by :: "(char \<Rightarrow> bool) \<Rightarrow> string \<Rightarrow> string" where
  "rstrip_by p s = rev (dropWhile p (rev s))"

definition strip :: "string \<Rightarrow> string" where
  "strip s = rstrip_by is_space (lstrip s)"

definition strip_char :: "char \<Rightarrow> string \<Rightarrow> string" where
  "strip_char c s = rstrip_by (\<lambda>d. d = c) (dropWhile (\<lambda>d. d = c) s)"

fun join :: "string \<Rightarrow> string list \<Rightarrow> string" where
  "join sep [] = []"
| "join sep [x] = x"
| "join sep (x # y # zs) = x @ sep @ join sep (y # zs)"

text \<open>\<open>s.split(c)\<close> for a one-character separator.\<close>

fun split_on :: "char \<Rightarrow> string \<Rightarrow> string list" where
  "split_on c [] = [[]]"
| "split_on c (d # s) =
     (if d = c then [] # split_on c s
      else (case split_on c s of [] \<Rightarrow> [[d]] | w # ws \<Rightarrow> (d # w) # ws))"

text \<open>\<open>s.partition(c)\<close> without the separator: what is before and after the first \<open>c\<close>.\<close>

fun partition_on :: "char \<Rightarrow> string \<Rightarrow> string \<times> string" where
  "partition_on c [] = ([], [])"
| "partition_on c (d # s) = (if d = c then ([], s) else (d # fst (partition_on c s), snd (partition_on c s)))"

text \<open>\<open>s.splitlines(keepends=True)\<close> and \<open>s.splitlines()\<close>; the accumulator is the line so far.\<close>

fun lines_keep_aux :: "string \<Rightarrow> string \<Rightarrow> string list" where
  "lines_keep_aux cur [] = (if cur = [] then [] else [rev cur])"
| "lines_keep_aux cur (c # s) =
     (if c = CR \<and> (case s of d # _ \<Rightarrow> d = LF | [] \<Rightarrow> False)
      then rev (LF # CR # cur) # lines_keep_aux [] (tl s)
      else if is_break c then rev (c # cur) # lines_keep_aux [] s
      else lines_keep_aux (c # cur) s)"

definition splitlines_keep :: "string \<Rightarrow> string list" where
  "splitlines_keep s = lines_keep_aux [] s"

definition splitlines :: "string \<Rightarrow> string list" where
  "splitlines s = map (rstrip_by is_break) (splitlines_keep s)"

fun digit_char :: "nat \<Rightarrow> char" where
  "digit_char n = char_of (48 + n)"

fun nat_str :: "nat \<Rightarrow> string" where
  "nat_str n = (if n < 10 then [digit_char n] else nat_str (n div 10) @ [digit_char (n mod 10)])"

declare nat_str.simps [simp del]

definition int_str :: "int \<Rightarrow> string" where
  "int_str i = (if i < 0 then ''-'' @ nat_str (nat (- i)) else nat_str (nat i))"

definition hex_digit :: "nat \<Rightarrow> char" where
  "hex_digit n = (if n < 10 then char_of (48 + n) else char_of (87 + n))"

text \<open>\<open>repr\<close> of a string: double quotes when it holds a single one and no double one.\<close>

definition repr_char :: "char \<Rightarrow> char \<Rightarrow> string" where
  "repr_char q c =
     (if c = q \<or> c = CHR 0x5C then [CHR 0x5C, c]
      else if c = LF then [CHR 0x5C, CHR ''n'']
      else if c = CR then [CHR 0x5C, CHR ''r'']
      else if code c = 9 then [CHR 0x5C, CHR ''t'']
      else if (32 \<le> code c \<and> code c \<le> 126) \<or> (161 \<le> code c \<and> code c \<noteq> 173) then [c]
      else CHR 0x5C # ''x'' @ [hex_digit (code c div 16), hex_digit (code c mod 16)])"

definition repr_str :: "string \<Rightarrow> string" where
  "repr_str s = (let q = (if CHR 0x27 \<in> set s \<and> CHR 0x22 \<notin> set s then CHR 0x22 else CHR 0x27) in
     q # concat (map (repr_char q) s) @ [q])"

text \<open>\<open>int(s)\<close>: surrounding white space, a sign and decimal digits; \<open>None\<close> is \<open>ValueError\<close>.\<close>

fun digits_val :: "nat \<Rightarrow> string \<Rightarrow> nat option" where
  "digits_val acc [] = Some acc"
| "digits_val acc (c # s) = (if is_digit c then digits_val (10 * acc + (code c - 48)) s else None)"

definition parse_nat :: "string \<Rightarrow> nat option" where
  "parse_nat s = (if s = [] then None else digits_val 0 s)"

definition parse_int :: "string \<Rightarrow> int option" where
  "parse_int s = (case strip s of
       [] \<Rightarrow> None
     | c # t \<Rightarrow> if c = CHR ''-'' then map_option (\<lambda>n. - int n) (parse_nat t)
                else if c = CHR ''+'' then map_option int (parse_nat t)
                else map_option int (parse_nat (c # t)))"

definition or_else :: "string \<Rightarrow> string \<Rightarrow> string" where
  "or_else s d = (if s = [] then d else s)"

text \<open>\<open>str.encode()\<close> (UTF-8) below code point 256; a byte is a character too.\<close>

type_synonym bytes = "char list"

definition utf8 :: "string \<Rightarrow> bytes" where
  "utf8 s = concat (map (\<lambda>c. if code c < 128 then [c]
       else [char_of (192 + code c div 64), char_of (128 + code c mod 64)]) s)"

section \<open>Facts about strings\<close>

text \<open>Character classes as lists of characters, which evaluate faster than their codes.\<close>

lemma code_in_iff: "\<forall>n \<in> set ns. n < 256 \<Longrightarrow> code c \<in> set ns \<longleftrightarrow> c \<in> set (map char_of ns)"
proof
  assume "code c \<in> set ns"
  then have "char_of (code c) \<in> set (map char_of ns :: char list)" by (metis image_eqI set_map)
  then show "c \<in> set (map char_of ns)" by (simp add: code_def)
next
  assume "\<forall>n \<in> set ns. n < 256" "c \<in> set (map char_of ns)"
  then show "code c \<in> set ns" by (auto simp: code_def)
qed

lemma is_space_code [code]:
  "is_space c \<longleftrightarrow> c \<in> set [CHR 0x20, CHR 0x0A, CHR 0x09, CHR 0x0D, CHR 0x0B, CHR 0x0C, CHR 0x1C,
     CHR 0x1D, CHR 0x1E, CHR 0x1F, CHR 0x85, CHR 0xA0]"
proof -
  have "is_space c \<longleftrightarrow> code c \<in> set [32, 10, 9, 13, 11, 12, 28, 29, 30, 31, 133, 160]"
    unfolding is_space_def by (auto simp: le_Suc_eq numeral_eq_Suc)
  also have "\<dots> \<longleftrightarrow> c \<in> set (map char_of [32::nat, 10, 9, 13, 11, 12, 28, 29, 30, 31, 133, 160])"
    by (rule code_in_iff) simp
  finally show ?thesis by (simp add: char_of_def bit_Suc_0_iff)
qed

lemma code_Char: "code (Char a b c d e f g h) = of_bool a + 2 * of_bool b + 4 * of_bool c + 8 * of_bool d
    + 16 * of_bool e + 32 * of_bool f + 64 * of_bool g + 128 * of_bool h"
  by (simp add: code_def of_char_Char horner_sum_simps(2))

lemma ascii_iff: "code c < 128 \<longleftrightarrow> \<not> digit7 c"
  by (cases c) (simp add: code_Char of_bool_def)

lemma utf8_code [code]:
  "utf8 s = concat (map (\<lambda>c. if \<not> digit7 c then [c]
     else [char_of (192 + code c div 64), char_of (128 + code c mod 64)]) s)"
  unfolding utf8_def by (simp only: ascii_iff)

lemma printable_iff:
  "32 \<le> code c \<and> code c \<le> 126 \<longleftrightarrow> \<not> digit7 c \<and> (digit5 c \<or> digit6 c) \<and> c \<noteq> CHR 0x7F"
  by (cases c) (auto simp: code_Char of_bool_def)

lemma is_digit_code [code]: "is_digit c \<longleftrightarrow> c \<in> set ''0123456789''"
proof -
  have "is_digit c \<longleftrightarrow> code c \<in> set [48, 49, 50, 51, 52, 53, 54, 55, 56, 57]"
    unfolding is_digit_def by (auto simp: le_Suc_eq numeral_eq_Suc)
  also have "\<dots> \<longleftrightarrow> c \<in> set (map char_of [48::nat, 49, 50, 51, 52, 53, 54, 55, 56, 57])"
    by (rule code_in_iff) simp
  finally show ?thesis by (simp add: char_of_def bit_Suc_0_iff)
qed

lemma startswith_Nil [simp]: "startswith s []" by (simp add: startswith_def)
lemma startswith_append [simp]: "startswith (p @ s) p" by (simp add: startswith_def)
lemma startswith_iff: "startswith s p \<longleftrightarrow> (\<exists>t. s = p @ t)"
  unfolding startswith_def by (metis append_eq_conv_conj)

lemma contains_iff: "contains s p \<longleftrightarrow> (\<exists>a b. s = a @ p @ b)"
proof (induction s)
  case Nil
  show ?case by (subst contains.simps) (auto simp: startswith_iff)
next
  case (Cons c s)
  have "contains (c # s) p \<longleftrightarrow> startswith (c # s) p \<or> contains s p"
    by (subst contains.simps) simp
  also have "\<dots> \<longleftrightarrow> (\<exists>a b. c # s = a @ p @ b)"
  proof
    assume "startswith (c # s) p \<or> contains s p"
    then show "\<exists>a b. c # s = a @ p @ b"
    proof
      assume "startswith (c # s) p"
      then obtain t where "c # s = [] @ p @ t" by (auto simp: startswith_iff)
      then show ?thesis by blast
    next
      assume "contains s p"
      then obtain a b where "s = a @ p @ b" using Cons.IH by blast
      then have "c # s = (c # a) @ p @ b" by simp
      then show ?thesis by blast
    qed
  next
    assume "\<exists>a b. c # s = a @ p @ b"
    then obtain a b where ab: "c # s = a @ p @ b" by blast
    show "startswith (c # s) p \<or> contains s p"
    proof (cases a)
      case Nil
      with ab show ?thesis by (auto simp: startswith_iff)
    next
      case (Cons d a')
      with ab have "s = a' @ p @ b" by simp
      with Cons.IH show ?thesis by blast
    qed
  qed
  finally show ?case .
qed

lemma contains_middle [simp]: "contains (a @ p @ b) p"
  by (auto simp: contains_iff)

lemma concat_lines_keep_aux: "concat (lines_keep_aux cur s) = rev cur @ s"
proof (induction cur s rule: lines_keep_aux.induct)
  case (1 cur)
  show ?case by simp
next
  case (2 cur c s)
  then show ?case by (cases s) auto
qed

lemma concat_splitlines_keep [simp]: "concat (splitlines_keep s) = s"
  by (simp add: splitlines_keep_def concat_lines_keep_aux)

text \<open>Lines without line boundaries, each ended by a line feed, are what \<open>splitlines\<close> gives back.\<close>

lemma is_break_LF_CR [simp]: "is_break LF" "is_break CR" "LF \<noteq> CR"
  by (simp_all add: is_break_def LF_def CR_def code_def)

lemma lines_keep_aux_line:
  "\<forall>c \<in> set l. \<not> is_break c \<Longrightarrow>
     lines_keep_aux cur (l @ LF # s) = (rev cur @ l @ [LF]) # lines_keep_aux [] s"
proof (induction l arbitrary: cur)
  case (Cons c l)
  then have "c \<noteq> CR" "\<not> is_break c" by auto
  with Cons show ?case by simp
qed simp

lemma rstrip_break: "\<forall>c \<in> set l. \<not> is_break c \<Longrightarrow> rstrip_by is_break (l @ [LF]) = l"
proof -
  assume "\<forall>c \<in> set l. \<not> is_break c"
  then have "\<forall>c \<in> set (rev l). \<not> is_break c" by simp
  then have "dropWhile is_break (rev l) = rev l"
    by (cases "rev l") (simp_all del: set_rev)
  then show ?thesis by (simp add: rstrip_by_def)
qed

lemma splitlines_unlines:
  "\<forall>l \<in> set ls. \<forall>c \<in> set l. \<not> is_break c \<Longrightarrow> splitlines (concat (map (\<lambda>l. l @ nl) ls)) = ls"
proof (induction ls)
  case Nil
  show ?case by (simp add: splitlines_def splitlines_keep_def)
next
  case (Cons l ls)
  then have l: "\<forall>c \<in> set l. \<not> is_break c" by simp
  with Cons show ?case
    by (simp add: splitlines_def splitlines_keep_def nl_def lines_keep_aux_line rstrip_break)
qed

lemma split_on_not_Nil [simp]: "split_on c s \<noteq> []"
  by (cases s) (auto split: list.splits)

lemma split_on_no_sep: "c \<notin> set s \<Longrightarrow> split_on c s = [s]"
  by (induction s) auto

lemma split_on_append: "c \<notin> set a \<Longrightarrow> split_on c (a @ c # b) = a # split_on c b"
  by (induction a) auto

lemma partition_on_append: "c \<notin> set a \<Longrightarrow> partition_on c (a @ c # b) = (a, b)"
  by (induction a) auto

lemma code_inj [simp]: "code c = code d \<longleftrightarrow> c = d"
  by (simp add: code_def)

lemma code_char_of: "n < 256 \<Longrightarrow> code (char_of n) = n"
  by (simp add: code_def)

lemma digit_char_digit: "n < 10 \<Longrightarrow> is_digit (digit_char n) \<and> code (digit_char n) - 48 = n"
  by (simp add: is_digit_def code_char_of)

lemma nat_str_not_Nil [simp]: "nat_str n \<noteq> []"
  by (subst nat_str.simps) simp

lemma nat_str_digits: "c \<in> set (nat_str n) \<Longrightarrow> is_digit c"
proof (induction n rule: nat_str.induct)
  case (1 n)
  show ?case
  proof (cases "n < 10")
    case True
    with 1(2) have "c = digit_char n" by (subst (asm) nat_str.simps) simp
    with True digit_char_digit show ?thesis by blast
  next
    case False
    with 1(2) have "c \<in> set (nat_str (n div 10)) \<or> c = digit_char (n mod 10)"
      by (subst (asm) nat_str.simps) auto
    with False 1(1) digit_char_digit [of "n mod 10"] show ?thesis by auto
  qed
qed

lemma digits_val_append:
  "digits_val acc (s @ t) = (case digits_val acc s of None \<Rightarrow> None | Some n \<Rightarrow> digits_val n t)"
  by (induction s arbitrary: acc) auto

lemma digits_val_nat_str: "digits_val 0 (nat_str n) = Some n"
proof (induction n rule: nat_str.induct)
  case (1 n)
  show ?case
  proof (cases "n < 10")
    case True
    then show ?thesis using digit_char_digit [of n]
      by (subst nat_str.simps) (simp del: digit_char.simps)
  next
    case False
    then show ?thesis using 1 digit_char_digit [of "n mod 10"]
      by (subst nat_str.simps) (simp add: digits_val_append del: digit_char.simps)
  qed
qed

lemma parse_nat_nat_str [simp]: "parse_nat (nat_str n) = Some n"
  by (simp add: parse_nat_def digits_val_nat_str)

lemma nat_str_inj [simp]: "nat_str a = nat_str b \<longleftrightarrow> a = b"
  by (metis option.inject parse_nat_nat_str)

lemma digit_not_space: "is_digit c \<Longrightarrow> \<not> is_space c"
  by (simp add: is_digit_def is_space_def)

lemma strip_id:
  assumes "s = [] \<or> \<not> is_space (hd s) \<and> \<not> is_space (last s)"
  shows "strip s = s"
proof (cases "s = []")
  case False
  with assms have "dropWhile is_space s = s" by (cases s) auto
  moreover from False assms have "dropWhile is_space (rev s) = rev s"
    by (cases "rev s") (auto simp: last_rev [symmetric] hd_rev dest: arg_cong [of _ _ rev])
  ultimately show ?thesis by (simp add: strip_def lstrip_def rstrip_by_def)
qed (simp add: strip_def lstrip_def rstrip_by_def)

lemma parse_int_nat_str [simp]: "parse_int (nat_str n) = Some (int n)"
proof -
  have d: "\<forall>c \<in> set (nat_str n). is_digit c" using nat_str_digits by blast
  then have s: "strip (nat_str n) = nat_str n"
    by (intro strip_id disjI2) (simp add: digit_not_space)
  obtain c t where ct: "nat_str n = c # t" by (cases "nat_str n") auto
  with d have "is_digit c" by simp
  then have "c \<noteq> CHR ''-'' \<and> c \<noteq> CHR ''+''" by (auto simp: is_digit_def code_def)
  moreover have "parse_nat (c # t) = Some n" using ct parse_nat_nat_str by metis
  ultimately show ?thesis using s ct by (simp add: parse_int_def)
qed

lemma join_append_single: "xs \<noteq> [] \<Longrightarrow> join sep (xs @ [y]) = join sep xs @ sep @ y"
  by (induction sep xs rule: join.induct) auto

lemma split_on_join:
  "xs \<noteq> [] \<Longrightarrow> \<forall>x \<in> set xs. c \<notin> set x \<Longrightarrow> split_on c (join [c] xs) = xs"
  by (induction "[c]" xs rule: join.induct) (auto simp: split_on_no_sep split_on_append)

section \<open>Dictionaries\<close>

type_synonym ('k, 'v) dict = "('k \<times> 'v) list"

abbreviation dget :: "('k, 'v) dict \<Rightarrow> 'k \<Rightarrow> 'v option" where
  "dget d k \<equiv> map_of d k"

abbreviation dset :: "'k \<Rightarrow> 'v \<Rightarrow> ('k, 'v) dict \<Rightarrow> ('k, 'v) dict" where
  "dset k v d \<equiv> AList.update k v d"

abbreviation dpop :: "'k \<Rightarrow> ('k, 'v) dict \<Rightarrow> ('k, 'v) dict" where
  "dpop k d \<equiv> AList.delete k d"

text \<open>A dictionary comprehension: later pairs overwrite earlier ones.\<close>

definition dict_of :: "('k \<times> 'v) list \<Rightarrow> ('k, 'v) dict" where
  "dict_of kvs = fold (\<lambda>(k, v) d. dset k v d) kvs []"

lemma dget_dset: "dget (dset k v d) = (dget d)(k \<mapsto> v)"
  by (rule update_conv')

lemma dget_dpop: "dget (dpop k d) = (dget d)(k := None)"
  by (rule delete_conv')

lemma distinct_dset: "distinct (map fst d) \<Longrightarrow> distinct (map fst (dset k v d))"
  by (rule distinct_update)

lemma dget_fold_dset:
  "dget (fold (\<lambda>(k, v) d. dset k v d) kvs d) k =
     (case dget (rev kvs) k of None \<Rightarrow> dget d k | Some v \<Rightarrow> Some v)"
  by (induction kvs arbitrary: d)
     (auto simp: dget_dset map_add_def split: option.splits if_splits)

lemma dget_dict_of: "dget (dict_of kvs) k = dget (rev kvs) k"
  by (simp add: dict_of_def dget_fold_dset split: option.split)

lemma dict_of_SomeD: "dget (dict_of kvs) k = Some v \<Longrightarrow> (k, v) \<in> set kvs"
  by (auto simp: dget_dict_of dest: map_of_SomeD)

lemma distinct_dict_of: "distinct (map fst (dict_of kvs))"
proof -
  have "distinct (map fst d) \<Longrightarrow> distinct (map fst (fold (\<lambda>(k, v) d. dset k v d) kvs d))" for d
    by (induction kvs arbitrary: d) (auto simp: distinct_dset)
  from this [of "[]"] show ?thesis by (simp add: dict_of_def)
qed

text \<open>How many entries satisfy a predicate, before and after an update.\<close>

definition dcount :: "('v \<Rightarrow> bool) \<Rightarrow> ('k, 'v) dict \<Rightarrow> nat" where
  "dcount P d = length (filter (\<lambda>kv. P (snd kv)) d)"

lemma dcount_simps [simp]:
  "dcount P [] = 0" "dcount P (kv # d) = (if P (snd kv) then Suc (dcount P d) else dcount P d)"
  by (simp_all add: dcount_def)

lemma dcount_append [simp]: "dcount P (a @ b) = dcount P a + dcount P b"
  by (simp add: dcount_def)

lemma dset_fresh: "dget d k = None \<Longrightarrow> dset k v d = d @ [(k, v)]"
  by (induction d) (auto split: if_splits)

lemma dcount_dset:
  "dget d k = Some v \<Longrightarrow> dcount P (dset k v' d) + (if P v then 1 else 0) = dcount P d + (if P v' then 1 else 0)"
  by (induction d) (auto split: if_splits)

lemma dpop_absent: "k \<notin> fst ` set d \<Longrightarrow> dpop k d = d"
  by (induction d) auto

lemma dcount_dpop:
  "distinct (map fst d) \<Longrightarrow> dget d k = Some v \<Longrightarrow> dcount P (dpop k d) + (if P v then 1 else 0) = dcount P d"
  by (induction d) (auto simp: dpop_absent split: if_splits)

lemma distinct_dpop: "distinct (map fst d) \<Longrightarrow> distinct (map fst (dpop k d))"
  by (rule distinct_delete)

end
