(* ===== verification/World.thy ===== *)
theory World
  imports Prelude
begin

text \<open>
  What the privileged code reaches outside Python: commands (\<open>system/runner.py\<close>), systemd units
  and files. \<open>FakeRunner\<close> is modelled as it is written. The real \<open>SubprocessRunner\<close>, the D-Bus
  manager and the file system are a \<open>world\<close>: a log of every call made so far and, for each kind
  of call, the answer as a function of that log. Every behaviour of the operating system is some
  such function, so a theorem about all worlds is a theorem about all behaviours.

  The file system is a dictionary from absolute paths to nodes with the checks of the POSIX calls the
  code uses; \<open>w_fault\<close> adds any further failure (permissions, a full disk).
\<close>

section \<open>Runner\<close>

record command_result =
  cr_argv :: "string list"
  cr_returncode :: int
  cr_stdout :: string
  cr_stderr :: string

definition cr_ok :: "command_result \<Rightarrow> bool" where
  "cr_ok r \<longleftrightarrow> cr_returncode r = 0"

type_synonym 's runner = "string list \<Rightarrow> string option \<Rightarrow> ('s, command_result) prog"

record fake_runner =
  fr_expectations :: "(string list, command_result) dict"
  fr_responders :: "(string list \<times> (string list \<Rightarrow> command_result)) list"
  fr_strict :: bool
  fr_calls :: "string list list"
  fr_inputs :: "string option list"

definition fake_runner_init :: "bool \<Rightarrow> fake_runner" where
  "fake_runner_init strict = \<lparr>fr_expectations = [], fr_responders = [], fr_strict = strict,
     fr_calls = [], fr_inputs = []\<rparr>"

definition fr_expect :: "string list \<Rightarrow> int \<Rightarrow> string \<Rightarrow> string \<Rightarrow> fake_runner \<Rightarrow> fake_runner" where
  "fr_expect argv rc out err fr = fr\<lparr>fr_expectations :=
     dset argv \<lparr>cr_argv = argv, cr_returncode = rc, cr_stdout = out, cr_stderr = err\<rparr>
       (fr_expectations fr)\<rparr>"

definition fr_respond :: "string list \<Rightarrow> (string list \<Rightarrow> command_result) \<Rightarrow> fake_runner \<Rightarrow> fake_runner" where
  "fr_respond prefix fn fr = fr\<lparr>fr_responders := fr_responders fr @ [(prefix, fn)]\<rparr>"

fun first_responder ::
  "(string list \<times> (string list \<Rightarrow> command_result)) list \<Rightarrow> string list \<Rightarrow> command_result option" where
  "first_responder [] argv = None"
| "first_responder ((prefix, fn) # rs) argv =
     (if take (length prefix) argv = prefix then Some (fn argv) else first_responder rs argv)"

definition fr_run :: "fake_runner runner" where
  "fr_run argv inp fr =
     (let fr' = fr\<lparr>fr_calls := fr_calls fr @ [argv], fr_inputs := fr_inputs fr @ [inp]\<rparr>
      in case dget (fr_expectations fr) argv of
           Some r \<Rightarrow> (Inr r, fr')
         | None \<Rightarrow> (case first_responder (fr_responders fr) argv of
             Some r \<Rightarrow> (Inr r, fr')
           | None \<Rightarrow> if \<not> fr_strict fr
               then (Inr \<lparr>cr_argv = argv, cr_returncode = 0, cr_stdout = [], cr_stderr = []\<rparr>, fr')
               else (Inl AssertionError, fr')))"

section \<open>The world of the root agent\<close>

datatype sd_op = SdStart | SdStop | SdRestart | SdReload | SdEnable | SdDisable | SdDaemonReload
  | SdActiveState | SdWaitActive

datatype fs_op = FsRead | FsMkdir | FsWrite | FsChmod | FsChown | FsRename | FsUnlink

datatype sys_event =
    Exec "string list" "string option"
  | Unit_call sd_op string
  | Fs fs_op string

datatype fnode = Dir | File (file_data: bytes) (file_mode: nat)

text \<open>A systemd call fails with a D-Bus error or because the unit did not become active in time.\<close>

datatype unit_error = Dbus_failed string | Timed_out string

fun unit_exn :: "unit_error \<Rightarrow> exn" where
  "unit_exn (Dbus_failed m) = DBusError m"
| "unit_exn (Timed_out m) = UnitTimeoutError m"

type_synonym fs = "(string, fnode) dict"

record world =
  w_log :: "sys_event list"
  w_cmd :: "sys_event list \<Rightarrow> string list \<Rightarrow> string option \<Rightarrow> os_kind + command_result"
  w_unit :: "sys_event list \<Rightarrow> sd_op \<Rightarrow> string \<Rightarrow> unit_error + string"
  w_fault :: "sys_event list \<Rightarrow> fs_op \<Rightarrow> string \<Rightarrow> os_kind option"
  w_clock :: "sys_event list \<Rightarrow> string"
  w_fs :: fs
  w_progress :: "(rat \<times> string) list"

definition log_event :: "sys_event \<Rightarrow> world \<Rightarrow> world" where
  "log_event e w = w\<lparr>w_log := w_log w @ [e]\<rparr>"

text \<open>A command that cannot be started raises an \<open>OSError\<close>; one that starts has a result.\<close>

definition run_cmd :: "world runner" where
  "run_cmd argv inp w =
     (case w_cmd w (w_log w) argv inp of Inl k \<Rightarrow> Inl (OSError k (concat (take 1 argv))) | Inr r \<Rightarrow> Inr r,
      log_event (Exec argv inp) w)"

definition unit_call :: "sd_op \<Rightarrow> string \<Rightarrow> (world, string) prog" where
  "unit_call op u w =
     (case w_unit w (w_log w) op u of Inl e \<Rightarrow> Inl (unit_exn e) | Inr r \<Rightarrow> Inr r,
      log_event (Unit_call op u) w)"

definition unit_do :: "sd_op \<Rightarrow> string \<Rightarrow> (world, unit) prog" where
  "unit_do op u = bindE (unit_call op u) (\<lambda>_. ret ())"

text \<open>The commands run so far, in order.\<close>

fun execs :: "sys_event list \<Rightarrow> string list list" where
  "execs [] = []"
| "execs (Exec argv _ # es) = argv # execs es"
| "execs (_ # es) = execs es"

definition w_calls :: "world \<Rightarrow> string list list" where
  "w_calls w = execs (w_log w)"

lemma execs_append [simp]: "execs (xs @ ys) = execs xs @ execs ys"
  by (induction xs rule: execs.induct) auto

lemma log_event_simps [simp]:
  "w_log (log_event e w) = w_log w @ [e]" "w_fs (log_event e w) = w_fs w"
  "w_progress (log_event e w) = w_progress w" "w_cmd (log_event e w) = w_cmd w"
  "w_unit (log_event e w) = w_unit w" "w_fault (log_event e w) = w_fault w"
  by (simp_all add: log_event_def)

section \<open>The runner interface\<close>

text \<open>
  \<open>Runner\<close> is a protocol with two implementations; what its clients rely on is that a call is
  made exactly once, with the argument list as given.
\<close>

locale runner_iface =
  fixes run :: "'s runner"
    and calls :: "'s \<Rightarrow> string list list"
  assumes run_calls: "calls (snd (run argv inp s)) = calls s @ [argv]"
begin

lemma run_calls_eq: "run argv inp s = (r, t) \<Longrightarrow> calls t = calls s @ [argv]"
  using run_calls [of argv inp s] by simp

text \<open>A program grows the calls by an extension of what it started with.\<close>

definition extends :: "'s \<Rightarrow> 's \<Rightarrow> bool" where
  "extends s t \<longleftrightarrow> (\<exists>xs. calls t = calls s @ xs)"

lemma extends_refl: "reflp extends"
  by (simp add: reflp_def extends_def)

lemma extends_trans: "transp extends"
  by (auto simp: transp_def extends_def)

lemma run_extends: "keeps extends (run argv inp)"
  by (rule keepsI) (auto simp: extends_def run_calls)

end

interpretation fr: runner_iface fr_run fr_calls
  by unfold_locales (simp add: fr_run_def Let_def split: option.split)

interpretation wr: runner_iface run_cmd w_calls
  by unfold_locales (simp add: run_cmd_def w_calls_def)

text \<open>
  A non-strict \<open>FakeRunner\<close> is a world whose commands always answer: the canned result depends
  on the argument list alone.
\<close>

definition fr_answer :: "fake_runner \<Rightarrow> string list \<Rightarrow> exn + command_result" where
  "fr_answer fr argv = fst (fr_run argv None fr)"

lemma fr_run_answer: "fr_run argv inp fr =
    (fr_answer fr argv, fr\<lparr>fr_calls := fr_calls fr @ [argv], fr_inputs := fr_inputs fr @ [inp]\<rparr>)"
  by (simp add: fr_answer_def fr_run_def Let_def split: option.split)

lemma fr_answer_run: "fr_answer (snd (fr_run argv inp fr)) = fr_answer fr"
  by (rule ext) (simp add: fr_answer_def fr_run_def Let_def split: option.split)

section \<open>Paths\<close>

text \<open>\<open>posixpath\<close>: \<open>dirname\<close>, \<open>basename\<close> and the two-argument \<open>join\<close>.\<close>

definition path_tail :: "string \<Rightarrow> string" where
  "path_tail p = rev (takeWhile (\<lambda>c. c \<noteq> CHR ''/'') (rev p))"

definition path_head :: "string \<Rightarrow> string" where
  "path_head p = rev (dropWhile (\<lambda>c. c \<noteq> CHR ''/'') (rev p))"

definition basename :: "string \<Rightarrow> string" where
  "basename = path_tail"

definition dirname :: "string \<Rightarrow> string" where
  "dirname p = (let h = path_head p in
     if list_all (\<lambda>c. c = CHR ''/'') h then h else rstrip_by (\<lambda>c. c = CHR ''/'') h)"

definition path_join :: "string \<Rightarrow> string \<Rightarrow> string" where
  "path_join a b = (if startswith b ''/'' then b
     else if a = [] \<or> endswith a ''/'' then a @ b else a @ ''/'' @ b)"

lemma path_head_tail: "path_head p @ path_tail p = p"
proof -
  have "rev (path_head p @ path_tail p) = rev p"
    by (simp add: path_head_def path_tail_def takeWhile_dropWhile_id)
  then show ?thesis by (metis rev_rev_ident)
qed

lemma path_tail_no_slash: "CHR ''/'' \<notin> set (path_tail p)"
  by (auto simp: path_tail_def dest: set_takeWhileD)

lemma takeWhile_snoc_stop: "(\<And>x. x \<in> set xs \<Longrightarrow> P x) \<Longrightarrow> \<not> P y \<Longrightarrow>
    takeWhile P (xs @ y # ys) = xs \<and> dropWhile P (xs @ y # ys) = y # ys"
  by (induction xs) auto

lemma path_split:
  assumes "CHR ''/'' \<notin> set n"
  shows "path_head (d @ ''/'' @ n) = d @ ''/''" "path_tail (d @ ''/'' @ n) = n"
proof -
  have "takeWhile (\<lambda>c. c \<noteq> CHR ''/'') (rev n @ CHR ''/'' # rev d) = rev n \<and>
        dropWhile (\<lambda>c. c \<noteq> CHR ''/'') (rev n @ CHR ''/'' # rev d) = CHR ''/'' # rev d"
    using assms by (intro takeWhile_snoc_stop) auto
  then show "path_head (d @ ''/'' @ n) = d @ ''/''" "path_tail (d @ ''/'' @ n) = n"
    by (simp_all add: path_head_def path_tail_def)
qed

section \<open>Files\<close>

text \<open>Every failure reports the path, as \<open>str(OSError)\<close> does.\<close>

definition fs_fail :: "fs_op \<Rightarrow> os_kind \<Rightarrow> string \<Rightarrow> (world, 'a) prog" where
  "fs_fail op k p w = (Inl (OSError k p), log_event (Fs op p) w)"

definition fs_guard :: "fs_op \<Rightarrow> string \<Rightarrow> (world, 'a) prog \<Rightarrow> (world, 'a) prog" where
  "fs_guard op p m w = (case w_fault w (w_log w) op p of
       Some k \<Rightarrow> fs_fail op k p w
     | None \<Rightarrow> m (log_event (Fs op p) w))"

definition node_at :: "world \<Rightarrow> string \<Rightarrow> fnode option" where
  "node_at w p = dget (w_fs w) p"

definition fs_exists :: "string \<Rightarrow> world \<Rightarrow> bool" where
  "fs_exists p w \<longleftrightarrow> node_at w p \<noteq> None"

definition fs_set :: "string \<Rightarrow> fnode option \<Rightarrow> world \<Rightarrow> world" where
  "fs_set p n w = w\<lparr>w_fs := (case n of None \<Rightarrow> dpop p (w_fs w) | Some x \<Rightarrow> dset p x (w_fs w))\<rparr>"

definition read_bytes :: "string \<Rightarrow> (world, bytes) prog" where
  "read_bytes p = fs_guard FsRead p (\<lambda>w. case node_at w p of
       None \<Rightarrow> (Inl (OSError FileNotFoundError p), w)
     | Some Dir \<Rightarrow> (Inl (OSError IsADirectoryError p), w)
     | Some (File d _) \<Rightarrow> (Inr d, w))"

text \<open>\<open>read_text\<close> of an ASCII file: universal newlines turn \<open>\r\n\<close> and \<open>\r\<close> into \<open>\n\<close>.\<close>

fun newlines_from :: "bool \<Rightarrow> bytes \<Rightarrow> string" where
  "newlines_from after_cr [] = []"
| "newlines_from after_cr (c # s) =
     (if c = CR then LF # newlines_from True s
      else if c = LF \<and> after_cr then newlines_from False s
      else c # newlines_from False s)"

definition universal_newlines :: "bytes \<Rightarrow> string" where
  "universal_newlines = newlines_from False"

definition read_text :: "string \<Rightarrow> (world, string) prog" where
  "read_text p = bindE (read_bytes p) (\<lambda>d. ret (universal_newlines d))"

text \<open>The directories above a path, outermost first: \<open>/a/b/c\<close> has \<open>/a\<close> and \<open>/a/b\<close>.\<close>

fun ancestors_aux :: "string \<Rightarrow> string \<Rightarrow> string list" where
  "ancestors_aux pre [] = []"
| "ancestors_aux pre (c # s) =
     (if c = CHR ''/'' \<and> pre \<noteq> [] then pre # ancestors_aux (pre @ [c]) s
      else ancestors_aux (pre @ [c]) s)"

definition ancestors :: "string \<Rightarrow> string list" where
  "ancestors p = ancestors_aux [] p"

definition make_dirs :: "string list \<Rightarrow> fs \<Rightarrow> fs" where
  "make_dirs ds f = fold (\<lambda>d g. if dget g d = None then dset d Dir g else g) ds f"

text \<open>\<open>mkdir(parents=True, exist_ok=True)\<close>: a file in the way is an error.\<close>

definition mkdir_p :: "string \<Rightarrow> (world, unit) prog" where
  "mkdir_p p = fs_guard FsMkdir p (\<lambda>w.
     if list_ex (\<lambda>d. node_at w d \<noteq> None \<and> node_at w d \<noteq> Some Dir) (ancestors p)
     then (Inl (OSError NotADirectoryError p), w)
     else if node_at w p \<noteq> None \<and> node_at w p \<noteq> Some Dir then (Inl (OSError FileExistsError p), w)
     else (Inr (), w\<lparr>w_fs := make_dirs (ancestors p @ [p]) (w_fs w)\<rparr>))"

definition is_dir :: "string \<Rightarrow> world \<Rightarrow> bool" where
  "is_dir p w \<longleftrightarrow> p = [] \<or> p = ''/'' \<or> node_at w p = Some Dir"

text \<open>
  Opening with \<open>"wb"\<close> and writing: the content is replaced; a new file gets mode 644 (420 in
  decimal, the usual \<open>umask\<close> of root), and its directory has to exist.
\<close>

definition write_file :: "string \<Rightarrow> bytes \<Rightarrow> (world, unit) prog" where
  "write_file p d = fs_guard FsWrite p (\<lambda>w. case node_at w p of
       Some Dir \<Rightarrow> (Inl (OSError IsADirectoryError p), w)
     | Some (File _ m) \<Rightarrow> (Inr (), fs_set p (Some (File d m)) w)
     | None \<Rightarrow> if is_dir (dirname p) w then (Inr (), fs_set p (Some (File d 420)) w)
         else (Inl (OSError FileNotFoundError p), w))"

definition chmod :: "string \<Rightarrow> nat \<Rightarrow> (world, unit) prog" where
  "chmod p m = fs_guard FsChmod p (\<lambda>w. case node_at w p of
       None \<Rightarrow> (Inl (OSError FileNotFoundError p), w)
     | Some Dir \<Rightarrow> (Inr (), w)
     | Some (File d _) \<Rightarrow> (Inr (), fs_set p (Some (File d m)) w))"

text \<open>\<open>rename\<close> of a file: the destination is replaced, unless it is a directory.\<close>

definition rename_file :: "string \<Rightarrow> string \<Rightarrow> (world, unit) prog" where
  "rename_file src dst = fs_guard FsRename dst (\<lambda>w. case node_at w src of
       None \<Rightarrow> (Inl (OSError FileNotFoundError src), w)
     | Some n \<Rightarrow> if node_at w dst = Some Dir then (Inl (OSError IsADirectoryError dst), w)
         else (Inr (), fs_set dst (Some n) (fs_set src None w)))"

definition chown :: "string \<Rightarrow> (world, unit) prog" where
  "chown p = fs_guard FsChown p (\<lambda>w. if node_at w p = None
     then (Inl (OSError FileNotFoundError p), w) else (Inr (), w))"

definition unlink :: "bool \<Rightarrow> string \<Rightarrow> (world, unit) prog" where
  "unlink missing_ok p = fs_guard FsUnlink p (\<lambda>w. case node_at w p of
       None \<Rightarrow> if missing_ok then (Inr (), w) else (Inl (OSError FileNotFoundError p), w)
     | Some Dir \<Rightarrow> (Inl (OSError IsADirectoryError p), w)
     | Some (File _ _) \<Rightarrow> (Inr (), fs_set p None w))"

lemma node_at_simps [simp]:
  "node_at (log_event e w) = node_at w" "node_at (fs_set p n w) = (node_at w)(p := n)"
  by (rule ext, simp add: node_at_def fs_set_def dget_dset dget_dpop split: option.split)+

lemma fs_set_simps [simp]:
  "w_log (fs_set p n w) = w_log w"
  "w_cmd (fs_set p n w) = w_cmd w" "w_unit (fs_set p n w) = w_unit w"
  "w_fault (fs_set p n w) = w_fault w" "w_progress (fs_set p n w) = w_progress w"
  by (simp_all add: fs_set_def)

lemmas fs_defs = read_bytes_def mkdir_p_def write_file_def chmod_def chown_def rename_file_def unlink_def
  fs_guard_def fs_fail_def

text \<open>None of the file operations runs a command.\<close>

definition same_calls :: "world \<Rightarrow> world \<Rightarrow> bool" where
  "same_calls s t \<longleftrightarrow> w_calls t = w_calls s"

lemma same_calls_refl: "reflp same_calls" by (simp add: reflp_def same_calls_def)
lemma same_calls_trans: "transp same_calls" by (simp add: transp_def same_calls_def)

lemma fs_same_calls:
  "keeps same_calls (read_bytes p)" "keeps same_calls (mkdir_p p)"
  "keeps same_calls (write_file p d)" "keeps same_calls (chmod p m)" "keeps same_calls (chown p)"
  "keeps same_calls (rename_file p q)" "keeps same_calls (unlink b p)"
  by (rule keepsI, simp add: fs_defs same_calls_def w_calls_def split: option.split fnode.split)+

lemma unit_same_calls: "keeps same_calls (unit_call op u)" "keeps same_calls (unit_do op u)"
proof -
  show "keeps same_calls (unit_call op u)"
    by (rule keepsI) (simp add: unit_call_def same_calls_def w_calls_def)
  then show "keeps same_calls (unit_do op u)"
    unfolding unit_do_def by (intro keeps_bindE same_calls_trans keeps_ret same_calls_refl)
qed

end
