(* ===== verification/Json.thy ===== *)
theory Json
  imports Prelude
begin

text \<open>
  Values of \<open>json.loads\<close> and the untyped accesses the adapters make on them. A float carries the
  text Python prints for it. The parser itself, \<open>float(text)\<close> and \<open>str\<close> of a parsed list or
  object are the record \<open>pylib\<close>, an argument of the definitions that use them.
\<close>

datatype json =
    JNull
  | JBool bool
  | JInt int
  | JFloat rat string
  | JStr string
  | JList "json list"
  | JObj "(string \<times> json) list"

record pylib =
  py_loads :: "string \<Rightarrow> json option"
  py_repr :: "json \<Rightarrow> string"
  py_float :: "string \<Rightarrow> rat option"

text \<open>\<open>str(value)\<close>.\<close>

fun py_str :: "pylib \<Rightarrow> json \<Rightarrow> string" where
  "py_str py JNull = ''None''"
| "py_str py (JBool b) = (if b then ''True'' else ''False'')"
| "py_str py (JInt i) = int_str i"
| "py_str py (JFloat _ s) = s"
| "py_str py (JStr s) = s"
| "py_str py v = py_repr py v"

text \<open>\<open>bool(value)\<close>.\<close>

fun truthy :: "json \<Rightarrow> bool" where
  "truthy JNull = False"
| "truthy (JBool b) = b"
| "truthy (JInt i) = (i \<noteq> 0)"
| "truthy (JFloat r _) = (r \<noteq> 0)"
| "truthy (JStr s) = (s \<noteq> [])"
| "truthy (JList xs) = (xs \<noteq> [])"
| "truthy (JObj fs) = (fs \<noteq> [])"

text \<open>
  \<open>value.get(key)\<close> on something that has to be an object: anything else has no attribute \<open>get\<close>.
  A repeated key in the text keeps its last value, which \<open>json.loads\<close> resolves, so the fields
  of an object have distinct keys.
\<close>

fun jget :: "json \<Rightarrow> string \<Rightarrow> exn + json option" where
  "jget (JObj fs) k = Inr (map_of fs k)"
| "jget _ k = Inl (AttributeError ''get'')"

definition jget_or :: "json \<Rightarrow> string \<Rightarrow> json \<Rightarrow> exn + json" where
  "jget_or v k d = (case jget v k of Inl e \<Rightarrow> Inl e | Inr None \<Rightarrow> Inr d | Inr (Some x) \<Rightarrow> Inr x)"

text \<open>Iterating: a list gives its elements, an object its keys, a string its characters.\<close>

fun jiter :: "json \<Rightarrow> exn + json list" where
  "jiter (JList xs) = Inr xs"
| "jiter (JObj fs) = Inr (map (\<lambda>(k, _). JStr k) fs)"
| "jiter (JStr s) = Inr (map (\<lambda>c. JStr [c]) s)"
| "jiter _ = Inl (TypeError ''not iterable'')"

section \<open>Results without state\<close>

definition rbind :: "exn + 'a \<Rightarrow> ('a \<Rightarrow> exn + 'b) \<Rightarrow> exn + 'b" where
  "rbind r k = (case r of Inl e \<Rightarrow> Inl e | Inr x \<Rightarrow> k x)"

fun rmap :: "('a \<Rightarrow> exn + 'b) \<Rightarrow> 'a list \<Rightarrow> exn + 'b list" where
  "rmap f [] = Inr []"
| "rmap f (x # xs) = rbind (f x) (\<lambda>y. rbind (rmap f xs) (\<lambda>ys. Inr (y # ys)))"

definition from_option :: "exn \<Rightarrow> 'a option \<Rightarrow> exn + 'a" where
  "from_option e x = (case x of None \<Rightarrow> Inl e | Some y \<Rightarrow> Inr y)"

lemma rbind_simps [simp]: "rbind (Inl e) k = Inl e" "rbind (Inr x) k = k x"
  by (simp_all add: rbind_def)

lemma rbind_eq_Inr: "rbind r k = Inr y \<longleftrightarrow> (\<exists>x. r = Inr x \<and> k x = Inr y)"
  by (cases r) auto

lemma rmap_Inr_set: "rmap f xs = Inr ys \<Longrightarrow> y \<in> set ys \<Longrightarrow> \<exists>x \<in> set xs. f x = Inr y"
  by (induction xs arbitrary: ys) (auto simp: rbind_eq_Inr)

lemma rmap_Inr_length: "rmap f xs = Inr ys \<Longrightarrow> length ys = length xs"
  by (induction xs arbitrary: ys) (auto simp: rbind_eq_Inr)

lemma rmap_cong [fundef_cong]:
  "xs = ys \<Longrightarrow> (\<And>x. x \<in> set ys \<Longrightarrow> f x = g x) \<Longrightarrow> rmap f xs = rmap g ys"
  by (induction xs arbitrary: ys) auto

lemma size_map_of: "map_of fs k = Some v \<Longrightarrow> size v < size (JObj fs)"
proof (induction fs)
  case Nil
  then show ?case by simp
next
  case (Cons f fs)
  then show ?case by (cases f) (auto split: if_splits)
qed

lemma size_jlist: "x \<in> set xs \<Longrightarrow> size x < size (JList xs)"
  by (simp add: size_list_estimation' less_Suc_eq_le)

end
