(* ===== verification/Schemas.thy ===== *)
theory Schemas
  imports Prelude
begin

text \<open>
  \<open>rpc/schemas.py\<close>: the wire envelopes, the parameter and result models of every RPC method and
  the method registry. A Pydantic model is a record, or one constructor of a datatype per
  namespace with the model's fields in order. The \<open>Field\<close> constraints are the predicates
  \<open>valid_*\<close> and \<open>*_params_ok\<close>; turning a JSON object into a model (missing and unknown
  fields, coercions) is Pydantic's work and is a parameter where the dispatcher needs it.
\<close>

section \<open>Name patterns\<close>

text \<open>\<open>USERNAME_RE\<close>, also \<open>GROUP_NAME_RE\<close>: \<open>^[a-z_][a-z0-9_-]{0,31}$\<close>.\<close>

definition username_start :: "char \<Rightarrow> bool" where
  "username_start c \<longleftrightarrow> is_lower c \<or> c = CHR ''_''"

definition username_rest :: "char \<Rightarrow> bool" where
  "username_rest c \<longleftrightarrow> is_lower c \<or> is_digit c \<or> c = CHR ''_'' \<or> c = CHR ''-''"

definition valid_username :: "string \<Rightarrow> bool" where
  "valid_username s = (case s of [] \<Rightarrow> False
     | c # t \<Rightarrow> username_start c \<and> length t \<le> 31 \<and> list_all username_rest t)"

definition alnum :: "char \<Rightarrow> bool" where
  "alnum c \<longleftrightarrow> is_lower c \<or> is_upper c \<or> is_digit c"

text \<open>\<open>DEVICE_NAME_RE\<close>: \<open>^[a-zA-Z0-9_.:-]{1,64}$\<close>.\<close>

definition valid_device_name :: "string \<Rightarrow> bool" where
  "valid_device_name s \<longleftrightarrow> 1 \<le> length s \<and> length s \<le> 64 \<and>
     list_all (\<lambda>c. alnum c \<or> c \<in> set ''_.:-'') s"

text \<open>\<open>VOLUME_NAME_RE\<close>: \<open>^[a-zA-Z0-9][a-zA-Z0-9_-]{0,63}$\<close>.\<close>

definition valid_volume_name :: "string \<Rightarrow> bool" where
  "valid_volume_name s = (case s of [] \<Rightarrow> False
     | c # t \<Rightarrow> alnum c \<and> length t \<le> 63 \<and> list_all (\<lambda>c. alnum c \<or> c \<in> set ''_-'') t)"

text \<open>The pattern of \<open>FirewallEnsureServiceParams.service\<close>: \<open>^[a-zA-Z0-9_-]{1,64}$\<close>.\<close>

definition valid_service_name :: "string \<Rightarrow> bool" where
  "valid_service_name s \<longleftrightarrow> 1 \<le> length s \<and> length s \<le> 64 \<and>
     list_all (\<lambda>c. alnum c \<or> c \<in> set ''_-'') s"

definition len_between :: "nat \<Rightarrow> nat \<Rightarrow> string \<Rightarrow> bool" where
  "len_between lo hi s \<longleftrightarrow> lo \<le> length s \<and> length s \<le> hi"

section \<open>Envelope\<close>

record rpc_context =
  ctx_user :: "string option"
  ctx_role :: "string option"
  ctx_ip :: "string option"

record rpc_error =
  err_code :: string
  err_message :: string

section \<open>Storage models\<close>

datatype storage_health = Health_ok | Health_warning | Health_critical | Health_unknown

fun health_str :: "storage_health \<Rightarrow> string" where
  "health_str Health_ok = ''ok''"
| "health_str Health_warning = ''warning''"
| "health_str Health_critical = ''critical''"
| "health_str Health_unknown = ''unknown''"

record smart_attribute =
  sa_id :: int
  sa_name :: string
  sa_value :: int
  sa_worst :: int
  sa_threshold :: int
  sa_raw :: string

record disk_smart =
  sm_health :: storage_health
  sm_temperature_c :: "rat option"
  sm_power_on_hours :: "int option"
  sm_attributes :: "smart_attribute list"

text \<open>
  \<open>DiskNode\<close> is recursive: its own fields are the record \<open>disk_info\<close>, and a node is its
  fields and its children.
\<close>

record disk_info =
  dk_name :: string
  dk_path :: string
  dk_type :: string
  dk_serial :: "string option"
  dk_model :: "string option"
  dk_wwn :: "string option"
  dk_size :: int
  dk_rota :: bool
  dk_transport :: string
  dk_fstype :: "string option"
  dk_mountpoint :: "string option"
  dk_uuid :: "string option"
  dk_smart :: "disk_smart option"
  dk_protected :: bool
  dk_protected_reason :: "string option"

datatype disk_node = DiskNode (node_info: disk_info) (children: "disk_node list")

record array_info =
  ar_path :: string
  ar_name :: string
  ar_level :: string
  ar_devices :: "string list"
  ar_state :: string
  ar_resync_percent :: "rat option"

record vg_info =
  vg_name :: string
  vg_pvs :: "string list"
  vg_size :: int
  vg_free :: int

record lv_info =
  lv_name :: string
  lv_vg :: string
  lv_path :: string
  lv_size :: int

record inventory =
  inv_disks :: "disk_node list"
  inv_arrays :: "array_info list"
  inv_vgs :: "vg_info list"
  inv_lvs :: "lv_info list"

record plan_spec =
  sp_volume_name :: string
  sp_level :: string
  sp_filesystem :: string
  sp_disk_paths :: "string list"
  sp_disk_serials :: "string list"
  sp_array_name :: string
  sp_vg_name :: string
  sp_lv_name :: string
  sp_mountpoint :: string

definition raid_levels :: "string list" where
  "raid_levels = [''basic'', ''1'', ''5'', ''6'', ''10'']"

definition filesystems :: "string list" where
  "filesystems = [''xfs'', ''ext4'']"

definition plan_spec_ok :: "plan_spec \<Rightarrow> bool" where
  "plan_spec_ok sp \<longleftrightarrow>
     valid_volume_name (sp_volume_name sp) \<and> sp_level sp \<in> set raid_levels \<and>
     sp_filesystem sp \<in> set filesystems \<and>
     1 \<le> length (sp_disk_paths sp) \<and> 1 \<le> length (sp_disk_serials sp) \<and>
     valid_device_name (sp_array_name sp) \<and> valid_device_name (sp_vg_name sp) \<and>
     valid_device_name (sp_lv_name sp) \<and> len_between 1 255 (sp_mountpoint sp)"

section \<open>Access-control entries, file entries, jobs\<close>

datatype principal_kind = User_kind | Group_kind
datatype acl_level = RW | RO

type_synonym acl_entry = "principal_kind \<times> int \<times> acl_level"

record file_entry =
  fe_name :: string
  fe_path :: string
  fe_is_dir :: bool
  fe_size :: int
  fe_mtime :: rat
  fe_owner_uid :: int

section \<open>Parameters, one datatype per namespace\<close>

datatype auth_params = AuthLoginParams (al_username: string) (al_password: string)

datatype users_params =
    UserCreateParams string string string
  | UserSetSmbEnabledParams string bool
  | UserDeleteParams string bool
  | UserSetPasswordParams string string
  | UserImportParams string

datatype groups_params =
    GroupCreateParams string string
  | GroupDeleteParams string
  | GroupAddMemberParams string string
  | GroupRemoveMemberParams string string

datatype storage_params =
    StorageInventoryParams
  | StorageExecutePlanParams plan_spec "(string, int) dict" "string list"

datatype shares_params =
    ShareCreateParams string
  | ShareDeleteParams string bool
  | ShareSetPermissionsParams string "acl_entry list" bool

datatype samba_params =
    SambaApplyConfigParams string bool
  | SambaEnsureEnabledParams

datatype files_params =
    FilesListParams string
  | FilesSearchParams string string
  | FilesMkdirParams string
  | FilesRenameParams string string
  | FilesDeleteParams "string list"
  | FilesCopyParams "string list" string
  | FilesMoveParams "string list" string
  | FilesZipParams "string list" string
  | FilesPropertiesParams string
  | FilesGetAclParams string
  | FilesSetAclParams string "acl_entry list" bool

datatype uploads_params =
    FilesUploadBeginParams string string int
  | FilesUploadOffsetParams string
  | FilesUploadCompleteParams string
  | FilesUploadAbortParams string

datatype rpc_params =
    Auth auth_params
  | SystemInfoParams
  | Users users_params
  | Groups groups_params
  | VolumeRegisterParams string
  | Storage storage_params
  | Shares shares_params
  | Samba samba_params
  | FirewallEnsureServiceParams string
  | JobListParams
  | Files files_params
  | Uploads uploads_params
  | FilesJobListParams
  | FileWorkerEnsureParams int string

subsection \<open>Field constraints\<close>

fun users_params_ok :: "users_params \<Rightarrow> bool" where
  "users_params_ok (UserCreateParams u _ _) = valid_username u"
| "users_params_ok (UserSetSmbEnabledParams u _) = valid_username u"
| "users_params_ok (UserDeleteParams u _) = valid_username u"
| "users_params_ok (UserSetPasswordParams u _) = valid_username u"
| "users_params_ok (UserImportParams u) = valid_username u"

fun groups_params_ok :: "groups_params \<Rightarrow> bool" where
  "groups_params_ok (GroupCreateParams n _) = valid_username n"
| "groups_params_ok (GroupDeleteParams n) = valid_username n"
| "groups_params_ok (GroupAddMemberParams n u) = (valid_username n \<and> valid_username u)"
| "groups_params_ok (GroupRemoveMemberParams n u) = (valid_username n \<and> valid_username u)"

fun storage_params_ok :: "storage_params \<Rightarrow> bool" where
  "storage_params_ok StorageInventoryParams = True"
| "storage_params_ok (StorageExecutePlanParams sp _ _) = plan_spec_ok sp"

fun shares_params_ok :: "shares_params \<Rightarrow> bool" where
  "shares_params_ok (ShareCreateParams p) = len_between 1 255 p"
| "shares_params_ok (ShareDeleteParams p _) = len_between 1 255 p"
| "shares_params_ok (ShareSetPermissionsParams p _ _) = len_between 1 255 p"

fun files_params_ok :: "files_params \<Rightarrow> bool" where
  "files_params_ok (FilesListParams p) = len_between 1 4096 p"
| "files_params_ok (FilesSearchParams p q) = (len_between 1 4096 p \<and> len_between 1 255 q)"
| "files_params_ok (FilesMkdirParams p) = len_between 1 4096 p"
| "files_params_ok (FilesRenameParams p n) = (len_between 1 4096 p \<and> len_between 1 255 n)"
| "files_params_ok (FilesDeleteParams ps) = (1 \<le> length ps)"
| "files_params_ok (FilesCopyParams ss d) = (1 \<le> length ss \<and> len_between 1 4096 d)"
| "files_params_ok (FilesMoveParams ss d) = (1 \<le> length ss \<and> len_between 1 4096 d)"
| "files_params_ok (FilesZipParams ss d) = (1 \<le> length ss \<and> len_between 1 4096 d)"
| "files_params_ok (FilesPropertiesParams p) = len_between 1 4096 p"
| "files_params_ok (FilesGetAclParams p) = len_between 1 4096 p"
| "files_params_ok (FilesSetAclParams p _ _) = len_between 1 4096 p"

fun uploads_params_ok :: "uploads_params \<Rightarrow> bool" where
  "uploads_params_ok (FilesUploadBeginParams _ p n) = (len_between 1 4096 p \<and> 0 \<le> n)"
| "uploads_params_ok (FilesUploadOffsetParams _) = True"
| "uploads_params_ok (FilesUploadCompleteParams _) = True"
| "uploads_params_ok (FilesUploadAbortParams _) = True"

fun params_ok :: "rpc_params \<Rightarrow> bool" where
  "params_ok (Auth p) = valid_username (al_username p)"
| "params_ok SystemInfoParams = True"
| "params_ok (Users p) = users_params_ok p"
| "params_ok (Groups p) = groups_params_ok p"
| "params_ok (VolumeRegisterParams m) = len_between 1 255 m"
| "params_ok (Storage p) = storage_params_ok p"
| "params_ok (Shares p) = shares_params_ok p"
| "params_ok (Samba _) = True"
| "params_ok (FirewallEnsureServiceParams s) = valid_service_name s"
| "params_ok JobListParams = True"
| "params_ok (Files p) = files_params_ok p"
| "params_ok (Uploads p) = uploads_params_ok p"
| "params_ok FilesJobListParams = True"
| "params_ok (FileWorkerEnsureParams _ u) = valid_username u"

section \<open>Results\<close>

datatype rpc_result =
    AuthLoginResult int string string string
  | SystemInfoResult string string string string rat
  | UserInfo int string
  | OkResult
  | GroupInfo int string
  | VolumeInfo string string
  | StorageInventoryResult inventory
  | JobStartedResult "string option"
  | SambaApplyConfigResult string
  | JobListResult "(string \<times> string \<times> string option \<times> string \<times> rat \<times> string) list"
  | FilesListResult "file_entry list"
  | FilesSearchResult "file_entry list"
  | FilesPropertiesResult file_entry string string "int option"
  | FilesGetAclResult "acl_entry list"
  | FilesUploadOffsetResult int
  | FileWorkerEnsureResult string

section \<open>Registry\<close>

text \<open>
  \<open>REGISTRY\<close>: the method each parameter model belongs to, and the result model of each
  method. \<open>GroupMembershipParams\<close> and the empty \<open>*ListParams\<close> serve several methods in the
  source; here the constructor says which.
\<close>

fun users_method :: "users_params \<Rightarrow> string" where
  "users_method (UserCreateParams _ _ _) = ''users.create''"
| "users_method (UserSetSmbEnabledParams _ _) = ''users.set_smb_enabled''"
| "users_method (UserDeleteParams _ _) = ''users.delete''"
| "users_method (UserSetPasswordParams _ _) = ''users.set_password''"
| "users_method (UserImportParams _) = ''users.import_existing''"

fun groups_method :: "groups_params \<Rightarrow> string" where
  "groups_method (GroupCreateParams _ _) = ''groups.create''"
| "groups_method (GroupDeleteParams _) = ''groups.delete''"
| "groups_method (GroupAddMemberParams _ _) = ''groups.add_member''"
| "groups_method (GroupRemoveMemberParams _ _) = ''groups.remove_member''"

fun storage_method :: "storage_params \<Rightarrow> string" where
  "storage_method StorageInventoryParams = ''storage.inventory''"
| "storage_method (StorageExecutePlanParams _ _ _) = ''storage.execute_plan''"

fun shares_method :: "shares_params \<Rightarrow> string" where
  "shares_method (ShareCreateParams _) = ''shares.create''"
| "shares_method (ShareDeleteParams _ _) = ''shares.delete''"
| "shares_method (ShareSetPermissionsParams _ _ _) = ''shares.set_permissions''"

fun samba_method :: "samba_params \<Rightarrow> string" where
  "samba_method (SambaApplyConfigParams _ _) = ''samba.apply_config''"
| "samba_method SambaEnsureEnabledParams = ''samba.ensure_enabled''"

fun files_method :: "files_params \<Rightarrow> string" where
  "files_method (FilesListParams _) = ''files.list''"
| "files_method (FilesSearchParams _ _) = ''files.search''"
| "files_method (FilesMkdirParams _) = ''files.mkdir''"
| "files_method (FilesRenameParams _ _) = ''files.rename''"
| "files_method (FilesDeleteParams _) = ''files.delete''"
| "files_method (FilesCopyParams _ _) = ''files.copy''"
| "files_method (FilesMoveParams _ _) = ''files.move''"
| "files_method (FilesZipParams _ _) = ''files.zip''"
| "files_method (FilesPropertiesParams _) = ''files.properties''"
| "files_method (FilesGetAclParams _) = ''files.get_acl''"
| "files_method (FilesSetAclParams _ _ _) = ''files.set_acl''"

fun uploads_method :: "uploads_params \<Rightarrow> string" where
  "uploads_method (FilesUploadBeginParams _ _ _) = ''files.upload_begin''"
| "uploads_method (FilesUploadOffsetParams _) = ''files.upload_offset''"
| "uploads_method (FilesUploadCompleteParams _) = ''files.upload_complete''"
| "uploads_method (FilesUploadAbortParams _) = ''files.upload_abort''"

fun method_of :: "rpc_params \<Rightarrow> string" where
  "method_of (Auth _) = ''auth.login''"
| "method_of SystemInfoParams = ''system.info''"
| "method_of (Users p) = users_method p"
| "method_of (Groups p) = groups_method p"
| "method_of (VolumeRegisterParams _) = ''volumes.register''"
| "method_of (Storage p) = storage_method p"
| "method_of (Shares p) = shares_method p"
| "method_of (Samba p) = samba_method p"
| "method_of (FirewallEnsureServiceParams _) = ''firewall.ensure_service''"
| "method_of JobListParams = ''jobs.list''"
| "method_of (Files p) = files_method p"
| "method_of (Uploads p) = uploads_method p"
| "method_of FilesJobListParams = ''files.jobs.list''"
| "method_of (FileWorkerEnsureParams _ _) = ''agent.fileworker.ensure''"

definition registry :: "string list" where
  "registry =
    [''auth.login'', ''system.info'', ''users.create'', ''users.set_smb_enabled'', ''users.delete'',
     ''users.set_password'', ''users.import_existing'', ''groups.create'', ''groups.delete'',
     ''groups.add_member'', ''groups.remove_member'', ''volumes.register'', ''storage.inventory'',
     ''storage.execute_plan'', ''shares.create'', ''shares.delete'', ''shares.set_permissions'',
     ''samba.apply_config'', ''samba.ensure_enabled'', ''firewall.ensure_service'', ''jobs.list'',
     ''files.list'', ''files.search'', ''files.mkdir'', ''files.rename'', ''files.delete'',
     ''files.copy'', ''files.move'', ''files.zip'', ''files.properties'', ''files.get_acl'',
     ''files.set_acl'', ''files.upload_begin'', ''files.upload_offset'', ''files.upload_complete'',
     ''files.upload_abort'', ''files.jobs.list'', ''agent.fileworker.ensure'']"

lemma method_of_in_registry: "method_of p \<in> set registry"
proof (cases p)
  case (Users q) then show ?thesis by (cases q) (simp_all add: registry_def)
next
  case (Groups q) then show ?thesis by (cases q) (simp_all add: registry_def)
next
  case (Storage q) then show ?thesis by (cases q) (simp_all add: registry_def)
next
  case (Shares q) then show ?thesis by (cases q) (simp_all add: registry_def)
next
  case (Samba q) then show ?thesis by (cases q) (simp_all add: registry_def)
next
  case (Files q) then show ?thesis by (cases q) (simp_all add: registry_def)
next
  case (Uploads q) then show ?thesis by (cases q) (simp_all add: registry_def)
qed (simp_all add: registry_def)

section \<open>What the name patterns keep out\<close>

lemma valid_username_chars:
  "valid_username s \<Longrightarrow> c \<in> set s \<Longrightarrow> is_lower c \<or> is_digit c \<or> c = CHR ''_'' \<or> c = CHR ''-''"
  by (cases s) (auto simp: valid_username_def username_start_def username_rest_def list_all_iff)

lemma valid_username_head: "valid_username s \<Longrightarrow> s \<noteq> [] \<and> hd s \<noteq> CHR ''-''"
  by (cases s) (auto simp: valid_username_def username_start_def is_lower_def code_def)

lemma valid_username_excludes:
  assumes "valid_username s"
  shows "CHR ''/'' \<notin> set s" "CHR '':'' \<notin> set s" "LF \<notin> set s" "CHR '','' \<notin> set s"
    "CHR '' '' \<notin> set s"
  using valid_username_chars [OF assms]
  by (fastforce simp: is_lower_def is_digit_def code_def LF_def)+

lemma valid_username_length: "valid_username s \<Longrightarrow> 1 \<le> length s \<and> length s \<le> 32"
  by (cases s) (auto simp: valid_username_def)

lemma valid_volume_name_chars:
  "valid_volume_name s \<Longrightarrow> c \<in> set s \<Longrightarrow> alnum c \<or> c = CHR ''_'' \<or> c = CHR ''-''"
  by (cases s) (auto simp: valid_volume_name_def list_all_iff)

lemma valid_volume_name_no_slash: "valid_volume_name s \<Longrightarrow> CHR ''/'' \<notin> set s \<and> CHR ''.'' \<notin> set s"
  using valid_volume_name_chars [of s]
  by (fastforce simp: alnum_def is_lower_def is_upper_def is_digit_def code_def)

end
