(* ===== verification/Devices.thy ===== *)
theory Devices
  imports World Json Schemas "HOL-Library.Char_ord" "HOL-Library.List_Lexorder"
begin

text \<open>
  The storage adapters of \<open>system/\<close>: \<open>lsblk.py\<close>, \<open>lvm.py\<close>, \<open>mdadm.py\<close>, \<open>parted.py\<close>,
  \<open>mkfs.py\<close> and \<open>smart.py\<close>. Each is generic over a runner, as the modules are; parsing is
  a function from the command's output to a value or the adapter's exception.
\<close>

section \<open>Running a command that has to succeed\<close>

text \<open>The shape all adapters share: a nonzero exit raises with the stripped standard error, or with
  a fallback that names the exit code.\<close>

definition checked ::
  "'s runner \<Rightarrow> string list \<Rightarrow> string option \<Rightarrow> (string \<Rightarrow> exn) \<Rightarrow> (command_result \<Rightarrow> string)
     \<Rightarrow> ('s, command_result) prog" where
  "checked run argv inp exc fallback = bindE (run argv inp) (\<lambda>r.
     if \<not> cr_ok r then raise (exc (or_else (strip (cr_stderr r)) (fallback r))) else ret r)"

definition exited :: "string \<Rightarrow> command_result \<Rightarrow> string" where
  "exited name r = name @ '' exited '' @ int_str (cr_returncode r)"

section \<open>parted and wipefs\<close>

definition wipefs_argv :: "string \<Rightarrow> string list" where
  "wipefs_argv device = [''wipefs'', ''-a'', device]"

definition mkpart_argv :: "string \<Rightarrow> string list" where
  "mkpart_argv device = [''parted'', ''-s'', device, ''mklabel'', ''gpt'', ''mkpart'', ''nasos'',
     ''1MiB'', ''100%'', ''set'', ''1'', ''raid'', ''on'']"

definition wipe :: "'s runner \<Rightarrow> string \<Rightarrow> ('s, unit) prog" where
  "wipe run device = bindE (checked run (wipefs_argv device) None PartedError (exited ''wipefs''))
     (\<lambda>_. ret ())"

definition make_single_partition :: "'s runner \<Rightarrow> string \<Rightarrow> ('s, unit) prog" where
  "make_single_partition run device =
     bindE (checked run (mkpart_argv device) None PartedError (exited ''parted'')) (\<lambda>_. ret ())"

definition json_report :: "pylib \<Rightarrow> 's runner \<Rightarrow> string \<Rightarrow> ('s, json) prog" where
  "json_report py run device =
     bindE (checked run [''parted'', ''-s'', ''-j'', device, ''unit'', ''b'', ''print''] None
              PartedError (exited ''parted''))
       (\<lambda>r. liftE (from_option (PartedError ''parted produced invalid JSON'')
              (py_loads py (cr_stdout r))))"

section \<open>mkfs\<close>

definition mkfs_argv :: "string \<Rightarrow> string \<Rightarrow> string \<Rightarrow> exn + string list" where
  "mkfs_argv filesystem label device =
     (if filesystem = ''xfs'' then Inr [''mkfs.xfs'', ''-L'', label, device]
      else if filesystem = ''ext4'' then Inr [''mkfs.ext4'', ''-L'', label, device]
      else Inl (MkfsError (''unsupported filesystem: '' @ filesystem)))"

definition mkfs_create :: "'s runner \<Rightarrow> string \<Rightarrow> string \<Rightarrow> string \<Rightarrow> ('s, unit) prog" where
  "mkfs_create run filesystem label device =
     bindE (liftE (mkfs_argv filesystem label device)) (\<lambda>argv.
       bindE (checked run argv None MkfsError (exited (''mkfs.'' @ filesystem))) (\<lambda>_. ret ()))"

section \<open>mdadm\<close>

definition mdadm_create_argv :: "string \<Rightarrow> string \<Rightarrow> string list \<Rightarrow> string list" where
  "mdadm_create_argv array_name level devices =
     [''mdadm'', ''--create'', ''/dev/md/'' @ array_name, ''--level='' @ level,
      ''--raid-devices='' @ nat_str (length devices), ''--metadata=1.2'',
      ''--name='' @ array_name, ''--run''] @ devices"

definition mdadm_create :: "'s runner \<Rightarrow> string \<Rightarrow> string \<Rightarrow> string list \<Rightarrow> ('s, unit) prog" where
  "mdadm_create run array_name level devices =
     bindE (checked run (mdadm_create_argv array_name level devices) None MdadmError
              (exited ''mdadm --create'')) (\<lambda>_. ret ())"

text \<open>The \<open>MD_KEY=value\<close> lines: a line without \<open>=\<close> is skipped, the rest split at the first one.\<close>

definition detail_line :: "string \<Rightarrow> (string, string) dict \<Rightarrow> (string, string) dict" where
  "detail_line line parsed =
     (if CHR ''='' \<notin> set line then parsed
      else dset (strip (fst (partition_on (CHR ''='') line)))
                (strip (snd (partition_on (CHR ''='') line))) parsed)"

definition parse_detail :: "string \<Rightarrow> (string, string) dict" where
  "parse_detail out = fold detail_line (splitlines out) []"

definition mdadm_detail :: "'s runner \<Rightarrow> string \<Rightarrow> ('s, (string, string) dict) prog" where
  "mdadm_detail run array_path =
     bindE (checked run [''mdadm'', ''--detail'', ''--export'', array_path] None MdadmError
              (exited ''mdadm --detail''))
       (\<lambda>r. ret (parse_detail (cr_stdout r)))"

definition member_devices :: "(string, string) dict \<Rightarrow> string list" where
  "member_devices detail =
     sort (map snd (filter (\<lambda>(k, _). startswith k ''MD_DEVICE_'' \<and> endswith k ''_DEV'') detail))"

text \<open>\<open>resync\s*=\s*([\d.]+)%\<close> at one position, then searched along the line.\<close>

definition match_resync :: "string \<Rightarrow> string option" where
  "match_resync s =
     (if \<not> startswith s ''resync'' then None
      else case dropWhile is_space (drop 6 s) of
        [] \<Rightarrow> None
      | c # t \<Rightarrow> if c \<noteq> CHR ''='' then None else
          let u = dropWhile is_space t;
              num = takeWhile (\<lambda>c. is_digit c \<or> c = CHR ''.'') u
          in if num \<noteq> [] \<and> startswith (drop (length num) u) ''%'' then Some num else None)"

fun search_resync :: "string \<Rightarrow> string option" where
  "search_resync [] = None"
| "search_resync (c # s) =
     (case match_resync (c # s) of Some n \<Rightarrow> Some n | None \<Rightarrow> search_resync s)"

fun resync_scan :: "pylib \<Rightarrow> string \<Rightarrow> bool \<Rightarrow> string list \<Rightarrow> exn + rat option" where
  "resync_scan py name in_array [] = Inr None"
| "resync_scan py name in_array (line # rest) =
     (if startswith line (name @ '' '') \<or> startswith line (name @ '':'')
      then resync_scan py name True rest
      else if in_array then
        (case search_resync line of
           Some num \<Rightarrow> rbind (from_option (ValueError num) (py_float py num)) (\<lambda>x. Inr (Some x))
         | None \<Rightarrow> if strip line = [] \<or> \<not> startswith line '' '' then Inr None
                   else resync_scan py name in_array rest)
      else resync_scan py name in_array rest)"

definition resync_percent :: "pylib \<Rightarrow> string \<Rightarrow> string \<Rightarrow> exn + rat option" where
  "resync_percent py mdstat_text name = resync_scan py name False (splitlines mdstat_text)"

section \<open>LVM\<close>

definition pvcreate_argv :: "string \<Rightarrow> string list" where
  "pvcreate_argv device = [''pvcreate'', device]"

definition vgcreate_argv :: "string \<Rightarrow> string \<Rightarrow> string list" where
  "vgcreate_argv vg device = [''vgcreate'', vg, device]"

definition lvcreate_full_free_argv :: "string \<Rightarrow> string \<Rightarrow> string list" where
  "lvcreate_full_free_argv vg lv = [''lvcreate'', ''-l'', ''100%FREE'', ''-n'', lv, vg]"

definition pvcreate :: "'s runner \<Rightarrow> string \<Rightarrow> ('s, unit) prog" where
  "pvcreate run device =
     bindE (checked run (pvcreate_argv device) None LvmError (exited ''pvcreate'')) (\<lambda>_. ret ())"

definition vgcreate :: "'s runner \<Rightarrow> string \<Rightarrow> string \<Rightarrow> ('s, unit) prog" where
  "vgcreate run vg device =
     bindE (checked run (vgcreate_argv vg device) None LvmError (exited ''vgcreate'')) (\<lambda>_. ret ())"

definition lvcreate_full_free :: "'s runner \<Rightarrow> string \<Rightarrow> string \<Rightarrow> ('s, unit) prog" where
  "lvcreate_full_free run vg lv =
     bindE (checked run (lvcreate_full_free_argv vg lv) None LvmError (exited ''lvcreate''))
       (\<lambda>_. ret ())"

text \<open>\<open>int\<close> of a float drops the fraction.\<close>

definition trunc :: "rat \<Rightarrow> int" where
  "trunc x = (if 0 \<le> x then \<lfloor>x\<rfloor> else \<lceil>x\<rceil>)"

definition lvm_to_int :: "pylib \<Rightarrow> json option \<Rightarrow> exn + int" where
  "lvm_to_int py v = (case v of None \<Rightarrow> Inr 0 | Some JNull \<Rightarrow> Inr 0
     | Some x \<Rightarrow> rbind (from_option (ValueError (py_str py x)) (py_float py (py_str py x)))
                   (\<lambda>f. Inr (trunc f)))"

definition report_rows :: "pylib \<Rightarrow> string \<Rightarrow> string \<Rightarrow> exn + json list" where
  "report_rows py out kind =
     (case py_loads py out of
        None \<Rightarrow> Inl (LvmError (kind @ ''s produced invalid JSON''))
      | Some parsed \<Rightarrow> rbind (jget_or parsed ''report'' (JList [])) (\<lambda>reports.
          rbind (jiter reports) (\<lambda>rs.
            rbind (rmap (\<lambda>report. rbind (jget_or report kind (JList [])) jiter) rs)
              (\<lambda>rows. Inr (concat rows)))))"

definition vg_row :: "pylib \<Rightarrow> json \<Rightarrow> (string, vg_info) dict \<Rightarrow> exn + (string, vg_info) dict" where
  "vg_row py row by_name =
     rbind (jget_or row ''vg_name'' (JStr [])) (\<lambda>n.
     let name = py_str py n in
     rbind (if dget by_name name \<noteq> None then Inr by_name else
       rbind (jget row ''vg_size'') (\<lambda>sz. rbind (lvm_to_int py sz) (\<lambda>size.
       rbind (jget row ''vg_free'') (\<lambda>fr. rbind (lvm_to_int py fr) (\<lambda>free.
         Inr (dset name \<lparr>vg_name = name, vg_pvs = [], vg_size = size, vg_free = free\<rparr> by_name))))))
     (\<lambda>d. rbind (jget row ''pv_name'') (\<lambda>pv.
       case pv of None \<Rightarrow> Inr d
       | Some v \<Rightarrow> if \<not> truthy v then Inr d else
           (case dget d name of None \<Rightarrow> Inl (KeyError name)
            | Some vg \<Rightarrow> Inr (dset name (vg\<lparr>vg_pvs := vg_pvs vg @ [py_str py v]\<rparr>) d)))))"

fun vg_rows :: "pylib \<Rightarrow> json list \<Rightarrow> (string, vg_info) dict \<Rightarrow> exn + (string, vg_info) dict" where
  "vg_rows py [] d = Inr d"
| "vg_rows py (row # rows) d = rbind (vg_row py row d) (vg_rows py rows)"

definition vgs_argv :: "string list" where
  "vgs_argv = [''vgs'', ''--reportformat'', ''json'', ''--units'', ''b'', ''--nosuffix'', ''-o'',
     ''vg_name,pv_name,vg_size,vg_free'']"

definition report_vgs :: "pylib \<Rightarrow> 's runner \<Rightarrow> ('s, vg_info list) prog" where
  "report_vgs py run = bindE (checked run vgs_argv None LvmError (exited ''vgs''))
     (\<lambda>r. liftE (rbind (report_rows py (cr_stdout r) ''vg'')
        (\<lambda>rows. rbind (vg_rows py rows []) (\<lambda>d. Inr (map snd d)))))"

definition lv_row :: "pylib \<Rightarrow> json \<Rightarrow> exn + lv_info" where
  "lv_row py row =
     rbind (jget_or row ''lv_name'' (JStr [])) (\<lambda>n. rbind (jget_or row ''vg_name'' (JStr [])) (\<lambda>vg.
     rbind (jget_or row ''lv_path'' (JStr [])) (\<lambda>p. rbind (jget row ''lv_size'') (\<lambda>sz.
     rbind (lvm_to_int py sz) (\<lambda>size.
       Inr \<lparr>lv_name = py_str py n, lv_vg = py_str py vg, lv_path = py_str py p, lv_size = size\<rparr>)))))"

definition lvs_argv :: "string list" where
  "lvs_argv = [''lvs'', ''--reportformat'', ''json'', ''--units'', ''b'', ''--nosuffix'', ''-o'',
     ''lv_name,vg_name,lv_path,lv_size'']"

definition report_lvs :: "pylib \<Rightarrow> 's runner \<Rightarrow> ('s, lv_info list) prog" where
  "report_lvs py run = bindE (checked run lvs_argv None LvmError (exited ''lvs''))
     (\<lambda>r. liftE (rbind (report_rows py (cr_stdout r) ''lv'') (rmap (lv_row py))))"

section \<open>lsblk\<close>

definition lsblk_argv :: "string list" where
  "lsblk_argv = [''lsblk'', ''-J'', ''-O'', ''-b'']"

definition str_or_none :: "pylib \<Rightarrow> json option \<Rightarrow> string option" where
  "str_or_none py v = (case v of None \<Rightarrow> None | Some JNull \<Rightarrow> None
     | Some x \<Rightarrow> (let text = strip (py_str py x) in if text = [] then None else Some text))"

definition str_field :: "pylib \<Rightarrow> (string \<times> json) list \<Rightarrow> string \<Rightarrow> string" where
  "str_field py fs k = (case map_of fs k of None \<Rightarrow> [] | Some v \<Rightarrow> py_str py v)"

definition children_raw :: "(string \<times> json) list \<Rightarrow> exn + json list" where
  "children_raw fs = (case map_of fs ''children'' of None \<Rightarrow> Inr []
     | Some v \<Rightarrow> if \<not> truthy v then Inr [] else (case v of JList xs \<Rightarrow> Inr xs | _ \<Rightarrow> Inl AssertionError))"

definition entry_size :: "pylib \<Rightarrow> (string \<times> json) list \<Rightarrow> exn + int" where
  "entry_size py fs = (case map_of fs ''size'' of None \<Rightarrow> Inr 0 | Some JNull \<Rightarrow> Inr 0
     | Some v \<Rightarrow> from_option (ValueError (py_str py v)) (parse_int (py_str py v)))"

definition entry_info :: "pylib \<Rightarrow> (string \<times> json) list \<Rightarrow> int \<Rightarrow> disk_info" where
  "entry_info py fs n = \<lparr>
     dk_name = str_field py fs ''name'', dk_path = str_field py fs ''path'',
     dk_type = str_field py fs ''type'',
     dk_serial = str_or_none py (map_of fs ''serial''),
     dk_model = str_or_none py (map_of fs ''model''),
     dk_wwn = str_or_none py (map_of fs ''wwn''), dk_size = n,
     dk_rota = (case map_of fs ''rota'' of None \<Rightarrow> False | Some v \<Rightarrow> truthy v),
     dk_transport = (case str_or_none py (map_of fs ''tran'') of None \<Rightarrow> ''unknown'' | Some t \<Rightarrow> t),
     dk_fstype = str_or_none py (map_of fs ''fstype''),
     dk_mountpoint = str_or_none py (map_of fs ''mountpoint''),
     dk_uuid = str_or_none py (map_of fs ''uuid''),
     dk_smart = None, dk_protected = False, dk_protected_reason = None\<rparr>"

lemma children_raw_size:
  "children_raw fs = Inr cs \<Longrightarrow> c \<in> set cs \<Longrightarrow> size c < size (JObj fs)"
proof -
  assume cs: "children_raw fs = Inr cs" and c: "c \<in> set cs"
  then obtain v where v: "map_of fs ''children'' = Some v" "v = JList cs"
    by (auto simp: children_raw_def split: option.splits if_splits json.splits)
  with c have "size c < size v" using size_jlist by blast
  with size_map_of [OF v(1)] show ?thesis by simp
qed

function to_node :: "pylib \<Rightarrow> json \<Rightarrow> exn + disk_node" where
  "to_node py (JObj fs) = (case children_raw fs of
       Inl e \<Rightarrow> Inl e
     | Inr cs \<Rightarrow> rbind (entry_size py fs) (\<lambda>n. rbind (rmap (to_node py) cs)
         (\<lambda>ns. Inr (DiskNode (entry_info py fs n) ns))))"
| "to_node py JNull = Inl (AttributeError ''get'')"
| "to_node py (JBool b) = Inl (AttributeError ''get'')"
| "to_node py (JInt i) = Inl (AttributeError ''get'')"
| "to_node py (JFloat r s) = Inl (AttributeError ''get'')"
| "to_node py (JStr s) = Inl (AttributeError ''get'')"
| "to_node py (JList xs) = Inl (AttributeError ''get'')"
  by pat_completeness auto
termination
  by (relation "measure (\<lambda>(_, v). size v)") (auto dest: children_raw_size)

text \<open>Only the top-level entries of type \<open>disk\<close> are converted.\<close>

fun disk_entries :: "json list \<Rightarrow> exn + json list" where
  "disk_entries [] = Inr []"
| "disk_entries (v # vs) = rbind (jget v ''type'') (\<lambda>t.
     rbind (disk_entries vs) (\<lambda>ds. Inr (if t = Some (JStr ''disk'') then v # ds else ds)))"

definition parse_lsblk :: "pylib \<Rightarrow> string \<Rightarrow> exn + disk_node list" where
  "parse_lsblk py out = (case py_loads py out of
       None \<Rightarrow> Inl (LsblkError ''lsblk produced invalid JSON'')
     | Some parsed \<Rightarrow> rbind (jget_or parsed ''blockdevices'' (JList [])) (\<lambda>bd.
         rbind (jiter bd) (\<lambda>es. rbind (disk_entries es) (rmap (to_node py)))))"

definition list_block_devices :: "pylib \<Rightarrow> 's runner \<Rightarrow> ('s, disk_node list) prog" where
  "list_block_devices py run = bindE (checked run lsblk_argv None LsblkError (exited ''lsblk''))
     (\<lambda>r. liftE (parse_lsblk py (cr_stdout r)))"

section \<open>smartctl\<close>

definition warning_attribute_ids :: "int list" where
  "warning_attribute_ids = [5, 197, 198]"

text \<open>\<open>int(value)\<close> of an untyped value.\<close>

fun py_int :: "json \<Rightarrow> exn + int" where
  "py_int (JBool b) = Inr (if b then 1 else 0)"
| "py_int (JInt i) = Inr i"
| "py_int (JFloat r _) = Inr (trunc r)"
| "py_int (JStr s) = from_option (ValueError s) (parse_int s)"
| "py_int _ = Inl (TypeError ''int'')"

text \<open>\<open>key in value\<close>, and \<open>value.get(key) if isinstance(value, dict) else None\<close>.\<close>

fun jin :: "string \<Rightarrow> json \<Rightarrow> exn + bool" where
  "jin k (JObj fs) = Inr (map_of fs k \<noteq> None)"
| "jin k (JList xs) = Inr (JStr k \<in> set xs)"
| "jin k (JStr s) = Inr (contains s k)"
| "jin k _ = Inl (TypeError ''not iterable'')"

fun dict_get :: "json option \<Rightarrow> string \<Rightarrow> json option" where
  "dict_get (Some (JObj fs)) k = map_of fs k"
| "dict_get _ k = None"

text \<open>The value of an \<open>int | float\<close> (a \<open>bool\<close> is an \<open>int\<close>).\<close>

fun number :: "json option \<Rightarrow> rat option" where
  "number (Some (JBool b)) = Some (if b then 1 else 0)"
| "number (Some (JInt i)) = Some (of_int i)"
| "number (Some (JFloat r _)) = Some r"
| "number _ = None"

fun warning_entry :: "json \<Rightarrow> exn + bool" where
  "warning_entry (JObj fs) =
     rbind (case map_of fs ''id'' of None \<Rightarrow> Inr 0 | Some v \<Rightarrow> py_int v) (\<lambda>i.
       Inr (i \<in> set warning_attribute_ids \<and>
            (case number (dict_get (map_of fs ''raw'') ''value'') of None \<Rightarrow> False | Some x \<Rightarrow> 0 < x)))"
| "warning_entry _ = Inr False"

fun any_warning :: "json list \<Rightarrow> exn + bool" where
  "any_warning [] = Inr False"
| "any_warning (v # vs) = rbind (warning_entry v) (\<lambda>b. if b then Inr True else any_warning vs)"

definition smart_table :: "(string \<times> json) list \<Rightarrow> json list option" where
  "smart_table fs = (case dict_get (map_of fs ''ata_smart_attributes'') ''table'' of
     Some (JList xs) \<Rightarrow> Some xs | _ \<Rightarrow> None)"

definition has_warning_attributes :: "(string \<times> json) list \<Rightarrow> exn + bool" where
  "has_warning_attributes fs = (case smart_table fs of None \<Rightarrow> Inr False | Some xs \<Rightarrow> any_warning xs)"

definition smart_health :: "(string \<times> json) list \<Rightarrow> exn + storage_health" where
  "smart_health fs = (let passed = dict_get (map_of fs ''smart_status'') ''passed'' in
     if passed = Some (JBool False) then Inr Health_critical
     else if passed = Some (JBool True) then
       rbind (has_warning_attributes fs) (\<lambda>w. Inr (if w then Health_warning else Health_ok))
     else Inr Health_unknown)"

definition smart_temperature :: "(string \<times> json) list \<Rightarrow> rat option" where
  "smart_temperature fs = number (dict_get (map_of fs ''temperature'') ''current'')"

definition smart_power_on_hours :: "(string \<times> json) list \<Rightarrow> int option" where
  "smart_power_on_hours fs = map_option trunc (number (dict_get (map_of fs ''power_on_time'') ''hours''))"

definition int_field :: "(string \<times> json) list \<Rightarrow> string \<Rightarrow> exn + int" where
  "int_field fs k = (case map_of fs k of None \<Rightarrow> Inr 0 | Some v \<Rightarrow> py_int v)"

fun smart_attribute_of :: "pylib \<Rightarrow> json \<Rightarrow> exn + smart_attribute list" where
  "smart_attribute_of py (JObj fs) =
     rbind (int_field fs ''id'') (\<lambda>i. rbind (int_field fs ''value'') (\<lambda>v.
     rbind (int_field fs ''worst'') (\<lambda>w. rbind (int_field fs ''thresh'') (\<lambda>t.
       Inr [\<lparr>sa_id = i, sa_name = str_field py fs ''name'', sa_value = v, sa_worst = w,
             sa_threshold = t,
             sa_raw = (case dict_get (map_of fs ''raw'') ''string'' of None \<Rightarrow> [] | Some x \<Rightarrow> py_str py x)\<rparr>]))))"
| "smart_attribute_of py _ = Inr []"

definition smart_attributes :: "pylib \<Rightarrow> (string \<times> json) list \<Rightarrow> exn + smart_attribute list" where
  "smart_attributes py fs = (case smart_table fs of None \<Rightarrow> Inr []
     | Some xs \<Rightarrow> rbind (rmap (smart_attribute_of py) xs) (\<lambda>yss. Inr (concat yss)))"

definition parse_smart :: "pylib \<Rightarrow> string \<Rightarrow> exn + disk_smart option" where
  "parse_smart py out = (case py_loads py out of None \<Rightarrow> Inr None
     | Some parsed \<Rightarrow>
         rbind (jin ''smart_status'' parsed) (\<lambda>a. rbind (if a then Inr True else jin ''ata_smart_attributes'' parsed) (\<lambda>b.
         if \<not> b then Inr None else (case parsed of
           JObj fs \<Rightarrow> rbind (smart_health fs) (\<lambda>h. rbind (smart_attributes py fs) (\<lambda>attrs.
             Inr (Some \<lparr>sm_health = h, sm_temperature_c = smart_temperature fs,
                        sm_power_on_hours = smart_power_on_hours fs, sm_attributes = attrs\<rparr>)))
         | _ \<Rightarrow> Inl (AttributeError ''get'')))))"

definition smartctl_argv :: "string \<Rightarrow> string list" where
  "smartctl_argv device = [''smartctl'', ''--json=c'', ''-a'', device]"

definition smart_read :: "pylib \<Rightarrow> 's runner \<Rightarrow> string \<Rightarrow> ('s, disk_smart option) prog" where
  "smart_read py run device =
     bindE (run (smartctl_argv device) None) (\<lambda>r. liftE (parse_smart py (cr_stdout r)))"

section \<open>Facts\<close>

lemma checked_eq_Inr:
  "checked run argv inp exc fb s = (Inr r, t) \<longleftrightarrow> run argv inp s = (Inr r, t) \<and> cr_ok r"
  by (auto simp: checked_def bindE_eq_Inr raise_def ret_def split: if_splits)

text \<open>A SMART report is never \<open>ok\<close> when the drive's own verdict is not \<open>passed\<close>.\<close>

lemma smart_health_ok_passed:
  assumes "smart_health fs = Inr Health_ok"
  shows "dict_get (map_of fs ''smart_status'') ''passed'' = Some (JBool True)"
    and "has_warning_attributes fs = Inr False"
  using assms by (auto simp: smart_health_def Let_def rbind_eq_Inr split: if_splits)

lemma to_node_unmarked:
  "to_node py v = Inr n \<Longrightarrow> \<not> dk_protected (node_info n) \<and> dk_smart (node_info n) = None"
  by (cases v) (auto simp: rbind_eq_Inr entry_info_def split: sum.splits)

text \<open>LVM's rows are grouped by volume group: one entry per name, every row's volume in it.\<close>

lemma vg_row_distinct:
  "vg_row py row d = Inr d' \<Longrightarrow> distinct (map fst d) \<Longrightarrow> distinct (map fst d')"
  unfolding vg_row_def rbind_def Let_def
  by (auto split: sum.splits if_splits option.splits intro!: distinct_dset)

lemma vg_rows_distinct: "vg_rows py rows d = Inr d' \<Longrightarrow> distinct (map fst d) \<Longrightarrow> distinct (map fst d')"
  by (induction rows arbitrary: d) (auto simp: rbind_eq_Inr dest: vg_row_distinct)

context runner_iface
begin

text \<open>Every adapter only ever adds to the calls; each reports exactly the one command it runs.\<close>

lemma checked_extends: "keeps extends (checked run argv inp exc fb)"
  unfolding checked_def
  by (intro keeps_bindE extends_trans run_extends)
     (auto intro: keeps_raise keeps_ret extends_refl)

lemma checked_calls: "calls (snd (checked run argv inp exc fb s)) = calls s @ [argv]"
proof -
  obtain r t where rt: "run argv inp s = (r, t)" by fastforce
  then have "calls t = calls s @ [argv]" by (rule run_calls_eq)
  with rt show ?thesis by (cases r) (simp_all add: checked_def bindE_def)
qed

text \<open>Parsing the answer of a program afterwards makes no call.\<close>

lemma parsed_calls:
  assumes "\<And>s. calls (snd (m s)) = calls s @ [argv]"
  shows "calls (snd (bindE m (\<lambda>r. liftE (f r)) s)) = calls s @ [argv]"
    and "calls (snd (bindE m (\<lambda>r. ret (g r)) s)) = calls s @ [argv]"
proof -
  obtain r t where "m s = (r, t)" by fastforce
  with assms [of s] show "calls (snd (bindE m (\<lambda>r. liftE (f r)) s)) = calls s @ [argv]"
    "calls (snd (bindE m (\<lambda>r. ret (g r)) s)) = calls s @ [argv]"
    by (cases r; simp add: bindE_def)+
qed

lemma list_block_devices_calls:
  "calls (snd (list_block_devices py run s)) = calls s @ [lsblk_argv]"
  unfolding list_block_devices_def by (rule parsed_calls checked_calls)+

lemma report_vgs_calls: "calls (snd (report_vgs py run s)) = calls s @ [vgs_argv]"
  unfolding report_vgs_def by (rule parsed_calls checked_calls)+

lemma report_lvs_calls: "calls (snd (report_lvs py run s)) = calls s @ [lvs_argv]"
  unfolding report_lvs_def by (rule parsed_calls checked_calls)+

lemma mdadm_detail_calls:
  "calls (snd (mdadm_detail run p s)) = calls s @ [[''mdadm'', ''--detail'', ''--export'', p]]"
  unfolding mdadm_detail_def by (rule parsed_calls checked_calls)+

lemma smart_read_calls: "calls (snd (smart_read py run d s)) = calls s @ [smartctl_argv d]"
  unfolding smart_read_def by (rule parsed_calls run_calls)+

end

end
