(* ===== verification/Inventory.thy ===== *)
theory Inventory
  imports Devices
begin

text \<open>
  \<open>agent/inventory.py\<close> and \<open>services/storage/guard.py\<close>: gathering the storage inventory and
  marking the devices that must not be touched. Python marks the nodes in place; the model
  returns the marked tree.
\<close>

section \<open>Traversals\<close>

primrec flatten_node :: "disk_node \<Rightarrow> disk_node list" where
  "flatten_node (DiskNode i cs) = DiskNode i cs # concat (map flatten_node cs)"

text \<open>\<open>_flatten\<close>, the same helper in \<open>plan.py\<close>, \<open>health.py\<close> and \<open>handlers/storage.py\<close>.\<close>

definition flatten :: "disk_node list \<Rightarrow> disk_node list" where
  "flatten ns = concat (map flatten_node ns)"

primrec find_type_prefix :: "string \<Rightarrow> disk_node \<Rightarrow> disk_node list" where
  "find_type_prefix p (DiskNode i cs) =
     (if startswith (dk_type i) p then [DiskNode i cs] else [])
       @ concat (map (find_type_prefix p) cs)"

text \<open>A serial is used where it is neither missing nor empty.\<close>

definition serial_of :: "disk_info \<Rightarrow> string option" where
  "serial_of i = (case dk_serial i of None \<Rightarrow> None | Some s \<Rightarrow> if s = [] then None else Some s)"

primrec find_with_serial :: "disk_node \<Rightarrow> disk_node list" where
  "find_with_serial (DiskNode i cs) =
     (if serial_of i \<noteq> None then [DiskNode i cs] else []) @ concat (map find_with_serial cs)"

section \<open>Gathering\<close>

text \<open>
  \<open>target.smart = await smart.read(...)\<close> for every node with a serial, in the order of
  \<open>_find_with_serial\<close>: a node before its children.
\<close>

fun attach_smart :: "pylib \<Rightarrow> 's runner \<Rightarrow> disk_node \<Rightarrow> ('s, disk_node) prog" where
  "attach_smart py run (DiskNode i cs) =
     bindE (if serial_of i \<noteq> None
            then bindE (smart_read py run (dk_path i)) (\<lambda>sm. ret (i\<lparr>dk_smart := sm\<rparr>))
            else ret i)
       (\<lambda>i'. bindE (mapE (attach_smart py run) cs) (\<lambda>cs'. ret (DiskNode i' cs')))"

definition array_of ::
  "pylib \<Rightarrow> string \<Rightarrow> (string, (string, string) dict) dict \<Rightarrow> disk_node \<Rightarrow> exn + array_info" where
  "array_of py mdstat_text details n =
     (let name = dk_name (node_info n);
          detail = (case dget details name of None \<Rightarrow> [] | Some d \<Rightarrow> d)
      in rbind (resync_percent py mdstat_text name) (\<lambda>rp. Inr \<lparr>
           ar_path = dk_path (node_info n), ar_name = name,
           ar_level = (case dget detail ''MD_LEVEL'' of None \<Rightarrow> dk_type (node_info n) | Some l \<Rightarrow> l),
           ar_devices = member_devices detail,
           ar_state = (case dget detail ''MD_METADATA'' of None \<Rightarrow> ''unknown'' | Some m \<Rightarrow> m),
           ar_resync_percent = rp\<rparr>))"

definition merge ::
  "pylib \<Rightarrow> disk_node list \<Rightarrow> vg_info list \<Rightarrow> lv_info list \<Rightarrow> string
     \<Rightarrow> (string, (string, string) dict) dict \<Rightarrow> exn + inventory" where
  "merge py disks vgs lvs mdstat_text details =
     rbind (rmap (array_of py mdstat_text details) (concat (map (find_type_prefix ''raid'') disks)))
       (\<lambda>arrays. Inr \<lparr>inv_disks = disks, inv_arrays = arrays, inv_vgs = vgs, inv_lvs = lvs\<rparr>)"

fun gather_details ::
  "'s runner \<Rightarrow> disk_node list \<Rightarrow> (string, (string, string) dict) dict
     \<Rightarrow> ('s, (string, (string, string) dict) dict) prog" where
  "gather_details run [] d = ret d"
| "gather_details run (n # ns) d =
     bindE (mdadm_detail run (dk_path (node_info n)))
       (\<lambda>x. gather_details run ns (dset (dk_name (node_info n)) x d))"

text \<open>\<open>mdstat\<close> is what \<open>MdstatReader.read\<close> answers.\<close>

definition gather :: "pylib \<Rightarrow> 's runner \<Rightarrow> ('s, string) prog \<Rightarrow> ('s, inventory) prog" where
  "gather py run mdstat =
     bindE (list_block_devices py run) (\<lambda>disks.
     bindE (report_vgs py run) (\<lambda>vgs.
     bindE (report_lvs py run) (\<lambda>lvs.
     bindE mdstat (\<lambda>text.
     bindE (gather_details run (concat (map (find_type_prefix ''raid'') disks)) []) (\<lambda>details.
     bindE (mapE (attach_smart py run) disks) (\<lambda>disks'.
       liftE (merge py disks' vgs lvs text details)))))))"

section \<open>The protected-device guard\<close>

definition own_reason :: "string list \<Rightarrow> disk_info \<Rightarrow> string option" where
  "own_reason pvs i =
     (case dk_mountpoint i of Some (c # m) \<Rightarrow> Some (''mounted at '' @ (c # m))
      | _ \<Rightarrow>
        if dk_fstype i = Some ''swap'' then Some ''active swap''
        else if dk_path i \<in> set pvs then Some ''LVM physical volume backing an active logical volume''
        else if startswith (dk_type i) ''raid''
          then Some (''active RAID member ('' @ dk_type i @ '')'')
        else None)"

definition mark :: "string option \<Rightarrow> disk_info \<Rightarrow> disk_info" where
  "mark reason i = (case reason of None \<Rightarrow> i
     | Some r \<Rightarrow> i\<lparr>dk_protected := True, dk_protected_reason := Some r\<rparr>)"

text \<open>The first reason of a list of subtrees.\<close>

fun first_reason :: "string option list \<Rightarrow> string option" where
  "first_reason [] = None"
| "first_reason (None # rs) = first_reason rs"
| "first_reason (Some r # rs) = Some r"

primrec walk :: "string list \<Rightarrow> disk_node \<Rightarrow> string option \<times> disk_node" where
  "walk pvs (DiskNode i cs) =
     (let ws = map (walk pvs) cs;
          reason = (case own_reason pvs i of Some r \<Rightarrow> Some r | None \<Rightarrow> first_reason (map fst ws))
      in (reason, DiskNode (mark reason i) (map snd ws)))"

definition protected_pv_paths :: "inventory \<Rightarrow> string list" where
  "protected_pv_paths iv = concat (map vg_pvs
     (filter (\<lambda>vg. vg_name vg \<in> set (map lv_vg (inv_lvs iv))) (inv_vgs iv)))"

text \<open>Returns the serials of the protected top-level disks and the marked inventory.\<close>

definition compute_protected :: "inventory \<Rightarrow> string list \<times> inventory" where
  "compute_protected iv =
     (let disks = map (\<lambda>d. snd (walk (protected_pv_paths iv) d)) (inv_disks iv)
      in (concat (map (\<lambda>d. if dk_protected (node_info d)
                           then (case serial_of (node_info d) of None \<Rightarrow> [] | Some s \<Rightarrow> [s])
                           else []) disks),
          iv\<lparr>inv_disks := disks\<rparr>))"

section \<open>What the guard promises\<close>

text \<open>
  The specification: a device is in use when it is itself mounted, swap, a physical volume of a
  group with logical volumes, or a RAID device; it hosts a use when some device of its subtree is
  in use.
\<close>

definition in_use :: "string list \<Rightarrow> disk_info \<Rightarrow> bool" where
  "in_use pvs i \<longleftrightarrow> (\<exists>m. dk_mountpoint i = Some m \<and> m \<noteq> []) \<or> dk_fstype i = Some ''swap''
     \<or> dk_path i \<in> set pvs \<or> startswith (dk_type i) ''raid''"

definition hosts_use :: "string list \<Rightarrow> disk_node \<Rightarrow> bool" where
  "hosts_use pvs n \<longleftrightarrow> (\<exists>d \<in> set (flatten_node n). in_use pvs (node_info d))"

lemma own_reason_iff: "own_reason pvs i = None \<longleftrightarrow> \<not> in_use pvs i"
  by (auto simp: own_reason_def in_use_def split: option.splits list.splits)

lemma first_reason_iff: "first_reason rs = None \<longleftrightarrow> (\<forall>r \<in> set rs. r = None)"
  by (induction rs rule: first_reason.induct) auto

lemma hosts_use_DiskNode:
  "hosts_use pvs (DiskNode i cs) \<longleftrightarrow> in_use pvs i \<or> (\<exists>c \<in> set cs. hosts_use pvs c)"
  by (auto simp: hosts_use_def)

lemma walk_reason: "fst (walk pvs n) = None \<longleftrightarrow> \<not> hosts_use pvs n"
proof (induction n)
  case (DiskNode i cs)
  have "first_reason (map fst (map (walk pvs) cs)) = None \<longleftrightarrow> \<not> (\<exists>c \<in> set cs. hosts_use pvs c)"
    using DiskNode.IH by (auto simp: first_reason_iff)
  then show ?case
    using own_reason_iff [of pvs i]
    by (cases "own_reason pvs i") (simp_all add: Let_def hosts_use_DiskNode)
qed

lemma mark_simps [simp]:
  "dk_serial (mark r i) = dk_serial i" "dk_path (mark r i) = dk_path i"
  "dk_size (mark r i) = dk_size i" "dk_type (mark r i) = dk_type i"
  "dk_mountpoint (mark r i) = dk_mountpoint i" "dk_fstype (mark r i) = dk_fstype i"
  "dk_name (mark r i) = dk_name i" "serial_of (mark r i) = serial_of i"
  "in_use pvs (mark r i) = in_use pvs i"
  by (simp_all add: mark_def serial_of_def in_use_def split: option.split)

lemma mark_protected: "\<not> dk_protected i \<Longrightarrow> dk_protected (mark r i) = (\<not> r = None)"
  by (simp add: mark_def split: option.split)

lemma walk_node: "node_info (snd (walk pvs n)) = mark (fst (walk pvs n)) (node_info n)"
  by (cases n) (simp add: Let_def)

lemma walk_protected:
  "\<not> dk_protected (node_info n) \<Longrightarrow> dk_protected (node_info (snd (walk pvs n))) \<longleftrightarrow> hosts_use pvs n"
  using walk_reason [of pvs n] mark_protected [of "node_info n" "fst (walk pvs n)"]
  by (simp add: walk_node)

text \<open>Marking changes no other field: the flattened trees agree position by position.\<close>

lemma flatten_walk:
  "map node_info (flatten_node (snd (walk pvs n))) =
     map (\<lambda>d. mark (fst (walk pvs d)) (node_info d)) (flatten_node n)"
proof (induction n)
  case (DiskNode i cs)
  have "map node_info (concat (map flatten_node (map snd (map (walk pvs) cs)))) =
    map (\<lambda>d. mark (fst (walk pvs d)) (node_info d)) (concat (map flatten_node cs))"
    using DiskNode.IH by (simp add: map_concat comp_def cong: map_cong)
  then show ?case by (simp add: Let_def)
qed

lemma flatten_node_self: "n \<in> set (flatten_node n)"
  by (cases n) simp

lemma flatten_node_trans: "d \<in> set (flatten_node n) \<Longrightarrow> e \<in> set (flatten_node d) \<Longrightarrow> e \<in> set (flatten_node n)"
proof (induction n)
  case (DiskNode i cs)
  then show ?case by auto
qed

lemma hosts_use_up: "d \<in> set (flatten_node n) \<Longrightarrow> hosts_use pvs d \<Longrightarrow> hosts_use pvs n"
  by (auto simp: hosts_use_def dest: flatten_node_trans)

text \<open>No node of a freshly gathered tree is marked.\<close>

definition fresh_node :: "disk_node \<Rightarrow> bool" where
  "fresh_node n \<longleftrightarrow> (\<forall>d \<in> set (flatten_node n). \<not> dk_protected (node_info d))"

lemma fresh_node_DiskNode:
  "fresh_node (DiskNode i cs) \<longleftrightarrow> \<not> dk_protected i \<and> (\<forall>c \<in> set cs. fresh_node c)"
  by (auto simp: fresh_node_def)

lemma to_node_fresh: "to_node py v = Inr n \<Longrightarrow> fresh_node n"
proof (induction py v arbitrary: n rule: to_node.induct)
  case (1 py fs)
  from "1.prems" obtain cs k ns where *: "children_raw fs = Inr cs" "rmap (to_node py) cs = Inr ns"
      "n = DiskNode (entry_info py fs k) ns"
    by (auto simp: rbind_eq_Inr split: sum.splits)
  then have "\<forall>c \<in> set ns. fresh_node c"
    using rmap_Inr_set [OF *(2)] "1.IH" [OF *(1)] by blast
  with * show ?case by (simp add: fresh_node_DiskNode entry_info_def)
qed auto

text \<open>The serials \<open>compute_protected\<close> reports, in terms of the unmarked inventory.\<close>

lemma compute_protected_serials:
  assumes "\<forall>d \<in> set (inv_disks iv). fresh_node d"
  shows "s \<in> set (fst (compute_protected iv)) \<longleftrightarrow>
    (\<exists>d \<in> set (inv_disks iv). serial_of (node_info d) = Some s
        \<and> hosts_use (protected_pv_paths iv) d)"
proof -
  have "dk_protected (node_info (snd (walk (protected_pv_paths iv) d))) \<longleftrightarrow>
      hosts_use (protected_pv_paths iv) d" if "d \<in> set (inv_disks iv)" for d
    using that assms flatten_node_self walk_protected by (fastforce simp: fresh_node_def)
  then have "s \<in> set (fst (compute_protected iv)) \<longleftrightarrow> (\<exists>d \<in> set (inv_disks iv).
      hosts_use (protected_pv_paths iv) d
      \<and> s \<in> set (case serial_of (node_info d) of None \<Rightarrow> [] | Some s \<Rightarrow> [s]))"
    by (fastforce simp: compute_protected_def Let_def walk_node split: if_splits)
  then show ?thesis by (auto split: option.splits)
qed

lemma inv_disks_compute:
  "inv_disks (snd (compute_protected iv)) =
     map (\<lambda>d. snd (walk (protected_pv_paths iv) d)) (inv_disks iv)"
  by (simp add: compute_protected_def Let_def)

text \<open>The guard's answer for a node can be read off the marked tree.\<close>

lemma hosts_use_walk: "hosts_use pvs (snd (walk qvs n)) = hosts_use pvs n"
proof -
  have "hosts_use pvs m \<longleftrightarrow> (\<exists>i \<in> set (map node_info (flatten_node m)). in_use pvs i)" for m
    by (auto simp: hosts_use_def)
  then show ?thesis by (simp only: flatten_walk) auto
qed

lemma flatten_walk_nodes: "flatten_node (snd (walk pvs n)) = map (\<lambda>d. snd (walk pvs d)) (flatten_node n)"
proof (induction n)
  case (DiskNode i cs)
  then have "concat (map flatten_node (map snd (map (walk pvs) cs))) =
      map (\<lambda>d. snd (walk pvs d)) (concat (map flatten_node cs))"
    by (simp add: map_concat comp_def cong: map_cong)
  then show ?case by (simp add: Let_def)
qed

lemma protected_pv_paths_compute: "protected_pv_paths (snd (compute_protected iv)) = protected_pv_paths iv"
  by (simp add: compute_protected_def protected_pv_paths_def Let_def)

lemma fresh_flatten: "fresh_node n \<Longrightarrow> m \<in> set (flatten_node n) \<Longrightarrow> fresh_node m"
  unfolding fresh_node_def using flatten_node_trans by blast

lemma compute_protected_marks:
  assumes "\<forall>d \<in> set (inv_disks iv). fresh_node d"
    and "n \<in> set (flatten (inv_disks (snd (compute_protected iv))))"
  shows "dk_protected (node_info n) \<longleftrightarrow> hosts_use (protected_pv_paths iv) n"
proof -
  from assms(2) obtain d m where d: "d \<in> set (inv_disks iv)" and m: "m \<in> set (flatten_node d)"
    and n: "n = snd (walk (protected_pv_paths iv) m)"
    by (auto simp: inv_disks_compute flatten_def flatten_walk_nodes)
  from assms(1) d m have "\<not> dk_protected (node_info m)"
    using flatten_node_self by (auto simp: fresh_node_def)
  then show ?thesis by (simp add: n walk_protected hosts_use_walk)
qed

section \<open>Gathering only reads\<close>

text \<open>The commands an inventory runs: device listing, LVM reports, array details, SMART reports.\<close>

definition read_only :: "string list \<Rightarrow> bool" where
  "read_only argv \<longleftrightarrow> argv = lsblk_argv \<or> argv = vgs_argv \<or> argv = lvs_argv
     \<or> (\<exists>p. argv = [''mdadm'', ''--detail'', ''--export'', p]) \<or> (\<exists>d. argv = smartctl_argv d)"

text \<open>What every adapter call keeps, gathering keeps.\<close>

lemma gather_keeps:
  assumes R: "reflp R" "transp R"
    and ad: "keeps R (list_block_devices py run)" "keeps R (report_vgs py run)"
      "keeps R (report_lvs py run)" "\<And>p. keeps R (mdadm_detail run p)" "\<And>d. keeps R (smart_read py run d)"
    and md: "keeps R mdstat"
  shows "keeps R (gather py run mdstat)"
proof -
  have details: "keeps R (gather_details run ns d)" for ns d
    by (induction ns arbitrary: d) (auto intro!: keeps_ret keeps_bindE R ad)
  have smart: "keeps R (attach_smart py run n)" for n
  proof (induction n)
    case (DiskNode i cs)
    have i: "keeps R (if serial_of i \<noteq> None
        then bindE (smart_read py run (dk_path i)) (\<lambda>sm. ret (i\<lparr>dk_smart := sm\<rparr>)) else ret i)"
      by (auto intro!: keeps_ret keeps_bindE R ad)
    have cs: "keeps R (mapE (attach_smart py run) cs)"
      using DiskNode.IH by (intro keeps_mapE R)
    show ?case unfolding attach_smart.simps by (intro keeps_bindE keeps_ret R i cs)
  qed
  show ?thesis unfolding gather_def
    by (intro keeps_bindE keeps_mapE keeps_liftE R ad md details smart)
qed

lemma gather_keeps_run:
  assumes R: "reflp R" "transp R" and run: "\<And>a i. keeps R (run a i)" and md: "keeps R mdstat"
  shows "keeps R (gather py run mdstat)"
  by (rule gather_keeps [OF R _ _ _ _ _ md])
     (auto simp: list_block_devices_def report_vgs_def report_lvs_def mdadm_detail_def smart_read_def
        checked_def intro!: keeps_bindE keeps_ret keeps_liftE keeps_raise R run)

context runner_iface
begin

definition reads :: "'s \<Rightarrow> 's \<Rightarrow> bool" where
  "reads s t \<longleftrightarrow> (\<exists>xs. calls t = calls s @ xs \<and> (\<forall>x \<in> set xs. read_only x))"

lemma reads_refl: "reflp reads" by (simp add: reflp_def reads_def)

lemma reads_trans: "transp reads"
proof (rule transpI)
  fix s t u
  assume "reads s t" "reads t u"
  then obtain xs ys where "calls t = calls s @ xs" "calls u = calls t @ ys"
    "\<forall>x \<in> set xs. read_only x" "\<forall>x \<in> set ys. read_only x" unfolding reads_def by blast
  then have "calls u = calls s @ (xs @ ys) \<and> (\<forall>x \<in> set (xs @ ys). read_only x)" by auto
  then show "reads s u" unfolding reads_def by blast
qed

lemma reads_one: "(\<And>s. calls (snd (m s)) = calls s @ [a]) \<Longrightarrow> read_only a \<Longrightarrow> keeps reads m"
  by (auto simp: keeps_def reads_def)

lemma adapter_reads:
  "keeps reads (list_block_devices py run)" "keeps reads (report_vgs py run)"
  "keeps reads (report_lvs py run)" "keeps reads (mdadm_detail run p)"
  "keeps reads (smart_read py run d)"
  by (auto intro!: reads_one list_block_devices_calls report_vgs_calls report_lvs_calls
      mdadm_detail_calls smart_read_calls simp: read_only_def)

lemma gather_reads: "keeps reads mdstat \<Longrightarrow> keeps reads (gather py run mdstat)"
  by (rule gather_keeps) (auto intro: reads_refl reads_trans adapter_reads)

end

text \<open>Attaching SMART data keeps the tree otherwise, so a gathered inventory is unmarked.\<close>

lemma mapE_Inr_set:
  "mapE f xs s = (Inr ys, t) \<Longrightarrow> y \<in> set ys \<Longrightarrow> \<exists>x \<in> set xs. \<exists>s' t'. f x s' = (Inr y, t')"
proof (induction xs arbitrary: s ys)
  case Nil
  then show ?case by simp
next
  case (Cons x xs)
  from Cons.prems(1) obtain z s' zs where *: "f x s = (Inr z, s')" "mapE f xs s' = (Inr zs, t)" "ys = z # zs"
    by (auto simp: bindE_eq_Inr)
  from Cons.prems(2) *(3) have "y = z \<or> y \<in> set zs" by simp
  then show ?case
  proof
    assume "y = z" with *(1) show ?thesis by auto
  next
    assume "y \<in> set zs" with Cons.IH [OF *(2)] show ?thesis by auto
  qed
qed

lemma attach_smart_fresh: "attach_smart py run n s = (Inr n', t) \<Longrightarrow> fresh_node n \<Longrightarrow> fresh_node n'"
proof (induction n arbitrary: s n' t)
  case (DiskNode i cs)
  from DiskNode.prems(1) obtain i' s1 cs' s2 where
    i': "(if serial_of i \<noteq> None
          then bindE (smart_read py run (dk_path i)) (\<lambda>sm. ret (i\<lparr>dk_smart := sm\<rparr>)) else ret i) s = (Inr i', s1)"
    and cs': "mapE (attach_smart py run) cs s1 = (Inr cs', s2)" and n': "n' = DiskNode i' cs'"
    by (auto simp: bindE_eq_Inr)
  from i' DiskNode.prems(2) have "\<not> dk_protected i'"
    by (auto simp: bindE_eq_Inr fresh_node_DiskNode split: if_splits)
  moreover have "\<forall>c \<in> set cs'. fresh_node c"
    using mapE_Inr_set [OF cs'] DiskNode.IH DiskNode.prems(2)
    by (fastforce simp: fresh_node_DiskNode)
  ultimately show ?case using n' by (simp add: fresh_node_DiskNode)
qed

lemma gather_fresh:
  assumes "gather py run mdstat s = (Inr iv, t)"
  shows "\<forall>d \<in> set (inv_disks iv). fresh_node d"
proof -
  from assms obtain disks s1 s2 disks' s3 where
    d: "list_block_devices py run s = (Inr disks, s1)" and
    d': "mapE (attach_smart py run) disks s2 = (Inr disks', s3)" and iv: "inv_disks iv = disks'"
    by (auto simp: gather_def bindE_eq_Inr merge_def rbind_eq_Inr)
  from d have "\<forall>n \<in> set disks. fresh_node n"
    by (auto simp: list_block_devices_def bindE_eq_Inr parse_lsblk_def rbind_eq_Inr
        split: option.splits dest!: rmap_Inr_set intro: to_node_fresh)
  with mapE_Inr_set [OF d'] iv show ?thesis by (metis attach_smart_fresh)
qed

end
