(* ===== verification/PlanSteps.thy ===== *)
theory PlanSteps
  imports Devices
begin

text \<open>
  \<open>system/storage_plan.py\<close>, the pure builder of a plan's ordered steps, and
  \<open>system/mount_units.py\<close>, the unit files they end in.
\<close>

section \<open>Steps\<close>

datatype plan_op = Op_run | Op_write_mount_unit | Op_write_target | Op_write_dropins
  | Op_daemon_reload | Op_enable_start_unit | Op_restorecon

record plan_step =
  ps_description :: string
  ps_op :: plan_op
  ps_argv :: "string list"

definition run_step :: "string \<Rightarrow> string list \<Rightarrow> plan_step" where
  "run_step d argv = \<lparr>ps_description = d, ps_op = Op_run, ps_argv = argv\<rparr>"

definition op_step :: "string \<Rightarrow> plan_op \<Rightarrow> plan_step" where
  "op_step d op = \<lparr>ps_description = d, ps_op = op, ps_argv = []\<rparr>"

definition partition_path :: "string \<Rightarrow> nat \<Rightarrow> string" where
  "partition_path disk n =
     (if disk \<noteq> [] \<and> is_digit (last disk) then disk @ ''p'' @ nat_str n else disk @ nat_str n)"

definition array_device :: "plan_spec \<Rightarrow> string" where
  "array_device sp = ''/dev/md/'' @ sp_array_name sp"

definition lv_device :: "plan_spec \<Rightarrow> string" where
  "lv_device sp = ''/dev/'' @ sp_vg_name sp @ ''/'' @ sp_lv_name sp"

definition disk_steps :: "string \<Rightarrow> plan_step list" where
  "disk_steps disk =
     [run_step (''Wipe existing signatures on '' @ disk) (wipefs_argv disk),
      run_step (''Create partition table on '' @ disk) (mkpart_argv disk)]"

definition array_steps :: "plan_spec \<Rightarrow> plan_step list" where
  "array_steps sp = (if sp_level sp = ''basic'' then [] else
     [run_step (''Create RAID '' @ sp_level sp @ '' array '' @ sp_array_name sp)
        (mdadm_create_argv (sp_array_name sp) (sp_level sp)
           (map (\<lambda>d. partition_path d 1) (sp_disk_paths sp)))])"

text \<open>The device the physical volume goes on; a basic volume without disks raises \<open>IndexError\<close>.\<close>

definition pv_device :: "plan_spec \<Rightarrow> exn + string" where
  "pv_device sp = (if sp_level sp = ''basic''
     then (case sp_disk_paths sp of [] \<Rightarrow> Inl IndexError | d # _ \<Rightarrow> Inr (partition_path d 1))
     else Inr (array_device sp))"

definition volume_steps :: "plan_spec \<Rightarrow> string \<Rightarrow> string list \<Rightarrow> plan_step list" where
  "volume_steps sp pv mkfs =
     [run_step (''Initialize physical volume on '' @ pv) (pvcreate_argv pv),
      run_step (''Create volume group '' @ sp_vg_name sp) (vgcreate_argv (sp_vg_name sp) pv),
      run_step (''Create logical volume '' @ sp_lv_name sp)
        (lvcreate_full_free_argv (sp_vg_name sp) (sp_lv_name sp)),
      run_step (''Create '' @ sp_filesystem sp @ '' filesystem'') mkfs]"

definition mount_steps :: "plan_spec \<Rightarrow> plan_step list" where
  "mount_steps sp =
     [op_step (''Create mount unit for '' @ sp_mountpoint sp) Op_write_mount_unit,
      op_step ''Ensure nasos-volumes.target exists'' Op_write_target,
      op_step ''Update service drop-ins (RequiresMountsFor)'' Op_write_dropins,
      op_step ''Reload systemd'' Op_daemon_reload,
      op_step (''Enable and start mount for '' @ sp_mountpoint sp) Op_enable_start_unit,
      op_step (''Apply SELinux context to '' @ sp_mountpoint sp) Op_restorecon]"

definition build_steps :: "plan_spec \<Rightarrow> exn + plan_step list" where
  "build_steps sp = rbind (pv_device sp) (\<lambda>pv.
     rbind (mkfs_argv (sp_filesystem sp) (sp_lv_name sp) (lv_device sp)) (\<lambda>mkfs.
       Inr (concat (map disk_steps (sp_disk_paths sp)) @ array_steps sp
            @ volume_steps sp pv mkfs @ mount_steps sp)))"

section \<open>Unit files\<close>

definition version :: string where "version = ''0.1.0''"

definition volumes_target :: string where "volumes_target = ''nasos-volumes.target''"

definition volumes_target_unit_path :: string where
  "volumes_target_unit_path = ''/etc/systemd/system/'' @ volumes_target"

definition unit_header :: string where
  "unit_header = ''# Generated by NAS-OS '' @ version
     @ ''. DO NOT EDIT; managed by Storage Manager.'' @ nl"

definition mount_unit_name :: "'s runner \<Rightarrow> string \<Rightarrow> ('s, string) prog" where
  "mount_unit_name run mountpoint =
     bindE (run [''systemd-escape'', ''-p'', ''--suffix=mount'', mountpoint] None) (\<lambda>r.
       let name = strip (cr_stdout r) in
       if \<not> cr_ok r \<or> name = []
       then raise (MountUnitError (or_else (strip (cr_stderr r)) ''systemd-escape produced no unit name''))
       else ret name)"

definition render_mount_unit :: "string \<Rightarrow> string \<Rightarrow> string \<Rightarrow> string" where
  "render_mount_unit uuid location fstype =
     unit_header @ ''[Unit]'' @ nl @ ''Description=NAS-OS volume '' @ location @ nl @ nl
     @ ''[Mount]'' @ nl @ ''What=UUID='' @ uuid @ nl @ ''Where='' @ location @ nl
     @ ''Type='' @ fstype @ nl @ ''Options=defaults,noatime'' @ nl @ nl
     @ ''[Install]'' @ nl @ ''WantedBy='' @ volumes_target @ nl"

definition render_volumes_target :: string where
  "render_volumes_target =
     unit_header @ ''[Unit]'' @ nl @ ''Description=NAS-OS managed volumes'' @ nl @ nl
     @ ''[Install]'' @ nl @ ''WantedBy=multi-user.target'' @ nl"

definition render_service_dropin :: "string list \<Rightarrow> string" where
  "render_service_dropin mountpoints =
     unit_header @ ''[Unit]'' @ nl @ ''After='' @ volumes_target @ nl
     @ ''RequiresMountsFor='' @ join '' '' mountpoints @ nl"

definition service_dropin_path :: "string \<Rightarrow> string" where
  "service_dropin_path unit = ''/etc/systemd/system/'' @ unit @ ''.d/50-nasos-volumes.conf''"

definition mount_unit_path :: "string \<Rightarrow> string" where
  "mount_unit_path unit_name = ''/etc/systemd/system/'' @ unit_name"

section \<open>Facts\<close>

lemma step_simps [simp]:
  "ps_op (run_step d a) = Op_run" "ps_argv (run_step d a) = a" "ps_description (run_step d a) = d"
  "ps_op (op_step d x) = x" "ps_argv (op_step d x) = []" "ps_description (op_step d x) = d"
  by (simp_all add: run_step_def op_step_def)

text \<open>The commands of a step list, and the targets of the ones that destroy data on a whole disk.\<close>

definition run_argvs :: "plan_step list \<Rightarrow> string list list" where
  "run_argvs steps = map ps_argv (filter (\<lambda>s. ps_op s = Op_run) steps)"

fun wipe_target :: "string list \<Rightarrow> string list" where
  "wipe_target [c, a, d] = (if c = ''wipefs'' \<and> a = ''-a'' then [d] else [])"
| "wipe_target _ = []"

fun label_target :: "string list \<Rightarrow> string list" where
  "label_target (c # s # d # m # rest) =
     (if c = ''parted'' \<and> s = ''-s'' \<and> m = ''mklabel'' then [d] else [])"
| "label_target _ = []"

lemma run_argvs_simps [simp]:
  "run_argvs [] = []" "run_argvs (xs @ ys) = run_argvs xs @ run_argvs ys"
  "run_argvs (run_step d a # xs) = a # run_argvs xs"
  "op \<noteq> Op_run \<Longrightarrow> run_argvs (op_step d op # xs) = run_argvs xs"
  by (simp_all add: run_argvs_def)

lemma run_argvs_disks:
  "run_argvs (concat (map disk_steps ds)) = concat (map (\<lambda>d. [wipefs_argv d, mkpart_argv d]) ds)"
  by (induction ds) (simp_all add: disk_steps_def)

lemma build_steps_Inr:
  assumes "build_steps sp = Inr steps"
  obtains pv mkfs where "pv_device sp = Inr pv"
    "mkfs_argv (sp_filesystem sp) (sp_lv_name sp) (lv_device sp) = Inr mkfs"
    "steps = concat (map disk_steps (sp_disk_paths sp)) @ array_steps sp
            @ volume_steps sp pv mkfs @ mount_steps sp"
  using assms by (auto simp: build_steps_def rbind_eq_Inr)

text \<open>The whole command sequence of a plan.\<close>

lemma run_argvs_build:
  assumes "build_steps sp = Inr steps"
  obtains pv mkfs where "pv_device sp = Inr pv"
    "mkfs_argv (sp_filesystem sp) (sp_lv_name sp) (lv_device sp) = Inr mkfs"
    "run_argvs steps = concat (map (\<lambda>d. [wipefs_argv d, mkpart_argv d]) (sp_disk_paths sp))
       @ map ps_argv (array_steps sp)
       @ [pvcreate_argv pv, vgcreate_argv (sp_vg_name sp) pv,
          lvcreate_full_free_argv (sp_vg_name sp) (sp_lv_name sp), mkfs]"
proof -
  obtain pv mkfs where *: "pv_device sp = Inr pv"
    "mkfs_argv (sp_filesystem sp) (sp_lv_name sp) (lv_device sp) = Inr mkfs"
    "steps = concat (map disk_steps (sp_disk_paths sp)) @ array_steps sp
            @ volume_steps sp pv mkfs @ mount_steps sp"
    using assms by (rule build_steps_Inr)
  moreover have "run_argvs (array_steps sp) = map ps_argv (array_steps sp)"
    by (simp add: array_steps_def)
  ultimately show ?thesis
    by (intro that [of pv mkfs])
       (simp_all add: run_argvs_disks volume_steps_def mount_steps_def)
qed

lemma mkfs_argv_targets: "mkfs_argv f l d = Inr a \<Longrightarrow> wipe_target a = [] \<and> label_target a = []"
  by (auto simp: mkfs_argv_def split: if_splits)

lemma mdadm_argv_targets:
  "wipe_target (mdadm_create_argv n l ds) = [] \<and> label_target (mdadm_create_argv n l ds) = []"
  by (simp add: mdadm_create_argv_def)

lemma disk_targets:
  "concat (map wipe_target (concat (map (\<lambda>d. [wipefs_argv d, mkpart_argv d]) ds))) = ds"
  "concat (map label_target (concat (map (\<lambda>d. [wipefs_argv d, mkpart_argv d]) ds))) = ds"
  by (induction ds) (simp_all add: wipefs_argv_def mkpart_argv_def)

text \<open>Exactly the plan's disks are wiped and relabelled, each once and in order.\<close>

lemma build_steps_targets:
  assumes "build_steps sp = Inr steps"
  shows "concat (map wipe_target (run_argvs steps)) = sp_disk_paths sp"
    and "concat (map label_target (run_argvs steps)) = sp_disk_paths sp"
proof -
  obtain pv mkfs where
    m: "mkfs_argv (sp_filesystem sp) (sp_lv_name sp) (lv_device sp) = Inr mkfs" and
    r: "run_argvs steps = concat (map (\<lambda>d. [wipefs_argv d, mkpart_argv d]) (sp_disk_paths sp))
       @ map ps_argv (array_steps sp)
       @ [pvcreate_argv pv, vgcreate_argv (sp_vg_name sp) pv,
          lvcreate_full_free_argv (sp_vg_name sp) (sp_lv_name sp), mkfs]"
    using assms by (rule run_argvs_build)
  note t = mkfs_argv_targets [OF m] mdadm_argv_targets disk_targets
  show "concat (map wipe_target (run_argvs steps)) = sp_disk_paths sp"
    using t by (simp add: r array_steps_def pvcreate_argv_def vgcreate_argv_def lvcreate_full_free_argv_def)
  show "concat (map label_target (run_argvs steps)) = sp_disk_paths sp"
    using t by (simp add: r array_steps_def pvcreate_argv_def vgcreate_argv_def lvcreate_full_free_argv_def)
qed

text \<open>A valid specification always has steps.\<close>

lemma build_steps_total:
  assumes "plan_spec_ok sp"
  shows "\<exists>steps. build_steps sp = Inr steps"
proof -
  from assms obtain d ds where "sp_disk_paths sp = d # ds"
    by (cases "sp_disk_paths sp") (auto simp: plan_spec_ok_def)
  moreover from assms have "sp_filesystem sp = ''xfs'' \<or> sp_filesystem sp = ''ext4''"
    by (auto simp: plan_spec_ok_def filesystems_def)
  ultimately show ?thesis by (auto simp: build_steps_def pv_device_def mkfs_argv_def)
qed

lemma build_steps_length:
  "build_steps sp = Inr steps \<Longrightarrow>
     length steps = 2 * length (sp_disk_paths sp) + (if sp_level sp = ''basic'' then 0 else 1) + 10"
proof -
  have "length (concat (map disk_steps ds)) = 2 * length ds" for ds
    by (induction ds) (simp_all add: disk_steps_def)
  then show "build_steps sp = Inr steps \<Longrightarrow> ?thesis"
    by (auto simp: array_steps_def volume_steps_def mount_steps_def elim!: build_steps_Inr)
qed

end
