(* ===== verification/ManagedFile.thy ===== *)
theory ManagedFile
  imports World "HOL-Library.Char_ord" "HOL-Library.List_Lexorder"
begin

text \<open>
  \<open>system/managedfile.py\<close>: render, write atomically, back up, validate, apply, and roll back to
  the previous content. \<open>validate\<close> and \<open>apply\<close> are programs over the world, as the callables of
  the class are coroutines; \<open>render\<close> is its result, since every renderer passed in is pure.
\<close>

section \<open>The class\<close>

definition max_backups :: nat where "max_backups = 20"

record managed_file =
  mf_path :: string
  mf_render :: string
  mf_validate :: "(string \<Rightarrow> (world, unit) prog) option"
  mf_apply :: "(world, unit) prog option"
  mf_mode :: nat
  mf_owner :: "string option"
  mf_group :: "string option"
  mf_backup_dir :: string

definition tmp_path :: "string \<Rightarrow> string" where
  "tmp_path target = dirname target @ ''/.'' @ basename target @ ''.nasos-tmp''"

definition write_atomic :: "managed_file \<Rightarrow> string \<Rightarrow> bytes \<Rightarrow> (world, unit) prog" where
  "write_atomic mf target content =
     thenE (mkdir_p (dirname target))
    (thenE (write_file (tmp_path target) content)
    (thenE (chmod (tmp_path target) (mf_mode mf))
    (thenE (whenE (mf_owner mf \<noteq> None \<or> mf_group mf \<noteq> None) (chown (tmp_path target)))
    (thenE (rename_file (tmp_path target) target)
    (bindE (run_cmd [''restorecon'', target] None) (\<lambda>_. ret ()))))))"

definition restore :: "managed_file \<Rightarrow> string \<Rightarrow> bytes option \<Rightarrow> (world, unit) prog" where
  "restore mf target previous = (case previous of None \<Rightarrow> unlink True target
     | Some d \<Rightarrow> write_atomic mf target d)"

text \<open>The files \<open>backup_dir.glob(name + ".*")\<close> finds, sorted as paths of one directory are.\<close>

definition backup_prefix :: "managed_file \<Rightarrow> string \<Rightarrow> string" where
  "backup_prefix mf target = mf_backup_dir mf @ ''/'' @ basename target @ ''.''"

definition is_backup :: "managed_file \<Rightarrow> string \<Rightarrow> string \<Rightarrow> bool" where
  "is_backup mf target p \<longleftrightarrow> startswith p (backup_prefix mf target) \<and>
     CHR ''/'' \<notin> set (drop (length (backup_prefix mf target)) p)"

definition existing_backups :: "managed_file \<Rightarrow> string \<Rightarrow> fs \<Rightarrow> string list" where
  "existing_backups mf target f =
     sort (filter (is_backup mf target) (remdups (map fst f)))"

text \<open>\<open>existing[:-MAX_BACKUPS]\<close>.\<close>

definition stale_backups :: "managed_file \<Rightarrow> string \<Rightarrow> fs \<Rightarrow> string list" where
  "stale_backups mf target f =
     (let xs = existing_backups mf target f in take (length xs - max_backups) xs)"

definition backup :: "managed_file \<Rightarrow> string \<Rightarrow> bytes \<Rightarrow> (world, unit) prog" where
  "backup mf target previous =
     thenE (mkdir_p (mf_backup_dir mf))
    (bindE (getsE (\<lambda>w. w_clock w (w_log w))) (\<lambda>stamp.
     thenE (write_file (backup_prefix mf target @ stamp) previous)
    (bindE (getsE (\<lambda>w. stale_backups mf target (w_fs w))) (\<lambda>stale.
       forE (unlink True) stale))))"

text \<open>The parts of \<open>write_and_apply\<close>: reading the old content, and the two guarded calls.\<close>

definition read_previous :: "string \<Rightarrow> (world, bytes option) prog" where
  "read_previous target = bindE (getsE (fs_exists target)) (\<lambda>present.
     if present then bindE (read_bytes target) (\<lambda>d. ret (Some d)) else ret None)"

definition on_invalid :: "managed_file \<Rightarrow> string \<Rightarrow> bytes option \<Rightarrow> exn \<Rightarrow> (world, unit) prog" where
  "on_invalid mf target previous e = (case e of
         ConfigValidationError _ \<Rightarrow> thenE (restore mf target previous) (raise e)
       | _ \<Rightarrow> raise e)"

definition run_validate :: "managed_file \<Rightarrow> string \<Rightarrow> bytes option \<Rightarrow> (world, unit) prog" where
  "run_validate mf target previous = (case mf_validate mf of None \<Rightarrow> ret ()
     | Some v \<Rightarrow> tryE (v target) (on_invalid mf target previous))"

definition best_effort :: "(world, unit) prog \<Rightarrow> (world, unit) prog" where
  "best_effort a = tryE a (\<lambda>e. case e of ConfigApplyError _ \<Rightarrow> ret () | _ \<Rightarrow> raise e)"

definition on_apply_failed ::
  "managed_file \<Rightarrow> string \<Rightarrow> bytes option \<Rightarrow> (world, unit) prog \<Rightarrow> exn \<Rightarrow> (world, unit) prog" where
  "on_apply_failed mf target previous a e = (case e of
         ConfigApplyError _ \<Rightarrow>
           thenE (restore mf target previous) (thenE (best_effort a) (raise e))
       | _ \<Rightarrow> raise e)"

definition run_apply :: "managed_file \<Rightarrow> string \<Rightarrow> bytes option \<Rightarrow> (world, unit) prog" where
  "run_apply mf target previous = (case mf_apply mf of None \<Rightarrow> ret ()
     | Some a \<Rightarrow> tryE a (on_apply_failed mf target previous a))"

definition write_and_apply :: "(bytes \<Rightarrow> string) \<Rightarrow> managed_file \<Rightarrow> (world, string) prog" where
  "write_and_apply sha256 mf =
     (let target = mf_path mf; content = utf8 (mf_render mf) in
     bindE (read_previous target) (\<lambda>previous.
     thenE (write_atomic mf target content)
    (thenE (case previous of None \<Rightarrow> ret () | Some d \<Rightarrow> backup mf target d)
    (thenE (run_validate mf target previous)
    (thenE (run_apply mf target previous)
     (ret (sha256 content)))))))"

section \<open>Facts\<close>

lemma fs_only_OSError:
  "write_file p d w = (Inl e, w') \<Longrightarrow> \<exists>k q. e = OSError k q"
  "mkdir_p p w = (Inl e, w') \<Longrightarrow> \<exists>k q. e = OSError k q"
  "read_bytes p w = (Inl e, w') \<Longrightarrow> \<exists>k q. e = OSError k q"
  "chmod p m w = (Inl e, w') \<Longrightarrow> \<exists>k q. e = OSError k q"
  "chown p w = (Inl e, w') \<Longrightarrow> \<exists>k q. e = OSError k q"
  "rename_file p q w = (Inl e, w') \<Longrightarrow> \<exists>k q. e = OSError k q"
  "unlink b p w = (Inl e, w') \<Longrightarrow> \<exists>k q. e = OSError k q"
  "run_cmd a i w = (Inl e, w') \<Longrightarrow> \<exists>k q. e = OSError k q"
  by (auto simp: fs_defs run_cmd_def split: option.splits fnode.splits if_splits sum.splits)

lemma thenE_eq_Inr: "thenE m n s = (Inr y, t) \<longleftrightarrow> (\<exists>x s'. m s = (Inr x, s') \<and> n s' = (Inr y, t))"
  by (simp add: thenE_def bindE_eq_Inr)

lemma thenE_eq_Inl:
  "thenE m n s = (Inl e, t) \<longleftrightarrow> m s = (Inl e, t) \<or> (\<exists>x s'. m s = (Inr x, s') \<and> n s' = (Inl e, t))"
  by (simp add: thenE_def bindE_eq_Inl)

lemmas prog_eqs = thenE_eq_Inr thenE_eq_Inl bindE_eq_Inr bindE_eq_Inl

lemma whenE_eq_Inl: "whenE b m s = (Inl e, t) \<Longrightarrow> m s = (Inl e, t)"
  by (auto split: if_splits)

lemma write_atomic_only_OSError:
  "write_atomic mf target c w = (Inl e, w') \<Longrightarrow> \<exists>k q. e = OSError k q"
  by (auto simp: write_atomic_def prog_eqs simp del: whenE_apply dest!: whenE_eq_Inl dest: fs_only_OSError)

lemma restore_only_OSError: "restore mf target p w = (Inl e, w') \<Longrightarrow> \<exists>k q. e = OSError k q"
  by (auto simp: restore_def split: option.splits dest: write_atomic_only_OSError fs_only_OSError)

lemma forE_only_OSError:
  "(\<And>x w e w'. f x w = (Inl e, w') \<Longrightarrow> \<exists>k q. e = OSError k q) \<Longrightarrow>
     forE f xs w = (Inl e, w') \<Longrightarrow> \<exists>k q. e = OSError k q"
  by (induction xs arbitrary: w) (auto simp: prog_eqs)

lemma backup_only_OSError: "backup mf target d w = (Inl e, w') \<Longrightarrow> \<exists>k q. e = OSError k q"
  by (auto simp: backup_def prog_eqs dest: fs_only_OSError forE_only_OSError [rotated])

text \<open>A finished atomic write leaves exactly the content and the mode at the target.\<close>

lemma write_file_Inr:
  "write_file p d w = (Inr x, w') \<Longrightarrow> \<exists>m. node_at w' p = Some (File d m)"
  by (auto simp: fs_defs split: option.splits fnode.splits if_splits)

lemma chmod_Inr:
  "chmod p m w = (Inr x, w') \<Longrightarrow> node_at w p = Some (File d k) \<Longrightarrow> node_at w' p = Some (File d m)"
  by (auto simp: fs_defs split: option.splits)

lemma chown_Inr: "chown p w = (Inr x, w') \<Longrightarrow> node_at w' = node_at w"
  by (auto simp: fs_defs split: option.splits if_splits)

lemma rename_file_Inr:
  "rename_file p q w = (Inr x, w') \<Longrightarrow> node_at w' q = node_at w p"
  by (auto simp: fs_defs split: option.splits if_splits)

lemma run_cmd_node_at: "run_cmd a i w = (r, w') \<Longrightarrow> node_at w' = node_at w"
  by (auto simp: run_cmd_def)

lemma write_atomic_Inr:
  assumes "write_atomic mf target c w = (Inr x, w')"
  shows "node_at w' target = Some (File c (mf_mode mf))"
proof -
  from assms obtain w1 w2 w3 w4 w5 where
    1: "write_file (tmp_path target) c w1 = (Inr (), w2)" and
    2: "chmod (tmp_path target) (mf_mode mf) w2 = (Inr (), w3)" and
    3: "whenE (mf_owner mf \<noteq> None \<or> mf_group mf \<noteq> None) (chown (tmp_path target)) w3 = (Inr (), w4)" and
    4: "rename_file (tmp_path target) target w4 = (Inr (), w5)" and
    5: "node_at w' = node_at w5"
    by (auto simp: write_atomic_def prog_eqs simp del: whenE_apply dest!: run_cmd_node_at)
  from write_file_Inr [OF 1] obtain m where "node_at w2 (tmp_path target) = Some (File c m)" by blast
  with 2 have "node_at w3 (tmp_path target) = Some (File c (mf_mode mf))" by (rule chmod_Inr)
  moreover from 3 have "node_at w4 = node_at w3" by (auto split: if_splits dest: chown_Inr)
  ultimately show ?thesis using rename_file_Inr [OF 4] 5 by simp
qed

text \<open>The data at a path, \<open>None\<close> where there is no file.\<close>

definition content_at :: "world \<Rightarrow> string \<Rightarrow> bytes option" where
  "content_at w p = (case node_at w p of Some (File d _) \<Rightarrow> Some d | _ \<Rightarrow> None)"

lemma restore_Inr: "restore mf target p w = (Inr x, w') \<Longrightarrow> content_at w' target = p"
  by (auto simp: restore_def content_at_def fs_defs split: option.splits fnode.splits if_splits
      dest: write_atomic_Inr)

text \<open>\<open>validate\<close> and \<open>apply\<close> run commands and unit calls: the interface a config service offers.\<close>

definition same_files :: "world \<Rightarrow> world \<Rightarrow> bool" where
  "same_files s t \<longleftrightarrow> w_fs t = w_fs s"

lemma same_files_refl: "reflp same_files" by (simp add: reflp_def same_files_def)
lemma same_files_trans: "transp same_files" by (simp add: transp_def same_files_def)

lemma run_cmd_same_files: "keeps same_files (run_cmd a i)"
  by (rule keepsI) (simp add: run_cmd_def same_files_def)

lemma unit_same_files: "keeps same_files (unit_call op u)" "keeps same_files (unit_do op u)"
proof -
  show "keeps same_files (unit_call op u)" by (rule keepsI) (simp add: unit_call_def same_files_def)
  then show "keeps same_files (unit_do op u)"
    unfolding unit_do_def by (intro keeps_bindE same_files_trans keeps_ret same_files_refl)
qed

lemma same_files_content: "same_files s t \<Longrightarrow> content_at t p = content_at s p"
  by (simp add: same_files_def content_at_def node_at_def)

lemma tryE_eq_Inl:
  "tryE m h s = (Inl e, t) \<longleftrightarrow> (\<exists>e0 s'. m s = (Inl e0, s') \<and> h e0 s' = (Inl e, t))"
  by (auto simp: tryE_def split: prod.splits sum.splits)

text \<open>The content a file had before, as \<open>write_and_apply\<close> reads it.\<close>

lemma read_previous_Inr: "read_previous p w = (Inr prev, w') \<Longrightarrow> prev = content_at w p"
  by (auto simp: read_previous_def prog_eqs content_at_def fs_exists_def fs_defs
      split: if_splits option.splits fnode.splits)

lemma read_previous_only_OSError:
  "read_previous p w = (Inl e, w') \<Longrightarrow> \<exists>k q. e = OSError k q"
  by (auto simp: read_previous_def prog_eqs split: if_splits dest: fs_only_OSError)

text \<open>An error that is not the operating system's comes out of the two guarded calls.\<close>

lemma write_and_apply_Inl:
  assumes "write_and_apply sha mf w = (Inl e, w')" and "\<And>k q. e \<noteq> OSError k q"
  obtains w1 where "run_validate mf (mf_path mf) (content_at w (mf_path mf)) w1 = (Inl e, w')"
  | w1 where "run_apply mf (mf_path mf) (content_at w (mf_path mf)) w1 = (Inl e, w')"
proof -
  let ?p = "mf_path mf"
  from assms obtain prev w1 where 1: "read_previous ?p w = (Inr prev, w1)" and
    2: "thenE (write_atomic mf ?p (utf8 (mf_render mf)))
    (thenE (case prev of None \<Rightarrow> ret () | Some d \<Rightarrow> backup mf ?p d)
    (thenE (run_validate mf ?p prev) (thenE (run_apply mf ?p prev)
     (ret (sha (utf8 (mf_render mf))))))) w1 = (Inl e, w')"
    unfolding write_and_apply_def Let_def bindE_eq_Inl using read_previous_only_OSError by blast
  have nb: "(case prev of None \<Rightarrow> ret () | Some d \<Rightarrow> backup mf ?p d) u \<noteq> (Inl e, v)" for u v
    using assms(2) by (cases prev) (simp, metis backup_only_OSError option.simps(5))
  have nw: "write_atomic mf ?p c u \<noteq> (Inl e, v)" for c u v
    using assms(2) write_atomic_only_OSError by blast
  from 2 have "(\<exists>u. run_validate mf ?p prev u = (Inl e, w')) \<or> (\<exists>u. run_apply mf ?p prev u = (Inl e, w'))"
    using nb nw by (auto simp: thenE_eq_Inl)
  with read_previous_Inr [OF 1] that show ?thesis by blast
qed

text \<open>A successful call leaves the rendered content, when validating and applying leave files alone.\<close>

lemma run_validate_raises:
  assumes "run_validate mf p prev w = (Inl e, w')"
  obtains v where "mf_validate mf = Some v" "\<exists>u. v p w = (Inl e, u)"
    "\<forall>d. e \<noteq> ConfigValidationError d"
  | v d where "e = ConfigValidationError d" "content_at w' p = prev"
  | k q where "e = OSError k q"
proof -
  from assms obtain v where v1: "mf_validate mf = Some v"
    by (cases "mf_validate mf") (auto simp: run_validate_def)
  with assms obtain e0 u where v2: "v p w = (Inl e0, u)" and
    h: "on_invalid mf p prev e0 u = (Inl e, w')"
    by (auto simp: run_validate_def tryE_eq_Inl)
  note v = v1 v2
  show ?thesis
  proof (cases "\<exists>d. e0 = ConfigValidationError d")
    case True
    with h have "restore mf p prev u = (Inl e, w') \<or>
        (e = e0 \<and> (\<exists>x. restore mf p prev u = (Inr x, w')))" by (auto simp: on_invalid_def case_ConfigValidationError thenE_eq_Inl)
    with True that(2,3) show ?thesis using restore_only_OSError restore_Inr by metis
  next
    case False
    with h have "e = e0" by (auto simp: on_invalid_def case_ConfigValidationError)
    with False v that(1) show ?thesis by blast
  qed
qed

lemma run_apply_raises:
  assumes "run_apply mf p prev w = (Inl e, w')"
  obtains a where "mf_apply mf = Some a" "\<exists>u v. a u = (Inl e, v)" "\<forall>d. e \<noteq> ConfigApplyError d"
  | a d u where "mf_apply mf = Some a" "e = ConfigApplyError d" "content_at u p = prev" "snd (a u) = w'"
  | k q where "e = OSError k q"
proof -
  from assms obtain a where a1: "mf_apply mf = Some a"
    by (cases "mf_apply mf") (auto simp: run_apply_def)
  with assms obtain e0 u where a2: "a w = (Inl e0, u)" and
    h: "on_apply_failed mf p prev a e0 u = (Inl e, w')"
    by (auto simp: run_apply_def tryE_eq_Inl)
  note a = a1 a2
  show ?thesis
  proof (cases "\<exists>d. e0 = ConfigApplyError d")
    case True
    with h have "restore mf p prev u = (Inl e, w') \<or> (\<exists>x v. restore mf p prev u = (Inr x, v)
        \<and> thenE (best_effort a) (raise e0) v = (Inl e, w'))" by (auto simp: on_apply_failed_def case_ConfigApplyError thenE_eq_Inl)
    then show ?thesis
    proof (elim disjE exE conjE)
      fix x v
      assume r: "restore mf p prev u = (Inr x, v)" and b: "thenE (best_effort a) (raise e0) v = (Inl e, w')"
      from b have "best_effort a v = (Inl e, w') \<or> (e = e0 \<and> (\<exists>y. best_effort a v = (Inr y, w')))"
        by (auto simp: thenE_eq_Inl)
      then have "(a v = (Inl e, w') \<and> (\<forall>d. e \<noteq> ConfigApplyError d)) \<or> (e = e0 \<and> snd (a v) = w')"
        by (auto simp: best_effort_def tryE_eq_Inl tryE_eq_Inr case_ConfigApplyError split: if_splits)
      then show ?thesis
      proof
        assume "a v = (Inl e, w') \<and> (\<forall>d. e \<noteq> ConfigApplyError d)"
        then show ?thesis using that(1) [OF a1] by blast
      next
        assume "e = e0 \<and> snd (a v) = w'"
        with True obtain d where "e = ConfigApplyError d" "snd (a v) = w'" by auto
        then show ?thesis using that(2) [OF a1 _ restore_Inr [OF r]] by blast
      qed
    qed (use that(3) restore_only_OSError in blast)
  next
    case False
    with h have "e = e0" by (auto simp: on_apply_failed_def case_ConfigApplyError)
    with False a that(1) show ?thesis by blast
  qed
qed

section \<open>Backups\<close>

lemma unlink_Inr: "unlink True p w = (Inr x, w') \<Longrightarrow> w_fs w' = dpop p (w_fs w)"
  by (auto simp: fs_defs fs_set_def node_at_def delete_notin_dom map_of_eq_None_iff
      split: option.splits fnode.splits)

lemma forE_unlink_Inr:
  "forE (unlink True) ps w = (Inr x, w') \<Longrightarrow> w_fs w' = fold dpop ps (w_fs w)"
  by (induction ps arbitrary: w) (auto simp: thenE_eq_Inr dest: unlink_Inr)

lemma keys_dpop: "map fst (dpop p f) = filter (\<lambda>k. k \<noteq> p) (map fst f)"
  by (induction f) auto

lemma keys_fold_dpop: "map fst (fold dpop ps f) = filter (\<lambda>k. k \<notin> set ps) (map fst f)"
proof (induction ps arbitrary: f)
  case (Cons p ps)
  then show ?case by (auto simp: keys_dpop intro!: filter_cong)
qed simp

lemma existing_backups_distinct: "distinct (existing_backups mf target f)"
  by (simp add: existing_backups_def)

lemma existing_after:
  "existing_backups mf target (fold dpop ps f) =
     filter (\<lambda>k. k \<notin> set ps) (existing_backups mf target f)"
  unfolding existing_backups_def keys_fold_dpop remdups_filter
  by (simp add: filter_sort filter_filter conj_commute)

text \<open>Pruning leaves at most \<open>max_backups\<close> backups, the newest by name.\<close>

lemma pruned:
  "existing_backups mf target (fold dpop (stale_backups mf target f) f) =
     drop (length (existing_backups mf target f) - max_backups) (existing_backups mf target f)"
proof -
  let ?xs = "existing_backups mf target f"
  let ?k = "length ?xs - max_backups"
  have "filter (\<lambda>k. k \<notin> set (take ?k ?xs)) (take ?k ?xs @ drop ?k ?xs) = drop ?k ?xs"
    using existing_backups_distinct [of mf target f] set_take_disj_set_drop_if_distinct [of ?xs ?k ?k]
    by (subst filter_append) (auto simp: filter_empty_conv filter_id_conv)
  then show ?thesis by (simp add: existing_after stale_backups_def Let_def)
qed

lemma backup_bound:
  assumes "backup mf target d w = (Inr x, w')"
  shows "length (existing_backups mf target (w_fs w')) \<le> max_backups"
proof -
  from assms obtain w1 where "forE (unlink True) (stale_backups mf target (w_fs w1)) w1 = (Inr x, w')"
    by (auto simp: backup_def prog_eqs)
  then show ?thesis by (simp add: forE_unlink_Inr pruned)
qed

text \<open>No backup file is the target itself.\<close>

lemma path_tail_backup:
  assumes "CHR ''/'' \<notin> set rest"
  shows "path_tail (backup_prefix mf target @ rest) = basename target @ ''.'' @ rest"
proof -
  have "CHR ''/'' \<notin> set (basename target @ ''.'' @ rest)"
    using assms path_tail_no_slash [of target] by (simp add: basename_def)
  from path_split(2) [OF this] show ?thesis by (simp add: backup_prefix_def)
qed

lemma backup_not_target: "CHR ''/'' \<notin> set rest \<Longrightarrow> backup_prefix mf target @ rest \<noteq> target"
proof
  assume "CHR ''/'' \<notin> set rest" and e: "backup_prefix mf target @ rest = target"
  then have "path_tail target = path_tail target @ ''.'' @ rest"
    using path_tail_backup by (metis basename_def)
  then show False by simp
qed

lemma is_backup_not_target: "\<not> is_backup mf target target"
proof
  assume "is_backup mf target target"
  then have b: "target = backup_prefix mf target @ drop (length (backup_prefix mf target)) target"
    "CHR ''/'' \<notin> set (drop (length (backup_prefix mf target)) target)"
    unfolding is_backup_def startswith_def by (metis append_take_drop_id)+
  from backup_not_target [OF b(2)] b(1) show False by metis
qed

lemma stale_not_target: "target \<notin> set (stale_backups mf target f)"
  using is_backup_not_target
  by (auto simp: stale_backups_def Let_def existing_backups_def dest!: in_set_takeD)

text \<open>The strftime stamps have no slash.\<close>

definition clock_ok :: "world \<Rightarrow> bool" where
  "clock_ok w \<longleftrightarrow> (\<forall>l. CHR ''/'' \<notin> set (w_clock w l))"

definition same_clock :: "world \<Rightarrow> world \<Rightarrow> bool" where
  "same_clock s t \<longleftrightarrow> w_clock t = w_clock s"

lemma same_clock_refl: "reflp same_clock" by (simp add: reflp_def same_clock_def)
lemma same_clock_trans: "transp same_clock" by (simp add: transp_def same_clock_def)

lemma fs_same_clock:
  "keeps same_clock (read_bytes p)" "keeps same_clock (mkdir_p p)"
  "keeps same_clock (write_file p d)" "keeps same_clock (chmod p m)" "keeps same_clock (chown p)"
  "keeps same_clock (rename_file p q)" "keeps same_clock (run_cmd a i)"
  by (rule keepsI, simp add: fs_defs run_cmd_def same_clock_def log_event_def fs_set_def
      split: option.split fnode.split)+

lemma read_write_same_clock:
  "keeps same_clock (read_previous p)" "keeps same_clock (write_atomic mf p c)"
proof -
  show "keeps same_clock (read_previous p)" unfolding read_previous_def
    by (intro keeps_bindE keeps_getsE same_clock_refl same_clock_trans)
       (auto intro!: keeps_bindE keeps_ret same_clock_refl same_clock_trans fs_same_clock)
  show "keeps same_clock (write_atomic mf p c)" unfolding write_atomic_def
    by (intro keeps_thenE keeps_bindE keeps_whenE keeps_ret same_clock_refl same_clock_trans fs_same_clock)
qed

lemma make_dirs_get:
  "dget (make_dirs ds f) p = (if dget f p = None \<and> p \<in> set ds then Some Dir else dget f p)"
  by (induction ds arbitrary: f) (auto simp: make_dirs_def dget_dset)

lemma mkdir_p_keeps: "mkdir_p p w = (Inr x, w') \<Longrightarrow> node_at w q = Some n \<Longrightarrow> node_at w' q = Some n"
  by (auto simp: fs_defs node_at_def make_dirs_get split: option.splits if_splits)

lemma write_file_keeps: "write_file p d w = (r, w') \<Longrightarrow> p \<noteq> q \<Longrightarrow> node_at w' q = node_at w q"
  by (auto simp: fs_defs split: option.splits if_splits fnode.splits)

lemma fold_dpop_get: "q \<notin> set ps \<Longrightarrow> dget (fold dpop ps f) q = dget f q"
  by (induction ps arbitrary: f) (auto simp: dget_dpop)

lemma backup_keeps_target:
  assumes "backup mf target d w = (Inr x, w')" and t: "node_at w target = Some n"
    and "\<And>l. CHR ''/'' \<notin> set (w_clock w l)"
  shows "node_at w' target = Some n"
proof -
  have clk: "mkdir_p p w = (Inr u, v) \<Longrightarrow> w_clock v = w_clock w" for p u v
    by (auto simp: fs_defs log_event_def split: option.splits if_splits)
  from assms(1) obtain w1 w2 where 1: "mkdir_p (mf_backup_dir mf) w = (Inr (), w1)" and
    2: "write_file (backup_prefix mf target @ w_clock w1 (w_log w1)) d w1 = (Inr (), w2)" and
    3: "forE (unlink True) (stale_backups mf target (w_fs w2)) w2 = (Inr x, w')"
    by (auto simp: backup_def prog_eqs)
  from mkdir_p_keeps [OF 1 t] have "node_at w1 target = Some n" .
  moreover have "backup_prefix mf target @ w_clock w1 (w_log w1) \<noteq> target"
    using assms(3) clk [OF 1] by (simp add: backup_not_target)
  ultimately have "node_at w2 target = Some n" using write_file_keeps [OF 2] by simp
  then show ?thesis
    using forE_unlink_Inr [OF 3] fold_dpop_get [OF stale_not_target, of mf target "w_fs w2" "w_fs w2"]
    by (simp add: node_at_def)
qed

section \<open>Config services\<close>

locale config_service =
  fixes validate :: "string \<Rightarrow> (world, unit) prog"
    and apply_it :: "(world, unit) prog"
  assumes validate_frame: "keeps same_files (validate target)"
    and validate_errors: "validate target w = (Inl e, w') \<Longrightarrow>
      (\<exists>d. e = ConfigValidationError d) \<or> (\<exists>k q. e = OSError k q)"
    and apply_frame: "keeps same_files apply_it"
    and apply_errors: "apply_it w = (Inl e, w') \<Longrightarrow> \<forall>d. e \<noteq> ConfigValidationError d"
begin

definition managed :: "managed_file \<Rightarrow> bool" where
  "managed mf \<longleftrightarrow> mf_validate mf = Some validate \<and> mf_apply mf = Some apply_it"

text \<open>
  Whatever else fails on the way, a reported validation or apply error means the old content is
  back; for a failed apply this includes the best-effort second apply on the old content.
\<close>

lemma rollback:
  assumes mf: "managed mf"
    and run: "write_and_apply sha mf w = (Inl e, w')"
    and e: "e = ConfigValidationError d \<or> e = ConfigApplyError d"
  shows "content_at w' (mf_path mf) = content_at w (mf_path mf)"
proof -
  have no: "\<And>k q. e \<noteq> OSError k q" using e by auto
  have frame: "content_at (snd (apply_it u)) p = content_at u p" for u p
    using apply_frame by (simp add: keeps_def same_files_content)
  from run no show ?thesis
  proof (rule write_and_apply_Inl)
    fix w1
    assume "run_validate mf (mf_path mf) (content_at w (mf_path mf)) w1 = (Inl e, w')"
    then show ?thesis
      by (rule run_validate_raises) (use mf e no validate_errors in \<open>auto simp: managed_def\<close>)
  next
    fix w1
    assume "run_apply mf (mf_path mf) (content_at w (mf_path mf)) w1 = (Inl e, w')"
    then show ?thesis
      by (rule run_apply_raises) (use mf e no apply_errors frame in \<open>auto simp: managed_def\<close>)
  qed
qed

text \<open>Every error is an OS error, a reported configuration error, or what the apply function raised.\<close>

lemma errors:
  assumes "managed mf" and "write_and_apply sha mf w = (Inl e, w')"
  shows "(\<exists>k q. e = OSError k q) \<or> (\<exists>d. e = ConfigValidationError d) \<or> (\<exists>d. e = ConfigApplyError d)
    \<or> (\<exists>u v. apply_it u = (Inl e, v))"
proof (cases "\<exists>k q. e = OSError k q")
  case False
  then have no: "\<And>k q. e \<noteq> OSError k q" by blast
  from assms(2) no show ?thesis
  proof (rule write_and_apply_Inl)
    fix w1
    assume "run_validate mf (mf_path mf) (content_at w (mf_path mf)) w1 = (Inl e, w')"
    then show ?thesis
      by (rule run_validate_raises) (use assms(1) in \<open>auto simp: managed_def dest: validate_errors\<close>)
  next
    fix w1
    assume "run_apply mf (mf_path mf) (content_at w (mf_path mf)) w1 = (Inl e, w')"
    then show ?thesis
      by (rule run_apply_raises) (use assms(1) in \<open>auto simp: managed_def\<close>)
  qed
qed simp

text \<open>A successful call leaves the rendered content in place.\<close>

lemma success:
  assumes mf: "managed mf" and clk: "clock_ok w"
    and run: "write_and_apply sha mf w = (Inr h, w')"
  shows "content_at w' (mf_path mf) = Some (utf8 (mf_render mf)) \<and> h = sha (utf8 (mf_render mf))"
proof -
  let ?p = "mf_path mf" and ?c = "utf8 (mf_render mf)"
  from run obtain prev w1 w2 w3 w4 where
    1: "read_previous ?p w = (Inr prev, w1)" and
    2: "write_atomic mf ?p ?c w1 = (Inr (), w2)" and
    3: "(case prev of None \<Rightarrow> ret () | Some d \<Rightarrow> backup mf ?p d) w2 = (Inr (), w3)" and
    4: "run_validate mf ?p prev w3 = (Inr (), w4)" and
    5: "run_apply mf ?p prev w4 = (Inr (), w')" and h: "h = sha ?c"
    by (auto simp: write_and_apply_def Let_def prog_eqs)
  have "w_clock w1 = w_clock w" "w_clock w2 = w_clock w1"
    using keepsD [OF read_write_same_clock(1) 1] keepsD [OF read_write_same_clock(2) 2]
    by (simp_all add: same_clock_def)
  then have clk2: "CHR ''/'' \<notin> set (w_clock w2 l)" for l using clk by (simp add: clock_ok_def)
  have "node_at w2 ?p = Some (File ?c (mf_mode mf))" by (rule write_atomic_Inr [OF 2])
  then have n3: "node_at w3 ?p = Some (File ?c (mf_mode mf))"
    using 3 backup_keeps_target [OF _ _ clk2] by (cases prev) auto
  have "content_at w4 ?p = content_at w3 ?p"
  proof -
    from 4 mf have "validate ?p w3 = (Inr (), w4)"
      by (auto simp: run_validate_def managed_def tryE_eq_Inr on_invalid_def
          case_ConfigValidationError thenE_eq_Inr split: if_splits)
    then show ?thesis using validate_frame keepsD same_files_content by metis
  qed
  moreover have "content_at w' ?p = content_at w4 ?p"
  proof -
    from 5 mf have "apply_it w4 = (Inr (), w')"
      by (auto simp: run_apply_def managed_def tryE_eq_Inr on_apply_failed_def
          case_ConfigApplyError thenE_eq_Inr split: if_splits)
    then show ?thesis using apply_frame keepsD same_files_content by metis
  qed
  ultimately show ?thesis using n3 h by (simp add: content_at_def)
qed

end

end
