(* ===== verification/Jobs.thy ===== *)
theory Jobs
  imports Prelude
begin

text \<open>
  \<open>agent/jobs.py\<close>: the bounded-concurrency job runner. The tasks of the event loop interleave at
  their awaits, so the runner is a step relation: a task waits for a slot of the semaphore, then for
  its resource lock, runs its body (which only reports progress and reads the cancel flag), and
  finishes. The semaphore is its counter and a lock its locked flag; which waiter asyncio wakes first
  is left open.
\<close>

section \<open>State\<close>

definition max_concurrency :: nat where "max_concurrency = 4"
definition progress_throttle :: rat where "progress_throttle = 1 / 2"

datatype job_status = Queued | Running | Done | Failed | Cancelled

record job_record =
  jb_id :: string
  jb_kind :: string
  jb_resource :: "string option"
  jb_status :: job_status
  jb_progress :: rat
  jb_message :: string
  jb_created_by :: "string option"

record job_handle =
  jh_last_publish :: rat
  jh_cancel_requested :: bool

text \<open>Where a task of \<open>_run\<close> is: before the semaphore, before the lock, in the body.\<close>

datatype phase = Wait_slot | Wait_lock | In_body

text \<open>\<open>jr_events\<close> is what \<open>_publish\<close> sent, \<open>jr_log\<close> the lines of \<open>jobs.jsonl\<close>.\<close>

record job_runner =
  jr_jobs :: "(string, job_record) dict"
  jr_handles :: "(string, job_handle) dict"
  jr_tasks :: "(string, phase) dict"
  jr_permits :: nat
  jr_locks :: "string \<Rightarrow> bool"
  jr_listening :: bool
  jr_events :: "job_record list"
  jr_log :: "job_record list"

definition job_runner_init :: "bool \<Rightarrow> job_runner" where
  "job_runner_init listening = \<lparr>jr_jobs = [], jr_handles = [], jr_tasks = [],
     jr_permits = max_concurrency, jr_locks = (\<lambda>_. False), jr_listening = listening,
     jr_events = [], jr_log = []\<rparr>"

text \<open>\<open>JobRunner.list\<close>: the records in submission order, without \<open>created_by\<close>.\<close>

definition to_event :: "job_record \<Rightarrow> string \<times> string \<times> string option \<times> job_status \<times> rat \<times> string" where
  "to_event r = (jb_id r, jb_kind r, jb_resource r, jb_status r, jb_progress r, jb_message r)"

definition list_jobs :: "job_runner \<Rightarrow> (string \<times> string \<times> string option \<times> job_status \<times> rat \<times> string) list" where
  "list_jobs s = map (\<lambda>(_, r). to_event r) (jr_jobs s)"

section \<open>Operations\<close>

definition publish :: "job_record \<Rightarrow> job_runner \<Rightarrow> job_runner" where
  "publish r s = (if jr_listening s then s\<lparr>jr_events := jr_events s @ [r]\<rparr> else s)"

definition submit :: "string \<Rightarrow> string \<Rightarrow> string option \<Rightarrow> string option \<Rightarrow> job_runner \<Rightarrow> job_runner" where
  "submit jid kind resource created_by s = s\<lparr>
     jr_jobs := dset jid \<lparr>jb_id = jid, jb_kind = kind, jb_resource = resource, jb_status = Queued,
       jb_progress = 0, jb_message = [], jb_created_by = created_by\<rparr> (jr_jobs s),
     jr_handles := dset jid \<lparr>jh_last_publish = 0, jh_cancel_requested = False\<rparr> (jr_handles s),
     jr_tasks := dset jid Wait_slot (jr_tasks s)\<rparr>"

definition request_cancel :: "string \<Rightarrow> job_runner \<Rightarrow> bool \<times> job_runner" where
  "request_cancel jid s = (case dget (jr_handles s) jid of
       None \<Rightarrow> (False, s)
     | Some h \<Rightarrow> (True, s\<lparr>jr_handles := dset jid (h\<lparr>jh_cancel_requested := True\<rparr>) (jr_handles s)\<rparr>))"

text \<open>\<open>JobHandle.progress\<close> at monotonic time \<open>now\<close>.\<close>

definition clamp01 :: "rat \<Rightarrow> rat" where
  "clamp01 x = max 0 (min 1 x)"

definition report_progress :: "string \<Rightarrow> rat \<Rightarrow> string \<Rightarrow> rat \<Rightarrow> job_runner \<Rightarrow> job_runner" where
  "report_progress jid fraction message now s =
     (case (dget (jr_jobs s) jid, dget (jr_handles s) jid) of
        (Some r, Some h) \<Rightarrow>
          (let r' = r\<lparr>jb_progress := clamp01 fraction,
                      jb_message := (if message \<noteq> [] then message else jb_message r)\<rparr>;
               s' = s\<lparr>jr_jobs := dset jid r' (jr_jobs s)\<rparr>
           in if progress_throttle \<le> now - jh_last_publish h
              then publish r' (s'\<lparr>jr_handles := dset jid (h\<lparr>jh_last_publish := now\<rparr>) (jr_handles s')\<rparr>)
              else s')
      | _ \<Rightarrow> s)"

text \<open>\<open>if record.resource\<close>: an empty resource needs no lock, like a missing one.\<close>

definition lock_of :: "job_record \<Rightarrow> string option" where
  "lock_of r = (case jb_resource r of None \<Rightarrow> None | Some x \<Rightarrow> if x = [] then None else Some x)"

definition enter_slot :: "string \<Rightarrow> job_runner \<Rightarrow> job_runner" where
  "enter_slot jid s = s\<lparr>jr_permits := jr_permits s - 1, jr_tasks := dset jid Wait_lock (jr_tasks s)\<rparr>"

definition start_body :: "string \<Rightarrow> job_record \<Rightarrow> job_runner \<Rightarrow> job_runner" where
  "start_body jid r s =
     (let r' = r\<lparr>jb_status := Running\<rparr>
      in publish r' (s\<lparr>jr_jobs := dset jid r' (jr_jobs s), jr_tasks := dset jid In_body (jr_tasks s),
           jr_locks := (case lock_of r of None \<Rightarrow> jr_locks s | Some x \<Rightarrow> (jr_locks s)(x := True))\<rparr>))"

text \<open>
  How a body ends: it returns, it raises an \<open>Exception\<close>, or its task is cancelled by asyncio, whose
  \<open>CancelledError\<close> no \<open>except Exception\<close> catches.
\<close>

datatype outcome = Returned | Raised string | Task_cancelled

definition end_record :: "outcome \<Rightarrow> bool \<Rightarrow> job_record \<Rightarrow> job_record" where
  "end_record outc cancel_requested r = (case outc of
       Returned \<Rightarrow> if cancel_requested then r\<lparr>jb_status := Cancelled\<rparr>
                   else r\<lparr>jb_status := Done, jb_progress := 1\<rparr>
     | Raised m \<Rightarrow> r\<lparr>jb_status := Failed, jb_message := m\<rparr>
     | Task_cancelled \<Rightarrow> r)"

definition terminal :: "job_status \<Rightarrow> bool" where
  "terminal st \<longleftrightarrow> st \<in> {Done, Failed, Cancelled}"

text \<open>
  The \<open>finally\<close> block and leaving the semaphore. When appending to \<open>jobs.jsonl\<close> fails
  (\<open>log_ok = False\<close>) the handle is not removed.
\<close>

definition finish :: "string \<Rightarrow> outcome \<Rightarrow> bool \<Rightarrow> job_record \<Rightarrow> job_handle \<Rightarrow> job_runner \<Rightarrow> job_runner" where
  "finish jid outc log_ok r h s =
     (let r' = end_record outc (jh_cancel_requested h) r;
          s1 = s\<lparr>jr_jobs := dset jid r' (jr_jobs s),
                 jr_locks := (case lock_of r of None \<Rightarrow> jr_locks s | Some x \<Rightarrow> (jr_locks s)(x := False)),
                 jr_tasks := dpop jid (jr_tasks s), jr_permits := Suc (jr_permits s)\<rparr>;
          s2 = publish r' s1
      in if \<not> terminal (jb_status r') then s2\<lparr>jr_handles := dpop jid (jr_handles s2)\<rparr>
         else if log_ok
           then s2\<lparr>jr_log := jr_log s2 @ [r'], jr_handles := dpop jid (jr_handles s2)\<rparr>
         else s2)"

section \<open>Steps\<close>

inductive job_step :: "job_runner \<Rightarrow> job_runner \<Rightarrow> bool" where
  submit: "dget (jr_jobs s) jid = None \<Longrightarrow> job_step s (submit jid kind res who s)"
| cancel: "job_step s (snd (request_cancel jid s))"
| enter: "dget (jr_tasks s) jid = Some Wait_slot \<Longrightarrow> 0 < jr_permits s \<Longrightarrow>
    job_step s (enter_slot jid s)"
| start: "dget (jr_tasks s) jid = Some Wait_lock \<Longrightarrow> dget (jr_jobs s) jid = Some r \<Longrightarrow>
    (case lock_of r of None \<Rightarrow> True | Some x \<Rightarrow> \<not> jr_locks s x) \<Longrightarrow>
    job_step s (start_body jid r s)"
| progress: "dget (jr_tasks s) jid = Some In_body \<Longrightarrow>
    job_step s (report_progress jid fraction message now s)"
| finish: "dget (jr_tasks s) jid = Some In_body \<Longrightarrow> dget (jr_jobs s) jid = Some r \<Longrightarrow>
    dget (jr_handles s) jid = Some h \<Longrightarrow> job_step s (finish jid outc log_ok r h s)"

inductive_cases job_stepE: "job_step s t"

inductive reachable :: "job_runner \<Rightarrow> bool" where
  init: "reachable (job_runner_init l)"
| step: "reachable s \<Longrightarrow> job_step s t \<Longrightarrow> reachable t"

section \<open>Invariants\<close>

definition holds_slot :: "phase \<Rightarrow> bool" where
  "holds_slot p \<longleftrightarrow> p \<noteq> Wait_slot"

definition status_matches :: "phase \<Rightarrow> job_status \<Rightarrow> bool" where
  "status_matches p st \<longleftrightarrow> (if p = In_body then st = Running else st = Queued)"

definition task_lock :: "job_runner \<Rightarrow> string \<Rightarrow> string option" where
  "task_lock s jid = (case dget (jr_jobs s) jid of None \<Rightarrow> None | Some r \<Rightarrow> lock_of r)"

definition keys_inv :: "job_runner \<Rightarrow> bool" where
  "keys_inv s \<longleftrightarrow> distinct (map fst (jr_tasks s)) \<and>
     (\<forall>jid p. dget (jr_tasks s) jid = Some p \<longrightarrow>
        (\<exists>r. dget (jr_jobs s) jid = Some r \<and> status_matches p (jb_status r)) \<and>
        dget (jr_handles s) jid \<noteq> None)"

definition permits_inv :: "job_runner \<Rightarrow> bool" where
  "permits_inv s \<longleftrightarrow> jr_permits s + dcount holds_slot (jr_tasks s) = max_concurrency"

text \<open>A lock is held exactly when one task is in its body under it, and then by that task alone.\<close>

definition holds_lock :: "job_runner \<Rightarrow> string \<Rightarrow> string \<Rightarrow> bool" where
  "holds_lock s j x \<longleftrightarrow> dget (jr_tasks s) j = Some In_body \<and> task_lock s j = Some x"

definition locks_inv :: "job_runner \<Rightarrow> bool" where
  "locks_inv s \<longleftrightarrow> (\<forall>x. jr_locks s x \<longleftrightarrow> (\<exists>j. holds_lock s j x)) \<and>
     (\<forall>i j x. holds_lock s i x \<longrightarrow> holds_lock s j x \<longrightarrow> i = j)"

definition record_ok :: "string \<Rightarrow> job_record \<Rightarrow> bool" where
  "record_ok jid r \<longleftrightarrow> jb_id r = jid \<and> 0 \<le> jb_progress r \<and> jb_progress r \<le> 1 \<and>
     (jb_status r = Done \<longrightarrow> jb_progress r = 1)"

definition records_inv :: "job_runner \<Rightarrow> bool" where
  "records_inv s \<longleftrightarrow>
     (\<forall>jid r. dget (jr_jobs s) jid = Some r \<longrightarrow> record_ok jid r) \<and>
     (\<forall>r \<in> set (jr_events s). record_ok (jb_id r) r) \<and>
     (\<forall>r \<in> set (jr_log s). terminal (jb_status r) \<and> dget (jr_jobs s) (jb_id r) = Some r)"

lemma publish_simps [simp]:
  "jr_jobs (publish r s) = jr_jobs s" "jr_handles (publish r s) = jr_handles s"
  "jr_tasks (publish r s) = jr_tasks s" "jr_permits (publish r s) = jr_permits s"
  "jr_locks (publish r s) = jr_locks s" "jr_log (publish r s) = jr_log s"
  by (simp_all add: publish_def)

lemma publish_events: "set (jr_events (publish r s)) \<subseteq> insert r (set (jr_events s))"
  by (auto simp: publish_def)

lemma lock_of_simps [simp]:
  "lock_of (r\<lparr>jb_status := x\<rparr>) = lock_of r" "lock_of (r\<lparr>jb_progress := y\<rparr>) = lock_of r"
  "lock_of (r\<lparr>jb_message := z\<rparr>) = lock_of r"
  by (simp_all add: lock_of_def)

lemma lock_of_end [simp]: "lock_of (end_record outc c r) = lock_of r"
  by (simp add: end_record_def split: outcome.split)

lemma clamp01_bounds [simp]: "0 \<le> clamp01 x" "clamp01 x \<le> 1"
  by (simp_all add: clamp01_def)

lemmas op_defs = submit_def request_cancel_def enter_slot_def start_body_def report_progress_def
  finish_def Let_def

text \<open>What each operation does to the job table: one record changes, keeping id and lock.\<close>

lemma finish_simps [simp]:
  "jr_jobs (finish jid outc b r h s) = dset jid (end_record outc (jh_cancel_requested h) r) (jr_jobs s)"
  "jr_tasks (finish jid outc b r h s) = dpop jid (jr_tasks s)"
  "jr_permits (finish jid outc b r h s) = Suc (jr_permits s)"
  "jr_locks (finish jid outc b r h s) =
     (case lock_of r of None \<Rightarrow> jr_locks s | Some x \<Rightarrow> (jr_locks s)(x := False))"
  by (simp_all add: finish_def Let_def)

lemma start_body_simps [simp]:
  "jr_jobs (start_body jid r s) = dset jid (r\<lparr>jb_status := Running\<rparr>) (jr_jobs s)"
  "jr_tasks (start_body jid r s) = dset jid In_body (jr_tasks s)"
  "jr_handles (start_body jid r s) = jr_handles s" "jr_permits (start_body jid r s) = jr_permits s"
  "jr_log (start_body jid r s) = jr_log s"
  "jr_locks (start_body jid r s) =
     (case lock_of r of None \<Rightarrow> jr_locks s | Some x \<Rightarrow> (jr_locks s)(x := True))"
  by (simp_all add: start_body_def Let_def)

lemma report_progress_simps [simp]:
  "jr_tasks (report_progress jid f m now s) = jr_tasks s"
  "jr_permits (report_progress jid f m now s) = jr_permits s"
  "jr_locks (report_progress jid f m now s) = jr_locks s"
  "jr_log (report_progress jid f m now s) = jr_log s"
  by (simp_all add: report_progress_def Let_def split: option.split)

lemma finish_handles: "dget (jr_handles (finish jid outc b r h s)) j = dget (jr_handles s) j
    \<or> j = jid"
  by (simp add: finish_def Let_def dget_dpop)

lemma keys_invD:
  "keys_inv s \<Longrightarrow> dget (jr_tasks s) jid = Some p \<Longrightarrow>
     \<exists>r. dget (jr_jobs s) jid = Some r \<and> status_matches p (jb_status r)"
  unfolding keys_inv_def by blast

lemma no_record_no_task: "keys_inv s \<Longrightarrow> dget (jr_jobs s) jid = None \<Longrightarrow> dget (jr_tasks s) jid = None"
  by (cases "dget (jr_tasks s) jid") (auto dest: keys_invD)

lemma job_step_keys: "job_step s t \<Longrightarrow> keys_inv s \<Longrightarrow> keys_inv t"
proof (induction rule: job_step.induct)
  case (submit s jid kind res who)
  then show ?case by (auto simp: keys_inv_def submit_def dget_dset distinct_dset status_matches_def)
next
  case (cancel s jid)
  then show ?case by (auto simp: keys_inv_def request_cancel_def dget_dset split: option.splits)
next
  case (enter s jid)
  then show ?case
    by (fastforce simp: keys_inv_def enter_slot_def dget_dset distinct_dset status_matches_def)
next
  case (start s jid r)
  then show ?case by (auto simp: keys_inv_def dget_dset distinct_dset status_matches_def)
next
  case (progress s jid fraction message now)
  then show ?case
    by (fastforce simp: keys_inv_def report_progress_def Let_def dget_dset status_matches_def
        split: option.splits)
next
  case (finish s jid r h outc log_ok)
  then have "dget (jr_handles (finish jid outc log_ok r h s)) j = dget (jr_handles s) j" if "j \<noteq> jid" for j
    using that finish_handles by metis
  with finish show ?case by (auto simp: keys_inv_def dget_dset dget_dpop distinct_dpop)
qed


lemma job_step_permits:
  assumes "job_step s t" "keys_inv s" "permits_inv s"
  shows "permits_inv t"
  using assms
proof (induction rule: job_step.induct)
  case (submit s jid kind res who)
  then have "dget (jr_tasks s) jid = None" by (simp add: no_record_no_task)
  with submit show ?case by (simp add: permits_inv_def submit_def dset_fresh holds_slot_def)
next
  case (cancel s jid)
  then show ?case by (simp add: permits_inv_def request_cancel_def split: option.splits)
next
  case (enter s jid)
  then show ?case using dcount_dset [OF enter(1), of holds_slot Wait_lock]
    by (simp add: permits_inv_def enter_slot_def holds_slot_def)
next
  case (start s jid r)
  then show ?case using dcount_dset [OF start(1), of holds_slot In_body]
    by (simp add: permits_inv_def holds_slot_def)
next
  case (progress s jid fraction message now)
  then show ?case by (simp add: permits_inv_def)
next
  case (finish s jid r h outc log_ok)
  then show ?case using dcount_dpop [OF _ finish(1), of holds_slot]
    by (simp add: permits_inv_def keys_inv_def holds_slot_def)
qed

lemma task_lock_same:
  "dget (jr_jobs s) jid = Some r \<Longrightarrow> jr_jobs t = dset jid r' (jr_jobs s) \<Longrightarrow> lock_of r' = lock_of r \<Longrightarrow>
     task_lock t = task_lock s"
  by (rule ext) (simp add: task_lock_def dget_dset)

lemma locks_same:
  "locks_inv s \<Longrightarrow> jr_locks t = jr_locks s \<Longrightarrow> (\<And>j x. holds_lock t j x = holds_lock s j x) \<Longrightarrow> locks_inv t"
  by (simp add: locks_inv_def)

lemma locks_acquire:
  assumes "locks_inv s" "case l of None \<Rightarrow> True | Some x \<Rightarrow> \<not> jr_locks s x"
    and "jr_locks t = (case l of None \<Rightarrow> jr_locks s | Some x \<Rightarrow> (jr_locks s)(x := True))"
    and "\<And>j x. holds_lock t j x \<longleftrightarrow> holds_lock s j x \<or> (j = jid \<and> l = Some x)"
  shows "locks_inv t"
  using assms by (cases l) (auto simp: locks_inv_def)

lemma locks_release:
  assumes "locks_inv s" "\<And>x. holds_lock s jid x \<longleftrightarrow> l = Some x"
    and "jr_locks t = (case l of None \<Rightarrow> jr_locks s | Some x \<Rightarrow> (jr_locks s)(x := False))"
    and "\<And>j x. holds_lock t j x \<longleftrightarrow> holds_lock s j x \<and> j \<noteq> jid"
  shows "locks_inv t"
proof (cases l)
  case None
  with assms(2) have "holds_lock s j x \<and> j \<noteq> jid \<longleftrightarrow> holds_lock s j x" for j x by auto
  with assms(3,4) None show ?thesis by (intro locks_same [OF assms(1)]) simp_all
next
  case (Some y)
  have "holds_lock s j y \<Longrightarrow> j = jid" for j using assms(1,2) Some by (simp add: locks_inv_def)
  moreover have "holds_lock s jid x \<Longrightarrow> x = y" for x using assms(2) [of x] Some by simp
  ultimately have "holds_lock t j x \<longleftrightarrow> holds_lock s j x \<and> x \<noteq> y" for j x
    using assms(2,4) Some by metis
  with assms(1,3) Some show ?thesis unfolding locks_inv_def by auto
qed

lemma job_step_locks:
  assumes "job_step s t" "keys_inv s" "locks_inv s"
  shows "locks_inv t"
  using assms
proof (induction rule: job_step.induct)
  case (submit s jid kind res who)
  then have "dget (jr_tasks s) jid = None" by (simp add: no_record_no_task)
  then show ?case
    by (intro locks_same [OF submit.prems(2)])
       (simp_all add: holds_lock_def submit_def task_lock_def dget_dset)
next
  case (cancel s jid)
  then show ?case
    by (intro locks_same [OF cancel.prems(2)])
       (simp_all add: holds_lock_def request_cancel_def task_lock_def split: option.split)
next
  case (enter s jid)
  then show ?case
    by (intro locks_same [OF enter.prems(2)])
       (simp_all add: holds_lock_def enter_slot_def task_lock_def dget_dset)
next
  case (start s jid r)
  have tl: "task_lock (start_body jid r s) = task_lock s"
    by (rule task_lock_same [OF start(2), of _ "r\<lparr>jb_status := Running\<rparr>"]) simp_all
  have "task_lock s jid = lock_of r" using start(2) by (simp add: task_lock_def)
  with tl start(1) show ?case
    by (intro locks_acquire [OF start.prems(2) start(3)]) (auto simp: holds_lock_def dget_dset)
next
  case (progress s jid fraction message now)
  have "task_lock (report_progress jid fraction message now s) = task_lock s"
    by (rule ext) (simp add: task_lock_def report_progress_def Let_def dget_dset split: option.split)
  then show ?case by (intro locks_same [OF progress.prems(2)]) (simp_all add: holds_lock_def)
next
  case (finish s jid r h outc log_ok)
  have tl: "task_lock (finish jid outc log_ok r h s) = task_lock s"
    by (rule task_lock_same [OF finish(2), of _ "end_record outc (jh_cancel_requested h) r"]) simp_all
  have "task_lock s jid = lock_of r" using finish(2) by (simp add: task_lock_def)
  with tl finish(1) show ?case
    by (intro locks_release [OF finish.prems(2), of jid "lock_of r"]) (auto simp: holds_lock_def dget_dpop)
qed

lemma end_record_ok:
  "record_ok jid r \<Longrightarrow> jb_status r = Running \<Longrightarrow> record_ok jid (end_record outc c r)"
  by (auto simp: record_ok_def end_record_def split: outcome.split)

text \<open>A logged record is never touched again: its task is over.\<close>

lemma logged_not_running:
  "keys_inv s \<Longrightarrow> records_inv s \<Longrightarrow> r \<in> set (jr_log s) \<Longrightarrow> dget (jr_tasks s) (jb_id r) = None"
proof (cases "dget (jr_tasks s) (jb_id r)")
  case (Some p)
  assume k: "keys_inv s" and ri: "records_inv s" and r: "r \<in> set (jr_log s)"
  from k Some obtain q where q: "dget (jr_jobs s) (jb_id r) = Some q" "status_matches p (jb_status q)"
    by (blast dest: keys_invD)
  from ri r have "terminal (jb_status r)" "dget (jr_jobs s) (jb_id r) = Some r"
    by (auto simp: records_inv_def)
  with q show ?thesis by (auto simp: status_matches_def terminal_def split: if_splits)
qed simp

lemma records_update:
  assumes inv: "records_inv s" and jobs: "jr_jobs t = dset jid r' (jr_jobs s)" and ok: "record_ok jid r'"
    and ev: "set (jr_events t) \<subseteq> insert r' (set (jr_events s))"
    and lg: "\<And>q. q \<in> set (jr_log t) \<Longrightarrow> q \<in> set (jr_log s) \<or> (q = r' \<and> terminal (jb_status r'))"
    and nl: "\<And>q. q \<in> set (jr_log s) \<Longrightarrow> jb_id q \<noteq> jid"
  shows "records_inv t"
proof -
  have idr: "jb_id r' = jid" using ok by (simp add: record_ok_def)
  have get: "dget (jr_jobs t) j = (if j = jid then Some r' else dget (jr_jobs s) j)" for j
    using jobs by (simp add: dget_dset)
  have "terminal (jb_status q) \<and> dget (jr_jobs t) (jb_id q) = Some q" if "q \<in> set (jr_log t)" for q
    using lg [OF that] nl [of q] inv idr unfolding get records_inv_def by auto
  moreover have "record_ok (jb_id q) q" if "q \<in> set (jr_events t)" for q
    using that ev inv ok idr unfolding records_inv_def by blast
  moreover have "record_ok j q" if "dget (jr_jobs t) j = Some q" for j q
    using that inv ok unfolding get records_inv_def by (auto split: if_splits)
  ultimately show ?thesis unfolding records_inv_def by blast
qed

lemma job_step_records:
  assumes "job_step s t" "keys_inv s" "records_inv s"
  shows "records_inv t"
  using assms
proof (induction rule: job_step.induct)
  case (submit s jid kind res who)
  have nl: "jb_id q \<noteq> jid" if "q \<in> set (jr_log s)" for q
    using submit that by (auto simp: records_inv_def)
  define r' where "r' = \<lparr>jb_id = jid, jb_kind = kind, jb_resource = res, jb_status = Queued,
    jb_progress = 0, jb_message = [], jb_created_by = who\<rparr>"
  have "record_ok jid r'" by (simp add: r'_def record_ok_def)
  moreover have "jr_jobs (submit jid kind res who s) = dset jid r' (jr_jobs s)"
    "jr_events (submit jid kind res who s) = jr_events s" "jr_log (submit jid kind res who s) = jr_log s"
    by (simp_all add: submit_def r'_def)
  ultimately show ?case
    using nl by (intro records_update [OF submit.prems(2)]) auto
next
  case (cancel s jid)
  then show ?case by (auto simp: records_inv_def request_cancel_def split: option.splits)
next
  case (enter s jid)
  then show ?case by (simp add: records_inv_def enter_slot_def)
next
  case (start s jid r)
  let ?r = "r\<lparr>jb_status := Running\<rparr>"
  have nl: "jb_id q \<noteq> jid" if "q \<in> set (jr_log s)" for q
    using logged_not_running [OF start.prems that] start(1) by auto
  have "set (jr_events (start_body jid r s)) \<subseteq> insert ?r (set (jr_events s))"
    using publish_events by (fastforce simp: start_body_def Let_def)
  moreover have "record_ok jid r" using start(2) start.prems(2) unfolding records_inv_def by blast
  then have "record_ok jid ?r" by (simp add: record_ok_def)
  ultimately show ?case
    using nl by (intro records_update [OF start.prems(2), where r' = ?r]) simp_all
next
  case (progress s jid fraction message now)
  have nl: "jb_id q \<noteq> jid" if "q \<in> set (jr_log s)" for q
    using logged_not_running [OF progress.prems that] progress(1) by auto
  have run: "jb_status r = Running" if "dget (jr_jobs s) jid = Some r" for r
    using keys_invD [OF progress.prems(1) progress(1)] that by (simp add: status_matches_def)
  show ?case
  proof (cases "dget (jr_jobs s) jid = None \<or> dget (jr_handles s) jid = None")
    case True
    with progress.prems show ?thesis by (auto simp: report_progress_def split: option.split)
  next
    case False
    then obtain r h where rh: "dget (jr_jobs s) jid = Some r" "dget (jr_handles s) jid = Some h" by auto
    define r' where "r' = r\<lparr>jb_progress := clamp01 fraction,
        jb_message := (if message \<noteq> [] then message else jb_message r)\<rparr>"
    let ?t = "report_progress jid fraction message now s"
    have jobs: "jr_jobs ?t = dset jid r' (jr_jobs s)"
      using rh by (simp add: report_progress_def Let_def r'_def)
    have ev: "set (jr_events ?t) \<subseteq> insert r' (set (jr_events s))"
      using rh by (auto simp: report_progress_def Let_def r'_def publish_def)
    have "record_ok jid r" using rh(1) progress.prems(2) unfolding records_inv_def by blast
    then have "record_ok jid r'" using run [OF rh(1)] by (simp add: r'_def record_ok_def)
    with jobs ev nl show ?thesis by (intro records_update [OF progress.prems(2)]) simp_all
  qed
next
  case (finish s jid r h outc log_ok)
  let ?r = "end_record outc (jh_cancel_requested h) r"
  have nl: "jb_id q \<noteq> jid" if "q \<in> set (jr_log s)" for q
    using logged_not_running [OF finish.prems that] finish(1) by auto
  have "jb_status r = Running"
    using keys_invD [OF finish.prems(1) finish(1)] finish(2) by (simp add: status_matches_def)
  moreover have "record_ok jid r" using finish(2) finish.prems(2) unfolding records_inv_def by blast
  ultimately have "record_ok jid ?r" by (simp add: end_record_ok)
  moreover have "set (jr_events (finish jid outc log_ok r h s)) \<subseteq> insert ?r (set (jr_events s))"
    by (auto simp: finish_def Let_def publish_def)
  moreover have "q \<in> set (jr_log s) \<or> (q = ?r \<and> terminal (jb_status ?r))"
    if "q \<in> set (jr_log (finish jid outc log_ok r h s))" for q
    using that by (auto simp: finish_def Let_def split: if_splits)
  ultimately show ?case using nl by (intro records_update [OF finish.prems(2)]) simp_all
qed

lemma reachable_inv:
  "reachable s \<Longrightarrow> keys_inv s \<and> permits_inv s \<and> locks_inv s \<and> records_inv s"
proof (induction rule: reachable.induct)
  case (init l)
  show ?case
    by (simp add: job_runner_init_def keys_inv_def permits_inv_def locks_inv_def records_inv_def
        holds_lock_def)
next
  case (step s t)
  then show ?case
    by (blast intro: job_step_keys job_step_permits job_step_locks job_step_records)
qed

lemmas reachable_invs =
  reachable_inv [THEN conjunct1]
  reachable_inv [THEN conjunct2, THEN conjunct1]
  reachable_inv [THEN conjunct2, THEN conjunct2, THEN conjunct1]
  reachable_inv [THEN conjunct2, THEN conjunct2, THEN conjunct2]

lemma dcount_mono: "(\<And>v. P v \<Longrightarrow> Q v) \<Longrightarrow> dcount P d \<le> dcount Q d"
  by (induction d) auto

lemma in_body_count: "permits_inv s \<Longrightarrow> dcount (\<lambda>p. p = In_body) (jr_tasks s) \<le> max_concurrency"
  using dcount_mono [of "\<lambda>p. p = In_body" holds_slot "jr_tasks s"]
  by (simp add: permits_inv_def holds_slot_def)

section \<open>Progress\<close>

text \<open>How far the live tasks still are from their end.\<close>

fun phase_work :: "phase \<Rightarrow> nat" where
  "phase_work Wait_slot = 3"
| "phase_work Wait_lock = 2"
| "phase_work In_body = 1"

definition work :: "job_runner \<Rightarrow> nat" where
  "work s = sum_list (map (phase_work \<circ> snd) (jr_tasks s))"

lemma work_dset:
  "dget d k = Some p \<Longrightarrow> sum_list (map (phase_work \<circ> snd) (dset k p' d)) + phase_work p =
     sum_list (map (phase_work \<circ> snd) d) + phase_work p'"
  by (induction d) (auto split: if_splits)

lemma work_dpop:
  "distinct (map fst d) \<Longrightarrow> dget d k = Some p \<Longrightarrow>
     sum_list (map (phase_work \<circ> snd) (dpop k d)) + phase_work p = sum_list (map (phase_work \<circ> snd) d)"
  by (induction d) (auto simp: dpop_absent split: if_splits)

lemma body_can_finish:
  assumes "keys_inv s" "dget (jr_tasks s) jid = Some In_body"
  shows "\<exists>t. job_step s t \<and> work t < work s"
proof -
  from keys_invD [OF assms] obtain r where r: "dget (jr_jobs s) jid = Some r" by blast
  obtain h where h: "dget (jr_handles s) jid = Some h" using assms unfolding keys_inv_def by blast
  have "distinct (map fst (jr_tasks s))" using assms(1) unfolding keys_inv_def by blast
  then have "work (finish jid Returned True r h s) < work s"
    using work_dpop [OF _ assms(2)] by (simp add: work_def)
  with job_step.finish [OF assms(2) r h] show ?thesis by blast
qed

lemma waiter_can_move:
  assumes inv: "keys_inv s" "locks_inv s" and t: "dget (jr_tasks s) jid = Some Wait_lock"
  shows "\<exists>t. job_step s t \<and> work t < work s"
proof -
  from keys_invD [OF inv(1) t] obtain r where r: "dget (jr_jobs s) jid = Some r" by blast
  show ?thesis
  proof (cases "case lock_of r of None \<Rightarrow> True | Some x \<Rightarrow> \<not> jr_locks s x")
    case True
    have "work (start_body jid r s) < work s"
      using work_dset [OF t, of In_body] by (simp add: work_def)
    with job_step.start [OF t r True] show ?thesis by blast
  next
    case False
    then obtain x where "jr_locks s x" by (auto split: option.splits)
    with inv(2) obtain j where "dget (jr_tasks s) j = Some In_body"
      unfolding locks_inv_def holds_lock_def by blast
    then show ?thesis by (rule body_can_finish [OF inv(1)])
  qed
qed

lemma dcount_pos: "dcount P d \<noteq> 0 \<Longrightarrow> distinct (map fst d) \<Longrightarrow> \<exists>k v. dget d k = Some v \<and> P v"
  by (simp add: dcount_def filter_empty_conv) (metis map_of_is_SomeI prod.collapse)

lemma not_stuck:
  assumes inv: "keys_inv s" "permits_inv s" "locks_inv s" and live: "jr_tasks s \<noteq> []"
  shows "\<exists>t. job_step s t \<and> work t < work s"
proof -
  from live obtain jid p where p: "dget (jr_tasks s) jid = Some p"
    by (cases "jr_tasks s") (auto, metis)
  have held: "\<exists>t. job_step s t \<and> work t < work s" if "dget (jr_tasks s) j = Some q" "holds_slot q" for j q
    using that body_can_finish [OF inv(1), of j] waiter_can_move [OF inv(1,3), of j]
    by (cases q) (auto simp: holds_slot_def)
  show ?thesis
  proof (cases "holds_slot p")
    case True
    then show ?thesis using held p by blast
  next
    case False
    then have w: "dget (jr_tasks s) jid = Some Wait_slot" using p by (simp add: holds_slot_def)
    show ?thesis
    proof (cases "jr_permits s = 0")
      case True
      then have "dcount holds_slot (jr_tasks s) \<noteq> 0"
        using inv(2) by (simp add: permits_inv_def max_concurrency_def)
      with dcount_pos [OF this] inv(1) held show ?thesis unfolding keys_inv_def by blast
    next
      case False
      have "work (enter_slot jid s) < work s"
        using work_dset [OF w, of Wait_lock] by (simp add: work_def enter_slot_def)
      with job_step.enter [OF w] False show ?thesis by blast
    qed
  qed
qed

lemma drains: "reachable s \<Longrightarrow> \<exists>t. job_step\<^sup>*\<^sup>* s t \<and> reachable t \<and> jr_tasks t = []"
proof (induction "work s" arbitrary: s rule: less_induct)
  case less
  show ?case
  proof (cases "jr_tasks s = []")
    case False
    from not_stuck [OF reachable_invs(1-3) [OF less.prems] this]
    obtain u where u: "job_step s u" "work u < work s" by blast
    from less.hyps [OF u(2)] less.prems u(1) show ?thesis
      by (meson converse_rtranclp_into_rtranclp reachable.step)
  qed (use less.prems in blast)
qed

text \<open>A record that has ended is never changed again.\<close>

lemma terminal_no_task:
  "keys_inv s \<Longrightarrow> dget (jr_jobs s) j = Some r \<Longrightarrow> terminal (jb_status r) \<Longrightarrow> dget (jr_tasks s) j = None"
proof (cases "dget (jr_tasks s) j")
  case (Some p)
  assume "keys_inv s" "dget (jr_jobs s) j = Some r" "terminal (jb_status r)"
  with keys_invD [OF _ Some] show ?thesis
    by (auto simp: status_matches_def terminal_def split: if_splits)
qed simp

lemma step_frozen:
  assumes "job_step s t" "keys_inv s" "dget (jr_jobs s) j = Some r" "terminal (jb_status r)"
  shows "dget (jr_jobs t) j = Some r"
  using assms(1)
proof (cases rule: job_step.cases)
  case (submit jid kind res who)
  with assms(3) show ?thesis by (auto simp: submit_def dget_dset)
next
  case (cancel jid)
  with assms(3) show ?thesis by (simp add: request_cancel_def split: option.split)
next
  case (progress jid fraction message now)
  with terminal_no_task [OF assms(2-4)] assms(3) show ?thesis
    by (auto simp: report_progress_def Let_def dget_dset split: option.split)
qed (use terminal_no_task [OF assms(2-4)] assms(3) in \<open>auto simp: dget_dset enter_slot_def\<close>)

section \<open>A run with five jobs\<close>

text \<open>Four jobs on one resource take all the slots; a fifth needs no resource.\<close>

definition demo_jobs :: job_runner where
  "demo_jobs =
     (let s = fold (\<lambda>j. submit [j] ''k'' (if j = CHR ''e'' then None else Some ''storage'') None) ''abcde''
                (job_runner_init True);
          s = fold (\<lambda>j. enter_slot [j]) ''abcd'' s
      in start_body ''a'' (the (dget (jr_jobs s) ''a'')) s)"

lemma reachable_demo_jobs: "reachable demo_jobs"
  unfolding demo_jobs_def Let_def fold.simps comp_def id_def
  by (rule reachable.step [OF _ job_step.start]
      reachable.step [OF _ job_step.enter] reachable.step [OF _ job_step.submit] reachable.init |
      simp add: submit_def enter_slot_def job_runner_init_def lock_of_def max_concurrency_def)+

lemma demo_jobs_simps:
  "dget (jr_tasks demo_jobs) ''a'' = Some In_body" "task_lock demo_jobs ''a'' = Some ''storage''"
  "dget (jr_tasks demo_jobs) ''e'' = Some Wait_slot" "task_lock demo_jobs ''e'' = None"
  "dcount (\<lambda>p. p = In_body) (jr_tasks demo_jobs) = 1" "jr_permits demo_jobs = 0"
  "dget (jr_jobs demo_jobs) ''e'' \<noteq> None"
  by code_simp+

text \<open>A job that waits for a slot keeps waiting as long as no slot is free.\<close>

lemma waits_on:
  assumes "job_step s t" "dget (jr_tasks s) j = Some Wait_slot" "jr_permits s = 0" "dget (jr_jobs s) j \<noteq> None"
  shows "dget (jr_tasks t) j = Some Wait_slot"
  using assms(1)
proof (cases rule: job_step.cases)
  case (submit jid kind res who)
  with assms(2,4) show ?thesis by (auto simp: submit_def dget_dset)
qed (use assms(2,3) in \<open>auto simp: request_cancel_def dget_dset dget_dpop split: option.split\<close>)

section \<open>Properties\<close>

text \<open>C22: Two jobs whose bodies run at the same time never hold the same resource.\<close>

theorem jobs_exclude_each_other:
  assumes "reachable s"
    and "dget (jr_tasks s) i = Some In_body" and "dget (jr_tasks s) j = Some In_body"
    and "task_lock s i = Some x" and "task_lock s j = Some x"
  shows "i = j"
  using reachable_invs(3) [OF assms(1)] assms(2-5) unfolding locks_inv_def holds_lock_def by blast

theorem jobs_exclude_each_other_witness:
  "\<exists>i. dget (jr_tasks demo_jobs) i = Some In_body \<and> task_lock demo_jobs i = Some ''storage'' \<and>
     (\<forall>j. dget (jr_tasks demo_jobs) j = Some In_body \<and> task_lock demo_jobs j = Some ''storage'' \<longrightarrow> j = i)"
  using jobs_exclude_each_other [OF reachable_demo_jobs _ demo_jobs_simps(1) _ demo_jobs_simps(2)]
    demo_jobs_simps(1,2) by blast

text \<open>C23: At most \<open>MAX_CONCURRENCY\<close> job bodies run at any time, and the semaphore's counter accounts
  for every slot that is taken.\<close>

theorem jobs_bounded:
  assumes "reachable s"
  shows "dcount (\<lambda>p. p = In_body) (jr_tasks s) \<le> max_concurrency \<and>
    jr_permits s + dcount holds_slot (jr_tasks s) = max_concurrency"
  using in_body_count [OF reachable_invs(2) [OF assms]] reachable_invs(2) [OF assms]
  by (simp add: permits_inv_def)

theorem jobs_bounded_witness: "dcount holds_slot (jr_tasks demo_jobs) = 4"
  using jobs_bounded [OF reachable_demo_jobs] demo_jobs_simps(6) by (simp add: max_concurrency_def)

text \<open>C24: A line of \<open>jobs.jsonl\<close> is final: it has a terminal status, and whatever the runner does
  afterwards, the job table still shows exactly that record.\<close>

theorem logged_results_are_final:
  assumes "reachable s" and "r \<in> set (jr_log s)" and "job_step\<^sup>*\<^sup>* s t"
  shows "terminal (jb_status r) \<and> dget (jr_jobs t) (jb_id r) = Some r"
proof -
  have r: "terminal (jb_status r)" "dget (jr_jobs s) (jb_id r) = Some r"
    using reachable_invs(4) [OF assms(1)] assms(2) by (simp_all add: records_inv_def)
  from assms(3) have "reachable t \<and> dget (jr_jobs t) (jb_id r) = Some r"
  proof induction
    case base
    with assms(1) r show ?case by simp
  next
    case (step t u)
    with r(1) step_frozen [OF step(2) reachable_invs(1)] show ?case by (blast intro: reachable.step)
  qed
  with r show ?thesis by simp
qed

definition demo_logged :: job_runner where
  "demo_logged = finish ''a'' (Raised ''no'') True (the (dget (jr_jobs demo_jobs) ''a''))
     (the (dget (jr_handles demo_jobs) ''a'')) demo_jobs"

theorem logged_results_are_final_witness:
  "\<exists>r. jr_log demo_logged = [r] \<and> jb_status r = Failed \<and> jb_message r = ''no'' \<and>
     dget (jr_jobs (snd (request_cancel ''a'' demo_logged))) ''a'' = Some r"
proof -
  have j: "dget (jr_jobs demo_jobs) ''a'' \<noteq> None" "dget (jr_handles demo_jobs) ''a'' \<noteq> None"
    by code_simp+
  have "reachable demo_logged"
    unfolding demo_logged_def
    by (rule reachable.step [OF reachable_demo_jobs job_step.finish [OF demo_jobs_simps(1)]]) (use j in auto)
  moreover have "map (\<lambda>r. (jb_id r, jb_status r, jb_message r)) (jr_log demo_logged) = [(''a'', Failed, ''no'')]"
    by code_simp
  then have "\<exists>r. jr_log demo_logged = [r] \<and> jb_status r = Failed \<and> jb_message r = ''no'' \<and> jb_id r = ''a''"
    by (auto simp: map_eq_Cons_conv)
  moreover have "job_step\<^sup>*\<^sup>* demo_logged (snd (request_cancel ''a'' demo_logged))"
    by (rule r_into_rtranclp) (rule job_step.cancel)
  ultimately show ?thesis using logged_results_are_final by (metis list.set_intros(1))
qed

text \<open>C25: The runner cannot deadlock: from every reachable state the waiting and running jobs can all be
  brought to their end.\<close>

theorem jobs_can_always_drain:
  assumes "reachable s"
  shows "\<exists>t. job_step\<^sup>*\<^sup>* s t \<and> jr_tasks t = [] \<and> jr_permits t = max_concurrency \<and> (\<forall>x. \<not> jr_locks t x)"
proof -
  from drains [OF assms] obtain t where t: "job_step\<^sup>*\<^sup>* s t" "reachable t" "jr_tasks t = []" by blast
  with reachable_invs(2,3) [OF t(2)] show ?thesis
    by (auto simp: permits_inv_def locks_inv_def holds_lock_def)
qed

theorem jobs_can_always_drain_witness: "\<exists>t. job_step\<^sup>*\<^sup>* demo_jobs t \<and> jr_tasks t = []"
  using jobs_can_always_drain [OF reachable_demo_jobs] by blast

text \<open>A job is not blocked only by jobs it conflicts with: jobs that merely wait for a busy resource
  occupy slots, so a job without any resource can be kept waiting while a single body runs.\<close>

theorem waiters_occupy_slots:
  "\<exists>s. reachable s \<and> dcount (\<lambda>p. p = In_body) (jr_tasks s) = 1 \<and>
     dget (jr_tasks s) ''e'' = Some Wait_slot \<and> task_lock s ''e'' = None \<and>
     {t. job_step s t \<and> dget (jr_tasks t) ''e'' \<noteq> Some Wait_slot} = {}"
  using waits_on [OF _ demo_jobs_simps(3) demo_jobs_simps(6) demo_jobs_simps(7)] reachable_demo_jobs
    demo_jobs_simps(3-5) by blast

end
