(* ===== verification/Config.thy ===== *)
theory Config
  imports Prelude
begin

text \<open>
  \<open>config.py\<close>: the settings with their defaults, the derived properties, and \<open>system_path\<close>,
  which moves every file the agent writes under \<open>devdata_dir\<close> outside production. Loading from
  TOML and the environment is pydantic's; the order of the sources is \<open>customise_sources\<close>.
\<close>

datatype mode = Prod | Dev | Test

record settings =
  st_mode :: mode
  st_config_file :: string
  st_hostname_override :: "string option"
  st_http_port :: int
  st_https_port :: int
  st_tls_cert :: string
  st_tls_key :: string
  st_db_path :: string
  st_state_dir :: string
  st_log_dir :: string
  st_run_dir :: string
  st_agent_socket :: string
  st_workers_dir :: string
  st_session_idle_timeout_minutes :: int
  st_session_cookie_secure :: bool
  st_volumes_root :: string
  st_devdata_dir :: string
  st_devusers_file :: string

definition default_settings :: settings where
  "default_settings = \<lparr>st_mode = Prod, st_config_file = ''/etc/nasos/nasos.toml'',
     st_hostname_override = None, st_http_port = 5000, st_https_port = 5001,
     st_tls_cert = ''/etc/nasos/tls/cert.pem'', st_tls_key = ''/etc/nasos/tls/key.pem'',
     st_db_path = ''/var/lib/nasos/nasos.db'', st_state_dir = ''/var/lib/nasos'',
     st_log_dir = ''/var/log/nasos'', st_run_dir = ''/run/nasos'',
     st_agent_socket = ''/run/nasos/agent.sock'', st_workers_dir = ''/run/nasos/workers'',
     st_session_idle_timeout_minutes = 30, st_session_cookie_secure = True,
     st_volumes_root = ''/volume'', st_devdata_dir = ''./devdata'',
     st_devusers_file = ''./devdata/devusers.toml''\<rparr>"

definition is_dev :: "settings \<Rightarrow> bool" where
  "is_dev st \<longleftrightarrow> st_mode st = Dev"

definition is_test :: "settings \<Rightarrow> bool" where
  "is_test st \<longleftrightarrow> st_mode st = Test"

definition cookie_secure :: "settings \<Rightarrow> bool" where
  "cookie_secure st \<longleftrightarrow> st_session_cookie_secure st \<and> \<not> is_dev st"

definition system_path :: "settings \<Rightarrow> string \<Rightarrow> string" where
  "system_path st real_path =
     (if is_dev st \<or> is_test st then st_devdata_dir st @ real_path else real_path)"

datatype settings_source = Init_source | Env_source | Dotenv_source | Toml_source string | Secret_source

text \<open>\<open>prelim\<close> is what the environment alone gives.\<close>

definition customise_sources :: "(string, string) dict \<Rightarrow> settings_source list" where
  "customise_sources prelim =
     (let toml_file = (case dget prelim ''config_file'' of None \<Rightarrow> st_config_file default_settings | Some f \<Rightarrow> f)
      in [Init_source, Env_source, Dotenv_source, Toml_source toml_file, Secret_source])"

definition backup_dir :: "settings \<Rightarrow> string" where
  "backup_dir st = st_state_dir st @ ''/config-backups''"

lemma system_path_prod: "st_mode st = Prod \<Longrightarrow> system_path st p = p"
  by (simp add: system_path_def is_dev_def is_test_def)

lemma system_path_sandbox: "st_mode st \<noteq> Prod \<Longrightarrow> startswith (system_path st p) (st_devdata_dir st)"
  by (cases "st_mode st") (simp_all add: system_path_def is_dev_def is_test_def)

lemma system_path_inj: "system_path st p = system_path st q \<longleftrightarrow> p = q"
  by (simp add: system_path_def)

end
