(* ===== verification/StorageAgent.thy ===== *)
theory StorageAgent
  imports Inventory PlanSteps ManagedFile Jobs Config "HOL-Library.Sublist"
begin

text \<open>
  \<open>agent/handlers/storage.py\<close>: the privileged side of Storage Manager. The job body of
  \<open>execute_plan\<close> gathers a fresh inventory, runs the guard on it, resolves the plan's disks by
  serial and executes the steps. It runs in the \<open>world\<close>; \<open>handle.progress\<close> is the list
  \<open>w_progress\<close>.
\<close>

section \<open>JSON text\<close>

text \<open>\<open>json.dumps\<close> with its defaults: \<open>ensure_ascii\<close>, separators \<open>", "\<close> and \<open>": "\<close>.\<close>

definition json_char :: "char \<Rightarrow> string" where
  "json_char c = (
     if c = CHR 0x22 then [CHR 0x5C, CHR 0x22]
     else if c = CHR 0x5C then [CHR 0x5C, CHR 0x5C]
     else if c = LF then [CHR 0x5C, CHR ''n'']
     else if c = CR then [CHR 0x5C, CHR ''r'']
     else if code c = 9 then [CHR 0x5C, CHR ''t'']
     else if code c = 8 then [CHR 0x5C, CHR ''b'']
     else if code c = 12 then [CHR 0x5C, CHR ''f'']
     else if 32 \<le> code c \<and> code c \<le> 126 then [c]
     else CHR 0x5C # ''u00'' @ [hex_digit (code c div 16), hex_digit (code c mod 16)])"

lemma json_char_code [code]:
  "json_char c = (
     if \<not> digit7 c \<and> (digit5 c \<or> digit6 c) \<and> c \<noteq> CHR 0x7F
     then (if c = CHR 0x22 then [CHR 0x5C, CHR 0x22] else if c = CHR 0x5C then [CHR 0x5C, CHR 0x5C] else [c])
     else if c = LF then [CHR 0x5C, CHR ''n'']
     else if c = CR then [CHR 0x5C, CHR ''r'']
     else if code c = 9 then [CHR 0x5C, CHR ''t'']
     else if code c = 8 then [CHR 0x5C, CHR ''b'']
     else if code c = 12 then [CHR 0x5C, CHR ''f'']
     else CHR 0x5C # ''u00'' @ [hex_digit (code c div 16), hex_digit (code c mod 16)])"
  unfolding json_char_def printable_iff [symmetric] LF_def CR_def
  by (auto simp: code_def)

definition json_string :: "string \<Rightarrow> string" where
  "json_string s = [CHR 0x22] @ concat (map json_char s) @ [CHR 0x22]"

fun dumps :: "json \<Rightarrow> string" where
  "dumps JNull = ''null''"
| "dumps (JBool b) = (if b then ''true'' else ''false'')"
| "dumps (JInt i) = int_str i"
| "dumps (JFloat _ s) = s"
| "dumps (JStr s) = json_string s"
| "dumps (JList xs) = ''['' @ join '', '' (map dumps xs) @ '']''"
| "dumps (JObj fs) = ''{'' @ join '', '' (map (\<lambda>(k, v). json_string k @ '': '' @ dumps v) fs) @ ''}''"

section \<open>Resolving the specification\<close>

text \<open>\<open>{node.serial: node for node in _flatten(disks) if node.serial}\<close>: a later node wins.\<close>

definition by_serial :: "disk_node list \<Rightarrow> (string, disk_node) dict" where
  "by_serial disks = dict_of (concat (map (\<lambda>n. case serial_of (node_info n) of
       None \<Rightarrow> [] | Some s \<Rightarrow> [(s, n)]) (flatten disks)))"

definition opt_str :: "string option \<Rightarrow> string" where
  "opt_str x = (case x of None \<Rightarrow> ''None'' | Some s \<Rightarrow> s)"

definition resolve_disk ::
  "(string, disk_node) dict \<Rightarrow> string list \<Rightarrow> (string, int) dict \<Rightarrow> string \<Rightarrow> exn + string" where
  "resolve_disk nodes protected expected serial =
     (case dget nodes serial of
        None \<Rightarrow> Inl (RpcException ''device_missing'' (''disk '' @ serial @ '' is no longer present''))
      | Some node \<Rightarrow>
          if serial \<in> set protected
          then Inl (RpcException ''device_protected'' (''disk '' @ serial @ '' is now protected: ''
                 @ opt_str (dk_protected_reason (node_info node))))
          else (case dget expected serial of
              None \<Rightarrow> Inr (dk_path (node_info node))
            | Some n \<Rightarrow> if dk_size (node_info node) \<noteq> n
                then Inl (RpcException ''size_mismatch'' (''disk '' @ serial @ '' is now ''
                       @ int_str (dk_size (node_info node)) @ '' bytes, was '' @ int_str n
                       @ '' when the plan was made''))
                else Inr (dk_path (node_info node))))"

definition resolve_spec ::
  "plan_spec \<Rightarrow> inventory \<Rightarrow> string list \<Rightarrow> (string, int) dict \<Rightarrow> exn + plan_spec" where
  "resolve_spec sp fresh protected expected =
     rbind (rmap (resolve_disk (by_serial (inv_disks fresh)) protected expected) (sp_disk_serials sp))
       (\<lambda>paths. Inr (sp\<lparr>sp_disk_paths := paths\<rparr>))"

section \<open>Handlers\<close>

definition get_inventory :: "pylib \<Rightarrow> 's runner \<Rightarrow> ('s, string) prog \<Rightarrow> ('s, inventory) prog" where
  "get_inventory py run mdstat = bindE (gather py run mdstat) (\<lambda>iv. ret (snd (compute_protected iv)))"

text \<open>\<open>ProcMdstat.read\<close>; \<open>/proc/mdstat\<close> is ASCII text.\<close>

definition mdstat_path :: string where "mdstat_path = ''/proc/mdstat''"

definition mdstat_read :: "(world, string) prog" where
  "mdstat_read = bindE (getsE (fs_exists mdstat_path)) (\<lambda>present.
     if present then read_bytes mdstat_path else ret [])"

definition progress :: "rat \<Rightarrow> string \<Rightarrow> (world, unit) prog" where
  "progress fraction message =
     modifyE (\<lambda>w. w\<lparr>w_progress := w_progress w @ [(fraction, message)]\<rparr>)"

text \<open>A \<open>ManagedFile\<close> with neither validation nor apply, mode 644.\<close>

definition plain_file :: "settings \<Rightarrow> string \<Rightarrow> string \<Rightarrow> managed_file" where
  "plain_file st path text = \<lparr>mf_path = system_path st path, mf_render = text, mf_validate = None,
     mf_apply = None, mf_mode = 420, mf_owner = None, mf_group = None,
     mf_backup_dir = backup_dir st\<rparr>"

definition put_file :: "(bytes \<Rightarrow> string) \<Rightarrow> settings \<Rightarrow> string \<Rightarrow> string \<Rightarrow> (world, unit) prog" where
  "put_file sha st path text = bindE (write_and_apply sha (plain_file st path text)) (\<lambda>_. ret ())"

definition dropin_services :: "string list" where
  "dropin_services = [''smb.service'', ''nfs-server.service'', ''vsftpd.service'']"

definition blkid_argv :: "string \<Rightarrow> string list" where
  "blkid_argv dev = [''blkid'', ''-o'', ''value'', ''-s'', ''UUID'', dev]"

text \<open>One iteration of the step loop; the pair is \<open>(unit_name, fs_uuid)\<close>.\<close>

type_synonym unit_state = "string option \<times> string"

definition exec_step :: "(bytes \<Rightarrow> string) \<Rightarrow> settings \<Rightarrow> plan_spec \<Rightarrow> string list \<Rightarrow> unit_state
    \<Rightarrow> plan_step \<Rightarrow> (world, unit_state) prog" where
  "exec_step sha st sp mountpoints us step = (case ps_op step of
       Op_run \<Rightarrow> bindE (run_cmd (ps_argv step) None) (\<lambda>r.
         if \<not> cr_ok r
         then raise (RuntimeError (ps_description step @ '' failed: '' @ strip (cr_stderr r)))
         else ret us)
     | Op_write_mount_unit \<Rightarrow>
         bindE (run_cmd (blkid_argv (lv_device sp)) None) (\<lambda>r.
         bindE (mount_unit_name run_cmd (sp_mountpoint sp)) (\<lambda>name.
         thenE (put_file sha st (mount_unit_path name)
             (render_mount_unit (strip (cr_stdout r)) (sp_mountpoint sp) (sp_filesystem sp)))
           (ret (Some name, strip (cr_stdout r)))))
     | Op_write_target \<Rightarrow>
         thenE (put_file sha st volumes_target_unit_path render_volumes_target) (ret us)
     | Op_write_dropins \<Rightarrow>
         thenE (forE (\<lambda>u. put_file sha st (service_dropin_path u) (render_service_dropin mountpoints))
             dropin_services) (ret us)
     | Op_daemon_reload \<Rightarrow> thenE (unit_do SdDaemonReload []) (ret us)
     | Op_enable_start_unit \<Rightarrow> (case fst us of None \<Rightarrow> raise AssertionError
         | Some u \<Rightarrow> thenE (unit_do SdEnable u) (thenE (unit_do SdStart u)
             (thenE (unit_do SdWaitActive u) (ret us))))
     | Op_restorecon \<Rightarrow>
         bindE (run_cmd [''restorecon'', ''-R'', sp_mountpoint sp] None) (\<lambda>_. ret us))"

fun exec_steps :: "(bytes \<Rightarrow> string) \<Rightarrow> settings \<Rightarrow> plan_spec \<Rightarrow> string list \<Rightarrow> nat \<Rightarrow> nat \<Rightarrow> unit_state
    \<Rightarrow> plan_step list \<Rightarrow> (world, unit_state) prog" where
  "exec_steps sha st sp mps n index us [] = ret us"
| "exec_steps sha st sp mps n index us (step # steps) =
     thenE (progress (of_nat index / of_nat n) (ps_description step))
       (bindE (exec_step sha st sp mps us step)
         (\<lambda>us'. exec_steps sha st sp mps n (Suc index) us' steps))"

definition plan_result :: "plan_spec \<Rightarrow> string \<Rightarrow> json" where
  "plan_result sp uuid = JObj
     [(''name'', JStr (sp_volume_name sp)),
      (''mountpoint'', JStr (sp_mountpoint sp)),
      (''filesystem'', JStr (sp_filesystem sp)),
      (''device'', JStr (lv_device sp)),
      (''uuid'', JStr uuid),
      (''raid_level'', JStr (sp_level sp)),
      (''array_name'', if sp_level sp \<noteq> ''basic'' then JStr (sp_array_name sp) else JNull),
      (''disk_serials'', JList (map JStr (sp_disk_serials sp)))]"

definition recheck :: "pylib \<Rightarrow> plan_spec \<Rightarrow> (string, int) dict \<Rightarrow> (world, plan_spec) prog" where
  "recheck py spec expected =
     bindE (gather py run_cmd mdstat_read) (\<lambda>iv.
     let (protected, fresh) = compute_protected iv in
     liftE (resolve_spec spec fresh protected expected))"

definition carry_out :: "(bytes \<Rightarrow> string) \<Rightarrow> settings \<Rightarrow> string list \<Rightarrow> plan_spec \<Rightarrow> (world, unit) prog" where
  "carry_out sha st mountpoints resolved =
     bindE (liftE (build_steps resolved)) (\<lambda>steps.
     bindE (exec_steps sha st resolved mountpoints (length steps) 0 (None, []) steps) (\<lambda>(_, uuid).
     thenE (mkdir_p (path_join (path_join (sp_mountpoint resolved) ''@nasos'') ''tmp''))
       (progress 1 (dumps (plan_result resolved uuid)))))"

definition execute_body :: "pylib \<Rightarrow> (bytes \<Rightarrow> string) \<Rightarrow> settings \<Rightarrow> plan_spec \<Rightarrow> (string, int) dict
    \<Rightarrow> string list \<Rightarrow> (world, unit) prog" where
  "execute_body py sha st spec expected mountpoints =
     thenE (progress 0 ''Re-checking device safety'')
       (bindE (recheck py spec expected) (carry_out sha st mountpoints))"

definition execute_plan :: "string \<Rightarrow> rpc_context \<Rightarrow> job_runner \<Rightarrow> string \<times> job_runner" where
  "execute_plan jid ctx jobs =
     (jid, submit jid ''storage.execute_plan'' (Some ''storage'') (ctx_user ctx) jobs)"

section \<open>Which disks are touched\<close>

text \<open>
  A view of the commands: what a command does to the disks, blind to the commands the handler runs
  besides the plan's own.
\<close>

definition destroyed :: "(string list \<Rightarrow> 'a list) \<Rightarrow> world \<Rightarrow> 'a list" where
  "destroyed tgt w = concat (map tgt (w_calls w))"

text \<open>The world when the check starts, and the commands of a plan.\<close>

definition started :: "world \<Rightarrow> world" where
  "started w = snd (progress 0 ''Re-checking device safety'' w)"

definition plan_argvs :: "plan_spec \<Rightarrow> string list list" where
  "plan_argvs sp = (case build_steps sp of Inl _ \<Rightarrow> [] | Inr steps \<Rightarrow> run_argvs steps)"

locale command_view =
  fixes tgt :: "string list \<Rightarrow> 'a list"
  assumes tgt_read_only: "read_only a \<Longrightarrow> tgt a = []"
    and tgt_harmless: "c \<in> {''blkid'', ''systemd-escape'', ''restorecon''} \<Longrightarrow> tgt (c # rest) = []"
begin

abbreviation hits :: "world \<Rightarrow> 'a list" where
  "hits \<equiv> destroyed tgt"

definition same_hits :: "world \<Rightarrow> world \<Rightarrow> bool" where
  "same_hits s t \<longleftrightarrow> hits t = hits s"

lemma same_hits_refl: "reflp same_hits" by (simp add: reflp_def same_hits_def)
lemma same_hits_trans: "transp same_hits" by (simp add: transp_def same_hits_def)

lemma hits_run: "hits (snd (run_cmd a i w)) = hits w @ tgt a"
  by (simp add: destroyed_def wr.run_calls)

lemma quiet_run: "c \<in> {''blkid'', ''systemd-escape'', ''restorecon''} \<Longrightarrow> keeps same_hits (run_cmd (c # a) i)"
  by (rule keepsI) (simp add: same_hits_def hits_run tgt_harmless del: insert_iff)

lemma quiet_same_calls: "keeps same_calls m \<Longrightarrow> keeps same_hits m"
  by (simp add: keeps_def same_calls_def same_hits_def destroyed_def)

lemma quiet_reads:
  assumes "keeps wr.reads m"
  shows "keeps same_hits m"
proof (rule keepsI)
  fix s
  from assms obtain xs where "w_calls (snd (m s)) = w_calls s @ xs" "\<forall>x \<in> set xs. read_only x"
    unfolding keeps_def wr.reads_def by blast
  then show "same_hits s (snd (m s))" by (simp add: same_hits_def destroyed_def tgt_read_only)
qed

lemmas quiet_basic = same_hits_refl same_hits_trans keeps_ret keeps_raise keeps_liftE keeps_getsE
  fs_same_calls [THEN quiet_same_calls] unit_same_calls [THEN quiet_same_calls]

lemma quiet_write_atomic: "keeps same_hits (write_atomic mf p c)"
  unfolding write_atomic_def
  by (intro keeps_thenE keeps_bindE keeps_whenE quiet_basic quiet_run) simp_all

lemma quiet_put_file: "keeps same_hits (put_file sha st p text)"
proof -
  have "keeps same_hits (read_previous q)" for q
    unfolding read_previous_def
    by (intro keeps_bindE quiet_basic) (auto intro!: keeps_bindE quiet_basic)
  moreover have "keeps same_hits (backup mf q d)" for mf q d
    unfolding backup_def by (intro keeps_thenE keeps_bindE keeps_forE quiet_basic)
  ultimately show ?thesis
    unfolding put_file_def write_and_apply_def Let_def run_validate_def run_apply_def
    by (auto intro!: keeps_bindE keeps_thenE quiet_basic quiet_write_atomic
        simp: plain_file_def split: option.split)
qed

lemma quiet_mount_unit_name: "keeps same_hits (mount_unit_name run_cmd p)"
  unfolding mount_unit_name_def Let_def
  by (auto intro!: keeps_bindE quiet_basic quiet_run)

lemma quiet_progress: "keeps same_hits (progress f m)"
  by (rule keepsI) (simp add: progress_def same_hits_def destroyed_def w_calls_def)

lemma quiet_mdstat: "keeps wr.reads mdstat_read"
proof -
  have "keeps wr.reads (read_bytes p)" for p
    using fs_same_calls(1) [of p] by (auto simp: keeps_def same_calls_def wr.reads_def)
  then show ?thesis unfolding mdstat_read_def
    by (auto intro!: keeps_bindE keeps_getsE keeps_ret wr.reads_refl wr.reads_trans)
qed

lemma quiet_recheck: "keeps same_hits (recheck py spec expected)"
  unfolding recheck_def
  by (auto intro!: keeps_bindE quiet_basic quiet_reads [OF wr.gather_reads [OF quiet_mdstat]]
      split: prod.split)

lemma exec_step_quiet: "ps_op step \<noteq> Op_run \<Longrightarrow> keeps same_hits (exec_step sha st sp mps us step)"
  unfolding exec_step_def blkid_argv_def
  by (cases "ps_op step")
     (auto intro!: keeps_bindE keeps_thenE keeps_forE quiet_basic quiet_run quiet_put_file
       quiet_mount_unit_name split: option.split)

lemma exec_step_hits:
  assumes "exec_step sha st sp mps us step w = (r, w')"
  shows "hits w' = hits w @ concat (map tgt (run_argvs [step]))"
proof (cases "ps_op step = Op_run")
  case True
  then show ?thesis using assms hits_run [of "ps_argv step" None w]
    by (cases "run_cmd (ps_argv step) None w" rule: prod.exhaust)
       (auto simp: exec_step_def run_argvs_def bindE_def split: sum.splits if_splits)
next
  case False
  then show ?thesis using keepsD [OF exec_step_quiet assms]
    by (simp add: same_hits_def run_argvs_def)
qed

lemma exec_steps_hits:
  "exec_steps sha st sp mps n i us steps w = (r, w') \<Longrightarrow>
     \<exists>pre. prefix pre (run_argvs steps) \<and> hits w' = hits w @ concat (map tgt pre)
       \<and> (\<forall>x. r = Inr x \<longrightarrow> pre = run_argvs steps)"
proof (induction steps arbitrary: i us w)
  case Nil
  then show ?case by auto
next
  case (Cons step steps)
  have split: "run_argvs (step # steps) = run_argvs [step] @ run_argvs steps"
    by (simp add: run_argvs_def)
  let ?w0 = "snd (progress (of_nat i / of_nat n) (ps_description step) w)"
  have h0: "hits ?w0 = hits w"
    using quiet_progress by (simp add: keeps_def same_hits_def)
  obtain r1 w1 where s: "exec_step sha st sp mps us step ?w0 = (r1, w1)" by fastforce
  have h1: "hits w1 = hits w @ concat (map tgt (run_argvs [step]))"
    using exec_step_hits [OF s] h0 by simp
  have eq: "exec_steps sha st sp mps n i us (step # steps) w = (case r1 of Inl e \<Rightarrow> (Inl e, w1)
      | Inr us' \<Rightarrow> exec_steps sha st sp mps n (Suc i) us' steps w1)"
    using s by (simp add: thenE_def bindE_def progress_def)
  show ?case
  proof (cases r1)
    case (Inl e)
    with Cons.prems eq h1 split show ?thesis
      by (intro exI [of _ "run_argvs [step]"]) auto
  next
    case (Inr us')
    with Cons.prems eq Cons.IH [of "Suc i" us' w1] obtain pre where
      "prefix pre (run_argvs steps)" "hits w' = hits w1 @ concat (map tgt pre)"
      "\<forall>x. r = Inr x \<longrightarrow> pre = run_argvs steps" by auto
    with h1 split show ?thesis by (intro exI [of _ "run_argvs [step] @ pre"]) auto
  qed
qed

lemma prefix_concat_map: "prefix xs ys \<Longrightarrow> prefix (concat (map f xs)) (concat (map f ys))"
  by (auto elim!: prefixE)

lemma carry_out_hits:
  assumes "carry_out sha st mps sp w = (r, w')"
  shows "\<exists>pre. prefix pre (plan_argvs sp) \<and> hits w' = hits w @ concat (map tgt pre)
    \<and> (r = Inr () \<longrightarrow> pre = plan_argvs sp)"
proof (cases "build_steps sp")
  case (Inl e)
  with assms show ?thesis by (intro exI [of _ "[]"]) (auto simp: carry_out_def bindE_def)
next
  case (Inr steps)
  then have pa: "plan_argvs sp = run_argvs steps" by (simp add: plan_argvs_def)
  obtain r1 w1 where s: "exec_steps sha st sp mps (length steps) 0 (None, []) steps w = (r1, w1)" by fastforce
  from exec_steps_hits [OF s] obtain pre where pre: "prefix pre (run_argvs steps)"
    "hits w1 = hits w @ concat (map tgt pre)" "\<forall>x. r1 = Inr x \<longrightarrow> pre = run_argvs steps" by blast
  let ?tail = "thenE (mkdir_p (path_join (path_join (sp_mountpoint sp) ''@nasos'') ''tmp''))"
  have tail: "keeps same_hits (?tail (progress 1 m))" for m
    by (intro keeps_thenE quiet_basic quiet_progress)
  show ?thesis
  proof (cases r1)
    case (Inl e)
    with assms Inr s have "r = Inl e" "w' = w1" by (auto simp: carry_out_def bindE_def)
    with pre pa show ?thesis by auto
  next
    case r1: (Inr us)
    with assms Inr s have "?tail (progress 1 (dumps (plan_result sp (snd us)))) w1 = (r, w')"
      by (auto simp: carry_out_def bindE_def split: prod.splits)
    from keepsD [OF tail this] have "hits w' = hits w1" by (simp add: same_hits_def)
    with pre r1 pa show ?thesis by auto
  qed
qed

text \<open>Either nothing was touched, or a prefix of the resolved plan's commands was run.\<close>

lemma execute_hits:
  assumes "execute_body py sha st spec expected mps w = (r, w')"
  obtains (refused) e where "r = Inl e" "hits w' = hits w"
      "recheck py spec expected (started w) = (Inl e, w')"
  | (resolved) sp w1 pre where "recheck py spec expected (started w) = (Inr sp, w1)"
      "prefix pre (plan_argvs sp)" "hits w' = hits w @ concat (map tgt pre)"
      "r = Inr () \<longrightarrow> pre = plan_argvs sp"
proof -
  have h0: "hits (started w) = hits w"
    using quiet_progress by (simp add: keeps_def same_hits_def started_def)
  obtain r1 w1 where s: "recheck py spec expected (started w) = (r1, w1)" by fastforce
  have h1: "hits w1 = hits w" using keepsD [OF quiet_recheck s] h0 by (simp add: same_hits_def)
  have eq: "execute_body py sha st spec expected mps w =
      (case r1 of Inl e \<Rightarrow> (Inl e, w1) | Inr sp \<Rightarrow> carry_out sha st mps sp w1)"
    using s by (simp add: execute_body_def thenE_def bindE_def progress_def started_def)
  show ?thesis
  proof (cases r1)
    case (Inl e)
    with assms eq h1 s show ?thesis by (auto intro: refused)
  next
    case (Inr sp)
    with assms eq have "carry_out sha st mps sp w1 = (r, w')" by simp
    from carry_out_hits [OF this] h1 s Inr show ?thesis by (auto intro: resolved)
  qed
qed

end

text \<open>A view that finds exactly the plan's disks in the plan's commands.\<close>

locale disk_target = command_view tgt for tgt :: "string list \<Rightarrow> string list" +
  assumes tgt_plan: "build_steps sp = Inr steps \<Longrightarrow> concat (map tgt (run_argvs steps)) = sp_disk_paths sp"
begin

lemma plan_argvs_tgt: "prefix pre (plan_argvs sp) \<Longrightarrow> prefix (concat (map tgt pre)) (sp_disk_paths sp)"
  using prefix_concat_map [of pre "plan_argvs sp" tgt]
  by (simp add: plan_argvs_def tgt_plan split: sum.splits)

lemma plan_argvs_all: "build_steps sp = Inr steps \<Longrightarrow> concat (map tgt (plan_argvs sp)) = sp_disk_paths sp"
  by (simp add: plan_argvs_def tgt_plan)

end

lemma read_only_targets: "read_only a \<Longrightarrow> wipe_target a = [] \<and> label_target a = []"
  by (auto simp: read_only_def lsblk_argv_def vgs_argv_def lvs_argv_def smartctl_argv_def)

lemma harmless_targets:
  "c \<in> {''blkid'', ''systemd-escape'', ''restorecon''} \<Longrightarrow>
     wipe_target (c # rest) = [] \<and> label_target (c # rest) = []"
  by (cases "c # rest" rule: wipe_target.cases; cases "c # rest" rule: label_target.cases) auto

text \<open>The view that keeps every command that is neither a query nor bookkeeping.\<close>

definition bookkeeping :: "string list \<Rightarrow> bool" where
  "bookkeeping argv \<longleftrightarrow> argv \<noteq> [] \<and> hd argv \<in> {''blkid'', ''systemd-escape'', ''restorecon''}"

definition own_commands :: "string list \<Rightarrow> string list list" where
  "own_commands argv = (if read_only argv \<or> bookkeeping argv then [] else [argv])"

lemma plan_own_commands:
  assumes "build_steps sp = Inr steps"
  shows "concat (map own_commands (run_argvs steps)) = run_argvs steps"
proof -
  obtain pv mkfs where m: "mkfs_argv (sp_filesystem sp) (sp_lv_name sp) (lv_device sp) = Inr mkfs" and
    r: "run_argvs steps = concat (map (\<lambda>d. [wipefs_argv d, mkpart_argv d]) (sp_disk_paths sp))
       @ map ps_argv (array_steps sp)
       @ [pvcreate_argv pv, vgcreate_argv (sp_vg_name sp) pv,
          lvcreate_full_free_argv (sp_vg_name sp) (sp_lv_name sp), mkfs]"
    using assms by (rule run_argvs_build)
  have "own_commands a = [a]" if "a \<in> set (run_argvs steps)" for a
    using that m unfolding r
    by (auto simp: own_commands_def read_only_def bookkeeping_def wipefs_argv_def mkpart_argv_def
        array_steps_def mdadm_create_argv_def pvcreate_argv_def vgcreate_argv_def lvcreate_full_free_argv_def
        mkfs_argv_def lsblk_argv_def vgs_argv_def lvs_argv_def smartctl_argv_def split: if_splits)
  then have "map own_commands (run_argvs steps) = map (\<lambda>a. [a]) (run_argvs steps)" by simp
  then have "concat (map own_commands (run_argvs steps)) = concat (map (\<lambda>a. [a]) (run_argvs steps))"
    by (rule arg_cong)
  then show ?thesis by simp
qed

interpretation wiped: disk_target wipe_target
  by unfold_locales (simp_all add: read_only_targets harmless_targets build_steps_targets del: insert_iff)

interpretation labelled: disk_target label_target
  by unfold_locales (simp_all add: read_only_targets harmless_targets build_steps_targets del: insert_iff)

interpretation own: command_view own_commands
  by unfold_locales (auto simp: own_commands_def bookkeeping_def)

section \<open>What the fresh check guarantees\<close>

lemma resolve_disk_Inr:
  "resolve_disk nodes prot expected s = Inr d \<longleftrightarrow>
     (\<exists>n. dget nodes s = Some n \<and> s \<notin> set prot \<and> d = dk_path (node_info n) \<and>
        (\<forall>k. dget expected s = Some k \<longrightarrow> dk_size (node_info n) = k))"
  by (auto simp: resolve_disk_def split: option.splits if_splits)

lemma rmap_Inr_iff: "rmap f xs = Inr ys \<longleftrightarrow> list_all2 (\<lambda>x y. f x = Inr y) xs ys"
proof (induction xs arbitrary: ys)
  case (Cons x xs)
  then show ?case by (cases ys) (auto simp: rbind_eq_Inr)
qed auto

lemma list_all2_elem: "list_all2 P xs ys \<Longrightarrow> y \<in> set ys \<Longrightarrow> \<exists>x \<in> set xs. P x y"
  by (induction rule: list_all2_induct) auto

text \<open>Every node has its own serial under its key, and comes from the flattened inventory.\<close>

lemma by_serial_SomeD:
  "dget (by_serial ds) s = Some n \<Longrightarrow> n \<in> set (flatten ds) \<and> serial_of (node_info n) = Some s"
  by (auto simp: by_serial_def dest!: dict_of_SomeD split: option.splits)

lemma recheck_Inr:
  assumes "recheck py spec expected w = (Inr sp, w')"
  obtains iv where "gather py run_cmd mdstat_read w = (Inr iv, w')"
    "list_all2 (\<lambda>s d. resolve_disk (by_serial (inv_disks (snd (compute_protected iv))))
        (fst (compute_protected iv)) expected s = Inr d) (sp_disk_serials spec) (sp_disk_paths sp)"
    "sp = spec\<lparr>sp_disk_paths := sp_disk_paths sp\<rparr>"
  using assms
  by (auto simp: recheck_def bindE_eq_Inr resolve_spec_def rbind_eq_Inr rmap_Inr_iff Let_def
      case_prod_beta)

text \<open>
  A disk path that may be erased: it belongs to a planned serial whose node is in the fresh
  inventory, has the planned size, and the guard found nothing in use on a disk of that serial.
\<close>

definition may_erase :: "plan_spec \<Rightarrow> (string, int) dict \<Rightarrow> inventory \<Rightarrow> string \<Rightarrow> bool" where
  "may_erase spec expected iv d \<longleftrightarrow>
     (\<exists>s \<in> set (sp_disk_serials spec). \<exists>n \<in> set (flatten (inv_disks (snd (compute_protected iv)))).
        serial_of (node_info n) = Some s \<and> dk_path (node_info n) = d \<and>
        (\<forall>k. dget expected s = Some k \<longrightarrow> dk_size (node_info n) = k) \<and>
        (\<forall>t \<in> set (inv_disks iv). serial_of (node_info t) = Some s \<longrightarrow>
           \<not> hosts_use (protected_pv_paths iv) t))"

lemma resolved_may_erase:
  assumes "gather py run_cmd mdstat_read w = (Inr iv, w')"
    and "list_all2 (\<lambda>s d. resolve_disk (by_serial (inv_disks (snd (compute_protected iv))))
        (fst (compute_protected iv)) expected s = Inr d) (sp_disk_serials spec) ds"
    and "d \<in> set ds"
  shows "may_erase spec expected iv d"
proof -
  from list_all2_elem [OF assms(2,3)] obtain s where s: "s \<in> set (sp_disk_serials spec)" and
    "resolve_disk (by_serial (inv_disks (snd (compute_protected iv))))
        (fst (compute_protected iv)) expected s = Inr d"
    by blast
  then obtain n where n: "dget (by_serial (inv_disks (snd (compute_protected iv)))) s = Some n"
    "s \<notin> set (fst (compute_protected iv))" "d = dk_path (node_info n)"
    "\<forall>k. dget expected s = Some k \<longrightarrow> dk_size (node_info n) = k"
    by (auto simp: resolve_disk_Inr)
  with compute_protected_serials [OF gather_fresh [OF assms(1)]] by_serial_SomeD [OF n(1)] s
  show ?thesis unfolding may_erase_def by blast
qed

end
