(* ===== verification/DevSeed.thy ===== *)
theory DevSeed
  imports StorageAgent
begin

text \<open>
  \<open>_seed_dev_disks\<close> of \<open>agent/state.py\<close>: the canned answers the development server gives
  Storage Manager, and the world in which the agent's commands are answered from a \<open>FakeRunner\<close>.
\<close>

definition dev_disk_size :: int where "dev_disk_size = 4000787030016"
definition dev_boot_disk_size :: int where "dev_boot_disk_size = 500107862016"

definition opt_json :: "string option \<Rightarrow> json" where
  "opt_json x = (case x of None \<Rightarrow> JNull | Some s \<Rightarrow> JStr s)"

text \<open>One \<open>lsblk\<close> entry with the keys both disks and partitions have.\<close>

definition dev_entry :: "string \<Rightarrow> string \<Rightarrow> string option \<Rightarrow> string option \<Rightarrow> string option \<Rightarrow> int \<Rightarrow> bool
    \<Rightarrow> string option \<Rightarrow> string option \<Rightarrow> string option \<Rightarrow> string option \<Rightarrow> json list \<Rightarrow> json" where
  "dev_entry name kind serial model wwn n rota tran fstype mountpoint uuid cs = JObj
     [(''name'', JStr name), (''path'', JStr (''/dev/'' @ name)), (''type'', JStr kind),
      (''serial'', opt_json serial), (''model'', opt_json model), (''wwn'', opt_json wwn),
      (''size'', JInt n), (''rota'', JBool rota), (''tran'', opt_json tran),
      (''fstype'', opt_json fstype), (''mountpoint'', opt_json mountpoint), (''uuid'', opt_json uuid),
      (''children'', JList cs)]"

definition spare_disk :: "string \<Rightarrow> string \<Rightarrow> string \<Rightarrow> json" where
  "spare_disk name serial n = dev_entry name ''disk'' (Some serial) (Some ''NAS-OS-SIM'')
     (Some (''0x5000000000000'' @ n)) dev_disk_size True (Some ''sata'') None None None []"

definition spare_disks :: "json list" where
  "spare_disks = [spare_disk ''sda'' ''NASOS-SIM-0001'' ''001'', spare_disk ''sdb'' ''NASOS-SIM-0002'' ''002'']"

definition boot_disk :: json where
  "boot_disk = dev_entry ''sdc'' ''disk'' (Some ''NASOS-SIM-0003'') (Some ''NAS-OS-BOOT'')
     (Some ''0x5000000000000003'') dev_boot_disk_size False (Some ''sata'') None None None
     [dev_entry ''sdc1'' ''part'' None None None 1073741824 False None (Some ''vfat'') (Some ''/boot'')
        (Some ''AAAA-BBBB'') [],
      dev_entry ''sdc2'' ''part'' None None None (dev_boot_disk_size - 1073741824) False None
        (Some ''xfs'') (Some ''/'') (Some ''11111111-2222-3333-4444-555555555555'') []]"

definition dev_lsblk :: json where
  "dev_lsblk = JObj [(''blockdevices'', JList (spare_disks @ [boot_disk]))]"

definition dev_report :: "string \<Rightarrow> json" where
  "dev_report kind = JObj [(''report'', JList [JObj [(kind, JList [])]])]"

definition dev_smart :: json where
  "dev_smart = JObj
     [(''smart_status'', JObj [(''passed'', JBool True)]),
      (''temperature'', JObj [(''current'', JInt 32)]),
      (''power_on_time'', JObj [(''hours'', JInt 120)]),
      (''ata_smart_attributes'', JObj [(''table'', JList [])])]"

definition fake_systemd_escape :: "string list \<Rightarrow> command_result" where
  "fake_systemd_escape argv =
     (let escaped = or_else (map (\<lambda>c. if c = CHR ''/'' then CHR ''-'' else c)
            (strip_char (CHR ''/'') (last argv))) ''-''
      in \<lparr>cr_argv = argv, cr_returncode = 0, cr_stdout = escaped @ ''.mount'' @ nl, cr_stderr = []\<rparr>)"

definition seed_dev_disks :: "fake_runner \<Rightarrow> fake_runner" where
  "seed_dev_disks fr =
     fr_respond [''systemd-escape''] fake_systemd_escape
       (fold (\<lambda>p. fr_expect (smartctl_argv p) 0 (dumps dev_smart) [])
          [''/dev/sda'', ''/dev/sdb'', ''/dev/sdc'']
         (fr_expect lvs_argv 0 (dumps (dev_report ''lv'')) []
           (fr_expect vgs_argv 0 (dumps (dev_report ''vg'')) []
             (fr_expect lsblk_argv 0 (dumps dev_lsblk) [] fr))))"

section \<open>A small world for the examples\<close>

text \<open>
  Two spare disks and a boot disk behind one-letter outputs, so that whole runs of the handlers
  evaluate quickly; every other command succeeds and prints its first word.
\<close>

definition demo_lsblk :: json where
  "demo_lsblk = JObj [(''blockdevices'', JList
     [dev_entry ''sda'' ''disk'' (Some ''A'') None None 8 True None None None None [],
      dev_entry ''sdb'' ''disk'' (Some ''B'') None None 8 True None None None None [],
      dev_entry ''sdc'' ''disk'' (Some ''C'') None None 9 False None None None None
        [dev_entry ''sdc1'' ''part'' None None None 9 False None (Some ''xfs'') (Some ''/'') None []]])]"

definition demo_out :: "string list \<Rightarrow> string" where
  "demo_out argv = (if argv = lsblk_argv then ''L'' else if argv = vgs_argv then ''V''
     else if argv = lvs_argv then ''W'' else if hd argv = ''smartctl'' then ''S''
     else if hd argv = ''systemd-escape'' then ''m.mount'' else hd argv)"

definition demo_pylib :: pylib where
  "demo_pylib = \<lparr>py_loads = map_of [(''L'', demo_lsblk), (''V'', dev_report ''vg''), (''W'', dev_report ''lv''),
     (''S'', dev_smart)], py_repr = (\<lambda>_. []), py_float = (\<lambda>_. None)\<rparr>"

definition demo_world :: world where
  "demo_world = \<lparr>w_log = [],
     w_cmd = (\<lambda>_ argv _. Inr \<lparr>cr_argv = argv, cr_returncode = 0, cr_stdout = demo_out argv, cr_stderr = []\<rparr>),
     w_unit = (\<lambda>_ _ _. Inr ''active''), w_fault = (\<lambda>_ _ _. None), w_clock = (\<lambda>_. ''t''),
     w_fs = [], w_progress = []\<rparr>"

definition demo_inventory :: inventory where
  "demo_inventory = (case fst (gather demo_pylib run_cmd mdstat_read demo_world) of
     Inl _ \<Rightarrow> \<lparr>inv_disks = [], inv_arrays = [], inv_vgs = [], inv_lvs = []\<rparr> | Inr iv \<Rightarrow> iv)"

definition demo_spec :: "string \<Rightarrow> plan_spec" where
  "demo_spec serial = \<lparr>sp_volume_name = ''v'', sp_level = ''basic'', sp_filesystem = ''xfs'',
     sp_disk_paths = [''/dev/sdx''], sp_disk_serials = [serial], sp_array_name = ''v'',
     sp_vg_name = ''nasos_v'', sp_lv_name = ''v'', sp_mountpoint = ''/volume/v''\<rparr>"

definition demo_run :: "string \<Rightarrow> (exn + unit) \<times> world" where
  "demo_run serial = execute_body demo_pylib (\<lambda>_. ''h'') default_settings (demo_spec serial)
     [(''A'', 8)] [''/volume/v''] demo_world"

end
