(* ===== verification/StorageSafety.thy ===== *)
theory StorageSafety
  imports DevSeed
begin

text \<open>
  What \<open>storage.execute_plan\<close> promises: the properties of the privileged storage handlers, over
  every world and hence over every behaviour of the commands and the file system.
\<close>

section \<open>Lemmas\<close>

context disk_target
begin

lemma only_checked:
  assumes "execute_body py sha st spec expected mps w = (r, w')"
  shows "\<exists>xs. hits w' = hits w @ xs \<and> (xs = [] \<or> (\<exists>iv w1.
      gather py run_cmd mdstat_read (started w) = (Inr iv, w1) \<and> (\<forall>d \<in> set xs. may_erase spec expected iv d)))"
  using assms
proof (cases rule: execute_hits)
  case (refused e)
  then show ?thesis by auto
next
  case (resolved sp w1 pre)
  from recheck_Inr [OF resolved(1)] obtain iv where g: "gather py run_cmd mdstat_read (started w) = (Inr iv, w1)"
    and l: "list_all2 (\<lambda>s d. resolve_disk (by_serial (inv_disks (snd (compute_protected iv))))
        (fst (compute_protected iv)) expected s = Inr d) (sp_disk_serials spec) (sp_disk_paths sp)" by blast
  have "set (concat (map tgt pre)) \<subseteq> set (sp_disk_paths sp)"
    using set_mono_prefix [OF plan_argvs_tgt [OF resolved(2)]] .
  then have "\<forall>d \<in> set (concat (map tgt pre)). may_erase spec expected iv d"
    using resolved_may_erase [OF g l] by blast
  with resolved(3) g show ?thesis by blast
qed

lemma all_or_prefix:
  assumes "execute_body py sha st spec expected mps w = (r, w')"
    and rc: "recheck py spec expected (started w) = (Inr sp, w1)"
  shows "\<exists>xs. prefix xs (sp_disk_paths sp) \<and> hits w' = hits w @ xs \<and> (r = Inr () \<longrightarrow> xs = sp_disk_paths sp)"
  using assms(1)
proof (cases rule: execute_hits)
  case (refused e)
  with rc show ?thesis by simp
next
  case (resolved sp' w1' pre)
  with rc have sp: "sp' = sp" "w1' = w1" by simp_all
  have "execute_body py sha st spec expected mps w = carry_out sha st mps sp w1"
    using rc by (simp add: execute_body_def thenE_def bindE_def progress_def started_def)
  with assms(1) have "r = Inr () \<Longrightarrow> \<exists>steps. build_steps sp = Inr steps"
    by (cases "build_steps sp") (auto simp: carry_out_def bindE_def)
  with plan_argvs_tgt [OF resolved(2)] plan_argvs_all resolved(3,4) sp show ?thesis by blast
qed

end

lemma own_commands_id:
  "concat (map own_commands xs) = xs \<Longrightarrow> set ys \<subseteq> set xs \<Longrightarrow> concat (map own_commands ys) = ys"
proof -
  have one: "own_commands a = [] \<or> own_commands a = [a]" for a by (simp add: own_commands_def)
  have len: "length (concat (map own_commands xs)) \<le> length xs" for xs
  proof (induction xs)
    case (Cons a xs)
    then show ?case using one [of a] by auto
  qed simp
  have all: "concat (map own_commands xs) = xs \<Longrightarrow> \<forall>a \<in> set xs. own_commands a = [a]" for xs
  proof (induction xs)
    case (Cons a xs)
    then show ?case using one [of a] len [of xs] by auto
  qed simp
  assume "concat (map own_commands xs) = xs" "set ys \<subseteq> set xs"
  with all [of xs] have "\<forall>a \<in> set ys. own_commands a = [a]" by blast
  then show ?thesis by (induction ys) auto
qed

lemma recheck_no_files: "keeps same_files (recheck py spec expected)"
proof -
  have md: "keeps same_files mdstat_read"
  proof -
    have "keeps same_files (read_bytes p)" for p
      by (rule keepsI) (simp add: fs_defs same_files_def split: option.split fnode.split)
    then show ?thesis unfolding mdstat_read_def
      by (auto intro!: keeps_bindE keeps_getsE keeps_ret same_files_refl same_files_trans)
  qed
  show ?thesis unfolding recheck_def
    by (auto intro!: keeps_bindE keeps_liftE same_files_refl same_files_trans
        gather_keeps_run run_cmd_same_files md split: prod.split)
qed

lemma recheck_reads: "keeps wr.reads (recheck py spec expected)"
  unfolding recheck_def
  by (auto intro!: keeps_bindE keeps_liftE wr.reads_refl wr.reads_trans wr.gather_reads
      wiped.quiet_mdstat split: prod.split)

lemma resolve_disk_Inl:
  "resolve_disk nodes prot expected s = Inl e \<Longrightarrow> \<exists>c m. e = RpcException c m"
  by (auto simp: resolve_disk_def split: option.splits if_splits)

lemma rmap_Inl: "rmap f xs = Inl e \<Longrightarrow> \<exists>x \<in> set xs. f x = Inl e"
proof (induction xs)
  case (Cons x xs)
  then show ?case by (cases "f x"; cases "rmap f xs") auto
qed simp

lemma rmap_Inl_of: "x \<in> set xs \<Longrightarrow> f x = Inl e \<Longrightarrow> \<exists>e'. rmap f xs = Inl e'"
proof (induction xs)
  case (Cons y xs)
  then show ?case by (cases "f y") auto
qed simp

lemma resolve_spec_refuses:
  assumes "s \<in> set (sp_disk_serials spec)" "s \<in> set prot"
  shows "\<exists>c m. resolve_spec spec iv prot expected = Inl (RpcException c m)"
proof -
  let ?f = "resolve_disk (by_serial (inv_disks iv)) prot expected"
  have "\<exists>e. ?f s = Inl e" using assms(2) by (auto simp: resolve_disk_def split: option.split)
  with assms(1) obtain e where e: "rmap ?f (sp_disk_serials spec) = Inl e" using rmap_Inl_of by metis
  with rmap_Inl resolve_disk_Inl obtain c m where "e = RpcException c m" by metis
  with e show ?thesis by (simp add: resolve_spec_def)
qed

lemma execute_refused:
  assumes "recheck py spec expected (started w) = (Inl e, w1)"
  shows "execute_body py sha st spec expected mps w = (Inl e, w1)"
    and "\<exists>cmds. w_calls w1 = w_calls w @ cmds \<and> (\<forall>c \<in> set cmds. read_only c)"
    and "w_fs w1 = w_fs w"
proof -
  show "execute_body py sha st spec expected mps w = (Inl e, w1)"
    using assms by (simp add: execute_body_def thenE_def bindE_def progress_def started_def)
  have "w_calls (started w) = w_calls w" "w_fs (started w) = w_fs w"
    by (simp_all add: started_def progress_def w_calls_def)
  with keepsD [OF recheck_reads assms] keepsD [OF recheck_no_files assms]
  show "\<exists>cmds. w_calls w1 = w_calls w @ cmds \<and> (\<forall>c \<in> set cmds. read_only c)" "w_fs w1 = w_fs w"
    by (simp_all add: wr.reads_def same_files_def)
qed

section \<open>Runs of the small world\<close>

definition demo_resolved :: plan_spec where
  "demo_resolved = (demo_spec ''A'')\<lparr>sp_disk_paths := [''/dev/sda'']\<rparr>"

lemma demo_recheck:
  "fst (recheck demo_pylib (demo_spec ''A'') [(''A'', 8)] (started demo_world)) = Inr demo_resolved"
  by code_simp

lemma demo_returns: "fst (demo_run ''A'') = Inr ()"
  by code_simp

lemma demo_run_ok: "\<exists>w'. demo_run ''A'' = (Inr (), w') \<and> destroyed wipe_target w' = [''/dev/sda'']"
proof -
  obtain w' where w': "demo_run ''A'' = (Inr (), w')"
    using demo_returns by (cases "demo_run ''A''") auto
  obtain w1 where "recheck demo_pylib (demo_spec ''A'') [(''A'', 8)] (started demo_world) = (Inr demo_resolved, w1)"
    using demo_recheck by (cases "recheck demo_pylib (demo_spec ''A'') [(''A'', 8)] (started demo_world)") auto
  from wiped.all_or_prefix [OF w' [unfolded demo_run_def] this] w' show ?thesis
    by (auto simp: demo_resolved_def destroyed_def w_calls_def demo_world_def)
qed

lemma demo_gather: "fst (gather demo_pylib run_cmd mdstat_read (started demo_world)) = Inr demo_inventory"
  by code_simp

lemma demo_boot_disk:
  "list_ex (\<lambda>t. serial_of (node_info t) = Some ''C'' \<and> dk_size (node_info t) = 9
      \<and> fst (walk (protected_pv_paths demo_inventory) t) \<noteq> None) (inv_disks demo_inventory)"
  by code_simp

lemma demo_steps: "\<exists>steps. build_steps demo_resolved = Inr steps"
  by (simp add: demo_resolved_def demo_spec_def build_steps_def pv_device_def mkfs_argv_def)

section \<open>Properties\<close>

text \<open>C1: Whatever the commands, the file system and systemd answer, and wherever the job fails, every
  disk the job wipes or relabels is the current path of a planned serial of the expected size, taken
  from the inventory gathered in this very job, and no disk with that serial hosts a mounted file
  system, active swap, an LVM physical volume in use or a RAID device.\<close>

theorem execute_erases_only_checked_disks:
  assumes "execute_body py sha st spec expected mountpoints w = (r, w')"
  shows "(\<exists>xs. destroyed wipe_target w' = destroyed wipe_target w @ xs \<and>
      (xs = [] \<or> (\<exists>iv w1. gather py run_cmd mdstat_read (started w) = (Inr iv, w1) \<and>
        (\<forall>d \<in> set xs. may_erase spec expected iv d)))) \<and>
    (\<exists>xs. destroyed label_target w' = destroyed label_target w @ xs \<and>
      (xs = [] \<or> (\<exists>iv w1. gather py run_cmd mdstat_read (started w) = (Inr iv, w1) \<and>
        (\<forall>d \<in> set xs. may_erase spec expected iv d))))"
  by (intro conjI wiped.only_checked [OF assms] labelled.only_checked [OF assms])

theorem execute_erases_only_checked_disks_witness:
  "\<exists>w' iv w1. demo_run ''A'' = (Inr (), w') \<and> destroyed wipe_target w' = [''/dev/sda''] \<and>
     gather demo_pylib run_cmd mdstat_read (started demo_world) = (Inr iv, w1) \<and>
     may_erase (demo_spec ''A'') [(''A'', 8)] iv ''/dev/sda''"
proof -
  obtain w' where w': "demo_run ''A'' = (Inr (), w')" "destroyed wipe_target w' = [''/dev/sda'']"
    using demo_run_ok by blast
  have "destroyed wipe_target demo_world = []" by (simp add: destroyed_def w_calls_def demo_world_def)
  with execute_erases_only_checked_disks [OF w'(1) [unfolded demo_run_def]] w' show ?thesis by auto
qed



text \<open>C3: The plan the user confirmed is what runs: apart from queries, \<open>blkid\<close>,
  \<open>systemd-escape\<close> and \<open>restorecon\<close>, the commands of the job are, in order, the commands of
  \<open>build_steps\<close> on the resolved specification, all of them or an initial part.\<close>

theorem execute_runs_the_previewed_commands:
  assumes "execute_body py sha st spec expected mountpoints w = (r, w')"
    and "recheck py spec expected (started w) = (Inr resolved, w1)"
    and "build_steps resolved = Inr steps"
  shows "\<exists>pre. prefix pre (run_argvs steps) \<and>
      destroyed own_commands w' = destroyed own_commands w @ pre \<and> (r = Inr () \<longrightarrow> pre = run_argvs steps)"
  using assms(1)
proof (cases rule: own.execute_hits)
  case (refused e)
  with assms(2) show ?thesis by simp
next
  case (resolved sp w1' pre)
  with assms(2,3) have p: "plan_argvs sp = run_argvs steps" by (simp add: plan_argvs_def)
  have "concat (map own_commands pre) = pre"
    using plan_own_commands [OF assms(3)] resolved(2) p own_commands_id by (metis set_mono_prefix)
  with resolved p show ?thesis by auto
qed

theorem execute_runs_the_previewed_commands_witness:
  "\<exists>w' steps. demo_run ''A'' = (Inr (), w') \<and> build_steps demo_resolved = Inr steps \<and>
     destroyed own_commands w' = destroyed own_commands demo_world @ run_argvs steps"
proof -
  obtain w' where w': "demo_run ''A'' = (Inr (), w')"
    using demo_run_ok by blast
  obtain steps where st: "build_steps demo_resolved = Inr steps" using demo_steps by blast
  obtain w1 where "recheck demo_pylib (demo_spec ''A'') [(''A'', 8)] (started demo_world) = (Inr demo_resolved, w1)"
    using demo_recheck by (cases "recheck demo_pylib (demo_spec ''A'') [(''A'', 8)] (started demo_world)") auto
  from execute_runs_the_previewed_commands [OF w' [unfolded demo_run_def] this st] w' st show ?thesis by auto
qed

text \<open>A plan that names a disk which now hosts something in use is refused with an RPC error: only
  queries were run and no file was written.\<close>

theorem execute_refuses_disk_in_use:
  assumes "gather py run_cmd mdstat_read (started w) = (Inr iv, w1)"
    and "s \<in> set (sp_disk_serials spec)"
    and "t \<in> set (inv_disks iv)" and "serial_of (node_info t) = Some s"
    and "hosts_use (protected_pv_paths iv) t"
    and "execute_body py sha st spec expected mountpoints w = (r, w')"
  shows "(\<exists>c m. r = Inl (RpcException c m)) \<and> w_fs w' = w_fs w \<and>
    (\<exists>cmds. w_calls w' = w_calls w @ cmds \<and> (\<forall>c \<in> set cmds. read_only c))"
proof -
  have "s \<in> set (fst (compute_protected iv))"
    using compute_protected_serials [OF gather_fresh [OF assms(1)]] assms(3-5) by blast
  then obtain c m where "resolve_spec spec (snd (compute_protected iv)) (fst (compute_protected iv)) expected
      = Inl (RpcException c m)"
    using resolve_spec_refuses [OF assms(2)] by blast
  with assms(1) have rc: "recheck py spec expected (started w) = (Inl (RpcException c m), w1)"
    by (simp add: recheck_def bindE_def case_prod_beta)
  show ?thesis using execute_refused [OF rc] assms(6) by auto
qed

theorem execute_refuses_disk_in_use_witness:
  "\<exists>c m w'. demo_run ''C'' = (Inl (RpcException c m), w') \<and> w_fs w' = w_fs demo_world"
proof -
  obtain t where t: "t \<in> set (inv_disks demo_inventory)" "serial_of (node_info t) = Some ''C''"
    "hosts_use (protected_pv_paths demo_inventory) t"
    using demo_boot_disk walk_reason by (auto simp: list_ex_iff)
  obtain w1 where g: "gather demo_pylib run_cmd mdstat_read (started demo_world) = (Inr demo_inventory, w1)"
    using demo_gather by (cases "gather demo_pylib run_cmd mdstat_read (started demo_world)") auto
  have s: "''C'' \<in> set (sp_disk_serials (demo_spec ''C''))" by (simp add: demo_spec_def)
  obtain r w' where r: "demo_run ''C'' = (r, w')" by fastforce
  from execute_refuses_disk_in_use [OF g s t r [unfolded demo_run_def]] r show ?thesis by auto
qed

text \<open>C4: In what \<open>storage.inventory\<close> returns, a device is marked protected exactly when it or a
  device below it is in use.\<close>

theorem inventory_marks_devices_in_use:
  assumes "get_inventory py run mdstat s = (Inr iv, t)"
    and "n \<in> set (flatten (inv_disks iv))"
  shows "dk_protected (node_info n) \<longleftrightarrow> hosts_use (protected_pv_paths iv) n"
proof -
  from assms(1) obtain iv0 s1 where g: "gather py run mdstat s = (Inr iv0, s1)"
    and iv: "iv = snd (compute_protected iv0)" by (auto simp: get_inventory_def bindE_eq_Inr)
  show ?thesis using compute_protected_marks [OF gather_fresh [OF g]] assms(2)
    by (simp add: iv protected_pv_paths_compute)
qed

theorem inventory_marks_devices_in_use_witness:
  "\<exists>iv w1 n. get_inventory demo_pylib run_cmd mdstat_read (started demo_world) = (Inr iv, w1) \<and>
     n \<in> set (flatten (inv_disks iv)) \<and> serial_of (node_info n) = Some ''C'' \<and> dk_protected (node_info n)"
proof -
  obtain t where t: "t \<in> set (inv_disks demo_inventory)" "serial_of (node_info t) = Some ''C''"
    "hosts_use (protected_pv_paths demo_inventory) t"
    using demo_boot_disk walk_reason by (auto simp: list_ex_iff)
  let ?iv = "snd (compute_protected demo_inventory)"
  let ?n = "snd (walk (protected_pv_paths demo_inventory) t)"
  obtain w1 where g: "get_inventory demo_pylib run_cmd mdstat_read (started demo_world) = (Inr ?iv, w1)"
    using demo_gather by (cases "gather demo_pylib run_cmd mdstat_read (started demo_world)")
      (auto simp: get_inventory_def)
  have n: "?n \<in> set (flatten (inv_disks ?iv))"
    using t(1) flatten_node_self by (fastforce simp: inv_disks_compute flatten_def)
  have "dk_protected (node_info ?n)"
    using inventory_marks_devices_in_use [OF g n] t(3) by (simp add: protected_pv_paths_compute hosts_use_walk)
  with g n t(2) show ?thesis by (metis walk_node mark_simps(8))
qed

end
