(* ===== verification/Accounts.thy ===== *)
theory Accounts
  imports World Schemas
begin

text \<open>
  \<open>system/users.py\<close> with both implementations of \<open>PosixUsers\<close>, and the handlers of
  \<open>agent/handlers/users.py\<close> and \<open>agent/handlers/groups.py\<close>, which are written against the
  protocol.
\<close>

section \<open>The protocol\<close>

record 's posix_users =
  pu_lookup :: "string \<Rightarrow> ('s, int option) prog"
  pu_create :: "string \<Rightarrow> string \<Rightarrow> string \<Rightarrow> ('s, int) prog"
  pu_delete :: "string \<Rightarrow> bool \<Rightarrow> ('s, unit) prog"
  pu_set_unix_password :: "string \<Rightarrow> string \<Rightarrow> ('s, unit) prog"
  pu_add_to_group :: "string \<Rightarrow> string \<Rightarrow> ('s, unit) prog"
  pu_remove_from_group :: "string \<Rightarrow> string \<Rightarrow> ('s, unit) prog"
  pu_smb_create :: "string \<Rightarrow> string \<Rightarrow> ('s, unit) prog"
  pu_smb_set_password :: "string \<Rightarrow> string \<Rightarrow> ('s, unit) prog"
  pu_smb_delete :: "string \<Rightarrow> ('s, unit) prog"
  pu_smb_set_enabled :: "string \<Rightarrow> bool \<Rightarrow> ('s, unit) prog"
  pu_group_create :: "string \<Rightarrow> ('s, int) prog"
  pu_group_delete :: "string \<Rightarrow> ('s, unit) prog"

section \<open>The real implementation\<close>

definition users_run :: "'s runner \<Rightarrow> string list \<Rightarrow> string \<Rightarrow> string option \<Rightarrow> ('s, unit) prog" where
  "users_run run argv err inp = bindE (run argv inp) (\<lambda>r.
     whenE (\<not> cr_ok r) (raise (SystemUserError (or_else (strip (cr_stderr r)) err))))"

definition int_of :: "string \<Rightarrow> ('s, int) prog" where
  "int_of s = (case parse_int s of None \<Rightarrow> raise (ValueError s) | Some i \<Rightarrow> ret i)"

definition useradd_argv :: "string \<Rightarrow> string \<Rightarrow> string \<Rightarrow> string list" where
  "useradd_argv username home_dir description =
     [''useradd'', ''-m'', ''-d'', home_dir, ''-s'', ''/sbin/nologin'', ''-G'', ''nasos-users'',
      ''-c'', description, username]"

definition real_create :: "'s runner \<Rightarrow> string \<Rightarrow> string \<Rightarrow> string \<Rightarrow> ('s, int) prog" where
  "real_create run username home_dir description =
     thenE (users_run run (useradd_argv username home_dir description)
              (''useradd failed for '' @ username) None)
    (bindE (run [''id'', ''-u'', username] None) (\<lambda>r.
       if \<not> cr_ok r
       then raise (SystemUserError (or_else (strip (cr_stderr r)) (''id -u failed for '' @ username)))
       else int_of (strip (cr_stdout r))))"

definition real_delete :: "'s runner \<Rightarrow> string \<Rightarrow> bool \<Rightarrow> ('s, unit) prog" where
  "real_delete run username delete_home =
     users_run run (if delete_home then [''userdel'', ''-r'', username] else [''userdel'', username])
       (''userdel failed for '' @ username) None"

definition chpasswd_input :: "string \<Rightarrow> string \<Rightarrow> string" where
  "chpasswd_input username password = username @ '':'' @ password @ nl"

definition smb_input :: "string \<Rightarrow> string" where
  "smb_input password = password @ nl @ password @ nl"

definition real_group_create :: "'s runner \<Rightarrow> string \<Rightarrow> ('s, int) prog" where
  "real_group_create run name =
     thenE (users_run run [''groupadd'', name] (''groupadd failed for '' @ name) None)
    (bindE (run [''getent'', ''group'', name] None) (\<lambda>r.
       if \<not> cr_ok r then raise (SystemUserError (''getent group failed for '' @ name))
       else (let parts = split_on (CHR '':'') (strip (cr_stdout r)) in
         if length parts \<le> 2 then raise IndexError else int_of (parts ! 2))))"

text \<open>\<open>lookup\<close> asks \<open>pwd.getpwnam\<close>, which is the argument \<open>getpw\<close>.\<close>

definition real_users :: "'s runner \<Rightarrow> (string \<Rightarrow> ('s, int option) prog) \<Rightarrow> 's posix_users" where
  "real_users run getpw = \<lparr>
     pu_lookup = getpw,
     pu_create = real_create run,
     pu_delete = real_delete run,
     pu_set_unix_password = (\<lambda>u p. users_run run [''chpasswd''] (''chpasswd failed for '' @ u)
       (Some (chpasswd_input u p))),
     pu_add_to_group = (\<lambda>u g. users_run run [''usermod'', ''-aG'', g, u] (''usermod failed for '' @ u) None),
     pu_remove_from_group = (\<lambda>u g. users_run run [''gpasswd'', ''-d'', u, g] (''gpasswd -d failed for '' @ u) None),
     pu_smb_create = (\<lambda>u p. users_run run [''smbpasswd'', ''-s'', ''-a'', u]
       (''smbpasswd -a failed for '' @ u) (Some (smb_input p))),
     pu_smb_set_password = (\<lambda>u p. users_run run [''smbpasswd'', ''-s'', u]
       (''smbpasswd failed for '' @ u) (Some (smb_input p))),
     pu_smb_delete = (\<lambda>u. users_run run [''pdbedit'', ''-x'', ''-u'', u] (''pdbedit -x failed for '' @ u) None),
     pu_smb_set_enabled = (\<lambda>u b. let flag = (if b then ''-e'' else ''-d'') in
       users_run run [''smbpasswd'', flag, u] (''smbpasswd '' @ flag @ '' failed for '' @ u) None),
     pu_group_create = real_group_create run,
     pu_group_delete = (\<lambda>g. users_run run [''groupdel'', g] (''groupdel failed for '' @ g) None)\<rparr>"

section \<open>The in-memory implementation\<close>

record fake_posix =
  fp_next_uid :: int
  fp_next_gid :: int
  fp_users :: "(string, int) dict"
  fp_groups :: "(string, int) dict"
  fp_memberships :: "(string, string list) dict"
  fp_unix_passwords :: "(string, string) dict"
  fp_smb_passwords :: "(string, string) dict"
  fp_smb_enabled :: "(string, bool) dict"
  fp_calls :: "string list"

definition fake_posix_init :: fake_posix where
  "fake_posix_init = \<lparr>fp_next_uid = 5000, fp_next_gid = 6000, fp_users = [], fp_groups = [],
     fp_memberships = [], fp_unix_passwords = [], fp_smb_passwords = [], fp_smb_enabled = [],
     fp_calls = []\<rparr>"

definition fp_call :: "string \<Rightarrow> fake_posix \<Rightarrow> fake_posix" where
  "fp_call c s = s\<lparr>fp_calls := fp_calls s @ [c]\<rparr>"

definition groups_of :: "fake_posix \<Rightarrow> string \<Rightarrow> string list" where
  "groups_of s u = (case dget (fp_memberships s) u of None \<Rightarrow> [] | Some g \<Rightarrow> g)"

text \<open>\<open>memberships.setdefault(u, set()).add(g)\<close>; a set is a list without repetitions.\<close>

definition fp_join :: "string \<Rightarrow> string \<Rightarrow> fake_posix \<Rightarrow> fake_posix" where
  "fp_join u g s = s\<lparr>fp_memberships := dset u (List.insert g (groups_of s u)) (fp_memberships s)\<rparr>"

definition fake_create :: "string \<Rightarrow> string \<Rightarrow> string \<Rightarrow> (fake_posix, int) prog" where
  "fake_create username home_dir description s =
     (let s1 = fp_call (''create:'' @ username) s; uid = fp_next_uid s1 in
      (Inr uid, fp_join username ''nasos-users''
         (s1\<lparr>fp_next_uid := uid + 1, fp_users := dset username uid (fp_users s1)\<rparr>)))"

definition fake_delete :: "string \<Rightarrow> bool \<Rightarrow> (fake_posix, unit) prog" where
  "fake_delete u delete_home = modifyE (\<lambda>s0. let s = fp_call (''delete:'' @ u) s0 in
     s\<lparr>fp_users := dpop u (fp_users s), fp_memberships := dpop u (fp_memberships s),
       fp_unix_passwords := dpop u (fp_unix_passwords s),
       fp_smb_passwords := dpop u (fp_smb_passwords s),
       fp_smb_enabled := dpop u (fp_smb_enabled s)\<rparr>)"

definition fake_remove_from_group :: "string \<Rightarrow> string \<Rightarrow> (fake_posix, unit) prog" where
  "fake_remove_from_group u g = modifyE (\<lambda>s0.
     let s = fp_call (''remove_from_group:'' @ u @ '':'' @ g) s0 in
     (case dget (fp_memberships s) u of None \<Rightarrow> s
      | Some gs \<Rightarrow> s\<lparr>fp_memberships := dset u (removeAll g gs) (fp_memberships s)\<rparr>))"

definition fake_group_create :: "string \<Rightarrow> (fake_posix, int) prog" where
  "fake_group_create g s =
     (let s1 = fp_call (''group_create:'' @ g) s; gid = fp_next_gid s1 in
      (Inr gid, s1\<lparr>fp_next_gid := gid + 1, fp_groups := dset g gid (fp_groups s1)\<rparr>))"

definition bool_str :: "bool \<Rightarrow> string" where
  "bool_str b = (if b then ''True'' else ''False'')"

definition fake_users :: "fake_posix posix_users" where
  "fake_users = \<lparr>
     pu_lookup = (\<lambda>u. getsE (\<lambda>s. dget (fp_users s) u)),
     pu_create = fake_create,
     pu_delete = fake_delete,
     pu_set_unix_password = (\<lambda>u p. modifyE (\<lambda>s. (fp_call (''set_unix_password:'' @ u) s)
       \<lparr>fp_unix_passwords := dset u p (fp_unix_passwords s)\<rparr>)),
     pu_add_to_group = (\<lambda>u g. modifyE (\<lambda>s. fp_join u g (fp_call (''add_to_group:'' @ u @ '':'' @ g) s))),
     pu_remove_from_group = fake_remove_from_group,
     pu_smb_create = (\<lambda>u p. modifyE (\<lambda>s. (fp_call (''smb_create:'' @ u) s)
       \<lparr>fp_smb_passwords := dset u p (fp_smb_passwords s),
        fp_smb_enabled := dset u True (fp_smb_enabled s)\<rparr>)),
     pu_smb_set_password = (\<lambda>u p. modifyE (\<lambda>s. (fp_call (''smb_set_password:'' @ u) s)
       \<lparr>fp_smb_passwords := dset u p (fp_smb_passwords s)\<rparr>)),
     pu_smb_delete = (\<lambda>u. modifyE (\<lambda>s. (fp_call (''smb_delete:'' @ u) s)
       \<lparr>fp_smb_passwords := dpop u (fp_smb_passwords s), fp_smb_enabled := dpop u (fp_smb_enabled s)\<rparr>)),
     pu_smb_set_enabled = (\<lambda>u b. modifyE (\<lambda>s. (fp_call (''smb_set_enabled:'' @ u @ '':'' @ bool_str b) s)
       \<lparr>fp_smb_enabled := dset u b (fp_smb_enabled s)\<rparr>)),
     pu_group_create = fake_group_create,
     pu_group_delete = (\<lambda>g. modifyE (\<lambda>s. (fp_call (''group_delete:'' @ g) s)
       \<lparr>fp_groups := dpop g (fp_groups s)\<rparr>))\<rparr>"

section \<open>Handlers\<close>

text \<open>\<open>except SystemUserError as exc: raise RpcException(code, str(exc))\<close>.\<close>

definition system_user_error :: "string \<Rightarrow> ('s, 'a) prog \<Rightarrow> ('s, 'a) prog" where
  "system_user_error c m = tryE m (\<lambda>e. case e of SystemUserError t \<Rightarrow> raise (RpcException c t) | _ \<Rightarrow> raise e)"

definition users_create :: "'s posix_users \<Rightarrow> string \<Rightarrow> string \<Rightarrow> string \<Rightarrow> ('s, rpc_result) prog" where
  "users_create pu username password description =
     bindE (system_user_error ''system_error''
       (bindE (pu_create pu username (''/home/'' @ username) description) (\<lambda>uid.
        thenE (pu_set_unix_password pu username password)
       (thenE (pu_smb_create pu username password) (ret uid)))))
       (\<lambda>uid. ret (UserInfo uid username))"

definition users_set_smb_enabled :: "'s posix_users \<Rightarrow> string \<Rightarrow> bool \<Rightarrow> ('s, rpc_result) prog" where
  "users_set_smb_enabled pu username enabled =
     thenE (system_user_error ''system_error'' (pu_smb_set_enabled pu username enabled)) (ret OkResult)"

definition users_delete :: "'s posix_users \<Rightarrow> string \<Rightarrow> bool \<Rightarrow> ('s, rpc_result) prog" where
  "users_delete pu username delete_home =
     thenE (tryE (pu_smb_delete pu username)
              (\<lambda>e. case e of SystemUserError _ \<Rightarrow> ret () | _ \<Rightarrow> raise e))
    (thenE (system_user_error ''system_error'' (pu_delete pu username delete_home)) (ret OkResult))"

definition users_set_password :: "'s posix_users \<Rightarrow> string \<Rightarrow> string \<Rightarrow> ('s, rpc_result) prog" where
  "users_set_password pu username password =
     thenE (system_user_error ''system_error'' (pu_set_unix_password pu username password))
    (thenE (system_user_error ''smb_password_sync_failed'' (pu_smb_set_password pu username password))
       (ret OkResult))"

definition users_import_existing :: "'s posix_users \<Rightarrow> string \<Rightarrow> ('s, rpc_result) prog" where
  "users_import_existing pu username =
     bindE (pu_lookup pu username) (\<lambda>found. case found of
       None \<Rightarrow> raise (RpcException ''not_found'' (''no such POSIX account: '' @ username))
     | Some uid \<Rightarrow> thenE (system_user_error ''system_error'' (pu_add_to_group pu username ''nasos-users''))
         (ret (UserInfo uid username)))"

fun users_handler :: "'s posix_users \<Rightarrow> users_params \<Rightarrow> ('s, rpc_result) prog" where
  "users_handler pu (UserCreateParams u p d) = users_create pu u p d"
| "users_handler pu (UserSetSmbEnabledParams u b) = users_set_smb_enabled pu u b"
| "users_handler pu (UserDeleteParams u h) = users_delete pu u h"
| "users_handler pu (UserSetPasswordParams u p) = users_set_password pu u p"
| "users_handler pu (UserImportParams u) = users_import_existing pu u"

fun groups_handler :: "'s posix_users \<Rightarrow> groups_params \<Rightarrow> ('s, rpc_result) prog" where
  "groups_handler pu (GroupCreateParams g d) =
     bindE (system_user_error ''system_error'' (pu_group_create pu g)) (\<lambda>gid. ret (GroupInfo gid g))"
| "groups_handler pu (GroupDeleteParams g) =
     thenE (system_user_error ''system_error'' (pu_group_delete pu g)) (ret OkResult)"
| "groups_handler pu (GroupAddMemberParams g u) =
     thenE (system_user_error ''system_error'' (pu_add_to_group pu u g)) (ret OkResult)"
| "groups_handler pu (GroupRemoveMemberParams g u) =
     thenE (system_user_error ''system_error'' (pu_remove_from_group pu u g)) (ret OkResult)"

section \<open>Errors\<close>

lemma case_SystemUserError:
  "(case e of SystemUserError t \<Rightarrow> f t | _ \<Rightarrow> g) = (if \<exists>t. e = SystemUserError t then f (str_exn e) else g)"
  by (cases e) auto

lemma system_user_error_Inr:
  "system_user_error c m s = (Inr x, t) \<longleftrightarrow> m s = (Inr x, t)"
  by (auto simp: system_user_error_def tryE_def case_SystemUserError raise_def split: prod.splits sum.splits if_splits)

lemma system_user_error_Inl:
  "system_user_error c m s = (Inl e, t) \<longleftrightarrow>
     (\<exists>d. m s = (Inl (SystemUserError d), t) \<and> e = RpcException c d) \<or>
     (m s = (Inl e, t) \<and> (\<forall>d. e \<noteq> SystemUserError d))"
  by (auto simp: system_user_error_def tryE_def case_SystemUserError raise_def split: prod.splits sum.splits if_splits)

section \<open>An account store\<close>

text \<open>What the handlers rely on, and what they then guarantee.\<close>

locale account_store =
  fixes pu :: "'s posix_users"
    and uid_of :: "'s \<Rightarrow> string \<Rightarrow> int option"
    and unix_pw :: "'s \<Rightarrow> string \<Rightarrow> string option"
    and smb_pw :: "'s \<Rightarrow> string \<Rightarrow> string option"
    and member :: "'s \<Rightarrow> string \<Rightarrow> string set"
  assumes lookup_law: "pu_lookup pu u s = (Inr (uid_of s u), s)"
    and create_law: "pu_create pu u h d s = (Inr i, t) \<Longrightarrow>
      uid_of t = (uid_of s)(u \<mapsto> i) \<and> unix_pw t = unix_pw s \<and> smb_pw t = smb_pw s \<and>
      member t = (member s)(u := insert ''nasos-users'' (member s u))"
    and unix_law: "pu_set_unix_password pu u p s = (Inr x, t) \<Longrightarrow>
      uid_of t = uid_of s \<and> unix_pw t = (unix_pw s)(u \<mapsto> p) \<and> smb_pw t = smb_pw s \<and> member t = member s"
    and smb_create_law: "pu_smb_create pu u p s = (Inr x, t) \<Longrightarrow>
      uid_of t = uid_of s \<and> unix_pw t = unix_pw s \<and> smb_pw t = (smb_pw s)(u \<mapsto> p) \<and> member t = member s"
    and smb_set_law: "pu_smb_set_password pu u p s = (Inr x, t) \<Longrightarrow>
      uid_of t = uid_of s \<and> unix_pw t = unix_pw s \<and> smb_pw t = (smb_pw s)(u \<mapsto> p) \<and> member t = member s"
    and smb_delete_law: "pu_smb_delete pu u s = (Inr x, t) \<Longrightarrow>
      uid_of t = uid_of s \<and> unix_pw t = unix_pw s \<and> smb_pw t = (smb_pw s)(u := None) \<and> member t = member s"
    and delete_law: "pu_delete pu u b s = (Inr x, t) \<Longrightarrow>
      uid_of t = (uid_of s)(u := None) \<and> unix_pw t = (unix_pw s)(u := None) \<and>
      smb_pw t = (smb_pw s)(u := None) \<and> member t = (member s)(u := {})"
    and join_law: "pu_add_to_group pu u g s = (Inr x, t) \<Longrightarrow>
      uid_of t = uid_of s \<and> unix_pw t = unix_pw s \<and> smb_pw t = smb_pw s \<and>
      member t = (member s)(u := insert g (member s u))"
begin

lemma create_account:
  assumes "users_create pu u p d s = (Inr r, t)"
  shows "\<exists>i. r = UserInfo i u \<and> uid_of t = (uid_of s)(u \<mapsto> i) \<and> unix_pw t = (unix_pw s)(u \<mapsto> p) \<and>
    smb_pw t = (smb_pw s)(u \<mapsto> p) \<and> ''nasos-users'' \<in> member t u"
proof -
  from assms obtain i s1 s2 where *: "pu_create pu u (''/home/'' @ u) d s = (Inr i, s1)"
    "pu_set_unix_password pu u p s1 = (Inr (), s2)" "pu_smb_create pu u p s2 = (Inr (), t)" "r = UserInfo i u"
    by (auto simp: users_create_def bindE_eq_Inr thenE_def system_user_error_Inr)
  show ?thesis using create_law [OF *(1)] unix_law [OF *(2)] smb_create_law [OF *(3)] *(4) by simp
qed

lemma gone_after_delete:
  "users_delete pu u b s = (Inr r, t) \<Longrightarrow>
     uid_of t u = None \<and> unix_pw t u = None \<and> smb_pw t u = None \<and> member t u = {}"
  using delete_law by (fastforce simp: users_delete_def bindE_eq_Inr thenE_def system_user_error_Inr)

lemma set_password_both:
  assumes "users_set_password pu u p s = (Inr r, t)"
  shows "unix_pw t = (unix_pw s)(u \<mapsto> p) \<and> smb_pw t = (smb_pw s)(u \<mapsto> p) \<and> uid_of t = uid_of s"
proof -
  from assms obtain s1 where *: "pu_set_unix_password pu u p s = (Inr (), s1)"
    "pu_smb_set_password pu u p s1 = (Inr (), t)"
    by (auto simp: users_set_password_def bindE_eq_Inr thenE_def system_user_error_Inr)
  show ?thesis using unix_law [OF *(1)] smb_set_law [OF *(2)] by simp
qed

text \<open>A failed synchronisation is reported with its own code, and the Unix password has changed.\<close>

lemma sync_failed:
  assumes "users_set_password pu u p s = (Inl (RpcException ''smb_password_sync_failed'' m), t)"
    and "\<And>q s c d t. pu_set_unix_password pu u q s \<noteq> (Inl (RpcException c d), t)"
  shows "\<exists>s1. pu_set_unix_password pu u p s = (Inr (), s1) \<and> unix_pw s1 u = Some p"
proof -
  from assms have "\<exists>s1. pu_set_unix_password pu u p s = (Inr (), s1)"
    by (auto simp: users_set_password_def bindE_eq_Inl thenE_def system_user_error_Inr system_user_error_Inl)
  then show ?thesis using unix_law by fastforce
qed

end

definition fp_member :: "fake_posix \<Rightarrow> string \<Rightarrow> string set" where
  "fp_member s u = set (groups_of s u)"

lemma groups_of_simps [simp]:
  "groups_of (fp_join u g s) v = (if v = u then List.insert g (groups_of s u) else groups_of s v)"
  "groups_of (fp_call c s) v = groups_of s v"
  by (simp_all add: groups_of_def fp_join_def fp_call_def dget_dset)

lemma groups_of_frame [simp]:
  "groups_of (s\<lparr>fp_users := x\<rparr>) v = groups_of s v" "groups_of (s\<lparr>fp_unix_passwords := y\<rparr>) v = groups_of s v"
  "groups_of (s\<lparr>fp_smb_passwords := y\<rparr>) v = groups_of s v" "groups_of (s\<lparr>fp_smb_enabled := z\<rparr>) v = groups_of s v"
  "groups_of (s\<lparr>fp_next_uid := n\<rparr>) v = groups_of s v"
  by (simp_all add: groups_of_def)

lemma fp_member_simps [simp]:
  "fp_member (fp_join u g s) = (fp_member s)(u := insert g (fp_member s u))"
  "fp_member (fp_call c s) = fp_member s" "fp_member (s\<lparr>fp_users := x\<rparr>) = fp_member s"
  "fp_member (s\<lparr>fp_unix_passwords := y\<rparr>) = fp_member s" "fp_member (s\<lparr>fp_smb_passwords := y\<rparr>) = fp_member s"
  "fp_member (s\<lparr>fp_smb_enabled := z\<rparr>) = fp_member s" "fp_member (s\<lparr>fp_next_uid := n\<rparr>) = fp_member s"
  by (rule ext, simp add: fp_member_def)+

lemma fp_simps [simp]:
  "fp_users (fp_join u g s) = fp_users s" "fp_unix_passwords (fp_join u g s) = fp_unix_passwords s"
  "fp_smb_passwords (fp_join u g s) = fp_smb_passwords s" "fp_next_uid (fp_join u g s) = fp_next_uid s"
  "fp_users (fp_call c s) = fp_users s" "fp_unix_passwords (fp_call c s) = fp_unix_passwords s"
  "fp_smb_passwords (fp_call c s) = fp_smb_passwords s" "fp_next_uid (fp_call c s) = fp_next_uid s"
  "fp_memberships (fp_call c s) = fp_memberships s"
  by (simp_all add: fp_join_def fp_call_def)

lemma fp_member_deleted:
  "fp_member (s\<lparr>fp_users := a, fp_memberships := dpop u (fp_memberships s), fp_unix_passwords := b,
     fp_smb_passwords := c, fp_smb_enabled := d\<rparr>) = (fp_member s)(u := {})"
  by (rule ext) (simp add: fp_member_def groups_of_def dget_dpop)

interpretation fake_posix: account_store fake_users "\<lambda>s. dget (fp_users s)" "\<lambda>s. dget (fp_unix_passwords s)"
  "\<lambda>s. dget (fp_smb_passwords s)" fp_member
proof (unfold_locales, goal_cases)
  case (7 u b s x t)
  then have "t = (fp_call (''delete:'' @ u) s)\<lparr>fp_users := dpop u (fp_users s),
      fp_memberships := dpop u (fp_memberships (fp_call (''delete:'' @ u) s)),
      fp_unix_passwords := dpop u (fp_unix_passwords s), fp_smb_passwords := dpop u (fp_smb_passwords s),
      fp_smb_enabled := dpop u (fp_smb_enabled (fp_call (''delete:'' @ u) s))\<rparr>"
    by (simp add: fake_users_def fake_delete_def Let_def modifyE_def)
  then show ?case by (simp only: fp_member_deleted) (simp add: dget_dpop fun_eq_iff)
qed (auto simp: fake_users_def fake_create_def Let_def modifyE_def dget_dset dget_dpop)

section \<open>What chpasswd is told\<close>

text \<open>
  The documented input of \<open>chpasswd\<close>: one line per account, the name up to the first colon, the
  password after it.
\<close>

definition chpasswd_accounts :: "string \<Rightarrow> (string \<times> string) list" where
  "chpasswd_accounts inp = map (partition_on (CHR '':'')) (filter (\<lambda>l. l \<noteq> []) (split_on LF inp))"

lemma partition_on_no_sep: "c \<notin> set a \<Longrightarrow> partition_on c (a @ c # b) = (a, b)"
  by (induction a) auto

lemma chpasswd_accounts_input:
  "CHR '':'' \<notin> set u \<Longrightarrow> LF \<notin> set u \<Longrightarrow> LF \<notin> set p \<Longrightarrow> chpasswd_accounts (chpasswd_input u p) = [(u, p)]"
proof -
  assume u: "CHR '':'' \<notin> set u" "LF \<notin> set u" and p: "LF \<notin> set p"
  have "split_on LF ((u @ '':'' @ p) @ LF # []) = (u @ '':'' @ p) # split_on LF []"
    by (rule split_on_append) (use u p in \<open>auto simp: LF_def\<close>)
  then have "split_on LF (chpasswd_input u p) = [u @ '':'' @ p, []]"
    by (simp add: chpasswd_input_def nl_def)
  with partition_on_no_sep [OF u(1)] show ?thesis by (simp add: chpasswd_accounts_def)
qed

text \<open>In the fake, every uid handed out is below the next one and no two accounts share one.\<close>

definition uids_ok :: "fake_posix \<Rightarrow> bool" where
  "uids_ok s \<longleftrightarrow> (\<forall>u i. dget (fp_users s) u = Some i \<longrightarrow> i < fp_next_uid s) \<and>
     (\<forall>u v i. dget (fp_users s) u = Some i \<longrightarrow> dget (fp_users s) v = Some i \<longrightarrow> u = v)"

lemma uids_ok_update:
  "uids_ok s \<Longrightarrow> fp_users t = dset u (fp_next_uid s) (fp_users s) \<Longrightarrow> fp_next_uid t = fp_next_uid s + 1 \<Longrightarrow> uids_ok t"
  by (fastforce simp: uids_ok_def dget_dset)

lemma uids_ok_same: "uids_ok s \<Longrightarrow> fp_users t = fp_users s \<Longrightarrow> fp_next_uid t = fp_next_uid s \<Longrightarrow> uids_ok t"
  by (simp add: uids_ok_def)

lemma uids_ok_pop: "uids_ok s \<Longrightarrow> fp_users t = dpop u (fp_users s) \<Longrightarrow> fp_next_uid t = fp_next_uid s \<Longrightarrow> uids_ok t"
  by (auto simp: uids_ok_def dget_dpop)

text \<open>A world in which one command fails.\<close>

definition accounts_world :: "string \<Rightarrow> world" where
  "accounts_world failing = \<lparr>w_log = [],
     w_cmd = (\<lambda>_ argv _. Inr \<lparr>cr_argv = argv, cr_returncode = (if hd argv = failing then 1 else 0),
       cr_stdout = ''5'', cr_stderr = ''bad''\<rparr>),
     w_unit = (\<lambda>_ _ _. Inr ''active''), w_fault = (\<lambda>_ _ _. None), w_clock = (\<lambda>_. ''t''),
     w_fs = [], w_progress = []\<rparr>"

section \<open>Properties\<close>

text \<open>Creating a user on the in-memory backend always succeeds: the account exists with the uid
  reported, is in \<open>nasos-users\<close>, and has the given password in both databases; no other account changes.\<close>

theorem users_create_on_fake:
  "\<exists>i t. users_create fake_users u p d s = (Inr (UserInfo i u), t) \<and>
     dget (fp_users t) = (dget (fp_users s))(u \<mapsto> i) \<and>
     dget (fp_unix_passwords t) = (dget (fp_unix_passwords s))(u \<mapsto> p) \<and>
     dget (fp_smb_passwords t) = (dget (fp_smb_passwords s))(u \<mapsto> p) \<and> ''nasos-users'' \<in> fp_member t u"
proof -
  obtain r t where "users_create fake_users u p d s = (Inr r, t)"
    by (simp add: users_create_def fake_users_def fake_create_def Let_def bindE_def thenE_def
        system_user_error_def tryE_def modifyE_def ret_def)
  with fake_posix.create_account [OF this] show ?thesis by auto
qed

text \<open>A user that has been deleted is gone completely: no account, no password in either database,
  no group membership.\<close>

theorem users_delete_leaves_nothing:
  assumes "users_delete fake_users u b s = (Inr r, t)"
  shows "dget (fp_users t) u = None \<and> dget (fp_unix_passwords t) u = None \<and>
    dget (fp_smb_passwords t) u = None \<and> fp_member t u = {}"
  by (rule fake_posix.gone_after_delete [OF assms])

theorem users_delete_leaves_nothing_witness:
  "\<exists>r t. users_delete fake_users ''bob'' True (snd (users_create fake_users ''bob'' ''pw'' [] fake_posix_init)) = (Inr r, t)
     \<and> dget (fp_unix_passwords t) ''bob'' = None"
proof -
  let ?s = "snd (users_create fake_users ''bob'' ''pw'' [] fake_posix_init)"
  obtain r t where r: "users_delete fake_users ''bob'' True ?s = (Inr r, t)"
    by (simp add: users_delete_def fake_users_def fake_delete_def Let_def thenE_def bindE_def
        system_user_error_def tryE_def modifyE_def ret_def)
  with users_delete_leaves_nothing [OF r] show ?thesis by blast
qed

text \<open>Every handler of users and groups keeps the uids of the in-memory backend unique.\<close>

theorem handlers_keep_uids_unique:
  assumes "uids_ok s"
  shows "uids_ok (snd (users_handler fake_users p s)) \<and> uids_ok (snd (groups_handler fake_users g s))"
proof
  have up: "uids_ok t" if "fp_users t = fp_users s \<and> fp_next_uid t = fp_next_uid s" for t
    using uids_ok_same [OF assms] that by simp
  note prog = fake_users_def Let_def thenE_def bindE_def system_user_error_def tryE_def modifyE_def
    ret_def raise_def
  show "uids_ok (snd (users_handler fake_users p s))"
  proof (cases p)
    case (UserCreateParams u q d)
    show ?thesis unfolding UserCreateParams
      by (rule uids_ok_update [OF assms, where u = u]) (simp_all add: users_create_def fake_create_def prog)
  next
    case (UserDeleteParams u b)
    show ?thesis unfolding UserDeleteParams
      by (rule uids_ok_pop [OF assms, where u = u]) (simp_all add: users_delete_def fake_delete_def prog)
  next
    case (UserImportParams u)
    show ?thesis unfolding UserImportParams
      by (rule up) (simp add: users_import_existing_def prog split: option.split)
  qed (auto intro!: up simp: users_set_smb_enabled_def users_set_password_def prog)
  show "uids_ok (snd (groups_handler fake_users g s))"
    by (cases g) (auto intro!: up simp: fake_remove_from_group_def fake_group_create_def prog fp_call_def
        split: option.split)
qed

theorem handlers_keep_uids_unique_witness:
  "uids_ok (snd (users_handler fake_users (UserCreateParams ''bob'' ''pw'' []) fake_posix_init))"
proof -
  have "uids_ok fake_posix_init" by (simp add: uids_ok_def fake_posix_init_def)
  from handlers_keep_uids_unique [OF this] show ?thesis by blast
qed

text \<open>For a valid user name, what chpasswd reads is exactly that one account and password, as long
  as the password has no line feed.\<close>

theorem chpasswd_sets_one_account:
  assumes "users_params_ok (UserSetPasswordParams u p)" and "LF \<notin> set p"
  shows "chpasswd_accounts (chpasswd_input u p) = [(u, p)]"
proof -
  have "CHR '':'' \<notin> set u" "LF \<notin> set u"
    using assms(1) valid_username_excludes [of u] by simp_all
  then show ?thesis using assms(2) by (rule chpasswd_accounts_input)
qed

theorem chpasswd_sets_one_account_witness:
  "chpasswd_accounts (chpasswd_input ''bob'' ''a:b'') = [(''bob'', ''a:b'')]"
  by (rule chpasswd_sets_one_account) (simp_all add: LF_def, code_simp)


text \<open>On the real backend a failing step of \<open>users.create\<close> is not undone: when chpasswd fails, the
  account made by useradd stays, since no command follows.\<close>

theorem users_create_leaves_account_behind:
  "fst (users_create (real_users run_cmd (\<lambda>_. ret None)) ''bob'' ''pw'' [] (accounts_world ''chpasswd'')) =
       Inl (RpcException ''system_error'' ''bad'') \<and>
   map hd (w_calls (snd (users_create (real_users run_cmd (\<lambda>_. ret None)) ''bob'' ''pw'' []
     (accounts_world ''chpasswd'')))) = [''useradd'', ''id'', ''chpasswd'']"
  by code_simp

end
