(* ===== verification/Acl.thy ===== *)
theory Acl
  imports World Schemas
begin

text \<open>
  \<open>system/acl.py\<close>: setting and reading the access-control list of a share, on the commands
  \<open>setfacl\<close>/\<open>getfacl\<close> and in memory.
\<close>

section \<open>Entries\<close>

definition always_entries :: string where
  "always_entries = ''u::rwx,g::---,m::rwx,d:u::rwx,d:g::---,d:m::rwx,o::---,d:o::---''"

fun qualifier :: "principal_kind \<Rightarrow> string" where
  "qualifier User_kind = ''u''"
| "qualifier Group_kind = ''g''"

fun perm :: "acl_level \<Rightarrow> string" where
  "perm RW = ''rwx''"
| "perm RO = ''r-x''"

definition entry_spec :: "acl_entry \<Rightarrow> string" where
  "entry_spec e = (case e of (k, i, l) \<Rightarrow> qualifier k @ '':'' @ int_str i @ '':'' @ perm l)"

definition acl_specs :: "acl_entry list \<Rightarrow> string list" where
  "acl_specs entries =
     always_entries # concat (map (\<lambda>e. [entry_spec e, ''d:'' @ entry_spec e]) entries)"

definition reset_args :: "string \<Rightarrow> bool \<Rightarrow> string list" where
  "reset_args path recursive = (if recursive then [''-b'', ''-R'', path] else [''-b'', path])"

definition apply_args :: "string \<Rightarrow> acl_entry list \<Rightarrow> bool \<Rightarrow> string list" where
  "apply_args path entries recursive =
     (if recursive then [''-R'', ''-m'', join '','' (acl_specs entries), path]
      else [''-m'', join '','' (acl_specs entries), path])"

section \<open>Parsing\<close>

fun acl_line :: "string list \<Rightarrow> exn + acl_entry list" where
  "acl_line [q, i, p] =
     (if (q \<noteq> ''user'' \<and> q \<noteq> ''group'') \<or> i = [] then Inr []
      else (case parse_int i of None \<Rightarrow> Inl (ValueError i)
        | Some n \<Rightarrow> Inr [(if q = ''user'' then User_kind else Group_kind, n,
                       if CHR ''w'' \<in> set p then RW else RO)]))"
| "acl_line _ = Inr []"

fun parse_lines :: "string list \<Rightarrow> exn + acl_entry list" where
  "parse_lines [] = Inr []"
| "parse_lines (l # ls) =
     (let line = strip l in
      case (if line = [] \<or> startswith line ''#'' \<or> startswith line ''default:'' then Inr []
            else acl_line (split_on (CHR '':'') line)) of
        Inl e \<Rightarrow> Inl e
      | Inr es \<Rightarrow> (case parse_lines ls of Inl e \<Rightarrow> Inl e | Inr rest \<Rightarrow> Inr (es @ rest)))"

definition parse_getfacl :: "string \<Rightarrow> exn + acl_entry list" where
  "parse_getfacl output = parse_lines (splitlines output)"

section \<open>The adapters\<close>

record 's acl =
  acl_replace_all :: "string \<Rightarrow> acl_entry list \<Rightarrow> bool \<Rightarrow> ('s, unit) prog"
  acl_read :: "string \<Rightarrow> ('s, acl_entry list) prog"

definition acl_run :: "'s runner \<Rightarrow> string list \<Rightarrow> ('s, unit) prog" where
  "acl_run run args = bindE (run (''setfacl'' # args) None) (\<lambda>r.
     whenE (\<not> cr_ok r)
       (raise (AclError (or_else (strip (cr_stderr r)) (''setfacl '' @ join '' '' args @ '' failed'')))))"

definition setfacl_replace_all :: "'s runner \<Rightarrow> string \<Rightarrow> acl_entry list \<Rightarrow> bool \<Rightarrow> ('s, unit) prog" where
  "setfacl_replace_all run path entries recursive =
     thenE (acl_run run (reset_args path recursive)) (acl_run run (apply_args path entries recursive))"

definition getfacl_argv :: "string \<Rightarrow> string list" where
  "getfacl_argv path = [''getfacl'', ''-n'', ''--absolute-names'', ''--omit-header'', path]"

definition setfacl_read :: "'s runner \<Rightarrow> string \<Rightarrow> ('s, acl_entry list) prog" where
  "setfacl_read run path = bindE (run (getfacl_argv path) None) (\<lambda>r.
     if \<not> cr_ok r
     then raise (AclError (or_else (strip (cr_stderr r)) (''getfacl '' @ path @ '' failed'')))
     else liftE (parse_getfacl (cr_stdout r)))"

definition setfacl_acl :: "'s runner \<Rightarrow> 's acl" where
  "setfacl_acl run = \<lparr>acl_replace_all = setfacl_replace_all run, acl_read = setfacl_read run\<rparr>"

text \<open>\<open>FakeAcl\<close>: a dictionary of dictionaries.\<close>

type_synonym fake_acl = "(string, (principal_kind \<times> int, acl_level) dict) dict"

definition entries_dict :: "acl_entry list \<Rightarrow> (principal_kind \<times> int, acl_level) dict" where
  "entries_dict es = dict_of (map (\<lambda>(k, i, l). ((k, i), l)) es)"

definition fake_acl :: "fake_acl acl" where
  "fake_acl = \<lparr>
     acl_replace_all = (\<lambda>path es recursive. modifyE (dset path (entries_dict es))),
     acl_read = (\<lambda>path. getsE (\<lambda>s. map (\<lambda>((k, i), l). (k, i, l))
       (case dget s path of None \<Rightarrow> [] | Some d \<Rightarrow> d)))\<rparr>"

section \<open>The interface\<close>

text \<open>The protocol: what was put is what is read, last level per principal, and other paths are
  left alone.\<close>

definition acl_map :: "acl_entry list \<Rightarrow> principal_kind \<times> int \<Rightarrow> acl_level option" where
  "acl_map es p = dget (map (\<lambda>(k, i, l). ((k, i), l)) (rev es)) p"

locale acl_store =
  fixes acl :: "'s acl" and content :: "'s \<Rightarrow> string \<Rightarrow> principal_kind \<times> int \<Rightarrow> acl_level option"
    and wf :: "'s \<Rightarrow> bool"
  assumes replace_law: "wf s \<Longrightarrow> acl_replace_all acl path es r s = (Inr x, t) \<Longrightarrow>
      wf t \<and> content t = (content s)(path := acl_map es)"
    and read_law: "wf s \<Longrightarrow> acl_read acl path s = (Inr es, t) \<Longrightarrow>
      wf t \<and> acl_map es = content s path \<and> content t = content s"
begin

lemma replace_then_read:
  assumes "wf s" "acl_replace_all acl path es r s = (Inr x, t)" "acl_read acl path t = (Inr es', u)"
  shows "acl_map es' = acl_map es"
  using replace_law [OF assms(1,2)] read_law [OF _ assms(3)] by simp

text \<open>A principal that is no longer in the list has no access afterwards.\<close>

lemma removed_principal_has_no_access:
  assumes "wf s" "acl_replace_all acl path es r s = (Inr x, t)" "acl_read acl path t = (Inr es', u)"
    and "\<forall>l. (k, i, l) \<notin> set es"
  shows "\<forall>l. (k, i, l) \<notin> set es'"
proof -
  have none: "acl_map xs (k, i) = None \<longleftrightarrow> (\<forall>l. (k, i, l) \<notin> set xs)" for xs
    by (force simp: acl_map_def map_of_eq_None_iff)
  with replace_then_read [OF assms(1-3)] assms(4) show ?thesis by metis
qed

end

definition fake_content :: "fake_acl \<Rightarrow> string \<Rightarrow> principal_kind \<times> int \<Rightarrow> acl_level option" where
  "fake_content s path = dget (case dget s path of None \<Rightarrow> [] | Some d \<Rightarrow> d)"

definition fake_wf :: "fake_acl \<Rightarrow> bool" where
  "fake_wf s \<longleftrightarrow> (\<forall>p d. dget s p = Some d \<longrightarrow> distinct (map fst d))"

lemma map_of_rev_distinct: "distinct (map fst d) \<Longrightarrow> map_of (rev d) = map_of d"
  by (rule ext) (metis distinct_rev map_of_eq_Some_iff not_Some_eq rev_map set_rev)

lemma acl_map_of_dict:
  "distinct (map fst d) \<Longrightarrow> acl_map (map (\<lambda>((k, i), l). (k, i, l)) d) = dget d"
proof -
  assume d: "distinct (map fst d)"
  have "map (\<lambda>(k, i, l). ((k, i), l)) (rev (map (\<lambda>((k, i), l). (k, i, l)) d)) = rev d"
    by (induction d) auto
  with d show ?thesis unfolding acl_map_def by (simp add: map_of_rev_distinct)
qed

lemma dget_entries_dict: "dget (entries_dict es) = acl_map es"
  by (rule ext) (simp add: entries_dict_def dget_dict_of acl_map_def rev_map)

interpretation fake_acl: acl_store fake_acl fake_content fake_wf
proof (unfold_locales, goal_cases)
  case (1 s path es r x t)
  then have t: "t = dset path (entries_dict es) s" by (simp add: fake_acl_def)
  have "distinct (map fst (entries_dict es))" by (simp add: entries_dict_def distinct_dict_of)
  with 1(1) have "fake_wf t" by (simp add: t fake_wf_def dget_dset)
  then show ?case by (simp add: t fake_content_def dget_dset fun_eq_iff dget_entries_dict)
next
  case (2 s path es t)
  then show ?case
    by (cases "dget s path") (auto simp: fake_acl_def fake_content_def fake_wf_def acl_map_of_dict
        acl_map_of_dict [of "[]", simplified])
qed

section \<open>What getfacl prints\<close>

text \<open>
  The documented output of \<open>getfacl -n --absolute-names --omit-header\<close> for a directory whose ACL was
  set by \<open>replace_all\<close>: owner, named users, owning group, named groups, mask, others, then the same
  again as default entries, and an empty line.
\<close>

definition named_line :: "acl_entry \<Rightarrow> string" where
  "named_line e = (case e of (k, i, l) \<Rightarrow>
     (case k of User_kind \<Rightarrow> ''user:'' | Group_kind \<Rightarrow> ''group:'') @ int_str i @ '':'' @ perm l)"

definition of_kind :: "principal_kind \<Rightarrow> acl_entry list \<Rightarrow> acl_entry list" where
  "of_kind k es = filter (\<lambda>e. fst e = k) es"

definition access_lines :: "acl_entry list \<Rightarrow> string list" where
  "access_lines es = [''user::rwx''] @ map named_line (of_kind User_kind es) @ [''group::---'']
     @ map named_line (of_kind Group_kind es) @ [''mask::rwx'', ''other::---'']"

definition getfacl_text :: "acl_entry list \<Rightarrow> string" where
  "getfacl_text es = concat (map (\<lambda>l. l @ nl)
     (access_lines es @ map (\<lambda>l. ''default:'' @ l) (access_lines es) @ [[]]))"

lemma digits_chars: "\<forall>c \<in> set (nat_str n). is_digit c"
  using nat_str_digits by blast

lemma named_line_chars:
  assumes "0 \<le> i" "c \<in> set (named_line (k, i, l))"
  shows "\<not> is_break c \<and> \<not> is_space c"
proof -
  have "is_digit c \<or> c \<in> set ''user:group:rwx-''"
    using assms digits_chars [of "nat i"] by (cases k; cases l) (auto simp: named_line_def int_str_def)
  then show ?thesis by (auto simp: is_digit_def is_break_def is_space_def code_def)
qed

lemma parse_named_line:
  assumes "0 \<le> i"
  shows "parse_lines [named_line (k, i, l)] = Inr [(k, i, l)]"
proof -
  let ?w = "case k of User_kind \<Rightarrow> ''user'' | Group_kind \<Rightarrow> ''group''"
  have line: "named_line (k, i, l) = ?w @ CHR '':'' # nat_str (nat i) @ CHR '':'' # perm l"
    using assms by (cases k) (simp_all add: named_line_def int_str_def)
  have "CHR '':'' \<notin> set (nat_str (nat i))" using digits_chars [of "nat i"] by (auto simp: is_digit_def code_def)
  moreover have "CHR '':'' \<notin> set ?w" "CHR '':'' \<notin> set (perm l)" by (cases k; cases l; simp)+
  ultimately have split: "split_on (CHR '':'') (named_line (k, i, l)) = [?w, nat_str (nat i), perm l]"
    unfolding line by (simp add: split_on_append split_on_no_sep)
  have "strip (named_line (k, i, l)) = named_line (k, i, l)"
    by (rule strip_id) (metis named_line_chars [OF assms] hd_in_set last_in_set)
  moreover have "nat_str (nat i) \<noteq> []" by (metis digits_chars nat_str_not_Nil)
  moreover have "named_line (k, i, l) \<noteq> []" "\<not> startswith (named_line (k, i, l)) ''#''"
    "\<not> startswith (named_line (k, i, l)) ''default:''"
    unfolding line by (cases k; simp add: startswith_def)+
  ultimately show ?thesis using split assms by (cases k; cases l) (simp_all add: Let_def)
qed

lemma parse_lines_append:
  "parse_lines (xs @ ys) = (case parse_lines xs of Inl e \<Rightarrow> Inl e
     | Inr es \<Rightarrow> (case parse_lines ys of Inl e \<Rightarrow> Inl e | Inr fs \<Rightarrow> Inr (es @ fs)))"
  by (induction xs) (auto simp: Let_def split: sum.splits)

lemma parse_named_lines:
  "\<forall>(k, i, l) \<in> set es. 0 \<le> i \<Longrightarrow> parse_lines (map named_line es) = Inr es"
proof (induction es)
  case (Cons e es)
  obtain k i l where e: "e = (k, i, l)" by (cases e)
  with Cons have "parse_lines [named_line e] = Inr [e]" "parse_lines (map named_line es) = Inr es"
    using parse_named_line by auto
  then show ?case using parse_lines_append [of "[named_line e]" "map named_line es"] by simp
qed simp

lemma startswith_lstrip: "startswith s p \<Longrightarrow> p \<noteq> [] \<Longrightarrow> \<not> is_space (hd p) \<Longrightarrow> lstrip s = s"
  by (cases s; cases p) (auto simp: startswith_def lstrip_def)

lemma parse_default_lines:
  "\<forall>l \<in> set ls. \<forall>c \<in> set l. \<not> is_space c \<Longrightarrow> parse_lines (map (\<lambda>l. ''default:'' @ l) ls) = Inr []"
proof (induction ls)
  case (Cons l ls)
  have "strip (''default:'' @ l) = ''default:'' @ l"
    by (rule strip_id) (use Cons.prems in \<open>auto simp: is_space_def code_def last_append\<close>)
  moreover have "startswith (''default:'' @ l) ''default:''" by (simp only: startswith_append)
  ultimately show ?case using Cons by (simp add: Let_def)
qed simp

lemma access_lines_chars:
  assumes "\<forall>(k, i, l) \<in> set es. 0 \<le> i" "l \<in> set (access_lines es)" "c \<in> set l"
  shows "\<not> is_break c \<and> \<not> is_space c"
proof -
  have "c \<in> set ''user::rwxgroup-maskother'' \<or> (\<exists>e \<in> set es. c \<in> set (named_line e))"
    using assms(2,3) by (auto simp: access_lines_def of_kind_def)
  then show ?thesis
  proof
    assume "\<exists>e \<in> set es. c \<in> set (named_line e)"
    with assms(1) named_line_chars show ?thesis by (fastforce)
  qed (auto simp: is_break_def is_space_def code_def)
qed

lemma parse_access_lines:
  assumes "\<forall>(k, i, l) \<in> set es. 0 \<le> i"
  shows "parse_lines (access_lines es) = Inr (of_kind User_kind es @ of_kind Group_kind es)"
proof -
  have "parse_lines [''user::rwx''] = Inr []" "parse_lines [''group::---''] = Inr []"
    "parse_lines [''mask::rwx'', ''other::---''] = Inr []" by code_simp+
  moreover have "parse_lines (map named_line (of_kind k es)) = Inr (of_kind k es)" for k
    by (rule parse_named_lines) (use assms in \<open>auto simp: of_kind_def\<close>)
  ultimately show ?thesis unfolding access_lines_def by (simp only: parse_lines_append sum.case append_Nil append_Nil2)
qed

text \<open>Keeping the order of each kind keeps the last level of every principal.\<close>

lemma acl_map_append: "acl_map (xs @ ys) p = (case acl_map ys p of None \<Rightarrow> acl_map xs p | Some l \<Rightarrow> Some l)"
  by (simp add: acl_map_def map_add_def split: option.split)

lemma acl_map_Cons:
  "acl_map ((k, i, l) # es) p = (case acl_map es p of None \<Rightarrow> if p = (k, i) then Some l else None | Some l \<Rightarrow> Some l)"
  by (simp add: acl_map_def map_add_def split: option.split)

lemma acl_map_of_kind: "acl_map (of_kind k es) p = (if fst p = k then acl_map es p else None)"
proof (induction es)
  case Nil
  show ?case by (simp add: of_kind_def acl_map_def)
next
  case (Cons e es)
  obtain k' i l where e: "e = (k', i, l)" by (cases e)
  have "of_kind k (e # es) = (if k' = k then e # of_kind k es else of_kind k es)"
    by (simp add: of_kind_def e)
  with Cons show ?case by (auto simp: e acl_map_Cons split: option.split)
qed

lemma acl_map_of_kinds: "acl_map (of_kind User_kind es @ of_kind Group_kind es) = acl_map es"
proof
  fix p
  show "acl_map (of_kind User_kind es @ of_kind Group_kind es) p = acl_map es p"
    by (cases "fst p") (auto simp: acl_map_append acl_map_of_kind split: option.split)
qed

section \<open>Commands\<close>

context runner_iface
begin

lemma acl_run_calls: "calls (snd (acl_run run args s)) = calls s @ [''setfacl'' # args]"
  using run_calls [of "''setfacl'' # args" None s]
  by (cases "run (''setfacl'' # args) None s" rule: prod.exhaust)
     (auto simp: acl_run_def bindE_def split: sum.split)

text \<open>The reset always comes first, and nothing follows a failed reset.\<close>

lemma replace_all_calls:
  "calls (snd (setfacl_replace_all run path es r s)) = calls s @ [''setfacl'' # reset_args path r]
      \<and> isl (fst (setfacl_replace_all run path es r s)) \<or>
   calls (snd (setfacl_replace_all run path es r s)) =
      calls s @ [''setfacl'' # reset_args path r, ''setfacl'' # apply_args path es r]"
proof -
  obtain q t where 1: "acl_run run (reset_args path r) s = (q, t)" by fastforce
  then have "calls t = calls s @ [''setfacl'' # reset_args path r]" using acl_run_calls by (metis snd_conv)
  with 1 acl_run_calls [of "apply_args path es r" t] show ?thesis
    by (cases q) (auto simp: setfacl_replace_all_def thenE_def bindE_def)
qed

end

section \<open>Properties\<close>



text \<open>Replacing an ACL first drops every extended entry and only then sets the new ones, so a
  principal left out of the list cannot keep access; when the reset fails nothing is set.\<close>

theorem replace_all_resets_first:
  "w_calls (snd (setfacl_replace_all run_cmd path es r w)) = w_calls w @ [''setfacl'' # reset_args path r]
      \<and> isl (fst (setfacl_replace_all run_cmd path es r w)) \<or>
   w_calls (snd (setfacl_replace_all run_cmd path es r w)) =
      w_calls w @ [''setfacl'' # reset_args path r, ''setfacl'' # apply_args path es r]"
  by (rule wr.replace_all_calls)

text \<open>On the in-memory backend a principal that is not in the new list has no entry afterwards.\<close>

theorem removed_principal_loses_access:
  assumes "fake_wf s" and "acl_replace_all fake_acl path es r s = (Inr x, t)"
    and "acl_read fake_acl path t = (Inr es', u)" and "\<forall>l. (k, i, l) \<notin> set es"
  shows "\<forall>l. (k, i, l) \<notin> set es'"
  by (rule fake_acl.removed_principal_has_no_access [OF assms])

theorem removed_principal_loses_access_witness:
  "\<exists>x t es' u. acl_replace_all fake_acl ''/s'' [(User_kind, 1, RW)] False [(''/s'', [((User_kind, 2), RW)])] = (Inr x, t)
     \<and> acl_read fake_acl ''/s'' t = (Inr es', u) \<and> es' = [(User_kind, 1, RW)] \<and> (User_kind, 2, RW) \<notin> set es'"
proof -
  let ?s = "[(''/s'', [((User_kind, 2::int), RW)])]"
  obtain x t where t: "acl_replace_all fake_acl ''/s'' [(User_kind, 1, RW)] False ?s = (Inr x, t)"
    and tt: "t = [(''/s'', [((User_kind, 1), RW)])]"
    by (simp add: fake_acl_def modifyE_def entries_dict_def dict_of_def)
  obtain es' u where e: "acl_read fake_acl ''/s'' t = (Inr es', u)" "es' = [(User_kind, 1, RW)]"
    by (simp add: tt fake_acl_def getsE_def)
  have "fake_wf ?s" by (simp add: fake_wf_def)
  from removed_principal_loses_access [OF this t e(1), of User_kind 2] t e show ?thesis by auto
qed

end
