(* ===== verification/Samba.thy ===== *)
theory Samba
  imports ManagedFile Config
begin

text \<open>
  \<open>system/samba.py\<close> and \<open>agent/handlers/samba.py\<close>: the include block of \<open>smb.conf\<close>, validation
  with testparm, reloading or restarting the service, and the two RPC handlers.
\<close>

section \<open>The include block\<close>

definition smb_conf :: string where "smb_conf = ''/etc/samba/smb.conf''"
definition nasos_conf :: string where "nasos_conf = ''/etc/samba/nasos.conf''"

definition marker_begin :: string where "marker_begin = ''# BEGIN NASOS MANAGED''"
definition marker_end :: string where "marker_end = ''# END NASOS MANAGED''"

definition marker_block :: string where
  "marker_block = marker_begin @ nl @ ''include = '' @ nasos_conf @ nl @ marker_end @ nl"

text \<open>The loop of \<open>_end_of_global_section\<close>; \<open>i\<close> counts the lines already seen.\<close>

fun end_of_global_from :: "bool \<Rightarrow> nat \<Rightarrow> string list \<Rightarrow> nat" where
  "end_of_global_from in_global i [] = i"
| "end_of_global_from in_global i (line # rest) =
     (let stripped = strip line in
      if lower stripped = ''[global]'' then end_of_global_from True (Suc i) rest
      else if in_global \<and> startswith stripped ''['' \<and> endswith stripped '']'' then i
      else end_of_global_from in_global (Suc i) rest)"

definition end_of_global_section :: "string list \<Rightarrow> nat" where
  "end_of_global_section ls = end_of_global_from False 0 ls"

definition ensure_include_block :: "string \<Rightarrow> string" where
  "ensure_include_block conf =
     (if contains conf marker_begin then conf
      else let ls = splitlines_keep conf; k = end_of_global_section ls
           in concat (take k ls) @ marker_block @ concat (drop k ls))"

section \<open>The service\<close>

definition validate :: "string \<Rightarrow> (world, unit) prog" where
  "validate target =
     bindE (run_cmd [''testparm'', ''-s'', ''--suppress-prompt'', smb_conf] None) (\<lambda>r.
       let output = cr_stdout r @ cr_stderr r in
       if \<not> cr_ok r \<or> contains output ''Error loading services.''
       then raise (ConfigValidationError (strip output)) else ret ())"

text \<open>\<open>except Exception\<close> catches every error of the calls.\<close>

definition samba_start :: "(world, unit) prog" where
  "samba_start = tryE
     (thenE (unit_do SdRestart ''smb.service'') (thenE (unit_do SdRestart ''nmb.service'')
       (unit_do SdWaitActive ''smb.service'')))
     (\<lambda>e. raise (ConfigApplyError (str_exn e)))"

definition samba_restart :: "(world, unit) prog" where
  "samba_restart = samba_start"

definition reload_or_start :: "(world, unit) prog" where
  "reload_or_start = bindE (unit_call SdActiveState ''smb.service'') (\<lambda>st.
     if st \<noteq> ''active'' then samba_start
     else bindE (run_cmd [''smbcontrol'', ''all'', ''reload-config''] None) (\<lambda>r.
       whenE (\<not> cr_ok r) samba_start))"

section \<open>Handlers\<close>

definition samba_file :: "settings \<Rightarrow> string \<Rightarrow> bool \<Rightarrow> managed_file" where
  "samba_file st content restart = \<lparr>mf_path = system_path st nasos_conf, mf_render = content,
     mf_validate = Some validate, mf_apply = Some (if restart then samba_restart else reload_or_start),
     mf_mode = 420, mf_owner = None, mf_group = None, mf_backup_dir = backup_dir st\<rparr>"

definition config_error :: "exn \<Rightarrow> exn" where
  "config_error e = (case e of ConfigValidationError d \<Rightarrow> RpcException ''config_invalid'' d
     | ConfigApplyError d \<Rightarrow> RpcException ''apply_failed'' d
     | _ \<Rightarrow> e)"

definition apply_config :: "(bytes \<Rightarrow> string) \<Rightarrow> settings \<Rightarrow> string \<Rightarrow> bool \<Rightarrow> (world, string) prog" where
  "apply_config sha st content restart =
     tryE (write_and_apply sha (samba_file st content restart)) (\<lambda>e. raise (config_error e))"

definition system_error :: "exn \<Rightarrow> exn" where
  "system_error e = (case e of OSError _ m \<Rightarrow> RpcException ''system_error'' m | _ \<Rightarrow> e)"

definition wire_include :: "string \<Rightarrow> (world, unit) prog" where
  "wire_include path =
     bindE (getsE (fs_exists path)) (\<lambda>present.
     bindE (if present then read_text path else ret []) (\<lambda>original.
     let updated = ensure_include_block original in
     whenE (updated \<noteq> original)
       (tryE (thenE (mkdir_p (dirname path)) (thenE (write_file path updated)
               (bindE (run_cmd [''restorecon'', path] None) (\<lambda>_. ret ()))))
         (\<lambda>e. raise (system_error e)))))"

definition ensure_enabled :: "settings \<Rightarrow> (world, unit) prog" where
  "ensure_enabled st =
     thenE (wire_include (system_path st smb_conf))
       (tryE (thenE (unit_do SdEnable ''smb.service'') (thenE (unit_do SdEnable ''nmb.service'') samba_restart))
         (\<lambda>e. raise (RpcException ''apply_failed'' (str_exn e))))"

section \<open>Facts about the include block\<close>

lemma ensure_include_block_contains: "contains (ensure_include_block conf) marker_begin"
  by (auto simp: ensure_include_block_def Let_def marker_block_def contains_iff)

lemma ensure_include_block_idem: "ensure_include_block (ensure_include_block conf) = ensure_include_block conf"
  using ensure_include_block_contains [of conf] by (simp add: ensure_include_block_def [of "ensure_include_block conf"])

text \<open>The lines before the place of insertion, and the one it stops at.\<close>

definition is_section :: "string \<Rightarrow> bool" where
  "is_section line \<longleftrightarrow> startswith (strip line) ''['' \<and> endswith (strip line) '']''"

definition is_global :: "string \<Rightarrow> bool" where
  "is_global line \<longleftrightarrow> lower (strip line) = ''[global]''"

lemma end_of_global_from_le: "i \<le> end_of_global_from g i ls \<and> end_of_global_from g i ls \<le> i + length ls"
proof (induction g i ls rule: end_of_global_from.induct)
  case (2 g i line rest)
  then show ?case by (auto simp: Let_def)
qed simp

lemma end_of_global_from_spec:
  assumes "k = end_of_global_from g i ls - i"
  shows "(k < length ls \<longrightarrow> is_section (ls ! k) \<and> \<not> is_global (ls ! k) \<and> (g \<or> (\<exists>l \<in> set (take k ls). is_global l))) \<and>
    (g \<longrightarrow> (\<forall>l \<in> set (take k ls). is_global l \<or> \<not> is_section l))"
  using assms
proof (induction g i ls arbitrary: k rule: end_of_global_from.induct)
  case (1 g i)
  then show ?case by simp
next
  case (2 g i line rest)
  have le: "Suc i \<le> end_of_global_from b (Suc i) rest" for b
    using end_of_global_from_le by blast
  consider (glob) "is_global line" | (stop) "\<not> is_global line" "g" "is_section line"
    | (next_line) "\<not> is_global line" "\<not> (g \<and> is_section line)" by blast
  then show ?case
  proof cases
    case glob
    then have k: "k = Suc (end_of_global_from True (Suc i) rest - Suc i)"
      using 2(3) le [of True] by (simp add: is_global_def Let_def)
    show ?thesis using 2(1)[OF refl _ refl] glob unfolding k by (auto simp: is_global_def Let_def)
  next
    case stop
    then have "k = 0" using 2(3) by (simp add: is_global_def is_section_def Let_def)
    with stop show ?thesis by simp
  next
    case next_line
    then have k: "k = Suc (end_of_global_from g (Suc i) rest - Suc i)"
      using 2(3) le [of g] by (auto simp: is_global_def is_section_def Let_def)
    show ?thesis using 2(2)[OF refl _ _ refl] next_line unfolding k
      by (auto simp: is_global_def is_section_def Let_def)
  qed
qed

section \<open>The configuration service\<close>

lemma unit_exn_simps [simp]: "unit_exn e \<noteq> ConfigValidationError d" "unit_exn e \<noteq> ConfigApplyError d"
  "RpcException c m \<noteq> unit_exn e"
  by (cases e; simp)+

lemma unit_call_error: "unit_call op u w = (Inl e, w') \<Longrightarrow> \<exists>x. e = unit_exn x"
  by (auto simp: unit_call_def split: sum.splits)

lemma validate_frame: "keeps same_files (validate target)"
  unfolding validate_def Let_def
  by (auto intro!: keeps_bindE keeps_raise keeps_ret same_files_refl same_files_trans run_cmd_same_files)

lemma samba_start_frame: "keeps same_files samba_start"
  unfolding samba_start_def
  by (auto intro!: keeps_tryE keeps_thenE keeps_raise same_files_refl same_files_trans unit_same_files)

lemma samba_start_error: "samba_start w = (Inl e, w') \<Longrightarrow> \<exists>d. e = ConfigApplyError d"
  by (auto simp: samba_start_def tryE_eq_Inl)

lemma reload_frame: "keeps same_files reload_or_start"
  unfolding reload_or_start_def
  by (auto intro!: keeps_bindE keeps_whenE samba_start_frame same_files_refl same_files_trans
      unit_same_files run_cmd_same_files)

lemma run_cmd_error: "run_cmd a i w = (Inl e, w') \<Longrightarrow> \<exists>k q. e = OSError k q"
  by (auto simp: run_cmd_def split: sum.splits)

lemma reload_error: "reload_or_start w = (Inl e, w') \<Longrightarrow> e \<noteq> ConfigValidationError d"
  by (auto simp: reload_or_start_def bindE_eq_Inl split: if_splits
      dest!: unit_call_error run_cmd_error samba_start_error)

interpretation restarting: config_service validate samba_restart
proof (unfold_locales, goal_cases)
  case (1 target)
  show ?case by (rule validate_frame)
next
  case (2 target w e w')
  then show ?case by (auto simp: validate_def bindE_eq_Inl Let_def split: if_splits dest!: run_cmd_error)
next
  case 3
  show ?case by (simp add: samba_restart_def samba_start_frame)
next
  case (4 w e w')
  then show ?case by (auto simp: samba_restart_def dest!: samba_start_error)
qed

interpretation reloading: config_service validate reload_or_start
proof (unfold_locales, goal_cases)
  case (1 target)
  show ?case by (rule validate_frame)
next
  case (2 target w e w')
  then show ?case by (rule restarting.validate_errors)
next
  case 3
  show ?case by (rule reload_frame)
next
  case (4 w e w')
  then show ?case by (blast dest: reload_error)
qed

section \<open>The handlers\<close>

lemma samba_managed:
  "restarting.managed (samba_file st content True)" "reloading.managed (samba_file st content False)"
  by (simp_all add: restarting.managed_def reloading.managed_def samba_file_def)

lemma reload_no_rpc: "reload_or_start w = (Inl e, w') \<Longrightarrow> e \<noteq> RpcException c m"
proof
  assume r: "reload_or_start w = (Inl e, w')" and e: "e = RpcException c m"
  from r e show False
    by (auto simp: reload_or_start_def bindE_eq_Inl split: if_splits
        dest!: unit_call_error run_cmd_error samba_start_error)
qed

text \<open>An RPC error of \<open>apply_config\<close> reports a configuration error of the managed file.\<close>

lemma apply_config_error:
  assumes "apply_config sha st content restart w = (Inl (RpcException c m), w')"
  obtains e where "write_and_apply sha (samba_file st content restart) w = (Inl e, w')"
    "e = ConfigValidationError m \<or> e = ConfigApplyError m"
proof -
  from assms obtain e where e: "write_and_apply sha (samba_file st content restart) w = (Inl e, w')"
    "config_error e = RpcException c m"
    by (auto simp: apply_config_def tryE_eq_Inl)
  have "e \<noteq> RpcException c m"
  proof (cases restart)
    case True
    with restarting.errors [OF samba_managed(1), of sha st content w e w'] e(1) show ?thesis
      by (auto simp: samba_restart_def dest: samba_start_error)
  next
    case False
    with reloading.errors [OF samba_managed(2), of sha st content w e w'] e(1) show ?thesis
      by (auto dest: reload_no_rpc)
  qed
  with e that show ?thesis by (cases e) (auto simp: config_error_def)
qed

lemma samba_path: "mf_path (samba_file st content restart) = system_path st nasos_conf"
  "mf_render (samba_file st content restart) = content"
  by (simp_all add: samba_file_def)

section \<open>A small world\<close>

text \<open>\<open>nasos.conf\<close> holds \<open>old\<close>; testparm exits with \<open>rc\<close>, systemd answers by \<open>u\<close>.\<close>

definition samba_world :: "int \<Rightarrow> (sd_op \<Rightarrow> unit_error + string) \<Rightarrow> world" where
  "samba_world rc u = \<lparr>w_log = [],
     w_cmd = (\<lambda>_ argv _. Inr \<lparr>cr_argv = argv,
       cr_returncode = (if hd argv = ''testparm'' then rc else 0), cr_stdout = ''out'', cr_stderr = []\<rparr>),
     w_unit = (\<lambda>_ op _. u op), w_fault = (\<lambda>_ _ _. None), w_clock = (\<lambda>_. ''t''),
     w_fs = [(''/etc'', Dir), (''/etc/samba'', Dir), (''/etc/samba/nasos.conf'', File ''old'' 420)],
     w_progress = []\<rparr>"

definition samba_run :: "int \<Rightarrow> (sd_op \<Rightarrow> unit_error + string) \<Rightarrow> (exn + string) \<times> world" where
  "samba_run rc u = apply_config (\<lambda>_. ''h'') default_settings ''new'' False (samba_world rc u)"

lemma samba_runs:
  "fst (samba_run 1 (\<lambda>_. Inr ''active'')) = Inl (RpcException ''config_invalid'' ''out'')"
  "fst (samba_run 0 (\<lambda>_. Inr ''active'')) = Inr ''h''"
  "fst (samba_run 0 (\<lambda>_. Inl (Dbus_failed ''no bus''))) = Inl (DBusError ''no bus'')"
  "content_at (snd (samba_run 0 (\<lambda>_. Inl (Dbus_failed ''no bus'')))) nasos_conf = Some ''new''"
  "content_at (samba_world 0 u) nasos_conf = Some ''old''"
  by code_simp+

section \<open>Properties\<close>



text \<open>When \<open>samba.apply_config\<close> succeeds, \<open>nasos.conf\<close> is exactly the new content, and the
  hash returned is the hash of it. The clock only has to give a file name without a slash, as the
  time stamp format of the backups does.\<close>

theorem samba_apply_installs_content:
  assumes "apply_config sha st content restart w = (Inr h, w')" and "clock_ok w"
  shows "content_at w' (system_path st nasos_conf) = Some (utf8 content) \<and> h = sha (utf8 content)"
proof -
  from assms(1) have run: "write_and_apply sha (samba_file st content restart) w = (Inr h, w')"
    by (auto simp: apply_config_def tryE_eq_Inr)
  show ?thesis
  proof (cases restart)
    case True
    with restarting.success [OF samba_managed(1) assms(2)] run show ?thesis by (simp add: samba_path)
  next
    case False
    with reloading.success [OF samba_managed(2) assms(2)] run show ?thesis by (simp add: samba_path)
  qed
qed

theorem samba_apply_installs_content_witness:
  "content_at (snd (samba_run 0 (\<lambda>_. Inr ''active''))) nasos_conf = Some (utf8 ''new'')"
proof -
  obtain w' where r: "samba_run 0 (\<lambda>_. Inr ''active'') = (Inr ''h'', w')"
    using samba_runs(2) by (cases "samba_run 0 (\<lambda>_. Inr ''active'')") auto
  have "clock_ok (samba_world 0 (\<lambda>_. Inr ''active''))" by (simp add: clock_ok_def samba_world_def)
  with samba_apply_installs_content [OF r [unfolded samba_run_def]] r show ?thesis
    by (simp add: system_path_prod default_settings_def)
qed

text \<open>Not every failure is rolled back: when asking systemd for the state of \<open>smb.service\<close> fails,
  the new, unapplied content stays in place.\<close>

theorem samba_bus_failure_keeps_new_content:
  "\<exists>w w'. apply_config (\<lambda>_. ''h'') default_settings ''new'' False w = (Inl (DBusError ''no bus''), w') \<and>
     content_at w nasos_conf = Some ''old'' \<and> content_at w' nasos_conf = Some ''new''"
  using samba_runs(3-5) unfolding samba_run_def by (metis prod.collapse)

text \<open>The include block is added once: the text of the administrator is kept around it, a second
  call changes nothing, and when the file has a further section after \<open>[global]\<close> the block goes
  right before its header, with no other section header between.\<close>

theorem include_block_in_global:
  assumes "\<not> contains conf marker_begin"
  shows "\<exists>before after. splitlines_keep conf = before @ after \<and>
     ensure_include_block conf = concat before @ marker_block @ concat after \<and>
     ensure_include_block (ensure_include_block conf) = ensure_include_block conf \<and>
     (after = [] \<or> is_section (hd after) \<and> (\<exists>l \<in> set before. is_global l))"
proof -
  let ?ls = "splitlines_keep conf" and ?k = "end_of_global_section (splitlines_keep conf)"
  have k: "?k = end_of_global_from False 0 ?ls - 0" by (simp add: end_of_global_section_def)
  have "drop ?k ?ls = [] \<or> is_section (hd (drop ?k ?ls)) \<and> (\<exists>l \<in> set (take ?k ?ls). is_global l)"
    using end_of_global_from_spec [OF k] by (cases "?k < length ?ls") (auto simp: hd_drop_conv_nth)
  moreover have "ensure_include_block conf = concat (take ?k ?ls) @ marker_block @ concat (drop ?k ?ls)"
    using assms by (simp add: ensure_include_block_def Let_def)
  ultimately show ?thesis using ensure_include_block_idem
    by (intro exI [of _ "take ?k ?ls"] exI [of _ "drop ?k ?ls"] conjI append_take_drop_id [symmetric])
qed

theorem include_block_in_global_witness:
  "\<exists>before after. splitlines_keep (''[global]'' @ nl @ ''[homes]'' @ nl) = before @ after \<and>
     ensure_include_block (''[global]'' @ nl @ ''[homes]'' @ nl) = concat before @ marker_block @ concat after"
  using include_block_in_global [of "''[global]'' @ nl @ ''[homes]'' @ nl"]
  by (auto simp: contains.simps startswith_def marker_begin_def nl_def LF_def)

text \<open>A file whose last line has no line end gets the marker glued to that line, so the last setting
  of the administrator changes its value.\<close>

theorem include_block_glued_to_last_line:
  "ensure_include_block ''[global]x=y'' = ''[global]x=y# BEGIN NASOS MANAGED'' @ nl @ ''include = ''
     @ nasos_conf @ nl @ marker_end @ nl"
  by code_simp

end
