(* ===== verification/Dispatch.thy ===== *)
theory Dispatch
  imports Schemas
begin

text \<open>
  The RPC path: the envelopes of \<open>rpc/schemas.py\<close>, the handler registry and \<open>Dispatcher.handle\<close>
  of \<open>agent/dispatcher.py\<close>, the in-process transport of \<open>rpc/transport.py\<close> and \<open>AgentClient.call\<close>
  of \<open>rpc/client.py\<close>. Turning parameters into JSON and back is pydantic's: the arguments \<open>enc\<close>
  and \<open>dec\<close>. The state of the agent carries the lines it logged.
\<close>

section \<open>Envelopes\<close>

record 'j rpc_request =
  rq_id :: string
  rq_method :: string
  rq_params :: 'j
  rq_ctx :: rpc_context

record rpc_response =
  rp_id :: string
  rp_ok :: bool
  rp_result :: "rpc_result option"
  rp_error :: "rpc_error option"

datatype logger_name = Audit_logger | Module_logger

type_synonym journal = "(logger_name \<times> string \<times> string \<times> string) list"

record 's journaled =
  jn_state :: 's
  jn_lines :: journal

section \<open>Handlers\<close>

type_synonym 's handler = "rpc_params \<Rightarrow> rpc_context \<Rightarrow> ('s, rpc_result) prog"
type_synonym 's handlers = "(string, 's handler) dict"

definition register_handler :: "string \<Rightarrow> 's handler \<Rightarrow> 's handlers \<Rightarrow> exn + 's handlers" where
  "register_handler meth fn hs =
     (if meth \<notin> set registry then Inl (KeyError (meth @ '' is not declared in rpc.schemas.REGISTRY''))
      else if dget hs meth \<noteq> None then Inl (KeyError (meth @ '' already has a handler''))
      else Inr (dset meth fn hs))"

section \<open>Dispatcher\<close>

definition origin_of :: "rpc_context \<Rightarrow> string" where
  "origin_of ctx = (let who = or_else (case ctx_user ctx of None \<Rightarrow> [] | Some u \<Rightarrow> u) ''anonymous'' in
     case ctx_ip ctx of None \<Rightarrow> who | Some ip \<Rightarrow> if ip = [] then who else who @ ''@'' @ ip)"

definition error_response :: "string \<Rightarrow> string \<Rightarrow> string \<Rightarrow> rpc_response" where
  "error_response rid c m = \<lparr>rp_id = rid, rp_ok = False, rp_result = None,
     rp_error = Some \<lparr>err_code = c, err_message = m\<rparr>\<rparr>"

definition journal_line :: "logger_name \<Rightarrow> string \<Rightarrow> rpc_context \<Rightarrow> string \<Rightarrow> 's journaled \<Rightarrow> 's journaled" where
  "journal_line lg meth ctx outcome s = s\<lparr>jn_lines := jn_lines s @ [(lg, meth, origin_of ctx, outcome)]\<rparr>"

definition handle :: "(string \<Rightarrow> 'j \<Rightarrow> exn + rpc_params) \<Rightarrow> 's handlers \<Rightarrow> 'j rpc_request
    \<Rightarrow> 's journaled \<Rightarrow> rpc_response \<times> 's journaled" where
  "handle dec hs rq s =
     (let meth = rq_method rq; ctx = rq_ctx rq; rid = rq_id rq in
      if meth \<notin> set registry
      then (error_response rid ''unknown_method'' (''no such method: '' @ meth),
            journal_line Audit_logger meth ctx ''unknown method'' s)
      else case dget hs meth of
        None \<Rightarrow> (error_response rid ''not_implemented'' (''no handler for: '' @ meth),
            journal_line Audit_logger meth ctx ''no handler registered'' s)
      | Some fn \<Rightarrow> (case dec meth (rq_params rq) of
          Inl e \<Rightarrow> (error_response rid ''invalid_params'' (str_exn e),
            journal_line Audit_logger meth ctx (''bad params: '' @ str_exn e) s)
        | Inr p \<Rightarrow> (case fn p ctx (jn_state s) of
            (Inr r, t) \<Rightarrow> (\<lparr>rp_id = rid, rp_ok = True, rp_result = Some r, rp_error = None\<rparr>,
              journal_line Audit_logger meth ctx ''ok'' (s\<lparr>jn_state := t\<rparr>))
          | (Inl (RpcException c m), t) \<Rightarrow> (error_response rid c m,
              journal_line Audit_logger meth ctx c (s\<lparr>jn_state := t\<rparr>))
          | (Inl _, t) \<Rightarrow> (error_response rid ''internal_error'' ''internal error'',
              journal_line Module_logger meth ctx ''unhandled exception'' (s\<lparr>jn_state := t\<rparr>)))))"

section \<open>Transport and client\<close>

definition direct_call :: "('j rpc_request \<Rightarrow> 's journaled \<Rightarrow> rpc_response \<times> 's journaled) \<Rightarrow> string
    \<Rightarrow> string \<Rightarrow> 'j \<Rightarrow> rpc_context \<Rightarrow> ('s journaled, rpc_result option) prog" where
  "direct_call dispatch rid meth params ctx s =
     (let (resp, t) = dispatch \<lparr>rq_id = rid, rq_method = meth, rq_params = params, rq_ctx = ctx\<rparr> s in
      if \<not> rp_ok resp
      then (case rp_error resp of None \<Rightarrow> (Inl AssertionError, t)
            | Some e \<Rightarrow> (Inl (RpcCallError (err_code e) (err_message e)), t))
      else (Inr (rp_result resp), t))"

definition client_call :: "(rpc_params \<Rightarrow> 'j) \<Rightarrow> (string \<Rightarrow> 'j \<Rightarrow> rpc_context \<Rightarrow> ('s journaled, rpc_result option) prog)
    \<Rightarrow> rpc_context \<Rightarrow> rpc_params \<Rightarrow> ('s journaled, rpc_result) prog" where
  "client_call enc transport ctx p =
     (if \<not> params_ok p then raise (ValidationError (method_of p))
      else bindE (transport (method_of p) (enc p) ctx) (\<lambda>r. case r of
          None \<Rightarrow> raise (ValidationError (method_of p)) | Some x \<Rightarrow> ret x))"

text \<open>The whole path, as the development server wires it.\<close>

definition rpc :: "(rpc_params \<Rightarrow> 'j) \<Rightarrow> (string \<Rightarrow> 'j \<Rightarrow> exn + rpc_params) \<Rightarrow> 's handlers \<Rightarrow> string
    \<Rightarrow> rpc_context \<Rightarrow> rpc_params \<Rightarrow> ('s journaled, rpc_result) prog" where
  "rpc enc dec hs rid = client_call enc (direct_call (handle dec hs) rid)"

section \<open>Facts\<close>

lemma register_keeps: "register_handler meth fn hs = Inr hs' \<Longrightarrow> dget hs m = Some g \<Longrightarrow> dget hs' m = Some g"
  by (auto simp: register_handler_def dget_dset split: if_splits)

lemma register_adds: "register_handler meth fn hs = Inr hs' \<Longrightarrow> dget hs' meth = Some fn"
  by (auto simp: register_handler_def dget_dset split: if_splits)

text \<open>What the caller of a handler sees of its result.\<close>

fun caller_view :: "exn + rpc_result \<Rightarrow> exn + rpc_result" where
  "caller_view (Inr r) = Inr r"
| "caller_view (Inl (RpcException c m)) = Inl (RpcCallError c m)"
| "caller_view (Inl _) = Inl (RpcCallError ''internal_error'' ''internal error'')"

lemma rpc_handled:
  assumes "dget hs (method_of p) = Some fn" "dec (method_of p) (enc p) = Inr p" "params_ok p"
  shows "fst (rpc enc dec hs rid ctx p s) = caller_view (fst (fn p ctx (jn_state s)))"
    and "jn_state (snd (rpc enc dec hs rid ctx p s)) = snd (fn p ctx (jn_state s))"
proof -
  obtain r t where r: "fn p ctx (jn_state s) = (r, t)" by fastforce
  note defs = rpc_def client_call_def direct_call_def handle_def Let_def bindE_def error_response_def
    journal_line_def method_of_in_registry
  show "fst (rpc enc dec hs rid ctx p s) = caller_view (fst (fn p ctx (jn_state s)))"
  proof (cases r)
    case (Inl e)
    with assms r show ?thesis by (cases e) (simp_all add: defs)
  qed (use assms r in \<open>simp add: defs\<close>)
  show "jn_state (snd (rpc enc dec hs rid ctx p s)) = snd (fn p ctx (jn_state s))"
  proof (cases r)
    case (Inl e)
    with assms r show ?thesis by (cases e) (simp_all add: defs)
  qed (use assms r in \<open>simp add: defs\<close>)
qed

lemma rpc_refuses: "\<not> params_ok p \<Longrightarrow> rpc enc dec hs rid ctx p s = (Inl (ValidationError (method_of p)), s)"
  by (simp add: rpc_def client_call_def)

text \<open>A codec that sends the models as they are, and a handler with an unforeseen error.\<close>

definition plain_dec :: "string \<Rightarrow> rpc_params \<Rightarrow> exn + rpc_params" where
  "plain_dec meth p = (if method_of p = meth \<and> params_ok p then Inr p else Inl (ValidationError meth))"

definition broken_jobs :: "unit handlers" where
  "broken_jobs = [(''jobs.list'', \<lambda>_ _. raise (KeyError ''x''))]"

definition nobody :: rpc_context where
  "nobody = \<lparr>ctx_user = None, ctx_role = None, ctx_ip = None\<rparr>"

section \<open>Properties\<close>



text \<open>Every request is logged by exactly one line naming its method and origin, whatever becomes of
  it, and by the audit logger unless the handler raised something unforeseen.\<close>

theorem every_request_is_journaled:
  "\<exists>lg outcome. jn_lines (snd (handle dec hs rq s)) =
      jn_lines s @ [(lg, rq_method rq, origin_of (rq_ctx rq), outcome)] \<and>
    rp_id (fst (handle dec hs rq s)) = rq_id rq \<and>
    (lg = Audit_logger \<or> map_option err_code (rp_error (fst (handle dec hs rq s))) = Some ''internal_error'')"
proof (cases "rq_method rq \<in> set registry")
  case True
  show ?thesis
  proof (cases "dget hs (rq_method rq)")
    case (Some fn)
    show ?thesis
    proof (cases "dec (rq_method rq) (rq_params rq)")
      case (Inr p)
      obtain r t where r: "fn p (rq_ctx rq) (jn_state s) = (r, t)" by fastforce
      show ?thesis
      proof (cases r)
        case (Inl e)
        with True Some Inr r show ?thesis
          by (cases e) (simp_all add: handle_def journal_line_def error_response_def Let_def)
      qed (use True Some Inr r in \<open>simp add: handle_def journal_line_def Let_def\<close>)
    qed (use True Some in \<open>simp add: handle_def journal_line_def error_response_def Let_def\<close>)
  qed (use True in \<open>simp add: handle_def journal_line_def error_response_def Let_def\<close>)
qed (simp add: handle_def journal_line_def error_response_def Let_def)

end
