(* ===== verification/PlanStore.thy ===== *)
theory PlanStore
  imports StorageAgent
begin

text \<open>
  The in-memory store of \<open>services/storage/plan.py\<close>: plans with a five-minute lifetime on the
  monotonic clock, and their confirm tokens. The HMAC under the store's key is the argument \<open>mac\<close>.
\<close>

definition plan_ttl :: rat where "plan_ttl = 300"

record plan =
  pl_id :: string
  pl_spec :: plan_spec
  pl_steps :: "plan_step list"
  pl_expected_sizes :: "(string, int) dict"
  pl_data_loss_summary :: string
  pl_confirm_text :: string
  pl_created_at :: rat
  pl_created_at_wall :: rat

definition expires_at :: "plan \<Rightarrow> rat" where
  "expires_at p = pl_created_at_wall p + plan_ttl"

type_synonym plan_store = "(string, plan) dict"

text \<open>\<open>json.dumps(..., sort_keys=True)\<close> of the id and the dumped specification.\<close>

definition token_payload :: "plan \<Rightarrow> string" where
  "token_payload p = (let sp = pl_spec p in utf8 (dumps (JObj
     [(''id'', JStr (pl_id p)),
      (''spec'', JObj
        [(''array_name'', JStr (sp_array_name sp)),
         (''disk_paths'', JList (map JStr (sp_disk_paths sp))),
         (''disk_serials'', JList (map JStr (sp_disk_serials sp))),
         (''filesystem'', JStr (sp_filesystem sp)),
         (''level'', JStr (sp_level sp)),
         (''lv_name'', JStr (sp_lv_name sp)),
         (''mountpoint'', JStr (sp_mountpoint sp)),
         (''vg_name'', JStr (sp_vg_name sp)),
         (''volume_name'', JStr (sp_volume_name sp))])])))"

definition confirm_token :: "(bytes \<Rightarrow> string) \<Rightarrow> plan \<Rightarrow> string" where
  "confirm_token mac p = mac (token_payload p)"

definition store_gc :: "rat \<Rightarrow> plan_store \<Rightarrow> plan_store" where
  "store_gc now st = filter (\<lambda>(_, p). \<not> pl_created_at p < now - plan_ttl) st"

definition store_put :: "(bytes \<Rightarrow> string) \<Rightarrow> rat \<Rightarrow> plan \<Rightarrow> plan_store \<Rightarrow> string \<times> plan_store" where
  "store_put mac now p st = (confirm_token mac p, dset (pl_id p) p (store_gc now st))"

definition store_get :: "rat \<Rightarrow> string \<Rightarrow> plan_store \<Rightarrow> plan option \<times> plan_store" where
  "store_get now pid st = (dget (store_gc now st) pid, store_gc now st)"

definition store_pop :: "rat \<Rightarrow> string \<Rightarrow> plan_store \<Rightarrow> plan option \<times> plan_store" where
  "store_pop now pid st = (dget (store_gc now st) pid, dpop pid (store_gc now st))"

section \<open>Facts\<close>

text \<open>The keys are distinct and every plan is stored under its own id.\<close>

definition store_ok :: "plan_store \<Rightarrow> bool" where
  "store_ok st \<longleftrightarrow> distinct (map fst st) \<and> (\<forall>(k, p) \<in> set st. pl_id p = k)"

lemma store_gc_get:
  "distinct (map fst st) \<Longrightarrow> dget (store_gc now st) pid =
     (case dget st pid of None \<Rightarrow> None
      | Some p \<Rightarrow> if pl_created_at p < now - plan_ttl then None else Some p)"
proof (induction st)
  case (Cons kp st)
  obtain k p where kp: "kp = (k, p)" by (cases kp)
  with Cons have "dget st k = None" by (auto simp: map_of_eq_None_iff)
  with Cons kp show ?case by (auto simp: store_gc_def split: option.splits)
qed (simp add: store_gc_def)

lemma store_gc_ok: "store_ok st \<Longrightarrow> store_ok (store_gc now st)"
  by (auto simp: store_ok_def store_gc_def distinct_map_filter)

lemma set_dset: "set (dset k v d) \<subseteq> insert (k, v) (set d)"
  by (induction d) auto

lemma set_dpop: "set (dpop k d) \<subseteq> set d"
  by (induction d) auto

lemma store_put_ok: "store_ok st \<Longrightarrow> store_ok (snd (store_put mac now p st))"
  using store_gc_ok [of st now] set_dset [of "pl_id p" p "store_gc now st"]
  by (auto simp: store_ok_def store_put_def distinct_dset)

lemma store_pop_ok: "store_ok st \<Longrightarrow> store_ok (snd (store_pop now pid st))"
  using store_gc_ok [of st now] set_dpop [of pid "store_gc now st"]
  by (auto simp: store_ok_def store_pop_def distinct_dpop)

lemma store_get_SomeD:
  assumes "store_ok st" "fst (store_get now pid st) = Some p"
  shows "dget st pid = Some p \<and> pl_id p = pid \<and> now - plan_ttl \<le> pl_created_at p"
proof -
  have d: "distinct (map fst st)" using assms(1) by (simp add: store_ok_def)
  from assms(2) have "dget st pid = Some p \<and> \<not> pl_created_at p < now - plan_ttl"
    by (auto simp: store_get_def store_gc_get [OF d] split: option.splits if_splits)
  moreover from this have "(pid, p) \<in> set st" by (simp add: map_of_SomeD)
  ultimately show ?thesis using assms(1) by (auto simp: store_ok_def)
qed

end
