(* ===== verification/Web.thy ===== *)
theory Web
  imports PlanStore
begin

text \<open>
  The web process: the tables of \<open>db/models.py\<close> it uses, sessions (\<open>services/auth.py\<close>), the
  audit log (\<open>services/audit.py\<close>), the request dependencies of \<open>web/deps.py\<close> and the CSRF guard
  of \<open>web/main.py\<close>. A table is its rows in insertion order; a unique column makes inserting a
  second row with the same value raise \<open>IntegrityError\<close>, as \<open>commit\<close> does.
\<close>

section \<open>Tables\<close>

record session_row =
  se_id :: int
  se_token_hash :: string
  se_uid :: int
  se_username :: string
  se_role :: string
  se_created :: rat
  se_last_seen :: rat
  se_ip :: "string option"
  se_user_agent :: "string option"

record audit_row =
  au_username :: "string option"
  au_role :: "string option"
  au_ip :: "string option"
  au_method :: string
  au_path :: string
  au_action :: string
  au_status_code :: nat
  au_detail :: "string option"

record notification_row =
  no_level :: string
  no_title :: string
  no_message :: string
  no_source :: string

record user_row =
  us_uid :: int
  us_username :: string
  us_description :: string
  us_smb_enabled :: bool
  us_ftp_enabled :: bool
  us_created_by_nasos :: bool
  us_smb_password_synced :: bool

record group_row =
  gr_gid :: int
  gr_name :: string
  gr_description :: string
  gr_created_by_nasos :: bool

record volume_row =
  vo_id :: int
  vo_name :: string
  vo_mountpoint :: string
  vo_filesystem :: string
  vo_managed :: bool
  vo_device :: "string option"
  vo_uuid :: "string option"
  vo_raid_level :: "string option"
  vo_array_name :: "string option"
  vo_disk_serials :: "string list option"

record disk_row =
  ds_serial :: string
  ds_path :: string
  ds_model :: "string option"
  ds_size :: int
  ds_last_health :: "string option"

record share_row =
  sh_id :: int
  sh_name :: string
  sh_volume_id :: int
  sh_path :: string
  sh_description :: string
  sh_smb_enabled :: bool

record permission_row =
  pe_share_id :: int
  pe_principal_type :: string
  pe_principal :: string
  pe_level :: string

record upload_row =
  up_id :: string
  up_uid :: int
  up_dest_path :: string
  up_size :: int
  up_offset :: int
  up_status :: string
  up_updated_at :: rat

text \<open>
  The state of the web process: its tables, its plans, its two clocks, and the agent it talks to.
\<close>

record 'a web =
  wb_agent :: 'a
  wb_now :: rat
  wb_mono :: rat
  wb_plans :: plan_store
  wb_sessions :: "session_row list"
  wb_audit :: "audit_row list"
  wb_notifications :: "notification_row list"
  wb_users :: "user_row list"
  wb_groups :: "group_row list"
  wb_volumes :: "volume_row list"
  wb_disks :: "disk_row list"
  wb_shares :: "share_row list"
  wb_permissions :: "permission_row list"
  wb_uploads :: "upload_row list"

type_synonym ('a, 'b) web_prog = "('a web, 'b) prog"

text \<open>SQLite gives a new row the largest id plus one.\<close>

definition next_id :: "int list \<Rightarrow> int" where
  "next_id ids = fold max ids 0 + 1"

section \<open>Calling the agent\<close>

text \<open>
  \<open>AgentClient.call\<close>: the parameters are validated before anything is sent. The rest, the
  transport and the dispatcher behind it, is the argument \<open>agent\<close>.
\<close>

type_synonym 'a agent = "rpc_context \<Rightarrow> rpc_params \<Rightarrow> ('a, rpc_result) prog"

definition agent_call :: "'a agent \<Rightarrow> rpc_context \<Rightarrow> rpc_params \<Rightarrow> ('a, rpc_result) web_prog" where
  "agent_call agent ctx p w = (if \<not> params_ok p then (Inl (ValidationError (method_of p)), w)
     else (let (r, a) = agent ctx p (wb_agent w) in (r, w\<lparr>wb_agent := a\<rparr>)))"

text \<open>\<open>except RpcCallError as exc: raise XServiceError(exc.code, exc.message)\<close>.\<close>

definition service_error :: "('a, 'b) prog \<Rightarrow> ('a, 'b) prog" where
  "service_error m = tryE m (\<lambda>e. case e of RpcCallError c t \<Rightarrow> raise (ServiceError c t) | _ \<Rightarrow> raise e)"

text \<open>\<open>except XServiceError as exc: raise HTTPException(400, str(exc))\<close>.\<close>

definition bad_request :: "('a, 'b) prog \<Rightarrow> ('a, 'b) prog" where
  "bad_request m = tryE m (\<lambda>e. case e of ServiceError c t \<Rightarrow> raise (HTTPException 400 t) | _ \<Rightarrow> raise e)"

section \<open>Sessions\<close>

text \<open>\<open>hash\<close> is the hex digest of SHA-256; the random token is an argument.\<close>

record identity =
  id_uid :: int
  id_username :: string
  id_role :: string

definition create_session :: "(string \<Rightarrow> string) \<Rightarrow> string \<Rightarrow> identity \<Rightarrow> string option \<Rightarrow> string option
    \<Rightarrow> ('a, string) web_prog" where
  "create_session hash token idn ip ua w =
     (if hash token \<in> se_token_hash ` set (wb_sessions w) then (Inl (IntegrityError ''sessions.token_hash''), w)
      else (Inr token, w\<lparr>wb_sessions := wb_sessions w @
        [\<lparr>se_id = next_id (map se_id (wb_sessions w)), se_token_hash = hash token, se_uid = id_uid idn,
          se_username = id_username idn, se_role = id_role idn, se_created = wb_now w,
          se_last_seen = wb_now w, se_ip = ip, se_user_agent = ua\<rparr>]\<rparr>))"

text \<open>The first row of a table that satisfies a predicate, and updating or deleting by predicate.\<close>

definition find_row :: "('r \<Rightarrow> bool) \<Rightarrow> 'r list \<Rightarrow> 'r option" where
  "find_row P rows = List.find P rows"

definition update_rows :: "('r \<Rightarrow> bool) \<Rightarrow> ('r \<Rightarrow> 'r) \<Rightarrow> 'r list \<Rightarrow> 'r list" where
  "update_rows P f rows = map (\<lambda>r. if P r then f r else r) rows"

definition delete_rows :: "('r \<Rightarrow> bool) \<Rightarrow> 'r list \<Rightarrow> 'r list" where
  "delete_rows P rows = filter (\<lambda>r. \<not> P r) rows"

definition resolve_session :: "(string \<Rightarrow> string) \<Rightarrow> rat \<Rightarrow> string \<Rightarrow> ('a, session_row option) web_prog" where
  "resolve_session hash idle_timeout token w =
     (let mine = (\<lambda>r. se_token_hash r = hash token) in
      case find_row mine (wb_sessions w) of
        None \<Rightarrow> (Inr None, w)
      | Some row \<Rightarrow>
          if wb_now w - se_last_seen row > idle_timeout
          then (Inr None, w\<lparr>wb_sessions := delete_rows (\<lambda>r. se_id r = se_id row) (wb_sessions w)\<rparr>)
          else (let row' = row\<lparr>se_last_seen := wb_now w\<rparr> in
            (Inr (Some row'), w\<lparr>wb_sessions :=
               update_rows (\<lambda>r. se_id r = se_id row) (\<lambda>_. row') (wb_sessions w)\<rparr>)))"

definition destroy_session :: "(string \<Rightarrow> string) \<Rightarrow> string \<Rightarrow> ('a, unit) web_prog" where
  "destroy_session hash token = modifyE (\<lambda>w. w\<lparr>wb_sessions :=
     delete_rows (\<lambda>r. se_token_hash r = hash token) (wb_sessions w)\<rparr>)"

section \<open>Audit\<close>

definition audit_record :: "audit_row \<Rightarrow> ('a, unit) web_prog" where
  "audit_record row = modifyE (\<lambda>w. w\<lparr>wb_audit := wb_audit w @ [row]\<rparr>)"

section \<open>Dependencies\<close>

definition session_timeout :: "settings \<Rightarrow> rat" where
  "session_timeout st = of_int (st_session_idle_timeout_minutes st) * 60"

definition current_session :: "(string \<Rightarrow> string) \<Rightarrow> settings \<Rightarrow> string option \<Rightarrow> ('a, session_row) web_prog" where
  "current_session hash st cookie = (case or_else (case cookie of None \<Rightarrow> [] | Some t \<Rightarrow> t) [] of
       [] \<Rightarrow> raise (HTTPException 401 ''not authenticated'')
     | token \<Rightarrow> bindE (resolve_session hash (session_timeout st) token) (\<lambda>s. case s of
           None \<Rightarrow> raise (HTTPException 401 ''session expired'')
         | Some row \<Rightarrow> ret row))"

definition require_admin :: "session_row \<Rightarrow> ('a, session_row) web_prog" where
  "require_admin s = (if se_role s \<noteq> ''admin'' then raise (HTTPException 403 ''admin role required'') else ret s)"

definition session_ctx :: "session_row \<Rightarrow> rpc_context" where
  "session_ctx s = \<lparr>ctx_user = Some (se_username s), ctx_role = Some (se_role s), ctx_ip = None\<rparr>"

text \<open>The CSRF guard: \<open>None\<close> lets the request through.\<close>

definition unprotected_methods :: "string list" where
  "unprotected_methods = [''GET'', ''HEAD'', ''OPTIONS'']"

definition csrf_guard :: "string \<Rightarrow> string \<Rightarrow> string option \<Rightarrow> nat option" where
  "csrf_guard meth path header =
     (if meth \<notin> set unprotected_methods \<and> startswith path ''/api/'' \<and> header \<noteq> Some ''1'' then Some 403 else None)"

section \<open>Facts\<close>

lemma find_row_Some: "find_row P rows = Some r \<Longrightarrow> r \<in> set rows \<and> P r"
  by (auto simp: find_row_def find_Some_iff)

lemma find_row_None: "find_row P rows = None \<longleftrightarrow> (\<forall>r \<in> set rows. \<not> P r)"
  by (auto simp: find_row_def find_None_iff)

lemma next_id_fresh: "i \<in> set ids \<Longrightarrow> i < next_id ids"
proof -
  have "i \<in> set ids \<or> i \<le> m \<Longrightarrow> i \<le> fold max ids m" for m
    by (induction ids arbitrary: m) (auto simp: max_def)
  then show "i \<in> set ids \<Longrightarrow> i < next_id ids" by (fastforce simp: next_id_def)
qed

text \<open>Ids and token hashes are unique, and no session was last seen in the future.\<close>

definition sessions_ok :: "'a web \<Rightarrow> bool" where
  "sessions_ok w \<longleftrightarrow> distinct (map se_id (wb_sessions w)) \<and> distinct (map se_token_hash (wb_sessions w))"

lemma distinct_map_inj: "distinct (map f xs) \<Longrightarrow> x \<in> set xs \<Longrightarrow> y \<in> set xs \<Longrightarrow> f x = f y \<Longrightarrow> x = y"
  by (simp add: distinct_map inj_on_def)

lemma find_row_unique:
  "distinct (map f rows) \<Longrightarrow> r \<in> set rows \<Longrightarrow> find_row (\<lambda>q. f q = f r) rows = Some r"
proof -
  assume d: "distinct (map f rows)" and r: "r \<in> set rows"
  then obtain q where q: "find_row (\<lambda>q. f q = f r) rows = Some q"
    using find_row_None [of "\<lambda>q. f q = f r" rows] by fastforce
  with find_row_Some [OF q] distinct_map_inj [OF d _ r] show ?thesis by auto
qed

lemma create_session_ok: "sessions_ok w \<Longrightarrow> sessions_ok (snd (create_session hash token idn ip ua w))"
  using next_id_fresh [of _ "map se_id (wb_sessions w)"]
  by (fastforce simp: create_session_def sessions_ok_def)

lemma update_rows_keys:
  "(\<And>r. r \<in> set rows \<Longrightarrow> P r \<Longrightarrow> f (g r) = f r) \<Longrightarrow> map f (update_rows P g rows) = map f rows"
  by (simp add: update_rows_def)

lemma resolve_session_ok: "sessions_ok w \<Longrightarrow> sessions_ok (snd (resolve_session hash timeout token w))"
proof (cases "find_row (\<lambda>r. se_token_hash r = hash token) (wb_sessions w)")
  case (Some row)
  assume ok: "sessions_ok w"
  from find_row_Some [OF Some] have row: "row \<in> set (wb_sessions w)" by simp
  let ?row = "row\<lparr>se_last_seen := wb_now w\<rparr>" and ?P = "\<lambda>r. se_id r = se_id row"
  have same: "r = row" if "r \<in> set (wb_sessions w)" "?P r" for r
    using distinct_map_inj [OF _ that(1) row] ok that(2) by (auto simp: sessions_ok_def)
  have "map se_id (update_rows ?P (\<lambda>_. ?row) (wb_sessions w)) = map se_id (wb_sessions w)"
    "map se_token_hash (update_rows ?P (\<lambda>_. ?row) (wb_sessions w)) = map se_token_hash (wb_sessions w)"
    by (rule update_rows_keys, use same in force)+
  with Some ok show ?thesis
    by (auto simp: resolve_session_def sessions_ok_def delete_rows_def distinct_map_filter Let_def)
qed (simp add: resolve_session_def)

end
