(* ===== verification/Services.thy ===== *)
theory Services
  imports Web
begin

text \<open>
  The services of the web process: \<open>services/users.py\<close>, \<open>groups.py\<close>, \<open>volumes.py\<close>, \<open>shares.py\<close>
  and \<open>samba_config.py\<close> with its template. Each composes the tables with calls to the agent. A
  row an operation was given is the row as it was loaded; requests are handled one after the other.
\<close>

section \<open>Results the client has validated\<close>

definition user_info :: "rpc_result \<Rightarrow> ('s, int \<times> string) prog" where
  "user_info r = (case r of UserInfo u n \<Rightarrow> ret (u, n) | _ \<Rightarrow> raise (ValidationError ''UserInfo''))"

definition group_info :: "rpc_result \<Rightarrow> ('s, int \<times> string) prog" where
  "group_info r = (case r of GroupInfo g n \<Rightarrow> ret (g, n) | _ \<Rightarrow> raise (ValidationError ''GroupInfo''))"

definition volume_info :: "rpc_result \<Rightarrow> ('s, string \<times> string) prog" where
  "volume_info r = (case r of VolumeInfo m f \<Rightarrow> ret (m, f) | _ \<Rightarrow> raise (ValidationError ''VolumeInfo''))"

definition job_started :: "rpc_result \<Rightarrow> ('s, string option) prog" where
  "job_started r = (case r of JobStartedResult j \<Rightarrow> ret j | _ \<Rightarrow> raise (ValidationError ''JobStartedResult''))"

definition samba_applied :: "rpc_result \<Rightarrow> ('s, string) prog" where
  "samba_applied r = (case r of SambaApplyConfigResult h \<Rightarrow> ret h
     | _ \<Rightarrow> raise (ValidationError ''SambaApplyConfigResult''))"

text \<open>Inserting a row; the key columns are unique.\<close>

definition add_user :: "user_row \<Rightarrow> ('a, unit) web_prog" where
  "add_user u w = (if us_uid u \<in> us_uid ` set (wb_users w) \<or> us_username u \<in> us_username ` set (wb_users w)
     then (Inl (IntegrityError ''users''), w) else (Inr (), w\<lparr>wb_users := wb_users w @ [u]\<rparr>))"

definition put_user :: "user_row \<Rightarrow> ('a, unit) web_prog" where
  "put_user u = modifyE (\<lambda>w. w\<lparr>wb_users := update_rows (\<lambda>r. us_uid r = us_uid u) (\<lambda>_. u) (wb_users w)\<rparr>)"

definition add_group :: "group_row \<Rightarrow> ('a, unit) web_prog" where
  "add_group g w = (if gr_gid g \<in> gr_gid ` set (wb_groups w) \<or> gr_name g \<in> gr_name ` set (wb_groups w)
     then (Inl (IntegrityError ''groups_meta''), w) else (Inr (), w\<lparr>wb_groups := wb_groups w @ [g]\<rparr>))"

definition add_volume :: "volume_row \<Rightarrow> ('a, volume_row) web_prog" where
  "add_volume v w = (let v' = v\<lparr>vo_id := next_id (map vo_id (wb_volumes w))\<rparr> in
     if vo_name v \<in> vo_name ` set (wb_volumes w) \<or> vo_mountpoint v \<in> vo_mountpoint ` set (wb_volumes w)
     then (Inl (IntegrityError ''volumes''), w) else (Inr v', w\<lparr>wb_volumes := wb_volumes w @ [v']\<rparr>))"

definition add_share :: "share_row \<Rightarrow> ('a, share_row) web_prog" where
  "add_share h w = (let h' = h\<lparr>sh_id := next_id (map sh_id (wb_shares w))\<rparr> in
     if sh_name h \<in> sh_name ` set (wb_shares w) \<or> sh_path h \<in> sh_path ` set (wb_shares w)
     then (Inl (IntegrityError ''shares''), w) else (Inr h', w\<lparr>wb_shares := wb_shares w @ [h']\<rparr>))"

section \<open>Users\<close>

definition list_users :: "('a, user_row list) web_prog" where
  "list_users = getsE wb_users"

definition get_user :: "int \<Rightarrow> ('a, user_row option) web_prog" where
  "get_user uid = getsE (\<lambda>w. find_row (\<lambda>r. us_uid r = uid) (wb_users w))"

definition new_user :: "int \<Rightarrow> string \<Rightarrow> string \<Rightarrow> bool \<Rightarrow> user_row" where
  "new_user uid name description ours = \<lparr>us_uid = uid, us_username = name, us_description = description,
     us_smb_enabled = ours, us_ftp_enabled = False, us_created_by_nasos = ours, us_smb_password_synced = ours\<rparr>"

definition create_user :: "'a agent \<Rightarrow> rpc_context \<Rightarrow> string \<Rightarrow> string \<Rightarrow> string \<Rightarrow> ('a, user_row) web_prog" where
  "create_user agent ctx username password description =
     bindE (service_error (bindE (agent_call agent ctx (Users (UserCreateParams username password description)))
       user_info)) (\<lambda>(uid, name). let user = new_user uid name description True in
     thenE (add_user user) (ret user))"

definition import_user :: "'a agent \<Rightarrow> rpc_context \<Rightarrow> string \<Rightarrow> string \<Rightarrow> ('a, user_row) web_prog" where
  "import_user agent ctx username description =
     bindE (service_error (bindE (agent_call agent ctx (Users (UserImportParams username))) user_info))
       (\<lambda>(uid, name). let user = new_user uid name description False in
     thenE (add_user user) (ret user))"

definition set_smb_enabled :: "'a agent \<Rightarrow> rpc_context \<Rightarrow> user_row \<Rightarrow> bool \<Rightarrow> ('a, user_row) web_prog" where
  "set_smb_enabled agent ctx user enabled =
     bindE (service_error (agent_call agent ctx (Users (UserSetSmbEnabledParams (us_username user) enabled))))
       (\<lambda>_. let user' = user\<lparr>us_smb_enabled := enabled\<rparr> in thenE (put_user user') (ret user'))"

definition out_of_sync :: "user_row \<Rightarrow> string \<Rightarrow> notification_row" where
  "out_of_sync user m = \<lparr>no_level = ''warning'', no_title = ''Samba password out of sync'',
     no_message = us_username user @ [CHR 0x27] @ ''s SMB password wasn'' @ [CHR 0x27] @ ''t updated: '' @ m,
     no_source = ''users''\<rparr>"

definition notify :: "notification_row \<Rightarrow> ('a, unit) web_prog" where
  "notify n = modifyE (\<lambda>w. w\<lparr>wb_notifications := wb_notifications w @ [n]\<rparr>)"

definition set_password :: "'a agent \<Rightarrow> rpc_context \<Rightarrow> user_row \<Rightarrow> string \<Rightarrow> ('a, user_row) web_prog" where
  "set_password agent ctx user password =
     bindE (tryE (thenE (agent_call agent ctx (Users (UserSetPasswordParams (us_username user) password))) (ret True))
       (\<lambda>e. case e of
           RpcCallError c m \<Rightarrow> if c \<noteq> ''smb_password_sync_failed'' then raise (ServiceError c m)
             else thenE (notify (out_of_sync user m)) (ret False)
         | _ \<Rightarrow> raise e))
     (\<lambda>synced. let user' = user\<lparr>us_smb_password_synced := synced\<rparr> in thenE (put_user user') (ret user'))"

definition delete_user :: "'a agent \<Rightarrow> rpc_context \<Rightarrow> user_row \<Rightarrow> bool \<Rightarrow> ('a, unit) web_prog" where
  "delete_user agent ctx user delete_home =
     bindE (service_error (agent_call agent ctx (Users (UserDeleteParams (us_username user) delete_home))))
       (\<lambda>_. modifyE (\<lambda>w. w\<lparr>wb_users := delete_rows (\<lambda>r. us_uid r = us_uid user) (wb_users w)\<rparr>))"

definition update_description :: "user_row \<Rightarrow> string \<Rightarrow> ('a, user_row) web_prog" where
  "update_description user description =
     (let user' = user\<lparr>us_description := description\<rparr> in thenE (put_user user') (ret user'))"

section \<open>Groups\<close>

definition list_groups :: "('a, group_row list) web_prog" where
  "list_groups = getsE wb_groups"

definition get_group :: "int \<Rightarrow> ('a, group_row option) web_prog" where
  "get_group gid = getsE (\<lambda>w. find_row (\<lambda>r. gr_gid r = gid) (wb_groups w))"

definition create_group :: "'a agent \<Rightarrow> rpc_context \<Rightarrow> string \<Rightarrow> string \<Rightarrow> ('a, group_row) web_prog" where
  "create_group agent ctx name description =
     bindE (service_error (bindE (agent_call agent ctx (Groups (GroupCreateParams name []))) group_info))
       (\<lambda>(gid, nm). let g = \<lparr>gr_gid = gid, gr_name = nm, gr_description = description, gr_created_by_nasos = True\<rparr>
         in thenE (add_group g) (ret g))"

definition delete_group :: "'a agent \<Rightarrow> rpc_context \<Rightarrow> group_row \<Rightarrow> ('a, unit) web_prog" where
  "delete_group agent ctx g =
     bindE (service_error (agent_call agent ctx (Groups (GroupDeleteParams (gr_name g)))))
       (\<lambda>_. modifyE (\<lambda>w. w\<lparr>wb_groups := delete_rows (\<lambda>r. gr_gid r = gr_gid g) (wb_groups w)\<rparr>))"

definition add_member :: "'a agent \<Rightarrow> rpc_context \<Rightarrow> group_row \<Rightarrow> string \<Rightarrow> ('a, unit) web_prog" where
  "add_member agent ctx g username =
     bindE (service_error (agent_call agent ctx (Groups (GroupAddMemberParams (gr_name g) username)))) (\<lambda>_. ret ())"

definition remove_member :: "'a agent \<Rightarrow> rpc_context \<Rightarrow> group_row \<Rightarrow> string \<Rightarrow> ('a, unit) web_prog" where
  "remove_member agent ctx g username =
     bindE (service_error (agent_call agent ctx (Groups (GroupRemoveMemberParams (gr_name g) username)))) (\<lambda>_. ret ())"

section \<open>Volumes\<close>

definition list_volumes :: "('a, volume_row list) web_prog" where
  "list_volumes = getsE wb_volumes"

definition get_volume :: "int \<Rightarrow> ('a, volume_row option) web_prog" where
  "get_volume i = getsE (\<lambda>w. find_row (\<lambda>r. vo_id r = i) (wb_volumes w))"

definition register_volume :: "'a agent \<Rightarrow> rpc_context \<Rightarrow> string \<Rightarrow> string \<Rightarrow> ('a, volume_row) web_prog" where
  "register_volume agent ctx name mountpoint =
     bindE (service_error (bindE (agent_call agent ctx (VolumeRegisterParams mountpoint)) volume_info))
       (\<lambda>(mp, fs). add_volume \<lparr>vo_id = 0, vo_name = name, vo_mountpoint = mp, vo_filesystem = fs, vo_managed = False,
         vo_device = None, vo_uuid = None, vo_raid_level = None, vo_array_name = None, vo_disk_serials = None\<rparr>)"

section \<open>The Samba configuration\<close>

fun kind_str :: "principal_kind \<Rightarrow> string" where
  "kind_str User_kind = ''user''"
| "kind_str Group_kind = ''group''"

fun level_str :: "acl_level \<Rightarrow> string" where
  "level_str RW = ''rw''"
| "level_str RO = ''ro''"

record samba_view =
  sv_name :: string
  sv_path :: string
  sv_valid_users :: "string list"
  sv_read_list :: "string list"
  sv_write_list :: "string list"

definition principal_ref :: "string \<Rightarrow> string \<Rightarrow> string" where
  "principal_ref kind name = (if kind = ''group'' then ''@'' @ name else name)"

definition build_share_view :: "share_row \<Rightarrow> permission_row list \<Rightarrow> samba_view" where
  "build_share_view share perms =
     (let ref = (\<lambda>p. principal_ref (pe_principal_type p) (pe_principal p)) in
      \<lparr>sv_name = sh_name share, sv_path = sh_path share, sv_valid_users = map ref perms,
       sv_read_list = map ref (filter (\<lambda>p. pe_level p = ''ro'') perms),
       sv_write_list = map ref (filter (\<lambda>p. pe_level p = ''rw'') perms)\<rparr>)"

definition nasos_version :: string where "nasos_version = ''0.1.0''"

definition nasos_conf_header :: string where
  "nasos_conf_header = ''# Generated by NAS-OS '' @ nasos_version @
     ''. DO NOT EDIT; manage shares from Control Panel -> Shared Folders.'' @ nl"

text \<open>The template \<open>samba_nasos_conf.j2\<close> with \<open>trim_blocks\<close> and \<open>lstrip_blocks\<close>.\<close>

definition opt_line :: "string \<Rightarrow> string list \<Rightarrow> string" where
  "opt_line key vs = (if vs = [] then [] else ''    '' @ key @ '' = '' @ join '', '' vs @ nl)"

definition share_section :: "samba_view \<Rightarrow> string" where
  "share_section v =
     ''['' @ sv_name v @ '']'' @ nl @
     ''    path = '' @ sv_path v @ nl @
     opt_line ''valid users'' (sv_valid_users v) @
     opt_line ''read list'' (sv_read_list v) @
     opt_line ''write list'' (sv_write_list v) @
     ''    inherit acls = yes'' @ nl @
     ''    create mask = 0777'' @ nl @
     ''    directory mask = 0777'' @ nl @
     ''    browseable = yes'' @ nl @
     ''    guest ok = no'' @ nl @ nl"

definition render_nasos_conf :: "samba_view list \<Rightarrow> string" where
  "render_nasos_conf views = nasos_conf_header @ nl @ concat (map share_section views)"

section \<open>Shares\<close>

definition list_shares :: "('a, share_row list) web_prog" where
  "list_shares = getsE wb_shares"

definition get_share :: "int \<Rightarrow> ('a, share_row option) web_prog" where
  "get_share i = getsE (\<lambda>w. find_row (\<lambda>r. sh_id r = i) (wb_shares w))"

definition permissions_of :: "int \<Rightarrow> 'a web \<Rightarrow> permission_row list" where
  "permissions_of i w = filter (\<lambda>p. pe_share_id p = i) (wb_permissions w)"

definition list_permissions :: "int \<Rightarrow> ('a, permission_row list) web_prog" where
  "list_permissions i = getsE (permissions_of i)"

definition samba_content :: "'a web \<Rightarrow> string" where
  "samba_content w = render_nasos_conf (map (\<lambda>s. build_share_view s (permissions_of (sh_id s) w)) (wb_shares w))"

definition apply_samba_config :: "'a agent \<Rightarrow> rpc_context \<Rightarrow> bool \<Rightarrow> ('a, string) web_prog" where
  "apply_samba_config agent ctx restart =
     bindE (getsE samba_content) (\<lambda>content.
       service_error (bindE (agent_call agent ctx (Samba (SambaApplyConfigParams content restart))) samba_applied))"

definition create_share :: "'a agent \<Rightarrow> rpc_context \<Rightarrow> string \<Rightarrow> int \<Rightarrow> string \<Rightarrow> ('a, share_row) web_prog" where
  "create_share agent ctx name volume_id description =
     bindE (get_volume volume_id) (\<lambda>found. case found of
         None \<Rightarrow> raise (ServiceError ''not_found'' (''no such volume: '' @ int_str volume_id))
       | Some volume \<Rightarrow> (let path = vo_mountpoint volume @ ''/'' @ name in
           bindE (service_error (agent_call agent ctx (Shares (ShareCreateParams path)))) (\<lambda>_.
           bindE (add_share \<lparr>sh_id = 0, sh_name = name, sh_volume_id = volume_id, sh_path = path,
             sh_description = description, sh_smb_enabled = True\<rparr>) (\<lambda>share.
           thenE (apply_samba_config agent ctx False) (ret share)))))"

text \<open>\<open>db.delete(share)\<close>: foreign keys are on, so the permissions go with their share.\<close>

definition drop_share :: "int \<Rightarrow> ('a, unit) web_prog" where
  "drop_share i = modifyE (\<lambda>w. w\<lparr>wb_shares := delete_rows (\<lambda>r. sh_id r = i) (wb_shares w),
     wb_permissions := delete_rows (\<lambda>p. pe_share_id p = i) (wb_permissions w)\<rparr>)"

definition delete_share :: "'a agent \<Rightarrow> rpc_context \<Rightarrow> share_row \<Rightarrow> bool \<Rightarrow> ('a, unit) web_prog" where
  "delete_share agent ctx share delete_files =
     bindE (service_error (agent_call agent ctx (Shares (ShareDeleteParams (sh_path share) delete_files)))) (\<lambda>_.
     thenE (drop_share (sh_id share)) (thenE (apply_samba_config agent ctx False) (ret ())))"

definition resolve_numeric_id :: "principal_kind \<Rightarrow> string \<Rightarrow> ('a, int) web_prog" where
  "resolve_numeric_id kind who = (case kind of
       User_kind \<Rightarrow> bindE (getsE (\<lambda>w. find_row (\<lambda>r. us_username r = who) (wb_users w))) (\<lambda>found. case found of
           None \<Rightarrow> raise (ServiceError ''not_found'' (''no such NAS-OS user: '' @ who))
         | Some u \<Rightarrow> ret (us_uid u))
     | Group_kind \<Rightarrow> bindE (getsE (\<lambda>w. find_row (\<lambda>r. gr_name r = who) (wb_groups w))) (\<lambda>found. case found of
           None \<Rightarrow> raise (ServiceError ''not_found'' (''no such NAS-OS group: '' @ who))
         | Some g \<Rightarrow> ret (gr_gid g)))"

type_synonym grant = "principal_kind \<times> string \<times> acl_level"

definition grant_row :: "int \<Rightarrow> grant \<Rightarrow> permission_row" where
  "grant_row i g = (case g of (k, p, l) \<Rightarrow>
     \<lparr>pe_share_id = i, pe_principal_type = kind_str k, pe_principal = p, pe_level = level_str l\<rparr>)"

text \<open>The rows of a share are replaced in one transaction; a principal named twice breaks it.\<close>

definition replace_permissions :: "int \<Rightarrow> grant list \<Rightarrow> ('a, unit) web_prog" where
  "replace_permissions i grants w =
     (if distinct (map (\<lambda>(k, p, _). (k, p)) grants)
      then (Inr (), w\<lparr>wb_permissions := delete_rows (\<lambda>p. pe_share_id p = i) (wb_permissions w)
              @ map (grant_row i) grants\<rparr>)
      else (Inl (IntegrityError ''share_permissions''), w))"

definition set_share_permissions :: "'a agent \<Rightarrow> rpc_context \<Rightarrow> share_row \<Rightarrow> grant list \<Rightarrow> bool
    \<Rightarrow> ('a, string option) web_prog" where
  "set_share_permissions agent ctx share grants recursive =
     bindE (mapE (\<lambda>(k, p, l). bindE (resolve_numeric_id k p) (\<lambda>i. ret (k, i, l))) grants) (\<lambda>entries.
     bindE (service_error (bindE (agent_call agent ctx
       (Shares (ShareSetPermissionsParams (sh_path share) entries recursive))) job_started)) (\<lambda>jid.
     thenE (replace_permissions (sh_id share) grants)
    (thenE (apply_samba_config agent ctx False) (ret jid))))"

definition ensure_samba_enabled :: "'a agent \<Rightarrow> rpc_context \<Rightarrow> ('a, unit) web_prog" where
  "ensure_samba_enabled agent ctx =
     service_error (bindE (agent_call agent ctx (Samba SambaEnsureEnabledParams)) (\<lambda>_.
       bindE (agent_call agent ctx (FirewallEnsureServiceParams ''samba'')) (\<lambda>_. ret ())))"

end
