(* ===== verification/PlanService.thy ===== *)
theory PlanService
  imports Services
begin

text \<open>
  \<open>services/storage/plan.py\<close>: making a plan from the agent's inventory and executing it with its
  confirm token, and \<open>services/storage/completion.py\<close>, which turns a finished plan into a row of
  the volumes table. The plan's random id is an argument.
\<close>

section \<open>Text shown to the user\<close>

definition round_half_even :: "rat \<Rightarrow> int" where
  "round_half_even x = (let f = \<lfloor>x\<rfloor>; d = x - of_int f in
     if d < 1/2 then f else if 1/2 < d then f + 1 else if even f then f else f + 1)"

text \<open>\<open>float(n)\<close>: 53 bits are kept.\<close>

fun excess_bits :: "nat \<Rightarrow> nat" where
  "excess_bits n = (if n < 2 ^ 53 then 0 else Suc (excess_bits (n div 2)))"

declare excess_bits.simps [simp del]

definition float_of_int :: "int \<Rightarrow> rat" where
  "float_of_int n = (let k = excess_bits (nat \<bar>n\<bar>) in of_int (round_half_even (of_int n / 2 ^ k)) * 2 ^ k)"

text \<open>\<open>f"{x:.1f}"\<close> of a value that is not negative.\<close>

definition one_decimal :: "rat \<Rightarrow> string" where
  "one_decimal x = (let t = round_half_even (10 * x) in int_str (t div 10) @ ''.'' @ int_str (t mod 10))"

fun format_units :: "string list \<Rightarrow> rat \<Rightarrow> string" where
  "format_units [] v = one_decimal v @ '' PiB''"
| "format_units (u # us) v =
     (if v < 1024 \<or> u = ''PiB''
      then (if u \<noteq> ''B'' then one_decimal v @ '' '' @ u else int_str \<lfloor>v\<rfloor> @ '' '' @ u)
      else format_units us (v / 1024))"

definition format_bytes :: "int \<Rightarrow> string" where
  "format_bytes n = format_units [''B'', ''KiB'', ''MiB'', ''GiB'', ''TiB'', ''PiB''] (float_of_int n)"

section \<open>Making a plan\<close>

definition level_min_disks :: "(string, nat) dict" where
  "level_min_disks = [(''basic'', 1), (''1'', 2), (''5'', 3), (''6'', 4), (''10'', 4)]"

definition level_check :: "string \<Rightarrow> string list \<Rightarrow> exn option" where
  "level_check level serials = (case dget level_min_disks level of
       None \<Rightarrow> Some (ServiceError ''invalid_level'' (''unsupported RAID level: '' @ level))
     | Some minimum \<Rightarrow>
         if length serials < minimum then Some (ServiceError ''not_enough_disks''
           (''level '' @ level @ '' needs at least '' @ nat_str minimum @ '' disk(s)''))
         else if level = ''basic'' \<and> length serials \<noteq> 1
         then Some (ServiceError ''invalid_disk_count'' ''basic (single-disk) needs exactly 1 disk'')
         else if level = ''10'' \<and> length serials mod 2 \<noteq> 0
         then Some (ServiceError ''invalid_disk_count'' ''level 10 needs an even number of disks'')
         else None)"

text \<open>The path, the size and the summary line of one disk.\<close>

definition plan_disk :: "(string, disk_node) dict \<Rightarrow> string \<Rightarrow> exn + string \<times> int \<times> string" where
  "plan_disk nodes serial = (case dget nodes serial of
       None \<Rightarrow> Inl (ServiceError ''not_found'' (''no such disk: '' @ serial))
     | Some node \<Rightarrow> (let d = node_info node in
         if dk_protected d
         then Inl (ServiceError ''device_protected'' (dk_path d @ '' ('' @ serial @ '') is protected: ''
                @ opt_str (dk_protected_reason d)))
         else Inr (dk_path d, dk_size d, dk_path d @ '' ('' @ serial @ '', '' @ format_bytes (dk_size d) @ '')'')))"

definition plan_spec_for :: "settings \<Rightarrow> string \<Rightarrow> string \<Rightarrow> string \<Rightarrow> string list \<Rightarrow> string list \<Rightarrow> plan_spec" where
  "plan_spec_for st volume_name level filesystem serials paths =
     \<lparr>sp_volume_name = volume_name, sp_level = level, sp_filesystem = filesystem,
      sp_disk_paths = paths, sp_disk_serials = serials, sp_array_name = volume_name,
      sp_vg_name = ''nasos_'' @ volume_name, sp_lv_name = volume_name,
      sp_mountpoint = system_path st (st_volumes_root st @ ''/'' @ volume_name)\<rparr>"

definition data_loss_summary :: "plan_spec \<Rightarrow> string list \<Rightarrow> string" where
  "data_loss_summary sp summary =
     ''This will ERASE ALL DATA on: '' @ join '', '' summary @ ''. A new '' @
     (if sp_level sp = ''basic'' then ''single-disk'' else ''RAID '' @ sp_level sp) @ '' '' @ sp_filesystem sp @
     '' volume '' @ repr_str (sp_volume_name sp) @ '' will be created at '' @ sp_mountpoint sp @ ''.''"

definition confirm_text :: "string list \<Rightarrow> string" where
  "confirm_text serials = (if length serials = 1 then hd serials else ''ERASE'')"

definition storage_inventory :: "rpc_result \<Rightarrow> ('s, inventory) prog" where
  "storage_inventory r = (case r of StorageInventoryResult i \<Rightarrow> ret i
     | _ \<Rightarrow> raise (ValidationError ''StorageInventoryResult''))"

definition make_plan :: "settings \<Rightarrow> string \<Rightarrow> rat \<Rightarrow> rat \<Rightarrow> string \<Rightarrow> string \<Rightarrow> string \<Rightarrow> string list
    \<Rightarrow> inventory \<Rightarrow> exn + plan" where
  "make_plan st pid mt wall volume_name level filesystem serials iv =
     rbind (rmap (plan_disk (by_serial (inv_disks iv))) serials) (\<lambda>disks.
     let sp = plan_spec_for st volume_name level filesystem serials (map fst disks) in
     if \<not> plan_spec_ok sp then Inl (ValidationError ''StoragePlanSpec'')
     else rbind (build_steps sp) (\<lambda>steps.
       Inr \<lparr>pl_id = pid, pl_spec = sp, pl_steps = steps,
         pl_expected_sizes = dict_of (zip serials (map (fst \<circ> snd) disks)),
         pl_data_loss_summary = data_loss_summary sp (map (snd \<circ> snd) disks),
         pl_confirm_text = confirm_text serials, pl_created_at = mt, pl_created_at_wall = wall\<rparr>))"

definition store_in :: "(plan_store \<Rightarrow> 'b \<times> plan_store) \<Rightarrow> ('a, 'b) web_prog" where
  "store_in f w = (let (x, st) = f (wb_plans w) in (Inr x, w\<lparr>wb_plans := st\<rparr>))"

definition create_plan :: "(bytes \<Rightarrow> string) \<Rightarrow> settings \<Rightarrow> 'a agent \<Rightarrow> rpc_context \<Rightarrow> string \<Rightarrow> string \<Rightarrow> string
    \<Rightarrow> string \<Rightarrow> string list \<Rightarrow> ('a, plan \<times> string) web_prog" where
  "create_plan mac st agent ctx pid volume_name level filesystem serials =
     (case level_check level serials of Some e \<Rightarrow> raise e | None \<Rightarrow>
       bindE (service_error (bindE (agent_call agent ctx (Storage StorageInventoryParams)) storage_inventory)) (\<lambda>iv.
       bindE (getsE (\<lambda>w. (wb_mono w, wb_now w))) (\<lambda>(mt, wall).
       bindE (liftE (make_plan st pid mt wall volume_name level filesystem serials iv)) (\<lambda>p.
       bindE (store_in (store_put mac mt p)) (\<lambda>token. ret (p, token))))))"

section \<open>Executing a plan\<close>

text \<open>\<open>hmac.compare_digest\<close> of two strings: anything but ASCII is a \<open>TypeError\<close>.\<close>

definition compare_digest :: "string \<Rightarrow> string \<Rightarrow> exn + bool" where
  "compare_digest a b = (if list_all (\<lambda>c. code c < 128) a \<and> list_all (\<lambda>c. code c < 128) b then Inr (a = b)
     else Inl (TypeError ''comparing strings with non-ASCII characters is not supported''))"

definition managed_mountpoints :: "'a web \<Rightarrow> string list" where
  "managed_mountpoints w = map vo_mountpoint (filter vo_managed (wb_volumes w))"

definition execute_stored_plan :: "(bytes \<Rightarrow> string) \<Rightarrow> 'a agent \<Rightarrow> rpc_context \<Rightarrow> string \<Rightarrow> string \<Rightarrow> string
    \<Rightarrow> ('a, string option) web_prog" where
  "execute_stored_plan mac agent ctx pid token typed =
     bindE (getsE wb_mono) (\<lambda>now.
     bindE (store_in (store_get now pid)) (\<lambda>found. case found of
         None \<Rightarrow> raise (ServiceError ''plan_not_found'' ''plan not found or expired'')
       | Some p \<Rightarrow>
           bindE (liftE (compare_digest (confirm_token mac p) token)) (\<lambda>same.
           if \<not> same then raise (ServiceError ''bad_confirm_token'' ''confirm token does not match this plan'')
           else if typed \<noteq> pl_confirm_text p
           then raise (ServiceError ''confirmation_mismatch'' (''type '' @ repr_str (pl_confirm_text p) @ '' exactly to confirm''))
           else bindE (getsE managed_mountpoints) (\<lambda>mps.
             bindE (service_error (bindE (agent_call agent ctx (Storage (StorageExecutePlanParams (pl_spec p)
               (pl_expected_sizes p) (mps @ [sp_mountpoint (pl_spec p)])))) job_started)) (\<lambda>jid.
             bindE (store_in (store_pop now pid)) (\<lambda>_. ret jid))))))"

section \<open>Registering the volume of a finished plan\<close>

text \<open>
  The event a job publishes, and \<open>VolumeAutoRegistrar._register\<close>. \<open>loads\<close> is \<open>json.loads\<close> of the
  message into the fields of \<open>plan_result\<close>; \<open>None\<close> is text it cannot parse or a missing field.
\<close>

record job_event =
  je_kind :: string
  je_status :: string
  je_message :: string

record plan_outcome =
  po_name :: string
  po_mountpoint :: string
  po_filesystem :: string
  po_device :: string
  po_uuid :: string
  po_raid_level :: string
  po_array_name :: "string option"
  po_disk_serials :: "string list option"

definition volume_of :: "plan_outcome \<Rightarrow> volume_row" where
  "volume_of o' = \<lparr>vo_id = 0, vo_name = po_name o', vo_mountpoint = po_mountpoint o', vo_filesystem = po_filesystem o',
     vo_managed = True, vo_device = Some (po_device o'),
     vo_uuid = (if po_uuid o' = [] then None else Some (po_uuid o')), vo_raid_level = Some (po_raid_level o'),
     vo_array_name = po_array_name o', vo_disk_serials = po_disk_serials o'\<rparr>"

definition auto_register :: "(string \<Rightarrow> plan_outcome option) \<Rightarrow> job_event \<Rightarrow> 'a web \<Rightarrow> 'a web" where
  "auto_register loads ev w =
     (if je_kind ev \<noteq> ''storage.execute_plan'' \<or> je_status ev \<noteq> ''done'' then w
      else case loads (or_else (je_message ev) ''{}'') of
          None \<Rightarrow> w
        | Some outcome \<Rightarrow> snd (add_volume (volume_of outcome) w))"

section \<open>Facts\<close>

lemma agent_call_ok: "params_ok p \<Longrightarrow> agent_call agent ctx p w =
    (fst (agent ctx p (wb_agent w)), w\<lparr>wb_agent := snd (agent ctx p (wb_agent w))\<rparr>)"
  by (simp add: agent_call_def case_prod_beta)

lemma plan_disk_Inr:
  "plan_disk nodes serial = Inr d \<longleftrightarrow> (\<exists>n. dget nodes serial = Some n \<and> \<not> dk_protected (node_info n) \<and>
     d = (dk_path (node_info n), dk_size (node_info n), dk_path (node_info n) @ '' ('' @ serial @ '', ''
       @ format_bytes (dk_size (node_info n)) @ '')''))"
  by (auto simp: plan_disk_def Let_def split: option.split)

lemma rmap_Inr_all: "rmap f xs = Inr ys \<longleftrightarrow> list_all2 (\<lambda>x y. f x = Inr y) xs ys"
  by (induction xs arbitrary: ys) (auto simp: rbind_eq_Inr list_all2_Cons1)

definition exec_params :: "plan \<Rightarrow> 'a web \<Rightarrow> rpc_params" where
  "exec_params p w = Storage (StorageExecutePlanParams (pl_spec p) (pl_expected_sizes p)
     (managed_mountpoints w @ [sp_mountpoint (pl_spec p)]))"

definition one_disk :: inventory where
  "one_disk = \<lparr>inv_disks = [DiskNode \<lparr>dk_name = ''sda'', dk_path = ''/dev/sda'', dk_type = ''disk'', dk_serial = Some ''A'',
     dk_model = None, dk_wwn = None, dk_size = 8, dk_rota = False, dk_transport = ''sata'', dk_fstype = None,
     dk_mountpoint = None, dk_uuid = None, dk_smart = None, dk_protected = False, dk_protected_reason = None\<rparr> []],
     inv_arrays = [], inv_vgs = [], inv_lvs = []\<rparr>"

text \<open>An agent whose inventory is one disk and which accepts every other call.\<close>

definition demo_agent :: "unit agent" where
  "demo_agent ctx p = (case p of Storage StorageInventoryParams \<Rightarrow> ret (StorageInventoryResult one_disk)
     | _ \<Rightarrow> ret (JobStartedResult (Some ''j'')))"

definition demo_web :: "'a \<Rightarrow> 'a web" where
  "demo_web a = \<lparr>wb_agent = a, wb_now = 0, wb_mono = 0, wb_plans = [], wb_sessions = [], wb_audit = [],
     wb_notifications = [], wb_users = [], wb_groups = [], wb_volumes = [], wb_disks = [], wb_shares = [],
     wb_permissions = [], wb_uploads = []\<rparr>"

definition no_ctx :: rpc_context where
  "no_ctx = \<lparr>ctx_user = None, ctx_role = None, ctx_ip = None\<rparr>"

lemma execute_unfold:
  "execute_stored_plan mac agent ctx pid token typed w =
    (let w1 = w\<lparr>wb_plans := store_gc (wb_mono w) (wb_plans w)\<rparr> in
     case dget (store_gc (wb_mono w) (wb_plans w)) pid of
       None \<Rightarrow> (Inl (ServiceError ''plan_not_found'' ''plan not found or expired''), w1)
     | Some p \<Rightarrow> (case compare_digest (confirm_token mac p) token of
         Inl e \<Rightarrow> (Inl e, w1)
       | Inr same \<Rightarrow>
           if \<not> same then (Inl (ServiceError ''bad_confirm_token'' ''confirm token does not match this plan''), w1)
           else if typed \<noteq> pl_confirm_text p
           then (Inl (ServiceError ''confirmation_mismatch'' (''type '' @ repr_str (pl_confirm_text p) @ '' exactly to confirm'')), w1)
           else bindE (service_error (bindE (agent_call agent ctx (exec_params p w)) job_started))
             (\<lambda>jid. bindE (store_in (store_pop (wb_mono w) pid)) (\<lambda>_. ret jid)) w1))"
  by (auto simp: execute_stored_plan_def Let_def store_in_def store_get_def exec_params_def managed_mountpoints_def
      split: option.split sum.split)

lemma plan_spec_for_sel: "sp_disk_paths (plan_spec_for st vol level filesystem serials paths) = paths"
  by (simp add: plan_spec_for_def)

lemma service_call:
  "service_error (bindE (agent_call agent ctx p) k) w =
     (if params_ok p
      then (case fst (agent ctx p (wb_agent w)) of
          Inr x \<Rightarrow> service_error (k x) (w\<lparr>wb_agent := snd (agent ctx p (wb_agent w))\<rparr>)
        | Inl e \<Rightarrow> (Inl (case e of RpcCallError c t \<Rightarrow> ServiceError c t | _ \<Rightarrow> e),
            w\<lparr>wb_agent := snd (agent ctx p (wb_agent w))\<rparr>))
      else (Inl (ValidationError (method_of p)), w))"
  by (cases "fst (agent ctx p (wb_agent w))")
     (auto simp: service_error_def tryE_def bindE_def agent_call_def case_prod_beta split: exn.split sum.split)

lemma service_liftE: "service_error (liftE r) w =
    (case r of Inr x \<Rightarrow> Inr x | Inl e \<Rightarrow> Inl (case e of RpcCallError c t \<Rightarrow> ServiceError c t | _ \<Rightarrow> e), w)"
  by (auto simp: service_error_def tryE_def split: sum.split exn.split)

lemma storage_inventory_cases:
  "service_error (storage_inventory x) w =
     (case x of StorageInventoryResult i \<Rightarrow> Inr i | _ \<Rightarrow> Inl (ValidationError ''StorageInventoryResult''), w)"
  by (cases x) (simp_all add: storage_inventory_def service_error_def tryE_def)

lemma job_started_cases:
  "service_error (job_started x) w = (case x of JobStartedResult j \<Rightarrow> Inr j | _ \<Rightarrow> Inl (ValidationError ''JobStartedResult''), w)"
  by (cases x) (simp_all add: job_started_def service_error_def tryE_def)

lemma execute_success:
  assumes "execute_stored_plan mac agent ctx pid token typed w = (Inr jid, w')"
  shows "wb_plans w' = dpop pid (store_gc (wb_mono w) (wb_plans w)) \<and> wb_mono w' = wb_mono w"
  using assms
  by (auto simp: execute_unfold Let_def compare_digest_def service_call job_started_cases bindE_def store_in_def
      store_pop_def store_gc_def split: option.splits if_splits sum.splits rpc_result.splits)

lemma dget_gc_None: "dget d k = None \<Longrightarrow> dget (store_gc now d) k = None"
  by (auto simp: store_gc_def map_of_eq_None_iff)

lemma dget_gc_dset:
  assumes "pl_created_at p = now" "now \<le> later" "later \<le> now + plan_ttl" "distinct (map fst st)"
  shows "dget (store_gc later (dset (pl_id p) p (store_gc now st))) (pl_id p) = Some p"
proof -
  have "distinct (map fst (dset (pl_id p) p (store_gc now st)))"
    using assms(4) by (intro distinct_dset) (auto simp: store_gc_def distinct_map_filter)
  from store_gc_get [OF this, of later "pl_id p"] assms show ?thesis by (simp add: dget_dset)
qed

text \<open>What a plan that was made looks like.\<close>

lemma create_plan_Inr:
  assumes "create_plan mac st agent ctx pid vol level filesystem serials w = (Inr (p, token), w')"
  obtains iv a where "level_check level serials = None"
    "agent ctx (Storage StorageInventoryParams) (wb_agent w) = (Inr (StorageInventoryResult iv), a)"
    "make_plan st pid (wb_mono w) (wb_now w) vol level filesystem serials iv = Inr p"
    "token = confirm_token mac p"
    "w' = w\<lparr>wb_agent := a, wb_plans := dset (pl_id p) p (store_gc (wb_mono w) (wb_plans w))\<rparr>"
  using assms
proof -
  let ?c = "agent ctx (Storage StorageInventoryParams) (wb_agent w)"
  let ?m = "service_error (bindE (agent_call agent ctx (Storage StorageInventoryParams)) storage_inventory)"
  obtain iv w1 where "level_check level serials = None" and m: "?m w = (Inr iv, w1)"
    and rest: "make_plan st pid (wb_mono w1) (wb_now w1) vol level filesystem serials iv = Inr p"
      "store_in (store_put mac (wb_mono w1) p) w1 = (Inr token, w')"
    using assms by (auto simp: create_plan_def bindE_eq_Inr split: option.splits)
  moreover from m have "?c = (Inr (StorageInventoryResult iv), snd ?c)" "w1 = w\<lparr>wb_agent := snd ?c\<rparr>"
    by (auto simp: service_call storage_inventory_cases prod_eq_iff split: sum.splits rpc_result.splits)
  ultimately show thesis by (intro that [of iv "snd ?c"]) (auto simp: store_in_def store_put_def)
qed

lemma make_plan_Inr:
  assumes "make_plan st pid mt wall vol level filesystem serials iv = Inr p"
  obtains disks where "list_all2 (\<lambda>s d. plan_disk (by_serial (inv_disks iv)) s = Inr d) serials disks"
    "pl_spec p = plan_spec_for st vol level filesystem serials (map fst disks)" "plan_spec_ok (pl_spec p)"
    "pl_expected_sizes p = dict_of (zip serials (map (fst \<circ> snd) disks))"
    "build_steps (pl_spec p) = Inr (pl_steps p)" "pl_id p = pid" "pl_created_at p = mt"
    "pl_confirm_text p = confirm_text serials"
  using assms by (auto simp: make_plan_def rbind_eq_Inr rmap_Inr_all Let_def split: if_splits)

lemma exec_params_ok: "params_ok (exec_params p w) \<longleftrightarrow> plan_spec_ok (pl_spec p)"
  by (simp add: exec_params_def)

lemma volume_names_are_bounded:
  assumes "58 < length vol"
  shows "make_plan st pid mt wall vol level filesystem serials iv \<noteq> Inr p"
proof
  assume p: "make_plan st pid mt wall vol level filesystem serials iv = Inr p"
  from p show False
    by (rule make_plan_Inr) (use assms in \<open>auto simp: plan_spec_ok_def plan_spec_for_def valid_device_name_def\<close>)
qed

text \<open>A plan made for that disk, used by the examples.\<close>

lemma demo_plan:
  obtains p w' where "create_plan (\<lambda>_. ''t'') default_settings demo_agent no_ctx ''i'' ''v'' ''basic'' ''xfs'' [''A'']
      (demo_web ()) = (Inr (p, ''t''), w')" "wb_agent w' = ()" "wb_plans w' = [(''i'', p)]" "wb_mono w' = 0"
    "pl_id p = ''i''" "pl_created_at p = 0" "plan_spec_ok (pl_spec p)" "pl_confirm_text p = ''A''"
proof -
  let ?sp = "plan_spec_for default_settings ''v'' ''basic'' ''xfs'' [''A''] [''/dev/sda'']"
  obtain d where d: "plan_disk (by_serial (inv_disks one_disk)) ''A'' = Inr (''/dev/sda'', d)"
    by (simp add: plan_disk_def by_serial_def one_disk_def dict_of_def serial_of_def flatten_def Let_def)
  have ok: "plan_spec_ok ?sp" "\<not> isl (build_steps ?sp)" by code_simp+
  then obtain steps where steps: "build_steps ?sp = Inr steps" by (cases "build_steps ?sp") auto
  have lc: "level_check ''basic'' [''A''] = None" by code_simp
  obtain p where p: "make_plan default_settings ''i'' 0 0 ''v'' ''basic'' ''xfs'' [''A''] one_disk = Inr p"
    using ok steps d by (simp add: make_plan_def rbind_def plan_spec_for_sel Let_def)
  then have q: "pl_id p = ''i''" "pl_created_at p = 0" "plan_spec_ok (pl_spec p)" "pl_confirm_text p = ''A''"
    by (auto elim!: make_plan_Inr simp: confirm_text_def)
  from lc p have "create_plan (\<lambda>_. ''t'') default_settings demo_agent no_ctx ''i'' ''v'' ''basic'' ''xfs'' [''A'']
      (demo_web ()) = (Inr (p, ''t''), (demo_web ())\<lparr>wb_plans := [(''i'', p)]\<rparr>)"
    by (simp add: create_plan_def service_call storage_inventory_cases demo_agent_def demo_web_def store_in_def
        store_put_def store_gc_def confirm_token_def q bindE_def)
  then show thesis by (rule that) (simp_all add: q, simp_all add: demo_web_def)
qed

lemma demo_execute:
  assumes "wb_plans w' = [(''i'', p)]" "wb_mono w' = 0" "pl_created_at p = 0" "plan_spec_ok (pl_spec p)"
    "pl_confirm_text p = ''A''"
  shows "fst (execute_stored_plan (\<lambda>_. ''t'') demo_agent no_ctx ''i'' ''t'' ''A'' w') = Inr (Some ''j'')"
  using assms by (simp add: execute_unfold Let_def store_gc_def plan_ttl_def compare_digest_def confirm_token_def
      code_def service_call exec_params_ok demo_agent_def exec_params_def job_started_cases bindE_def store_in_def
      case_prod_beta)

section \<open>Properties\<close>

text \<open>C26: A plan reaches the agent only when it is stored under the id given, is no older than its lifetime,
  and both its confirm token and its confirmation text were given; in every other case the agent's
  state is untouched and the call fails. What is sent is the stored plan itself.\<close>

theorem execute_needs_confirmation:
  assumes "store_ok (wb_plans w)"
    and "execute_stored_plan mac agent ctx pid token typed w = (r, w')"
    and "wb_agent w' \<noteq> wb_agent w \<or> r = Inr jid"
  shows "\<exists>p. dget (wb_plans w) pid = Some p \<and> pl_id p = pid \<and> wb_mono w - plan_ttl \<le> pl_created_at p \<and>
    token = confirm_token mac p \<and> typed = pl_confirm_text p \<and> params_ok (exec_params p w) \<and>
    wb_agent w' = snd (agent ctx (exec_params p w) (wb_agent w))"
proof -
  have "fst (store_get (wb_mono w) pid (wb_plans w)) = dget (store_gc (wb_mono w) (wb_plans w)) pid"
    by (simp add: store_get_def)
  then obtain p where p: "dget (store_gc (wb_mono w) (wb_plans w)) pid = Some p"
    "dget (wb_plans w) pid = Some p \<and> pl_id p = pid \<and> wb_mono w - plan_ttl \<le> pl_created_at p"
    using assms store_get_SomeD [OF assms(1), of "wb_mono w" pid]
    by (auto simp: execute_unfold Let_def split: option.splits)
  with assms have "token = confirm_token mac p \<and> typed = pl_confirm_text p"
    by (auto simp: execute_unfold Let_def compare_digest_def split: if_splits)
  with p assms show ?thesis
    by (auto simp: execute_unfold Let_def compare_digest_def service_call job_started_cases bindE_def store_in_def
        store_pop_def split: if_splits sum.splits rpc_result.splits)
qed

theorem execute_needs_confirmation_witness:
  "\<exists>w p. dget (wb_plans (w :: unit web)) ''i'' = Some p \<and> ''t'' = confirm_token (\<lambda>_. ''t'') p \<and>
    fst (execute_stored_plan (\<lambda>_. ''t'') demo_agent no_ctx ''i'' ''t'' ''A'' w) = Inr (Some ''j'')"
proof -
  obtain p and w' :: "unit web" where *: "wb_plans w' = [(''i'', p)]" "wb_mono w' = 0" "pl_id p = ''i''"
    "pl_created_at p = 0" "plan_spec_ok (pl_spec p)" "pl_confirm_text p = ''A''" by (rule demo_plan)
  let ?e = "execute_stored_plan (\<lambda>_. ''t'') demo_agent no_ctx ''i'' ''t'' ''A'' w'"
  have e: "fst ?e = Inr (Some ''j'')" using * by (intro demo_execute)
  have "store_ok (wb_plans w')" using * by (simp add: store_ok_def)
  from execute_needs_confirmation [OF this, of _ demo_agent no_ctx _ _ _ "fst ?e" "snd ?e"] e
  show ?thesis by (metis prod.collapse)
qed


text \<open>A plan is executed once: after a successful execution the same id is refused at any later time,
  whatever token is given, and the agent is not called.\<close>

theorem executed_plan_is_gone:
  assumes "execute_stored_plan mac agent ctx pid token typed w = (Inr jid, w')"
  shows "execute_stored_plan mac agent ctx pid token' typed' (w'\<lparr>wb_mono := later\<rparr>) =
    (Inl (ServiceError ''plan_not_found'' ''plan not found or expired''),
     w'\<lparr>wb_mono := later, wb_plans := store_gc later (wb_plans w')\<rparr>)"
proof -
  have "dget (store_gc later (wb_plans w')) pid = None"
    using execute_success [OF assms] by (auto intro!: dget_gc_None simp: dget_dpop)
  then show ?thesis by (simp add: execute_unfold Let_def)
qed

theorem executed_plan_is_gone_witness:
  "\<exists>w :: unit web. fst (execute_stored_plan (\<lambda>_. ''t'') demo_agent no_ctx ''i'' ''t'' ''A'' w) =
    Inl (ServiceError ''plan_not_found'' ''plan not found or expired'')"
proof -
  obtain p and w' :: "unit web" where *: "wb_plans w' = [(''i'', p)]" "wb_mono w' = 0"
    "pl_created_at p = 0" "plan_spec_ok (pl_spec p)" "pl_confirm_text p = ''A''" by (rule demo_plan)
  then have "fst (execute_stored_plan (\<lambda>_. ''t'') demo_agent no_ctx ''i'' ''t'' ''A'' w') = Inr (Some ''j'')"
    by (intro demo_execute)
  then obtain w2 where "execute_stored_plan (\<lambda>_. ''t'') demo_agent no_ctx ''i'' ''t'' ''A'' w' = (Inr (Some ''j''), w2)"
    by (metis prod.collapse)
  from executed_plan_is_gone [OF this, of "''t''" "''A''" 1] show ?thesis by (metis fst_conv)
qed

text \<open>C27: Within its lifetime, the token and the text shown for a plan are enough to execute it: the agent is
  called with exactly that plan, and its job id is the answer. The key of the store is ASCII hex.\<close>

theorem confirmed_plan_is_executed:
  assumes "create_plan mac st agent ctx pid vol level filesystem serials w = (Inr (p, token), w')"
    and "distinct (map fst (wb_plans w))" "wb_mono w \<le> later" "later \<le> wb_mono w + plan_ttl"
    and "\<forall>b. list_all (\<lambda>c. code c < 128) (mac b)"
    and "agent ctx (exec_params p w') (wb_agent w') = (Inr (JobStartedResult jid), a)"
  shows "\<exists>w''. execute_stored_plan mac agent ctx pid token (pl_confirm_text p) (w'\<lparr>wb_mono := later\<rparr>) = (Inr jid, w'')
    \<and> wb_agent w'' = a"
proof -
  from assms(1) obtain iv b where p: "make_plan st pid (wb_mono w) (wb_now w) vol level filesystem serials iv = Inr p"
    and t: "token = confirm_token mac p"
    and w': "w' = w\<lparr>wb_agent := b, wb_plans := dset (pl_id p) p (store_gc (wb_mono w) (wb_plans w))\<rparr>"
    by (rule create_plan_Inr)
  from p have ok: "plan_spec_ok (pl_spec p)" and "pl_id p = pid" "pl_created_at p = wb_mono w"
    by (rule make_plan_Inr, simp)+
  with w' assms(2-4) have g: "dget (store_gc later (wb_plans w')) pid = Some p"
    using dget_gc_dset [of p "wb_mono w" later "wb_plans w"] by simp
  have "compare_digest (confirm_token mac p) token = Inr True"
    using assms(5) t by (simp add: compare_digest_def confirm_token_def)
  moreover have "exec_params p (w'\<lparr>wb_mono := later\<rparr>) = exec_params p w'"
    by (simp add: exec_params_def managed_mountpoints_def)
  ultimately show ?thesis using g ok assms(6)
    by (simp add: execute_unfold Let_def service_call exec_params_ok job_started_cases bindE_def store_in_def
        case_prod_beta)
qed

theorem confirmed_plan_is_executed_witness:
  "\<exists>(w :: unit web) w''. execute_stored_plan (\<lambda>_. ''t'') demo_agent no_ctx ''i'' ''t'' ''A'' w = (Inr (Some ''j''), w'')"
proof -
  obtain p and w' :: "unit web" where
    *: "create_plan (\<lambda>_. ''t'') default_settings demo_agent no_ctx ''i'' ''v'' ''basic'' ''xfs'' [''A''] (demo_web ()) =
      (Inr (p, ''t''), w')" and p: "pl_confirm_text p = ''A''" by (rule demo_plan)
  have "demo_agent no_ctx (exec_params p w') (wb_agent w') = (Inr (JobStartedResult (Some ''j'')), ())"
    by (simp add: demo_agent_def exec_params_def)
  from confirmed_plan_is_executed [OF * _ _ _ _ this, of 300] p show ?thesis
    by (auto simp: demo_web_def plan_ttl_def code_def)
qed



text \<open>The same serial may be given twice: the plan of a mirror over one single disk is accepted.\<close>

theorem one_disk_passes_for_a_mirror:
  "level_check ''1'' [''A'', ''A''] = None \<and>
   (\<exists>p. make_plan default_settings ''p'' 0 0 ''v'' ''1'' ''xfs'' [''A'', ''A''] one_disk = Inr p \<and>
      sp_disk_paths (pl_spec p) = [''/dev/sda'', ''/dev/sda''])"
proof -
  let ?sp = "plan_spec_for default_settings ''v'' ''1'' ''xfs'' [''A'', ''A''] [''/dev/sda'', ''/dev/sda'']"
  have "level_check ''1'' [''A'', ''A''] = None" by code_simp
  moreover obtain d where "plan_disk (by_serial (inv_disks one_disk)) ''A'' = Inr (''/dev/sda'', d)"
    by (simp add: plan_disk_def by_serial_def one_disk_def dict_of_def serial_of_def flatten_def Let_def)
  moreover have "plan_spec_ok ?sp" "\<not> isl (build_steps ?sp)" by code_simp+
  ultimately show ?thesis
    by (cases "build_steps ?sp") (auto simp: make_plan_def rbind_def plan_spec_for_sel Let_def)
qed

end
