(* ===== verification/Api.thy ===== *)
theory Api
  imports PlanService
begin

text \<open>
  The REST routes of \<open>api/auth.py\<close>, \<open>users.py\<close>, \<open>groups.py\<close>, \<open>volumes.py\<close>, \<open>shares.py\<close>,
  \<open>storage.py\<close> and \<open>system.py\<close> with their dependencies, behind the CSRF guard. A request is a
  route with its path parameters and its parsed body; an \<open>HTTPException\<close> is the error response,
  any other exception a response with status 500. Random values (the session token and the plan id
  of the one request) are part of the environment.
\<close>

section \<open>Requests and responses\<close>

record 'a env =
  ev_settings :: settings
  ev_agent :: "'a agent"
  ev_hash :: "string \<Rightarrow> string"
  ev_mac :: "bytes \<Rightarrow> string"
  ev_fresh :: string

text \<open>The parts of a request every route may look at.\<close>

record client =
  cl_cookie :: "string option"
  cl_csrf :: "string option"
  cl_ip :: "string option"
  cl_user_agent :: "string option"

datatype api_request =
    Login string string
  | Logout
  | Me
  | System_info
  | List_users
  | Create_user string string string
  | Import_user string string
  | Update_user int "string option" "bool option"
  | Set_password int string
  | Delete_user int bool
  | List_groups
  | Create_group string string
  | Delete_group int
  | Add_member int string
  | Remove_member int string
  | List_volumes
  | Register_volume string string
  | List_shares
  | Create_share string int string
  | Delete_share int bool
  | List_permissions int
  | Set_permissions int "grant list" bool
  | Get_inventory
  | Create_plan string string string "string list"
  | Execute_plan string string string

datatype api_response =
    Logged_in string bool int identity
  | Session_info string string int
  | Ok_response
  | Rpc_out rpc_result
  | Users_out "user_row list"
  | User_out user_row
  | Groups_out "group_row list"
  | Group_out group_row
  | Volumes_out "volume_row list"
  | Volume_out volume_row
  | Shares_out "share_row list"
  | Share_out share_row
  | Permissions_out "permission_row list"
  | Job_out "string option"
  | Plan_out plan string

text \<open>Method and path of a route, as far as the CSRF guard is concerned.\<close>

fun http_method :: "api_request \<Rightarrow> string" where
  "http_method (Login _ _) = ''POST''"
| "http_method Logout = ''POST''"
| "http_method (Create_user _ _ _) = ''POST''"
| "http_method (Import_user _ _) = ''POST''"
| "http_method (Update_user _ _ _) = ''PATCH''"
| "http_method (Set_password _ _) = ''POST''"
| "http_method (Delete_user _ _) = ''DELETE''"
| "http_method (Create_group _ _) = ''POST''"
| "http_method (Delete_group _) = ''DELETE''"
| "http_method (Add_member _ _) = ''POST''"
| "http_method (Remove_member _ _) = ''DELETE''"
| "http_method (Register_volume _ _) = ''POST''"
| "http_method (Create_share _ _ _) = ''POST''"
| "http_method (Delete_share _ _) = ''DELETE''"
| "http_method (Set_permissions _ _ _) = ''PUT''"
| "http_method (Create_plan _ _ _ _) = ''POST''"
| "http_method (Execute_plan _ _ _) = ''POST''"
| "http_method _ = ''GET''"

fun route_path :: "api_request \<Rightarrow> string" where
  "route_path (Login _ _) = ''/auth/login''"
| "route_path Logout = ''/auth/logout''"
| "route_path Me = ''/auth/me''"
| "route_path System_info = ''/system/info''"
| "route_path List_users = ''/users''"
| "route_path (Create_user _ _ _) = ''/users''"
| "route_path (Import_user _ _) = ''/users/import''"
| "route_path (Update_user i _ _) = ''/users/'' @ int_str i"
| "route_path (Set_password i _) = ''/users/'' @ int_str i @ ''/password''"
| "route_path (Delete_user i _) = ''/users/'' @ int_str i"
| "route_path List_groups = ''/groups''"
| "route_path (Create_group _ _) = ''/groups''"
| "route_path (Delete_group i) = ''/groups/'' @ int_str i"
| "route_path (Add_member i _) = ''/groups/'' @ int_str i @ ''/members''"
| "route_path (Remove_member i u) = ''/groups/'' @ int_str i @ ''/members/'' @ u"
| "route_path List_volumes = ''/volumes''"
| "route_path (Register_volume _ _) = ''/volumes''"
| "route_path List_shares = ''/shares''"
| "route_path (Create_share _ _ _) = ''/shares''"
| "route_path (Delete_share i _) = ''/shares/'' @ int_str i"
| "route_path (List_permissions i) = ''/shares/'' @ int_str i @ ''/permissions''"
| "route_path (Set_permissions i _ _) = ''/shares/'' @ int_str i @ ''/permissions''"
| "route_path Get_inventory = ''/storage/inventory''"
| "route_path (Create_plan _ _ _ _) = ''/storage/plans''"
| "route_path (Execute_plan p _ _) = ''/storage/plans/'' @ p @ ''/execute''"

definition http_path :: "api_request \<Rightarrow> string" where
  "http_path rq = ''/api/v1'' @ route_path rq"

section \<open>Dependencies\<close>

definition with_session :: "'a env \<Rightarrow> client \<Rightarrow> (session_row \<Rightarrow> ('a, 'b) web_prog) \<Rightarrow> ('a, 'b) web_prog" where
  "with_session ev c k = bindE (current_session (ev_hash ev) (ev_settings ev) (cl_cookie c)) k"

definition with_admin :: "'a env \<Rightarrow> client \<Rightarrow> (session_row \<Rightarrow> ('a, 'b) web_prog) \<Rightarrow> ('a, 'b) web_prog" where
  "with_admin ev c k = with_session ev c (\<lambda>s. bindE (require_admin s) k)"

text \<open>\<open>_get_X_or_404\<close>.\<close>

definition or_404 :: "string \<Rightarrow> ('a, 'b option) web_prog \<Rightarrow> ('a, 'b) web_prog" where
  "or_404 what m = bindE m (\<lambda>found. case found of
       None \<Rightarrow> raise (HTTPException 404 (''no such '' @ what)) | Some x \<Rightarrow> ret x)"

text \<open>\<open>except XServiceError as exc:\<close> with an audit record before the error response.\<close>

definition audited :: "(nat \<Rightarrow> string option \<Rightarrow> audit_row) \<Rightarrow> ('a, 'b) web_prog \<Rightarrow> ('b \<Rightarrow> string option)
    \<Rightarrow> ('a, 'b) web_prog" where
  "audited row m detail =
     bindE (tryE m (\<lambda>e. case e of
         ServiceError c t \<Rightarrow> thenE (audit_record (row 400 (Some t))) (raise (HTTPException 400 t))
       | _ \<Rightarrow> raise e)) (\<lambda>x. thenE (audit_record (row 200 (detail x))) (ret x))"

definition session_audit :: "session_row \<Rightarrow> client \<Rightarrow> api_request \<Rightarrow> string \<Rightarrow> nat \<Rightarrow> string option \<Rightarrow> audit_row" where
  "session_audit s c rq action status detail = \<lparr>au_username = Some (se_username s), au_role = Some (se_role s),
     au_ip = cl_ip c, au_method = http_method rq, au_path = http_path rq, au_action = action,
     au_status_code = status, au_detail = detail\<rparr>"

section \<open>Authentication\<close>

definition login_audit :: "client \<Rightarrow> string \<Rightarrow> string option \<Rightarrow> nat \<Rightarrow> string option \<Rightarrow> audit_row" where
  "login_audit c username role status detail = \<lparr>au_username = Some username, au_role = role, au_ip = cl_ip c,
     au_method = ''POST'', au_path = ''/api/v1/auth/login'', au_action = ''auth.login'',
     au_status_code = status, au_detail = detail\<rparr>"

definition login :: "'a env \<Rightarrow> client \<Rightarrow> string \<Rightarrow> string \<Rightarrow> ('a, api_response) web_prog" where
  "login ev c username password =
     bindE (tryE (agent_call (ev_agent ev) \<lparr>ctx_user = None, ctx_role = None, ctx_ip = cl_ip c\<rparr>
             (Auth (AuthLoginParams username password)))
       (\<lambda>e. case e of
           RpcCallError cd t \<Rightarrow> thenE (audit_record (login_audit c username None 401 (Some cd)))
             (raise (HTTPException 401 ''invalid username or password''))
         | _ \<Rightarrow> raise e))
     (\<lambda>r. case r of
         AuthLoginResult uid name role display_name \<Rightarrow>
           (let idn = \<lparr>id_uid = uid, id_username = name, id_role = role\<rparr> in
            bindE (create_session (ev_hash ev) (ev_fresh ev) idn (cl_ip c) (cl_user_agent c)) (\<lambda>token.
            thenE (audit_record (login_audit c name (Some role) 200 None))
              (ret (Logged_in token (cookie_secure (ev_settings ev))
                 (st_session_idle_timeout_minutes (ev_settings ev) * 60) idn))))
       | _ \<Rightarrow> raise (ValidationError ''AuthLoginResult''))"

definition logout :: "'a env \<Rightarrow> client \<Rightarrow> ('a, api_response) web_prog" where
  "logout ev c = thenE (case cl_cookie c of
       None \<Rightarrow> ret () | Some token \<Rightarrow> whenE (token \<noteq> []) (destroy_session (ev_hash ev) token)) (ret Ok_response)"

definition me :: "'a env \<Rightarrow> client \<Rightarrow> ('a, api_response) web_prog" where
  "me ev c = with_session ev c (\<lambda>s. ret (Session_info (se_username s) (se_role s) (se_uid s)))"

definition system_info :: "'a env \<Rightarrow> client \<Rightarrow> ('a, api_response) web_prog" where
  "system_info ev c = with_session ev c (\<lambda>s.
     bindE (agent_call (ev_agent ev) (session_ctx s) SystemInfoParams) (\<lambda>r. ret (Rpc_out r)))"

section \<open>Users\<close>

definition list_users_route :: "'a env \<Rightarrow> client \<Rightarrow> ('a, api_response) web_prog" where
  "list_users_route ev c = with_session ev c (\<lambda>s. bindE list_users (\<lambda>us. ret (Users_out us)))"

definition create_user_route :: "'a env \<Rightarrow> client \<Rightarrow> string \<Rightarrow> string \<Rightarrow> string \<Rightarrow> ('a, api_response) web_prog" where
  "create_user_route ev c username password description = with_admin ev c (\<lambda>s.
     bindE (audited (session_audit s c (Create_user username password description) ''users.create'')
              (create_user (ev_agent ev) (session_ctx s) username password description) (\<lambda>_. None))
       (\<lambda>u. ret (User_out u)))"

definition import_user_route :: "'a env \<Rightarrow> client \<Rightarrow> string \<Rightarrow> string \<Rightarrow> ('a, api_response) web_prog" where
  "import_user_route ev c username description = with_admin ev c (\<lambda>s.
     bindE (bad_request (import_user (ev_agent ev) (session_ctx s) username description)) (\<lambda>u. ret (User_out u)))"

definition update_user_route :: "'a env \<Rightarrow> client \<Rightarrow> int \<Rightarrow> string option \<Rightarrow> bool option \<Rightarrow> ('a, api_response) web_prog" where
  "update_user_route ev c uid description smb = with_admin ev c (\<lambda>s.
     bindE (or_404 ''user'' (get_user uid)) (\<lambda>user.
     bindE (case description of None \<Rightarrow> ret user | Some d \<Rightarrow> update_description user d) (\<lambda>user.
     bindE (case smb of None \<Rightarrow> ret user
         | Some b \<Rightarrow> bad_request (set_smb_enabled (ev_agent ev) (session_ctx s) user b)) (\<lambda>user.
     ret (User_out user)))))"

definition set_password_route :: "'a env \<Rightarrow> client \<Rightarrow> int \<Rightarrow> string \<Rightarrow> ('a, api_response) web_prog" where
  "set_password_route ev c uid password = with_session ev c (\<lambda>s.
     if se_role s \<noteq> ''admin'' \<and> se_uid s \<noteq> uid then raise (HTTPException 403 ''can only change your own password'')
     else bindE (or_404 ''user'' (get_user uid)) (\<lambda>user.
       bindE (bad_request (set_password (ev_agent ev) (session_ctx s) user password)) (\<lambda>u. ret (User_out u))))"

definition delete_user_route :: "'a env \<Rightarrow> client \<Rightarrow> int \<Rightarrow> bool \<Rightarrow> ('a, api_response) web_prog" where
  "delete_user_route ev c uid delete_home = with_admin ev c (\<lambda>s.
     bindE (or_404 ''user'' (get_user uid)) (\<lambda>user.
     thenE (tryE (delete_user (ev_agent ev) (session_ctx s) user delete_home)
       (\<lambda>e. case e of ServiceError k t \<Rightarrow> raise (HTTPException 400 t)
          | RpcCallError k t \<Rightarrow> raise (HTTPException 400 (k @ '': '' @ t)) | _ \<Rightarrow> raise e))
     (ret Ok_response)))"

section \<open>Groups\<close>

definition list_groups_route :: "'a env \<Rightarrow> client \<Rightarrow> ('a, api_response) web_prog" where
  "list_groups_route ev c = with_session ev c (\<lambda>s. bindE list_groups (\<lambda>gs. ret (Groups_out gs)))"

definition create_group_route :: "'a env \<Rightarrow> client \<Rightarrow> string \<Rightarrow> string \<Rightarrow> ('a, api_response) web_prog" where
  "create_group_route ev c name description = with_admin ev c (\<lambda>s.
     bindE (bad_request (create_group (ev_agent ev) (session_ctx s) name description)) (\<lambda>g. ret (Group_out g)))"

text \<open>The three routes below one group.\<close>

definition group_route :: "'a env \<Rightarrow> client \<Rightarrow> int \<Rightarrow> ('a agent \<Rightarrow> rpc_context \<Rightarrow> group_row \<Rightarrow> ('a, unit) web_prog)
    \<Rightarrow> ('a, api_response) web_prog" where
  "group_route ev c gid act = with_admin ev c (\<lambda>s.
     bindE (or_404 ''group'' (get_group gid)) (\<lambda>g.
     thenE (bad_request (act (ev_agent ev) (session_ctx s) g)) (ret Ok_response)))"

definition delete_group_route :: "'a env \<Rightarrow> client \<Rightarrow> int \<Rightarrow> ('a, api_response) web_prog" where
  "delete_group_route ev c gid = group_route ev c gid delete_group"

definition add_member_route :: "'a env \<Rightarrow> client \<Rightarrow> int \<Rightarrow> string \<Rightarrow> ('a, api_response) web_prog" where
  "add_member_route ev c gid username = group_route ev c gid (\<lambda>ag x g. add_member ag x g username)"

definition remove_member_route :: "'a env \<Rightarrow> client \<Rightarrow> int \<Rightarrow> string \<Rightarrow> ('a, api_response) web_prog" where
  "remove_member_route ev c gid username = group_route ev c gid (\<lambda>ag x g. remove_member ag x g username)"

section \<open>Volumes\<close>

definition list_volumes_route :: "'a env \<Rightarrow> client \<Rightarrow> ('a, api_response) web_prog" where
  "list_volumes_route ev c = with_session ev c (\<lambda>s. bindE list_volumes (\<lambda>vs. ret (Volumes_out vs)))"

definition register_volume_route :: "'a env \<Rightarrow> client \<Rightarrow> string \<Rightarrow> string \<Rightarrow> ('a, api_response) web_prog" where
  "register_volume_route ev c name mountpoint = with_admin ev c (\<lambda>s.
     bindE (bad_request (register_volume (ev_agent ev) (session_ctx s) name mountpoint)) (\<lambda>v. ret (Volume_out v)))"

section \<open>Shares\<close>

definition list_shares_route :: "'a env \<Rightarrow> client \<Rightarrow> ('a, api_response) web_prog" where
  "list_shares_route ev c = with_session ev c (\<lambda>s. bindE list_shares (\<lambda>hs. ret (Shares_out hs)))"

definition create_share_route :: "'a env \<Rightarrow> client \<Rightarrow> string \<Rightarrow> int \<Rightarrow> string \<Rightarrow> ('a, api_response) web_prog" where
  "create_share_route ev c name volume_id description = with_admin ev c (\<lambda>s.
     bindE (bad_request (bindE (create_share (ev_agent ev) (session_ctx s) name volume_id description) (\<lambda>share.
       thenE (ensure_samba_enabled (ev_agent ev) (session_ctx s)) (ret share)))) (\<lambda>share. ret (Share_out share)))"

definition delete_share_route :: "'a env \<Rightarrow> client \<Rightarrow> int \<Rightarrow> bool \<Rightarrow> ('a, api_response) web_prog" where
  "delete_share_route ev c sid delete_files = with_admin ev c (\<lambda>s.
     bindE (or_404 ''share'' (get_share sid)) (\<lambda>share.
     thenE (bad_request (delete_share (ev_agent ev) (session_ctx s) share delete_files)) (ret Ok_response)))"

definition list_permissions_route :: "'a env \<Rightarrow> client \<Rightarrow> int \<Rightarrow> ('a, api_response) web_prog" where
  "list_permissions_route ev c sid = with_session ev c (\<lambda>s.
     bindE (or_404 ''share'' (get_share sid)) (\<lambda>_.
     bindE (list_permissions sid) (\<lambda>ps. ret (Permissions_out ps))))"

definition set_permissions_route :: "'a env \<Rightarrow> client \<Rightarrow> int \<Rightarrow> grant list \<Rightarrow> bool \<Rightarrow> ('a, api_response) web_prog" where
  "set_permissions_route ev c sid grants recursive = with_admin ev c (\<lambda>s.
     bindE (or_404 ''share'' (get_share sid)) (\<lambda>share.
     bindE (bad_request (set_share_permissions (ev_agent ev) (session_ctx s) share grants recursive)) (\<lambda>jid.
     ret (Job_out jid))))"

section \<open>Storage\<close>

definition get_inventory_route :: "'a env \<Rightarrow> client \<Rightarrow> ('a, api_response) web_prog" where
  "get_inventory_route ev c = with_session ev c (\<lambda>s.
     bindE (agent_call (ev_agent ev) (session_ctx s) (Storage StorageInventoryParams)) (\<lambda>r. ret (Rpc_out r)))"

definition create_plan_route :: "'a env \<Rightarrow> client \<Rightarrow> string \<Rightarrow> string \<Rightarrow> string \<Rightarrow> string list
    \<Rightarrow> ('a, api_response) web_prog" where
  "create_plan_route ev c volume_name level filesystem serials = with_admin ev c (\<lambda>s.
     if level \<notin> set raid_levels \<or> filesystem \<notin> set filesystems then raise (HTTPException 422 ''validation'')
     else bindE (audited (session_audit s c (Create_plan volume_name level filesystem serials) ''storage.create_plan'')
         (create_plan (ev_mac ev) (ev_settings ev) (ev_agent ev) (session_ctx s) (ev_fresh ev) volume_name level
            filesystem serials) (\<lambda>(p, _). Some (pl_data_loss_summary p)))
       (\<lambda>(p, token). ret (Plan_out p token)))"

definition execute_plan_route :: "'a env \<Rightarrow> client \<Rightarrow> string \<Rightarrow> string \<Rightarrow> string \<Rightarrow> ('a, api_response) web_prog" where
  "execute_plan_route ev c pid token typed = with_admin ev c (\<lambda>s.
     bindE (audited (session_audit s c (Execute_plan pid token typed) ''storage.execute_plan'')
         (execute_stored_plan (ev_mac ev) (ev_agent ev) (session_ctx s) pid token typed)
         (\<lambda>jid. Some (''job_id='' @ opt_str jid)))
       (\<lambda>jid. ret (Job_out jid)))"

section \<open>The application\<close>

fun route :: "'a env \<Rightarrow> client \<Rightarrow> api_request \<Rightarrow> ('a, api_response) web_prog" where
  "route ev c (Login u p) = login ev c u p"
| "route ev c Logout = logout ev c"
| "route ev c Me = me ev c"
| "route ev c System_info = system_info ev c"
| "route ev c List_users = list_users_route ev c"
| "route ev c (Create_user u p d) = create_user_route ev c u p d"
| "route ev c (Import_user u d) = import_user_route ev c u d"
| "route ev c (Update_user i d b) = update_user_route ev c i d b"
| "route ev c (Set_password i p) = set_password_route ev c i p"
| "route ev c (Delete_user i b) = delete_user_route ev c i b"
| "route ev c List_groups = list_groups_route ev c"
| "route ev c (Create_group n d) = create_group_route ev c n d"
| "route ev c (Delete_group i) = delete_group_route ev c i"
| "route ev c (Add_member i u) = add_member_route ev c i u"
| "route ev c (Remove_member i u) = remove_member_route ev c i u"
| "route ev c List_volumes = list_volumes_route ev c"
| "route ev c (Register_volume n m) = register_volume_route ev c n m"
| "route ev c List_shares = list_shares_route ev c"
| "route ev c (Create_share n v d) = create_share_route ev c n v d"
| "route ev c (Delete_share i b) = delete_share_route ev c i b"
| "route ev c (List_permissions i) = list_permissions_route ev c i"
| "route ev c (Set_permissions i g r) = set_permissions_route ev c i g r"
| "route ev c Get_inventory = get_inventory_route ev c"
| "route ev c (Create_plan v l f s) = create_plan_route ev c v l f s"
| "route ev c (Execute_plan p t y) = execute_plan_route ev c p t y"

text \<open>\<open>create_app\<close>: the guard runs before routing.\<close>

definition serve :: "'a env \<Rightarrow> client \<Rightarrow> api_request \<Rightarrow> ('a, api_response) web_prog" where
  "serve ev c rq = (case csrf_guard (http_method rq) (http_path rq) (cl_csrf c) of
       Some status \<Rightarrow> raise (HTTPException status ''missing X-NASOS-Request header'')
     | None \<Rightarrow> route ev c rq)"

end
