(* ===== verification/ApiTables.thy ===== *)
theory ApiTables
  imports Api
begin

text \<open>
  The consistency of the tables of the web process, \<open>tables_ok\<close>, and that every service and every
  route preserves it. What a route has just read (a row and its key) is carried along as a stronger
  invariant while the row is edited.
\<close>

lemmas admin_routes = create_user_route_def import_user_route_def update_user_route_def delete_user_route_def
  create_group_route_def group_route_def delete_group_route_def add_member_route_def remove_member_route_def
  register_volume_route_def create_share_route_def delete_share_route_def set_permissions_route_def
  create_plan_route_def execute_plan_route_def

definition users_ok :: "user_row list \<Rightarrow> bool" where
  "users_ok us \<longleftrightarrow> distinct (map us_uid us) \<and> distinct (map us_username us)"

definition groups_ok :: "group_row list \<Rightarrow> bool" where
  "groups_ok gs \<longleftrightarrow> distinct (map gr_gid gs) \<and> distinct (map gr_name gs)"

definition volumes_ok :: "volume_row list \<Rightarrow> bool" where
  "volumes_ok vs \<longleftrightarrow> distinct (map vo_id vs) \<and> distinct (map vo_name vs) \<and> distinct (map vo_mountpoint vs)"

definition shares_ok :: "volume_row list \<Rightarrow> share_row list \<Rightarrow> bool" where
  "shares_ok vs hs \<longleftrightarrow> distinct (map sh_id hs) \<and> distinct (map sh_name hs) \<and> distinct (map sh_path hs) \<and>
     sh_volume_id ` set hs \<subseteq> vo_id ` set vs"

definition permission_key :: "permission_row \<Rightarrow> int \<times> string \<times> string" where
  "permission_key p = (pe_share_id p, pe_principal_type p, pe_principal p)"

definition permissions_ok :: "share_row list \<Rightarrow> permission_row list \<Rightarrow> bool" where
  "permissions_ok hs ps \<longleftrightarrow> distinct (map permission_key ps) \<and> pe_share_id ` set ps \<subseteq> sh_id ` set hs"

text \<open>Every unique column is unique, every foreign key refers to a row, every plan is under its id.\<close>

definition tables_ok :: "'a web \<Rightarrow> bool" where
  "tables_ok w \<longleftrightarrow> sessions_ok w \<and> users_ok (wb_users w) \<and> groups_ok (wb_groups w) \<and> volumes_ok (wb_volumes w) \<and>
     shares_ok (wb_volumes w) (wb_shares w) \<and> permissions_ok (wb_shares w) (wb_permissions w) \<and> store_ok (wb_plans w)"

lemma tables_ok_frame [simp]:
  "tables_ok (w\<lparr>wb_agent := a\<rparr>) = tables_ok w" "tables_ok (w\<lparr>wb_audit := au\<rparr>) = tables_ok w"
  "tables_ok (w\<lparr>wb_notifications := no\<rparr>) = tables_ok w"
  by (simp_all add: tables_ok_def sessions_ok_def)

abbreviation keeps_tables :: "('a, 'b) web_prog \<Rightarrow> bool" where
  "keeps_tables m \<equiv> preserves tables_ok m"

lemma agent_call_keeps [preserving]: "keeps_tables (agent_call agent ctx p)"
  by (rule preservesI) (simp add: agent_call_def case_prod_beta)

lemma service_error_keeps [preserving]: "preserves I m \<Longrightarrow> preserves I (service_error m)"
  unfolding service_error_def by (intro preserving)

lemma bad_request_keeps [preserving]: "preserves I m \<Longrightarrow> preserves I (bad_request m)"
  unfolding bad_request_def by (intro preserving)

lemma results_keep [preserving]:
  "preserves I (user_info r)" "preserves I (group_info r)" "preserves I (volume_info r)" "preserves I (job_started r)"
  "preserves I (samba_applied r)" "preserves I (storage_inventory r)"
  by (cases r; simp add: user_info_def group_info_def volume_info_def job_started_def samba_applied_def
      storage_inventory_def preserves_basic)+

lemma audit_keeps [preserving]: "keeps_tables (audit_record row)" "keeps_tables (notify n)"
  by (rule preservesI, simp add: audit_record_def notify_def)+

lemma next_id_new: "x \<in> set rows \<Longrightarrow> next_id (map f rows) \<noteq> f x"
  using next_id_fresh [of "f x" "map f rows"] by auto

lemma create_session_keeps [preserving]: "keeps_tables (create_session hash token idn ip ua)"
proof (rule preservesI)
  fix w :: "'a web" assume "tables_ok w"
  with create_session_ok [of w hash token idn ip ua]
  show "tables_ok (snd (create_session hash token idn ip ua w))"
    by (simp add: tables_ok_def create_session_def split: if_splits)
qed

lemma add_rows_keep [preserving]: "keeps_tables (add_user u)" "keeps_tables (add_group g)"
  by (auto intro!: preservesI simp: tables_ok_def add_user_def add_group_def users_ok_def groups_ok_def sessions_ok_def)

lemma add_volume_keeps [preserving]: "keeps_tables (add_volume v)"
  by (rule preservesI)
     (auto simp: tables_ok_def add_volume_def volumes_ok_def shares_ok_def sessions_ok_def Let_def next_id_new; blast)

lemma delete_rows_simps [simp]:
  "set (delete_rows P rows) = {r \<in> set rows. \<not> P r}"
  "distinct (map f rows) \<Longrightarrow> distinct (map f (delete_rows P rows))"
  by (auto simp: delete_rows_def distinct_map_filter)

lemma delete_rows_keep [preserving]:
  "keeps_tables (modifyE (\<lambda>w. w\<lparr>wb_users := delete_rows P (wb_users w)\<rparr>))"
  "keeps_tables (modifyE (\<lambda>w. w\<lparr>wb_groups := delete_rows Q (wb_groups w)\<rparr>))"
  "keeps_tables (destroy_session hash token)"
  by (auto intro!: preservesI simp: tables_ok_def users_ok_def groups_ok_def destroy_session_def sessions_ok_def)

lemma drop_share_keeps [preserving]: "keeps_tables (drop_share i)"
  by (rule preservesI) (force simp: tables_ok_def drop_share_def shares_ok_def permissions_ok_def sessions_ok_def)

lemma store_in_keeps: "(\<And>st. store_ok st \<Longrightarrow> store_ok (snd (f st))) \<Longrightarrow> keeps_tables (store_in f)"
  by (rule preservesI) (simp add: tables_ok_def store_in_def case_prod_beta sessions_ok_def)

lemma store_keeps [preserving]:
  "keeps_tables (store_in (store_get now pid))" "keeps_tables (store_in (store_put mac now p))"
  "keeps_tables (store_in (store_pop now pid))"
  by (rule store_in_keeps, simp add: store_get_def store_gc_ok store_put_ok store_pop_ok)+

lemma session_keeps [preserving]: "keeps_tables (current_session hash st c)"
proof -
  have "keeps_tables (resolve_session hash t token)" for t token
  proof (rule preservesI)
    fix w assume "tables_ok w"
    with resolve_session_ok [of w hash t token]
    show "tables_ok (snd (resolve_session hash t token w))"
      by (auto simp: tables_ok_def resolve_session_def Let_def split: option.splits if_splits)
  qed
  then show ?thesis
    unfolding current_session_def by (auto intro!: preserving split: list.split)
qed

text \<open>A share being added needs its volume, permissions being added need their share, and a user being
  written needs its row.\<close>

definition has_volume :: "int \<Rightarrow> 'a web \<Rightarrow> bool" where
  "has_volume i w \<longleftrightarrow> tables_ok w \<and> i \<in> vo_id ` set (wb_volumes w)"

definition has_share :: "int \<Rightarrow> 'a web \<Rightarrow> bool" where
  "has_share i w \<longleftrightarrow> tables_ok w \<and> i \<in> sh_id ` set (wb_shares w)"

definition has_user :: "int \<Rightarrow> string \<Rightarrow> 'a web \<Rightarrow> bool" where
  "has_user i n w \<longleftrightarrow> tables_ok w \<and> (\<exists>u \<in> set (wb_users w). us_uid u = i \<and> us_username u = n)"

lemma agent_call_has [preserving]:
  "preserves (has_volume i) (agent_call agent ctx p)" "preserves (has_share i) (agent_call agent ctx p)"
  "preserves (has_user i n) (agent_call agent ctx p)" "preserves (has_user i n) (notify x)"
  by (rule preservesI, simp add: agent_call_def case_prod_beta has_volume_def has_share_def has_user_def notify_def)+

lemma add_share_has [preserving]: "sh_volume_id h = i \<Longrightarrow> preserves (has_volume i) (add_share h)"
  by (rule preservesI)
     (auto simp: has_volume_def tables_ok_def add_share_def shares_ok_def permissions_ok_def sessions_ok_def Let_def next_id_new)

lemma kind_level_str_inj [simp]: "kind_str k = kind_str k' \<longleftrightarrow> k = k'" "level_str l = level_str l' \<longleftrightarrow> l = l'"
  by (cases k; cases k'; simp) (cases l; cases l'; simp)

lemma replace_permissions_has [preserving]: "preserves (has_share i) (replace_permissions i grants)"
proof (rule preservesI)
  fix w :: "'a web" assume w: "has_share i w"
  have "distinct (map permission_key (map (grant_row i) grants))" if "distinct (map (\<lambda>(k, p, _). (k, p)) grants)"
  proof -
    let ?f = "\<lambda>(k, p). (i, kind_str k, p)"
    have "map permission_key (map (grant_row i) grants) = map ?f (map (\<lambda>(k, p, _). (k, p)) grants)"
      by (auto simp: grant_row_def permission_key_def)
    moreover have "inj_on ?f A" for A by (auto simp: inj_on_def)
    ultimately show ?thesis using that by (simp only: distinct_map) simp
  qed
  with w show "has_share i (snd (replace_permissions i grants w))"
    by (auto simp: has_share_def tables_ok_def replace_permissions_def permissions_ok_def sessions_ok_def
        permission_key_def grant_row_def)
qed

lemma put_user_has [preserving]:
  assumes "us_uid u = i" "us_username u = n"
  shows "preserves (has_user i n) (put_user u)"
proof (rule preservesI)
  fix w :: "'a web" assume w: "has_user i n w"
  then obtain v where v: "v \<in> set (wb_users w)" "us_uid v = i" "us_username v = n" by (auto simp: has_user_def)
  let ?us = "update_rows (\<lambda>r. us_uid r = us_uid u) (\<lambda>_. u) (wb_users w)"
  have same: "r = v" if "r \<in> set (wb_users w)" "us_uid r = i" for r
    using w v that distinct_map_inj [of us_uid "wb_users w" r v] by (auto simp: has_user_def tables_ok_def users_ok_def)
  have "map us_uid ?us = map us_uid (wb_users w)" "map us_username ?us = map us_username (wb_users w)"
    by (rule update_rows_keys, use same assms v in force)+
  then have "users_ok ?us" using w by (simp add: has_user_def tables_ok_def users_ok_def)
  moreover have "u \<in> set ?us" using v assms by (force simp: update_rows_def)
  moreover have "tables_ok (w\<lparr>wb_users := us\<rparr>) = tables_ok w" if "users_ok us" for us
    using w that by (simp add: has_user_def tables_ok_def sessions_ok_def)
  ultimately show "has_user i n (snd (put_user u w))"
    using w assms by (auto simp: has_user_def put_user_def)
qed

lemma known_row:
  assumes "\<And>x. preserves (J x) (k x)" "preserves I (raise (HTTPException 404 (''no such '' @ what)))"
    and "\<And>x s. J x s \<Longrightarrow> I s" "\<And>x s. I s \<Longrightarrow> find_row P (f s) = Some x \<Longrightarrow> J x s"
  shows "preserves I (bindE (or_404 what (getsE (\<lambda>s. find_row P (f s)))) k)"
proof (rule preservesI)
  fix s assume s: "I s"
  show "I (snd (bindE (or_404 what (getsE (\<lambda>s. find_row P (f s)))) k s))"
  proof (cases "find_row P (f s)")
    case (Some x)
    with s assms(1,4) have "J x (snd (k x s))" by (auto simp: preserves_def)
    with Some assms(3) show ?thesis by (simp add: or_404_def bindE_def)
  qed (simp add: or_404_def bindE_def s)
qed

lemma user_row_known:
  assumes "\<And>u. preserves (has_user (us_uid u) (us_username u)) (k u)"
  shows "keeps_tables (bindE (or_404 ''user'' (get_user i)) k)"
  unfolding get_user_def
  by (rule known_row [where J = "\<lambda>u. has_user (us_uid u) (us_username u)"])
     (auto intro!: assms preserving simp: has_user_def dest: find_row_Some)

lemma share_row_known:
  assumes "\<And>h. preserves (has_share (sh_id h)) (k h)"
  shows "keeps_tables (bindE (or_404 ''share'' (get_share i)) k)"
  unfolding get_share_def
  by (rule known_row [where J = "\<lambda>h. has_share (sh_id h)"])
     (auto intro!: assms preserving simp: has_share_def dest: find_row_Some)

lemma user_services_keep [preserving]:
  "keeps_tables (create_user agent ctx u p d)" "keeps_tables (import_user agent ctx u d)"
  "keeps_tables (delete_user agent ctx row b)"
  by (auto simp: create_user_def import_user_def delete_user_def Let_def intro!: preserving)

lemma put_user_services_keep [preserving]:
  "preserves (has_user (us_uid row) (us_username row)) (set_smb_enabled agent ctx row b)"
  "preserves (has_user (us_uid row) (us_username row)) (update_description row d)"
  "preserves (has_user (us_uid row) (us_username row)) (set_password agent ctx row pw)"
  by (auto simp: set_smb_enabled_def update_description_def set_password_def Let_def intro!: preserving)

lemma group_services_keep [preserving]:
  "keeps_tables (create_group agent ctx n d)" "keeps_tables (delete_group agent ctx g)"
  "keeps_tables (add_member agent ctx g u)" "keeps_tables (remove_member agent ctx g u)"
  "keeps_tables (register_volume agent ctx n m)"
  by (auto simp: create_group_def delete_group_def add_member_def remove_member_def register_volume_def Let_def
      intro!: preserving)

lemma samba_keeps [preserving]:
  "keeps_tables (apply_samba_config agent ctx b)" "keeps_tables (ensure_samba_enabled agent ctx)"
  "preserves (has_share i) (apply_samba_config agent ctx b)" "preserves (has_volume i) (apply_samba_config agent ctx b)"
  by (auto simp: apply_samba_config_def ensure_samba_enabled_def intro!: preserving)

lemma create_share_keeps [preserving]: "keeps_tables (create_share agent ctx n v d)"
  unfolding create_share_def get_volume_def
proof (rule preserves_known [where J = "\<lambda>found. case found of None \<Rightarrow> tables_ok | Some _ \<Rightarrow> has_volume v"])
  fix x
  show "preserves (case x of None \<Rightarrow> tables_ok | Some _ \<Rightarrow> has_volume v)
    (case x of None \<Rightarrow> raise (ServiceError ''not_found'' (''no such volume: '' @ int_str v))
     | Some volume \<Rightarrow> let path = vo_mountpoint volume @ ''/'' @ n in
         bindE (service_error (agent_call agent ctx (Shares (ShareCreateParams path)))) (\<lambda>_.
         bindE (add_share \<lparr>sh_id = 0, sh_name = n, sh_volume_id = v, sh_path = path, sh_description = d,
           sh_smb_enabled = True\<rparr>) (\<lambda>share. thenE (apply_samba_config agent ctx False) (ret share))))"
    by (cases x) (auto simp: Let_def intro!: preserving)
qed (auto simp: has_volume_def dest: find_row_Some split: option.splits)

lemma resolve_keeps [preserving]: "preserves I (resolve_numeric_id k p)"
  unfolding resolve_numeric_id_def by (cases k) (auto intro!: preserving)

lemma share_services_keep [preserving]:
  "keeps_tables (delete_share agent ctx h b)" "preserves (has_share (sh_id h)) (set_share_permissions agent ctx h gs r)"
  by (auto simp: delete_share_def set_share_permissions_def intro!: preserving)

lemma plan_services_keep [preserving]:
  "keeps_tables (create_plan mac st agent ctx pid v l f ss)" "keeps_tables (execute_stored_plan mac agent ctx pid t y)"
  by (auto simp: create_plan_def execute_stored_plan_def intro!: preserving)


lemma with_session_keeps [preserving]: "(\<And>s. keeps_tables (k s)) \<Longrightarrow> keeps_tables (with_session ev c k)"
  unfolding with_session_def by (intro preserving)

lemma with_admin_keeps [preserving]: "(\<And>s. keeps_tables (k s)) \<Longrightarrow> keeps_tables (with_admin ev c k)"
  unfolding with_admin_def require_admin_def by (intro preserving)

lemma audited_keeps [preserving]: "keeps_tables m \<Longrightarrow> keeps_tables (audited row m detail)"
  unfolding audited_def by (intro preserving)

lemma or_404_keeps [preserving]: "preserves I m \<Longrightarrow> preserves I (or_404 what m)"
  unfolding or_404_def by (intro preserving)

lemma preserves_auth_result [preserving]:
  "(\<And>a b c d. preserves I (k a b c d)) \<Longrightarrow>
     preserves I (case r of AuthLoginResult a b c d \<Rightarrow> k a b c d | _ \<Rightarrow> raise e)"
  by (cases r) (auto intro: preserving)

lemma login_keeps: "keeps_tables (login ev c u p)"
  unfolding login_def Let_def by (intro preserving)

text \<open>A user row keeps its key while it is edited.\<close>

lemma bind_update_description:
  "bindE (case d of None \<Rightarrow> ret u | Some x \<Rightarrow> update_description u x) k =
     (case d of None \<Rightarrow> k u | Some x \<Rightarrow> thenE (put_user (u\<lparr>us_description := x\<rparr>)) (k (u\<lparr>us_description := x\<rparr>)))"
  by (rule ext) (simp add: update_description_def bindE_def thenE_def put_user_def Let_def split: option.split)

lemma set_smb_enabled_has [preserving]:
  "us_uid row = i \<Longrightarrow> us_username row = n \<Longrightarrow> preserves (has_user i n) (set_smb_enabled agent ctx row b)"
  using put_user_services_keep(1) [of row] by blast

lemma routes_keep: "keeps_tables (route ev c rq)"
proof (cases rq)
  case (Update_user i d b)
  show ?thesis
    unfolding Update_user
    by (auto simp: update_user_route_def bind_update_description intro!: with_admin_keeps user_row_known preserving)
next
  case (Set_password i p)
  show ?thesis
    unfolding Set_password by (auto simp: set_password_route_def intro!: with_session_keeps user_row_known preserving)
next
  case (Set_permissions i g r)
  show ?thesis
    unfolding Set_permissions
    by (auto simp: set_permissions_route_def intro!: with_admin_keeps share_row_known preserving)
qed (auto simp: admin_routes logout_def me_def system_info_def list_users_route_def list_groups_route_def
    list_volumes_route_def list_shares_route_def list_permissions_route_def get_inventory_route_def list_users_def
    list_groups_def list_volumes_def list_shares_def list_permissions_def get_user_def get_group_def get_share_def
    whenE_def intro!: preserving login_keeps)

lemma auto_register_keeps_tables:
  assumes "tables_ok w"
  shows "tables_ok (auto_register loads ev w)"
  using add_volume_keeps assms by (auto simp: preserves_def auto_register_def split: option.split)

end
