(* ===== verification/ApiSafety.thy ===== *)
theory ApiSafety
  imports ApiTables
begin

text \<open>
  What the REST routes guarantee together: who may change what, which invariants of the tables every
  request keeps, how sessions live and end, and that the Samba configuration follows the tables.
\<close>

section \<open>Who may change what\<close>

text \<open>An agent that also keeps the calls it got, and the session a request is served under.\<close>

type_synonym calls = "(rpc_context \<times> rpc_params) list"

definition traced :: "'a agent \<Rightarrow> ('a \<times> calls) agent" where
  "traced ag ctx p s = (let (r, a) = ag ctx p (fst s) in (r, (a, snd s @ [(ctx, p)])))"

definition granted :: "'a env \<Rightarrow> client \<Rightarrow> 'a web \<Rightarrow> session_row \<Rightarrow> bool" where
  "granted ev c w s \<longleftrightarrow> (\<exists>t row. cl_cookie c = Some t \<and> row \<in> set (wb_sessions w) \<and>
     se_token_hash row = ev_hash ev t \<and> wb_now w - se_last_seen row \<le> session_timeout (ev_settings ev) \<and>
     s = row\<lparr>se_last_seen := wb_now w\<rparr>)"

lemma current_session_cases:
  obtains (refused) ss m where "current_session (ev_hash ev) (ev_settings ev) (cl_cookie c) w =
      (Inl (HTTPException 401 m), w\<lparr>wb_sessions := ss\<rparr>)" "set ss \<subseteq> set (wb_sessions w)"
  | (ok) s ss where "current_session (ev_hash ev) (ev_settings ev) (cl_cookie c) w = (Inr s, w\<lparr>wb_sessions := ss\<rparr>)"
      "granted ev c w s"
proof (cases "or_else (case cl_cookie c of None \<Rightarrow> [] | Some t \<Rightarrow> t) []")
  case Nil
  then show thesis by (intro refused [of _ "wb_sessions w"]) (auto simp: current_session_def)
next
  case (Cons a t)
  then have c: "cl_cookie c = Some (a # t)" by (auto simp: or_else_def split: option.splits if_splits)
  let ?mine = "\<lambda>r. se_token_hash r = ev_hash ev (a # t)"
  show thesis
  proof (cases "find_row ?mine (wb_sessions w)")
    case None
    with Cons show thesis
      by (intro refused [of _ "wb_sessions w"]) (auto simp: current_session_def resolve_session_def bindE_def)
  next
    case (Some row)
    note row = find_row_Some [OF Some]
    show thesis
    proof (cases "wb_now w - se_last_seen row > session_timeout (ev_settings ev)")
      case True
      with Some Cons show thesis
        by (intro refused [of _ "delete_rows (\<lambda>r. se_id r = se_id row) (wb_sessions w)"])
           (auto simp: current_session_def resolve_session_def bindE_def delete_rows_def)
    next
      case False
      with Some Cons row c show thesis
        by (intro ok [of "row\<lparr>se_last_seen := wb_now w\<rparr>"])
           (auto simp: current_session_def resolve_session_def bindE_def granted_def Let_def)
    qed
  qed
qed

lemma with_sessionE:
  assumes "with_session ev c k w = (r, w')"
  obtains (refused) ss m where "r = Inl (HTTPException 401 m)" "w' = w\<lparr>wb_sessions := ss\<rparr>"
  | (ok) s ss where "granted ev c w s" "k s (w\<lparr>wb_sessions := ss\<rparr>) = (r, w')"
proof (cases rule: current_session_cases [of ev c w])
  case (refused ss m)
  with assms show thesis by (intro that(1)) (auto simp: with_session_def)
next
  case (ok s ss)
  with assms show thesis by (intro that(2)) (auto simp: with_session_def)
qed

lemma with_adminE:
  assumes "with_admin ev c k w = (r, w')"
  obtains (refused) ss n m where "r = Inl (HTTPException n m)" "w' = w\<lparr>wb_sessions := ss\<rparr>"
  | (ok) s ss where "granted ev c w s" "se_role s = ''admin''" "k s (w\<lparr>wb_sessions := ss\<rparr>) = (r, w')"
  using assms unfolding with_admin_def
proof (cases rule: with_sessionE)
  case (ok s ss)
  then show thesis by (cases "se_role s = ''admin''") (auto simp: require_admin_def bindE_def intro: that)
qed (auto intro: that)

text \<open>What a request of somebody who is not an administrator may do: calls that change nothing but the
  passwords of \<open>names\<close>, and no table but the sessions, the logs and the synchronisation flag.\<close>

definition harmless :: "string set \<Rightarrow> rpc_params \<Rightarrow> bool" where
  "harmless names p \<longleftrightarrow> p = SystemInfoParams \<or> p = Storage StorageInventoryParams \<or> (\<exists>u pw. p = Auth (AuthLoginParams u pw)) \<or>
     (\<exists>u pw. u \<in> names \<and> p = Users (UserSetPasswordParams u pw))"

definition same_but_sync :: "string set \<Rightarrow> user_row \<Rightarrow> user_row \<Rightarrow> bool" where
  "same_but_sync names u v \<longleftrightarrow> v = u \<or>
     us_username u \<in> names \<and> v = u\<lparr>us_smb_password_synced := us_smb_password_synced v\<rparr>"

definition own_changes :: "string set \<Rightarrow> ('a \<times> calls) web \<Rightarrow> ('a \<times> calls) web \<Rightarrow> bool" where
  "own_changes names w w' \<longleftrightarrow> (\<exists>new. snd (wb_agent w') = snd (wb_agent w) @ new \<and> (\<forall>(_, p) \<in> set new. harmless names p)) \<and>
     list_all2 (same_but_sync names) (wb_users w) (wb_users w') \<and>
     wb_groups w' = wb_groups w \<and> wb_volumes w' = wb_volumes w \<and> wb_shares w' = wb_shares w \<and>
     wb_permissions w' = wb_permissions w \<and> wb_plans w' = wb_plans w \<and> wb_disks w' = wb_disks w \<and>
     wb_uploads w' = wb_uploads w"

lemma own_changes_frame [simp]:
  "own_changes names w (w'\<lparr>wb_sessions := ss\<rparr>) = own_changes names w w'"
  "own_changes names w (w'\<lparr>wb_audit := au\<rparr>) = own_changes names w w'"
  "own_changes names w (w'\<lparr>wb_notifications := no\<rparr>) = own_changes names w w'"
  "own_changes names (w\<lparr>wb_sessions := ss\<rparr>) w' = own_changes names w w'"
  by (simp_all add: own_changes_def)

lemma own_changes_refl [simp]: "own_changes names w w"
  by (simp add: own_changes_def same_but_sync_def list_all2_refl)

lemma traced_call:
  "agent_call (traced ag) ctx p w = (r, w') \<Longrightarrow> harmless names p \<Longrightarrow> own_changes names w w'"
  by (auto simp: agent_call_def traced_def own_changes_def same_but_sync_def list_all2_refl Let_def case_prod_beta
      split: if_splits)

lemma put_user_own:
  assumes "own_changes names w w'" "distinct (map us_uid (wb_users w))" "u \<in> set (wb_users w)" "us_username u \<in> names"
    and "wb_users w' = wb_users w"
  shows "own_changes names w (snd (put_user (u\<lparr>us_smb_password_synced := b\<rparr>) w'))"
proof -
  have "same_but_sync names r (if us_uid r = us_uid u then u\<lparr>us_smb_password_synced := b\<rparr> else r)"
    if "r \<in> set (wb_users w)" for r
    using distinct_map_inj [OF assms(2) that assms(3)] assms(4) by (auto simp: same_but_sync_def)
  then have "list_all2 (same_but_sync names) (wb_users w)
      (map (\<lambda>r. if us_uid r = us_uid u then u\<lparr>us_smb_password_synced := b\<rparr> else r) (wb_users w))"
    by (simp add: list_all2_map2 list_all2_same)
  with assms(1,5) show ?thesis
    by (simp add: own_changes_def put_user_def update_rows_def)
qed


lemma traced_snd: "harmless names p \<Longrightarrow> own_changes names w (snd (agent_call (traced ag) ctx p w))"
  using traced_call [of ag ctx p w _ _ names] by (metis prod.collapse)

lemma traced_in_session:
  "harmless names p \<Longrightarrow> own_changes names w (snd (agent_call (traced ag) ctx p (w\<lparr>wb_sessions := ss\<rparr>)))"
  using traced_snd [where w = "w\<lparr>wb_sessions := ss\<rparr>"] by simp

lemma harmless_simps [simp]:
  "harmless names SystemInfoParams" "harmless names (Storage StorageInventoryParams)"
  "harmless names (Auth (AuthLoginParams u pw))"
  by (simp_all add: harmless_def)

lemma login_own:
  assumes "login ev c u p w = (r, w')" "ev_agent ev = traced ag"
  shows "own_changes names w w'"
proof -
  let ?x = "\<lparr>ctx_user = None, ctx_role = None, ctx_ip = cl_ip c\<rparr>" and ?p = "Auth (AuthLoginParams u p)"
  obtain q w1 where q: "agent_call (traced ag) ?x ?p w = (q, w1)" by fastforce
  then have "own_changes names w w1" by (rule traced_call) simp
  with assms q show ?thesis
    by (auto simp: login_def tryE_def bindE_def thenE_def audit_record_def create_session_def Let_def
        split: exn.splits sum.splits rpc_result.splits if_splits)
qed

definition own_names :: "'a env \<Rightarrow> client \<Rightarrow> 'a web \<Rightarrow> string set" where
  "own_names ev c w = {us_username u |u s. u \<in> set (wb_users w) \<and> granted ev c w s \<and> us_uid u = se_uid s}"

lemma session_route_own:
  assumes "with_session ev c k w = (r, w')"
    and "\<And>s ss. granted ev c w s \<Longrightarrow> own_changes names w (snd (k s (w\<lparr>wb_sessions := ss\<rparr>)))"
  shows "own_changes names w w'"
  using assms(1)
proof (cases rule: with_sessionE)
  case (ok s ss)
  with assms(2) [of s ss] show ?thesis by simp
qed simp

lemma admin_route_own:
  assumes "with_admin ev c k w = (r, w')" "\<And>s. granted ev c w s \<Longrightarrow> se_role s \<noteq> ''admin''"
  shows "own_changes names w w'"
  using assms(1) by (cases rule: with_adminE) (auto dest: assms(2))

lemma get_row_Inr:
  "or_404 what (getsE (\<lambda>w. find_row P (f w))) w =
     (case find_row P (f w) of None \<Rightarrow> (Inl (HTTPException 404 (''no such '' @ what)), w) | Some x \<Rightarrow> (Inr x, w))"
  by (simp add: or_404_def bindE_def split: option.split)

lemma bad_request_snd [simp]: "snd (bad_request m w) = snd (m w)"
  by (auto simp: bad_request_def tryE_def split: prod.split sum.split exn.split)

declare bind_ret_snd [simp]

lemma set_password_own:
  assumes "distinct (map us_uid (wb_users w))" "u \<in> set (wb_users w)" "us_username u \<in> names"
  shows "own_changes names w (snd (set_password (traced ag) ctx u pw (w\<lparr>wb_sessions := ss\<rparr>)))"
proof -
  let ?w = "w\<lparr>wb_sessions := ss\<rparr>" and ?p = "Users (UserSetPasswordParams (us_username u) pw)"
  obtain r w1 where c: "agent_call (traced ag) ctx ?p ?w = (r, w1)" by fastforce
  have h: "harmless names ?p" using assms(3) by (auto simp: harmless_def)
  from traced_call [OF c h] have 1: "own_changes names w w1" by simp
  have 2: "wb_users w1 = wb_users w" using c by (auto simp: agent_call_def case_prod_beta split: if_splits)
  have put: "own_changes names w (snd (put_user (u\<lparr>us_smb_password_synced := b\<rparr>) w1))"
    "own_changes names w (snd (put_user (u\<lparr>us_smb_password_synced := b\<rparr>) (w1\<lparr>wb_notifications := no\<rparr>)))" for b no
    using put_user_own [OF _ assms(1,2,3)] 1 2 by simp_all
  show ?thesis
    unfolding set_password_def
    by (cases r) (auto simp: tryE_def thenE_def bindE_def c 1 notify_def Let_def put_user_def put [unfolded put_user_def, simplified]
        split: exn.split)
qed

lemma get_own:
  assumes "route ev c rq w = (r, w')" "ev_agent ev = traced ag" "http_method rq = ''GET''"
  shows "own_changes names w w'"
proof -
  note rt = assms(1) and session = session_route_own [where names = names]
  show ?thesis
  proof (cases rq)
    case System_info
    with rt have "system_info ev c w = (r, w')" by simp
    then show ?thesis unfolding system_info_def by (rule session) (simp add: assms(2) traced_in_session)
  next
    case Get_inventory
    with rt have "get_inventory_route ev c w = (r, w')" by simp
    then show ?thesis unfolding get_inventory_route_def by (rule session) (simp add: assms(2) traced_in_session)
  next
    case Me
    with rt have "me ev c w = (r, w')" by simp
    then show ?thesis unfolding me_def by (rule session) simp
  next
    case List_users
    with rt have "list_users_route ev c w = (r, w')" by simp
    then show ?thesis unfolding list_users_route_def by (rule session) (simp add: list_users_def)
  next
    case List_groups
    with rt have "list_groups_route ev c w = (r, w')" by simp
    then show ?thesis unfolding list_groups_route_def by (rule session) (simp add: list_groups_def)
  next
    case List_volumes
    with rt have "list_volumes_route ev c w = (r, w')" by simp
    then show ?thesis unfolding list_volumes_route_def by (rule session) (simp add: list_volumes_def)
  next
    case List_shares
    with rt have "list_shares_route ev c w = (r, w')" by simp
    then show ?thesis unfolding list_shares_route_def by (rule session) (simp add: list_shares_def)
  next
    case (List_permissions i)
    with rt have "list_permissions_route ev c i w = (r, w')" by simp
    then show ?thesis unfolding list_permissions_route_def
      by (rule session) (simp add: get_share_def get_row_Inr list_permissions_def bindE_def [of "or_404 _ _"] split: option.split)
  qed (use assms(3) in simp_all)
qed

section \<open>Sessions\<close>

lemma sessions_ok_row:
  "sessions_ok w \<Longrightarrow> row \<in> set (wb_sessions w) \<Longrightarrow> se_token_hash row = h \<Longrightarrow>
     find_row (\<lambda>r. se_token_hash r = h) (wb_sessions w) = Some row"
  using find_row_unique [of se_token_hash "wb_sessions w" row] by (auto simp: sessions_ok_def)

lemma current_session_granted:
  assumes "sessions_ok w" "row \<in> set (wb_sessions w)" "se_token_hash row = hash t" "t \<noteq> []"
    and "wb_now w - se_last_seen row \<le> session_timeout st"
  shows "fst (current_session hash st (Some t) w) = Inr (row\<lparr>se_last_seen := wb_now w\<rparr>)"
  using assms sessions_ok_row [OF assms(1,2,3)]
  by (cases t) (auto simp: current_session_def or_else_def resolve_session_def bindE_def Let_def)

lemma error_Inr [simp]:
  "service_error m s = (Inr y, t) \<longleftrightarrow> m s = (Inr y, t)" "bad_request m s = (Inr y, t) \<longleftrightarrow> m s = (Inr y, t)"
  unfolding service_error_def bad_request_def by (rule tryE_raises, case_tac e, simp_all)+

lemma agent_call_InrE:
  assumes "agent_call ag ctx p w = (Inr r, w1)"
  obtains a where "params_ok p" "ag ctx p (wb_agent w) = (Inr r, a)" "w1 = w\<lparr>wb_agent := a\<rparr>"
  using assms that [of "snd (ag ctx p (wb_agent w))"]
  by (auto simp: agent_call_def case_prod_beta prod_eq_iff split: if_splits)

lemma login_Inr:
  assumes "login ev c u p w = (Inr x, w')"
  obtains uid name role d w1 where
    "agent_call (ev_agent ev) \<lparr>ctx_user = None, ctx_role = None, ctx_ip = cl_ip c\<rparr> (Auth (AuthLoginParams u p)) w =
       (Inr (AuthLoginResult uid name role d), w1)"
    "create_session (ev_hash ev) (ev_fresh ev) \<lparr>id_uid = uid, id_username = name, id_role = role\<rparr> (cl_ip c)
       (cl_user_agent c) w1 = (Inr (ev_fresh ev), w'\<lparr>wb_audit := wb_audit w1\<rparr>)"
    "x = Logged_in (ev_fresh ev) (cookie_secure (ev_settings ev)) (st_session_idle_timeout_minutes (ev_settings ev) * 60)
       \<lparr>id_uid = uid, id_username = name, id_role = role\<rparr>"
proof -
  let ?m = "agent_call (ev_agent ev) \<lparr>ctx_user = None, ctx_role = None, ctx_ip = cl_ip c\<rparr> (Auth (AuthLoginParams u p))"
  let ?h = "\<lambda>e. case e of RpcCallError cd t \<Rightarrow> thenE (audit_record (login_audit c u None 401 (Some cd)))
      (raise (HTTPException 401 ''invalid username or password'')) | _ \<Rightarrow> raise e"
  have h: "?h e s \<noteq> (Inr y, s')" for e s s' and y :: rpc_result
    by (cases e) (auto simp: thenE_def bindE_def audit_record_def)
  obtain r w1 where 1: "tryE ?m ?h w = (Inr r, w1)" and
    2: "(case r of AuthLoginResult uid name role display_name \<Rightarrow>
           (let idn = \<lparr>id_uid = uid, id_username = name, id_role = role\<rparr> in
            bindE (create_session (ev_hash ev) (ev_fresh ev) idn (cl_ip c) (cl_user_agent c)) (\<lambda>token.
            thenE (audit_record (login_audit c name (Some role) 200 None))
              (ret (Logged_in token (cookie_secure (ev_settings ev))
                 (st_session_idle_timeout_minutes (ev_settings ev) * 60) idn))))
       | _ \<Rightarrow> raise (ValidationError ''AuthLoginResult'')) w1 = (Inr x, w')"
    using assms unfolding login_def bindE_eq_Inr by blast
  from 1 h have 1: "?m w = (Inr r, w1)" unfolding tryE_eq_Inr by blast
  from 2 obtain uid name role d where r: "r = AuthLoginResult uid name role d" by (cases r) auto
  from 2 show thesis
    by (intro that [OF 1 [unfolded r]])
       (auto simp: r Let_def bindE_eq_Inr thenE_def audit_record_def create_session_def split: if_splits)
qed

lemma create_session_Inr:
  assumes "create_session hash token idn ip ua w = (Inr x, w')"
  obtains row where "row \<in> set (wb_sessions w')" "se_token_hash row = hash token" "se_last_seen row = wb_now w"
    "se_uid row = id_uid idn" "se_username row = id_username idn" "se_role row = id_role idn"
  using assms by (fastforce simp: create_session_def split: if_splits)

lemma resolve_other:
  assumes "tables_ok w" "granted ev d w s" "cl_cookie d = Some t'" "current_session (ev_hash ev) st (Some t) w = (r, w')"
    and "ev_hash ev t \<noteq> ev_hash ev t'"
  shows "granted ev d w' s"
proof -
  from assms(2,3) obtain row where row: "row \<in> set (wb_sessions w)" "se_token_hash row = ev_hash ev t'"
    "wb_now w - se_last_seen row \<le> session_timeout (ev_settings ev)" "s = row\<lparr>se_last_seen := wb_now w\<rparr>"
    by (auto simp: granted_def)
  have keep: "row \<in> set ss" if "ss = delete_rows (\<lambda>r. se_id r = se_id q) (wb_sessions w) \<or>
      ss = update_rows (\<lambda>r. se_id r = se_id q) (\<lambda>_. q') (wb_sessions w)"
    "q \<in> set (wb_sessions w)" "se_token_hash q = ev_hash ev t" for ss q q'
  proof -
    from that assms(5) row have "row \<noteq> q" by auto
    then have "se_id row \<noteq> se_id q"
      using distinct_map_inj [of se_id "wb_sessions w" row q] assms(1) row(1) that(2)
      by (auto simp: tables_ok_def sessions_ok_def)
    with that row(1) show ?thesis by (force simp: update_rows_def)
  qed
  have "\<exists>ss. w' = w\<lparr>wb_sessions := ss\<rparr> \<and> row \<in> set ss"
  proof (cases "find_row (\<lambda>r. se_token_hash r = ev_hash ev t) (wb_sessions w)")
    case None
    with assms(4) row(1) have "w' = w"
      by (auto simp: current_session_def or_else_def resolve_session_def bindE_def split: list.splits)
    with row(1) show ?thesis by (intro exI [of _ "wb_sessions w"]) simp
  next
    case (Some q)
    note q = find_row_Some [OF Some]
    from Some assms(4) have "w' = w \<or> (\<exists>q'. w' = w\<lparr>wb_sessions := delete_rows (\<lambda>r. se_id r = se_id q) (wb_sessions w)\<rparr>
       \<or> w' = w\<lparr>wb_sessions := update_rows (\<lambda>r. se_id r = se_id q) (\<lambda>_. q') (wb_sessions w)\<rparr>)"
      by (auto simp: current_session_def or_else_def resolve_session_def bindE_def Let_def split: list.splits if_splits)
    with keep [of _ q] q row(1) show ?thesis by (metis web.surjective web.update_convs(5))
  qed
  with row assms(3) show ?thesis by (auto simp: granted_def)
qed

lemma delete_user_Inr:
  assumes "delete_user agent ctx u b w = (Inr x, w')"
  shows "wb_users w' = delete_rows (\<lambda>r. us_uid r = us_uid u) (wb_users w) \<and> wb_sessions w' = wb_sessions w \<and>
    wb_now w' = wb_now w"
  using assms by (auto simp: delete_user_def bindE_eq_Inr elim!: agent_call_InrE)

section \<open>The Samba configuration follows the tables\<close>

text \<open>The configurations an agent was given, and the permissions.\<close>

definition configs :: "calls \<Rightarrow> string list" where
  "configs tr = concat (map (\<lambda>(_, p). case p of Samba (SambaApplyConfigParams c _) \<Rightarrow> [c] | _ \<Rightarrow> []) tr)"

lemma configs_simps [simp]:
  "configs (tr @ tr') = configs tr @ configs tr'" "configs [] = []"
  "configs [(x, Samba (SambaApplyConfigParams c b))] = [c]"
  "configs [(x, Samba SambaEnsureEnabledParams), (y, FirewallEnsureServiceParams s)] = []"
  by (simp_all add: configs_def)

lemma traced_callE:
  assumes "agent_call (traced ag) ctx p w = (Inr r, w1)"
  obtains a where "params_ok p" "w1 = w\<lparr>wb_agent := (a, snd (wb_agent w) @ [(ctx, p)])\<rparr>"
    "fst (ag ctx p (fst (wb_agent w))) = Inr r"
  using assms by (auto simp: agent_call_def traced_def case_prod_beta split: if_splits)

lemma samba_applied_Inr [simp]: "samba_applied r w = (Inr h, w') \<longleftrightarrow> r = SambaApplyConfigResult h \<and> w' = w"
  by (cases r) (auto simp: samba_applied_def)

lemma job_started_Inr [simp]: "job_started r w = (Inr j, w') \<longleftrightarrow> r = JobStartedResult j \<and> w' = w"
  by (cases r) (auto simp: job_started_def)

lemma samba_content_frame [simp]: "samba_content (w\<lparr>wb_agent := a\<rparr>) = samba_content w"
  by (simp add: samba_content_def permissions_of_def)

lemma apply_samba_Inr:
  assumes "apply_samba_config (traced ag) ctx b w = (Inr h, w')"
  shows "\<exists>a. w' = w\<lparr>wb_agent := (a, snd (wb_agent w) @ [(ctx, Samba (SambaApplyConfigParams (samba_content w) b))])\<rparr>"
  using assms by (auto simp: apply_samba_config_def bindE_eq_Inr elim!: traced_callE)

lemma ensure_samba_Inr:
  assumes "ensure_samba_enabled (traced ag) ctx w = (Inr x, w')"
  shows "\<exists>a. w' = w\<lparr>wb_agent := (a, snd (wb_agent w) @
    [(ctx, Samba SambaEnsureEnabledParams), (ctx, FirewallEnsureServiceParams ''samba'')])\<rparr>"
  using assms by (auto simp: ensure_samba_enabled_def bindE_eq_Inr elim!: traced_callE)

definition in_force :: "('a \<times> calls) web \<Rightarrow> bool" where
  "in_force w \<longleftrightarrow> configs (snd (wb_agent w)) \<noteq> [] \<and> last (configs (snd (wb_agent w))) = samba_content w"

lemma applied_in_force: "apply_samba_config (traced ag) ctx b w = (Inr h, w') \<Longrightarrow> in_force w'"
  by (drule apply_samba_Inr) (auto simp: in_force_def)

lemma enabled_in_force: "ensure_samba_enabled (traced ag) ctx w = (Inr x, w') \<Longrightarrow> in_force w \<Longrightarrow> in_force w'"
  by (drule ensure_samba_Inr) (auto simp: in_force_def)

definition resolved :: "'a web \<Rightarrow> grant \<Rightarrow> acl_entry \<Rightarrow> bool" where
  "resolved w g e = (case (g, e) of ((k, n, l), (k', i, l')) \<Rightarrow> k' = k \<and> l' = l \<and> (case k of
       User_kind \<Rightarrow> \<exists>u \<in> set (wb_users w). us_username u = n \<and> us_uid u = i
     | Group_kind \<Rightarrow> \<exists>g \<in> set (wb_groups w). gr_name g = n \<and> gr_gid g = i))"

lemma mapE_Inr_all2:
  assumes "mapE f xs s = (Inr ys, t)" "\<And>x y s s'. f x s = (Inr y, s') \<Longrightarrow> s' = s \<and> (P s x y)"
  shows "t = s \<and> list_all2 (P s) xs ys"
  using assms(1)
proof (induction xs arbitrary: ys)
  case (Cons x xs)
  then obtain y s1 zs where *: "f x s = (Inr y, s1)" "mapE f xs s1 = (Inr zs, t)" "ys = y # zs"
    by (auto simp: bindE_eq_Inr)
  from assms(2) [OF *(1)] Cons.IH [of zs] * show ?case by simp
qed simp

lemma resolve_Inr:
  "bindE (resolve_numeric_id k n) (\<lambda>i. ret (k, i, l)) w = (Inr e, w') \<Longrightarrow> w' = w \<and> resolved w (k, n, l) e"
  by (cases k) (auto simp: resolve_numeric_id_def bindE_eq_Inr resolved_def dest!: find_row_Some split: option.splits)

lemma permissions_of_frame [simp]: "permissions_of i (w\<lparr>wb_agent := a\<rparr>) = permissions_of i w"
  by (simp add: permissions_of_def)

lemma filter_grant_rows: "filter (\<lambda>p. pe_share_id p = j) (map (grant_row i) gs) = (if j = i then map (grant_row i) gs else [])"
  by (induction gs) (auto simp: grant_row_def)

lemma filter_other: "j \<noteq> i \<Longrightarrow> filter (\<lambda>r. pe_share_id r \<noteq> i \<and> pe_share_id r = j) ps = filter (\<lambda>r. pe_share_id r = j) ps"
  by (rule filter_cong) auto

lemma permissions_of_replaced:
  assumes "replace_permissions i grants w = (Inr x, w')"
  shows "permissions_of i w' = map (grant_row i) grants \<and> (j \<noteq> i \<longrightarrow> permissions_of j w' = permissions_of j w) \<and>
    wb_agent w' = wb_agent w \<and> wb_shares w' = wb_shares w"
  using assms
  by (auto simp: replace_permissions_def permissions_of_def delete_rows_def filter_grant_rows filter_other
      split: if_splits)

section \<open>A small application for the examples\<close>

definition demo_answers :: "unit agent" where
  "demo_answers ctx p = ret (case p of
       Samba (SambaApplyConfigParams _ _) \<Rightarrow> SambaApplyConfigResult ''h''
     | Shares (ShareSetPermissionsParams _ _ _) \<Rightarrow> JobStartedResult None
     | Auth (AuthLoginParams u _) \<Rightarrow> AuthLoginResult 5 u ''user'' u
     | _ \<Rightarrow> OkResult)"

definition demo_env :: "(unit \<times> calls) env" where
  "demo_env = \<lparr>ev_settings = default_settings, ev_agent = traced demo_answers, ev_hash = (\<lambda>t. t),
     ev_mac = (\<lambda>_. ''t''), ev_fresh = ''n''\<rparr>"

definition demo_client :: "string \<Rightarrow> client" where
  "demo_client t = \<lparr>cl_cookie = Some t, cl_csrf = Some ''1'', cl_ip = None, cl_user_agent = None\<rparr>"

definition demo_session :: "int \<Rightarrow> string \<Rightarrow> int \<Rightarrow> string \<Rightarrow> session_row" where
  "demo_session i t uid role = \<lparr>se_id = i, se_token_hash = t, se_uid = uid, se_username = ''x'', se_role = role,
     se_created = 0, se_last_seen = 0, se_ip = None, se_user_agent = None\<rparr>"

definition demo_share :: share_row where
  "demo_share = \<lparr>sh_id = 1, sh_name = ''s'', sh_volume_id = 1, sh_path = ''/v/s'', sh_description = [], sh_smb_enabled = True\<rparr>"

definition demo_state :: "(unit \<times> calls) web" where
  "demo_state = (demo_web ((), []))\<lparr>wb_sessions := [demo_session 1 ''a'' 4 ''admin'', demo_session 2 ''b'' 5 ''user''],
     wb_users := [new_user 5 ''bob'' [] True],
     wb_volumes := [\<lparr>vo_id = 1, vo_name = ''v'', vo_mountpoint = ''/v'', vo_filesystem = ''xfs'', vo_managed = False,
       vo_device = None, vo_uuid = None, vo_raid_level = None, vo_array_name = None, vo_disk_serials = None\<rparr>],
     wb_shares := [demo_share]\<rparr>"

lemma demo_simps [simp]:
  "session_timeout default_settings = 1800"
  "traced demo_answers ctx p s = (fst (demo_answers ctx p ()), ((), snd s @ [(ctx, p)]))"
  by (simp_all add: session_timeout_def default_settings_def traced_def demo_answers_def)

lemma demo_tables: "tables_ok demo_state"
  by (simp add: demo_state_def demo_web_def tables_ok_def sessions_ok_def users_ok_def groups_ok_def volumes_ok_def
      shares_ok_def permissions_ok_def store_ok_def demo_session_def new_user_def demo_share_def)

lemma demo_admin:
  "with_admin demo_env (demo_client ''a'') k demo_state =
     k (demo_session 1 ''a'' 4 ''admin'') demo_state"
  by (simp add: with_admin_def with_session_def current_session_def resolve_session_def demo_env_def demo_client_def
      or_else_def require_admin_def demo_state_def demo_web_def demo_session_def find_row_def update_rows_def bindE_def
      Let_def)

lemma demo_user:
  "with_session demo_env (demo_client ''b'') k demo_state = k (demo_session 2 ''b'' 5 ''user'') demo_state"
  by (simp add: with_session_def current_session_def resolve_session_def demo_env_def demo_client_def
      or_else_def demo_state_def demo_web_def demo_session_def find_row_def update_rows_def bindE_def Let_def)

lemma demo_serve: "serve demo_env (demo_client t) rq = route demo_env (demo_client t) rq"
  by (simp add: serve_def csrf_guard_def demo_client_def)

lemma contains_concat: "x \<in> set xs \<Longrightarrow> contains x p \<Longrightarrow> contains (concat xs) p"
proof -
  assume "x \<in> set xs" "contains x p"
  then obtain ys zs a b where "xs = ys @ x # zs" "x = a @ p @ b" by (auto simp: contains_iff dest: split_list)
  then have "concat xs = (concat ys @ a) @ p @ (b @ concat zs)" by simp
  then show ?thesis unfolding contains_iff by blast
qed

lemma section_in_content:
  assumes "share \<in> set (wb_shares w)"
  shows "contains (samba_content w) (''['' @ sh_name share @ '']'')"
proof -
  let ?f = "\<lambda>s. build_share_view s (permissions_of (sh_id s) w)"
  have "contains (share_section (?f share)) (''['' @ sh_name share @ '']'')"
    unfolding contains_iff share_section_def by (rule exI [of _ "[]"]) (simp add: build_share_view_def Let_def)
  moreover have "share_section (?f share) \<in> set (map share_section (map ?f (wb_shares w)))" using assms by simp
  ultimately have "contains (concat (map share_section (map ?f (wb_shares w)))) (''['' @ sh_name share @ '']'')"
    by (rule contains_concat [rotated])
  then show ?thesis
    unfolding contains_iff samba_content_def render_nasos_conf_def by (metis append.assoc)
qed

lemma create_share_Inr:
  assumes "create_share (traced ag) ctx n v d w = (Inr share, w')"
  shows "share \<in> set (wb_shares w') \<and> sh_name share = n"
  using assms
  by (auto simp: create_share_def get_volume_def bindE_eq_Inr thenE_def Let_def add_share_def
      dest!: apply_samba_Inr elim!: traced_callE split: option.splits if_splits)

lemmas demo_defs = bindE_def thenE_def bad_request_def
      service_error_def tryE_def agent_call_def demo_env_def demo_state_def demo_web_def demo_share_def demo_answers_def 

lemma demo_granted:
  "granted demo_env (demo_client ''b'') demo_state s \<longleftrightarrow> s = demo_session 2 ''b'' 5 ''user''"
proof -
  have rows: "set (wb_sessions demo_state) = {demo_session 1 ''a'' 4 ''admin'', demo_session 2 ''b'' 5 ''user''}"
    by (simp add: demo_state_def)
  have sel: "se_token_hash (demo_session i t u r) = t" "se_last_seen (demo_session i t u r) = 0"
    "demo_session i t u r\<lparr>se_last_seen := 0\<rparr> = demo_session i t u r" for i t u r
    by (simp_all add: demo_session_def)
  have now: "wb_now demo_state = 0" by (simp add: demo_state_def demo_web_def)
  show ?thesis
    unfolding granted_def rows now by (auto simp: sel demo_client_def demo_env_def)
qed

section \<open>Properties\<close>


lemma serve_keeps_tables: "tables_ok w \<Longrightarrow> tables_ok (snd (serve ev c rq w))"
  using routes_keep [of ev c rq] by (auto simp: preserves_def serve_def split: option.split)


text \<open>C9: A login that succeeds opens a session: the agent vouched for this identity, and for as long as the
  idle timeout the cookie set is accepted as that user with that role.\<close>

theorem login_opens_a_session:
  assumes "serve ev c (Login u p) w = (Inr (Logged_in t sec age idn), w')" "tables_ok w" "ev_fresh ev \<noteq> []"
    and "later - wb_now w \<le> session_timeout (ev_settings ev)"
  shows "\<exists>s. fst (current_session (ev_hash ev) (ev_settings ev) (Some t) (w'\<lparr>wb_now := later\<rparr>)) = Inr s \<and>
    se_uid s = id_uid idn \<and> se_username s = id_username idn \<and> se_role s = id_role idn \<and>
    (\<exists>d. fst (ev_agent ev \<lparr>ctx_user = None, ctx_role = None, ctx_ip = cl_ip c\<rparr> (Auth (AuthLoginParams u p)) (wb_agent w)) =
       Inr (AuthLoginResult (id_uid idn) (id_username idn) (id_role idn) d))"
proof -
  from assms(1) have l: "login ev c u p w = (Inr (Logged_in t sec age idn), w')"
    by (auto simp: serve_def split: option.splits)
  have "tables_ok w'" using serve_keeps_tables [OF assms(2), of ev c "Login u p"] assms(1) by simp
  then have ok: "sessions_ok (w'\<lparr>wb_now := later\<rparr>)" by (simp add: tables_ok_def sessions_ok_def)
  from l obtain uid name role d w1 where
    a: "agent_call (ev_agent ev) \<lparr>ctx_user = None, ctx_role = None, ctx_ip = cl_ip c\<rparr> (Auth (AuthLoginParams u p)) w =
       (Inr (AuthLoginResult uid name role d), w1)" and
    n: "create_session (ev_hash ev) (ev_fresh ev) \<lparr>id_uid = uid, id_username = name, id_role = role\<rparr> (cl_ip c)
       (cl_user_agent c) w1 = (Inr (ev_fresh ev), w'\<lparr>wb_audit := wb_audit w1\<rparr>)" and
    x: "Logged_in t sec age idn = Logged_in (ev_fresh ev) (cookie_secure (ev_settings ev))
       (st_session_idle_timeout_minutes (ev_settings ev) * 60) \<lparr>id_uid = uid, id_username = name, id_role = role\<rparr>"
    by (rule login_Inr)
  from a obtain ag where ag: "ev_agent ev \<lparr>ctx_user = None, ctx_role = None, ctx_ip = cl_ip c\<rparr>
      (Auth (AuthLoginParams u p)) (wb_agent w) = (Inr (AuthLoginResult uid name role d), ag)" "w1 = w\<lparr>wb_agent := ag\<rparr>"
    by (rule agent_call_InrE)
  from n obtain row where "row \<in> set (wb_sessions (w'\<lparr>wb_audit := wb_audit w1\<rparr>))"
    "se_token_hash row = ev_hash ev (ev_fresh ev)" "se_last_seen row = wb_now w1" "se_uid row = uid"
    "se_username row = name" "se_role row = role"
    by (rule create_session_Inr) simp
  with x ag(2) have row: "row \<in> set (wb_sessions w')" "se_token_hash row = ev_hash ev t" "t = ev_fresh ev"
    "se_last_seen row = wb_now w" "se_uid row = id_uid idn" "se_username row = id_username idn" "se_role row = id_role idn"
    by simp_all
  from ag x have
    "fst (ev_agent ev \<lparr>ctx_user = None, ctx_role = None, ctx_ip = cl_ip c\<rparr> (Auth (AuthLoginParams u p)) (wb_agent w)) =
       Inr (AuthLoginResult (id_uid idn) (id_username idn) (id_role idn) d)"
    by auto
  with row show ?thesis
    using current_session_granted [OF ok, of row "ev_hash ev" t "ev_settings ev"] assms(3,4) by auto
qed

text \<open>After a logout the cookie is refused at any later time.\<close>

theorem logout_closes_the_session:
  assumes "serve ev c Logout w = (r, w')" "cl_csrf c = Some ''1''" "cl_cookie c = Some t"
  shows "fst (current_session (ev_hash ev) st (Some t) (w'\<lparr>wb_now := later\<rparr>)) =
    Inl (HTTPException 401 (if t = [] then ''not authenticated'' else ''session expired''))"
proof (cases t)
  case (Cons a l)
  from assms have "w' = w\<lparr>wb_sessions := delete_rows (\<lambda>r. se_token_hash r = ev_hash ev t) (wb_sessions w)\<rparr>"
    by (simp add: serve_def csrf_guard_def logout_def destroy_session_def thenE_def bindE_def Cons)
  then have "find_row (\<lambda>r. se_token_hash r = ev_hash ev t) (wb_sessions w') = None" by (simp add: find_row_None)
  then show ?thesis by (simp add: current_session_def or_else_def Cons resolve_session_def bindE_def)
qed (simp add: current_session_def or_else_def)

text \<open>A session that was idle for longer than the timeout is refused, and its row is deleted: no row
  with that token is left.\<close>

theorem idle_session_is_gone:
  assumes "tables_ok w" "row \<in> set (wb_sessions w)" "se_token_hash row = hash t" "t \<noteq> []"
    and "wb_now w - se_last_seen row > session_timeout st"
  shows "current_session hash st (Some t) w = (Inl (HTTPException 401 ''session expired''),
      w\<lparr>wb_sessions := delete_rows (\<lambda>r. se_id r = se_id row) (wb_sessions w)\<rparr>) \<and>
    (\<forall>r \<in> set (delete_rows (\<lambda>r. se_id r = se_id row) (wb_sessions w)). se_token_hash r \<noteq> hash t)"
proof -
  have ok: "sessions_ok w" using assms(1) by (simp add: tables_ok_def)
  have "se_token_hash r \<noteq> hash t" if "r \<in> set (wb_sessions w)" "se_id r \<noteq> se_id row" for r
    using distinct_map_inj [of se_token_hash "wb_sessions w" r row] ok assms(2,3) that by (auto simp: sessions_ok_def)
  with sessions_ok_row [OF ok assms(2,3)] assms(4,5) show ?thesis
    by (cases t) (auto simp: current_session_def or_else_def resolve_session_def bindE_def Let_def)
qed

text \<open>Deleting a user does not end the sessions of that user: a session that was accepted before is
  accepted after, although the user has no row any more.\<close>

theorem deleted_user_stays_logged_in:
  assumes "serve ev c (Delete_user i b) w = (Inr x, w')" "tables_ok w"
    and "granted ev d w s" "cl_cookie c = Some t" "cl_cookie d = Some t'" "ev_hash ev t \<noteq> ev_hash ev t'"
  shows "granted ev d w' s \<and> i \<notin> us_uid ` set (wb_users w')"
proof -
  from assms(1) have "delete_user_route ev c i b w = (Inr x, w')" by (auto simp: serve_def split: option.splits)
  moreover have "tryE m (\<lambda>e. case e of ServiceError k t \<Rightarrow> raise (HTTPException 400 t)
      | RpcCallError k t \<Rightarrow> raise (HTTPException 400 (k @ '': '' @ t)) | _ \<Rightarrow> raise e) v = (Inr y, v') \<longleftrightarrow> m v = (Inr y, v')"
    for m :: "('a, unit) web_prog" and v y v'
    by (rule tryE_raises) (auto split: exn.splits)
  ultimately obtain a w1 u q w2 where a: "current_session (ev_hash ev) (ev_settings ev) (Some t) w = (Inr a, w1)" and
    u: "find_row (\<lambda>r. us_uid r = i) (wb_users w1) = Some u" and
    d: "delete_user (ev_agent ev) (session_ctx q) u b w1 = (Inr (), w2)" and "w' = w2"
    using assms(4)
    by (auto simp: delete_user_route_def with_admin_def with_session_def require_admin_def bindE_eq_Inr thenE_def
        get_user_def or_404_def split: if_splits option.splits)
  from resolve_other [OF assms(2,3,5) a assms(6)] have "granted ev d w1 s" .
  with delete_user_Inr [OF d] \<open>w' = w2\<close> find_row_Some [OF u] show ?thesis by (auto simp: granted_def)
qed


text \<open>C7: After every successful change of shares or permissions the last configuration the agent was given
  is the one rendered from the tables as they are now.\<close>

theorem samba_follows_the_tables:
  assumes "serve ev c rq w = (Inr x, w')" "ev_agent ev = traced ag"
    and "(\<exists>n v d. rq = Create_share n v d) \<or> (\<exists>i b. rq = Delete_share i b) \<or> (\<exists>i gs b. rq = Set_permissions i gs b)"
  shows "in_force w'"
proof -
  from assms(1) have rt: "route ev c rq w = (Inr x, w')" by (auto simp: serve_def split: option.splits)
  note defs = with_admin_def with_session_def require_admin_def bindE_eq_Inr thenE_def
  from assms(3) show ?thesis
  proof (elim disjE exE)
    fix n v d assume "rq = Create_share n v d"
    with rt assms(2) show ?thesis
      by (auto simp: create_share_route_def create_share_def defs Let_def split: if_splits option.splits
          intro: enabled_in_force applied_in_force)
  next
    fix i b assume "rq = Delete_share i b"
    with rt assms(2) show ?thesis
      by (auto simp: delete_share_route_def delete_share_def defs split: if_splits option.splits intro: applied_in_force)
  next
    fix i gs b assume "rq = Set_permissions i gs b"
    with rt assms(2) show ?thesis
      by (auto simp: set_permissions_route_def set_share_permissions_def defs split: if_splits option.splits
          intro: applied_in_force)
  qed
qed

text \<open>C8: Setting the permissions of a share hands the agent one entry per grant, with the uid or gid the tables
  have for the principal and the level granted, on the path of that share; then the table holds exactly
  these grants for the share, those of other shares are untouched, and Samba gets the new configuration.\<close>

theorem permissions_reach_disk_and_table:
  assumes "serve ev c (Set_permissions i grants recursive) w = (Inr x, w')" "ev_agent ev = traced ag"
  shows "\<exists>share ctx entries. share \<in> set (wb_shares w) \<and> sh_id share = i \<and> list_all2 (resolved w) grants entries \<and>
    snd (wb_agent w') = snd (wb_agent w) @ [(ctx, Shares (ShareSetPermissionsParams (sh_path share) entries recursive)),
      (ctx, Samba (SambaApplyConfigParams (samba_content w') False))] \<and>
    permissions_of i w' = map (grant_row i) grants \<and> (\<forall>j. j \<noteq> i \<longrightarrow> permissions_of j w' = permissions_of j w)"
proof -
  from assms(1) have "set_permissions_route ev c i grants recursive w = (Inr x, w')"
    by (auto simp: serve_def split: option.splits)
  then show ?thesis
    unfolding set_permissions_route_def
  proof (cases rule: with_adminE)
    case (ok s ss)
    let ?w = "w\<lparr>wb_sessions := ss\<rparr>"
    from ok(3) assms(2) obtain share jid where share: "find_row (\<lambda>r. sh_id r = i) (wb_shares w) = Some share"
      and "set_share_permissions (traced ag) (session_ctx s) share grants recursive ?w = (Inr jid, w')"
      by (auto simp: bindE_eq_Inr or_404_def get_share_def split: option.splits)
    then obtain entries w0 w1 w2 h where
      1: "mapE (\<lambda>(k, p, l). bindE (resolve_numeric_id k p) (\<lambda>i. ret (k, i, l))) grants ?w = (Inr entries, w0)"
      and 2: "agent_call (traced ag) (session_ctx s) (Shares (ShareSetPermissionsParams (sh_path share) entries recursive)) w0
        = (Inr (JobStartedResult jid), w1)"
      and 3: "replace_permissions (sh_id share) grants w1 = (Inr (), w2)"
      and 4: "apply_samba_config (traced ag) (session_ctx s) False w2 = (Inr h, w')"
      by (auto simp: set_share_permissions_def bindE_eq_Inr thenE_def)
    from mapE_Inr_all2 [OF 1, where P = resolved] have "w0 = ?w" "list_all2 (resolved ?w) grants entries"
      by (auto dest: resolve_Inr)
    moreover have "resolved ?w = resolved w" by (simp add: resolved_def fun_eq_iff split: principal_kind.split)
    ultimately have e: "w0 = ?w" "list_all2 (resolved w) grants entries" by simp_all
    from find_row_Some [OF share] have f: "share \<in> set (wb_shares w)" "sh_id share = i" by simp_all
    from 2 e(1) obtain a where w1: "w1 = ?w\<lparr>wb_agent := (a, snd (wb_agent w) @ [(session_ctx s,
        Shares (ShareSetPermissionsParams (sh_path share) entries recursive))])\<rparr>"
      by (auto elim!: traced_callE)
    from apply_samba_Inr [OF 4] obtain b where
      w': "w' = w2\<lparr>wb_agent := (b, snd (wb_agent w2) @ [(session_ctx s, Samba (SambaApplyConfigParams (samba_content w2) False))])\<rparr>"
      by blast
    have p: "permissions_of i w' = map (grant_row i) grants" "wb_agent w2 = wb_agent w1"
      "j \<noteq> i \<Longrightarrow> permissions_of j w' = permissions_of j w" for j
      using permissions_of_replaced [OF 3] f(2) w1 w' by (auto simp: permissions_of_def)
    with w1 w' have "snd (wb_agent w') = snd (wb_agent w) @
        [(session_ctx s, Shares (ShareSetPermissionsParams (sh_path share) entries recursive)),
         (session_ctx s, Samba (SambaApplyConfigParams (samba_content w') False))]" by simp
    with e(2) f p(1,3) show ?thesis by blast
  qed simp
qed


text \<open>A share name may climb out of its volume: a share named like a relative path is created there.\<close>

theorem share_names_are_not_checked:
  "\<exists>x w'. serve demo_env (demo_client ''a'') (Create_share ''../x'' 1 []) demo_state = (Inr x, w') \<and>
     (\<exists>ctx. (ctx, Shares (ShareCreateParams ''/v/../x'')) \<in> set (snd (wb_agent w')))"
  unfolding demo_serve route.simps create_share_route_def demo_admin
  by (simp add: create_share_def bindE_def thenE_def bad_request_def
      service_error_def tryE_def agent_call_def get_volume_def find_row_def add_share_def apply_samba_config_def
      ensure_samba_enabled_def demo_env_def demo_state_def demo_web_def demo_share_def demo_answers_def len_between_def
      samba_applied_def valid_service_name_def alnum_def is_lower_def code_def Let_def)


text \<open>The name of a share reaches the Samba configuration verbatim, whatever characters it has.\<close>

theorem share_name_reaches_the_configuration:
  assumes "serve ev c (Create_share n v d) w = (Inr x, w')" "ev_agent ev = traced ag"
  shows "contains (samba_content w') (''['' @ n @ '']'')"
proof -
  from assms(1) have "create_share_route ev c n v d w = (Inr x, w')" by (auto simp: serve_def split: option.splits)
  then obtain ctx w0 w1 share where "create_share (traced ag) ctx n v d w0 = (Inr share, w1)"
    and "ensure_samba_enabled (traced ag) ctx w1 = (Inr (), w')"
    using assms(2)
    by (auto simp: create_share_route_def with_admin_def with_session_def bindE_eq_Inr thenE_def)
  from create_share_Inr [OF this(1)] ensure_samba_Inr [OF this(2)] show ?thesis
    using section_in_content [of share w'] by auto
qed

theorem share_name_reaches_the_configuration_witness:
  "\<exists>w'. contains (samba_content (w' :: (unit \<times> calls) web)) (''[a]'' @ nl @ ''[global]'')"
proof -
  have "\<exists>x w'. serve demo_env (demo_client ''a'') (Create_share (''a]'' @ nl @ ''[global'') 1 []) demo_state = (Inr x, w')"
    unfolding demo_serve route.simps create_share_route_def demo_admin
    by (simp add: create_share_def bindE_def thenE_def bad_request_def
      service_error_def tryE_def agent_call_def get_volume_def find_row_def add_share_def apply_samba_config_def
      ensure_samba_enabled_def demo_env_def demo_state_def demo_web_def demo_share_def demo_answers_def len_between_def
      samba_applied_def valid_service_name_def alnum_def is_lower_def code_def Let_def nl_def)
  then obtain x w' where "serve demo_env (demo_client ''a'') (Create_share (''a]'' @ nl @ ''[global'') 1 []) demo_state =
      (Inr x, w')" by blast
  from share_name_reaches_the_configuration [OF this, of demo_answers] show ?thesis
    by (auto simp: demo_env_def)
qed

theorem permissions_reach_disk_and_table_witness:
  "\<exists>w'. permissions_of 1 (w' :: (unit \<times> calls) web) = [grant_row 1 (User_kind, ''bob'', RW)]"
proof -
  have "\<exists>x w'. serve demo_env (demo_client ''a'') (Set_permissions 1 [(User_kind, ''bob'', RW)] False) demo_state = (Inr x, w')"
    unfolding demo_serve route.simps set_permissions_route_def demo_admin
    by (simp add: demo_defs or_404_def get_share_def find_row_def set_share_permissions_def resolve_numeric_id_def
      new_user_def len_between_def job_started_def replace_permissions_def apply_samba_config_def samba_applied_def)
  then obtain x w' where "serve demo_env (demo_client ''a'') (Set_permissions 1 [(User_kind, ''bob'', RW)] False) demo_state
      = (Inr x, w')" by blast
  from permissions_reach_disk_and_table [OF this, of demo_answers] show ?thesis
    by (auto simp: demo_env_def)
qed

theorem samba_follows_the_tables_witness:
  "\<exists>w'. in_force (w' :: (unit \<times> calls) web)"
proof -
  have "\<exists>x w'. serve demo_env (demo_client ''a'') (Delete_share 1 False) demo_state = (Inr x, w')"
    unfolding demo_serve route.simps delete_share_route_def demo_admin
    by (simp add: demo_defs or_404_def get_share_def find_row_def delete_share_def len_between_def drop_share_def
      apply_samba_config_def samba_applied_def)
  then obtain x w' where "serve demo_env (demo_client ''a'') (Delete_share 1 False) demo_state = (Inr x, w')" by blast
  from samba_follows_the_tables [OF this, of demo_answers] show ?thesis
    by (auto simp: demo_env_def)
qed




theorem login_opens_a_session_witness:
  "\<exists>s w'. fst (current_session (\<lambda>t. t) default_settings (Some ''n'') (w' :: (unit \<times> calls) web)) = Inr s \<and> se_uid s = 5"
proof -
  have "\<exists>w'. serve demo_env (demo_client ''a'') (Login ''bob'' ''pw'') demo_state = (Inr (Logged_in ''n''
      (cookie_secure default_settings) (st_session_idle_timeout_minutes default_settings * 60)
      \<lparr>id_uid = 5, id_username = ''bob'', id_role = ''user''\<rparr>), w')"
    unfolding demo_serve route.simps
    by (simp add: login_def demo_defs create_session_def audit_record_def Let_def demo_session_def valid_username_def
        username_start_def username_rest_def is_lower_def code_def)
  then obtain w' where "serve demo_env (demo_client ''a'') (Login ''bob'' ''pw'') demo_state = (Inr (Logged_in ''n''
      (cookie_secure default_settings) (st_session_idle_timeout_minutes default_settings * 60)
      \<lparr>id_uid = 5, id_username = ''bob'', id_role = ''user''\<rparr>), w')" by blast
  from login_opens_a_session [OF this demo_tables, of 60] show ?thesis
    by (auto simp: demo_env_def demo_state_def demo_web_def)
qed

theorem logout_closes_the_session_witness:
  "\<exists>w. fst (current_session (\<lambda>t. t) default_settings (Some ''b'') (w :: (unit \<times> calls) web)) =
     Inl (HTTPException 401 ''session expired'')"
  using logout_closes_the_session [of demo_env "demo_client ''b''" demo_state
      "fst (serve demo_env (demo_client ''b'') Logout demo_state)" "snd (serve demo_env (demo_client ''b'') Logout demo_state)"
      "''b''" default_settings 0]
  by (auto simp: demo_client_def demo_env_def)

theorem idle_session_is_gone_witness:
  "fst (current_session (\<lambda>t. t) default_settings (Some ''b'') (demo_state\<lparr>wb_now := 2000\<rparr>)) =
     Inl (HTTPException 401 ''session expired'')"
proof -
  have "tables_ok (demo_state\<lparr>wb_now := 2000\<rparr>)" using demo_tables by (simp add: tables_ok_def sessions_ok_def)
  from idle_session_is_gone [OF this, of "demo_session 2 ''b'' 5 ''user''" "\<lambda>t. t" "''b''" default_settings]
  show ?thesis by (simp add: demo_state_def demo_session_def)
qed

theorem deleted_user_stays_logged_in_witness:
  "\<exists>w'. granted demo_env (demo_client ''b'') w' (demo_session 2 ''b'' 5 ''user'') \<and> 5 \<notin> us_uid ` set (wb_users w')"
proof -
  have "\<exists>x w'. serve demo_env (demo_client ''a'') (Delete_user 5 True) demo_state = (Inr x, w')"
    unfolding demo_serve route.simps delete_user_route_def demo_admin
    by (simp add: demo_defs or_404_def get_user_def find_row_def delete_user_def new_user_def valid_username_def
        username_start_def username_rest_def is_lower_def code_def)
  then obtain x w' where "serve demo_env (demo_client ''a'') (Delete_user 5 True) demo_state = (Inr x, w')" by blast
  from deleted_user_stays_logged_in [OF this demo_tables, of "demo_client ''b''" "demo_session 2 ''b'' 5 ''user''"]
  show ?thesis by (auto simp: demo_granted) (auto simp: demo_client_def demo_env_def)
qed

end
