(* ===== verification/UserFs.thy ===== *)
theory UserFs
  imports Acl Jobs
begin

text \<open>
  The files of the users as a file worker sees them: the calls of \<open>os\<close> and \<open>shutil\<close> that
  \<open>agent/handlers/files.py\<close>, \<open>agent/handlers/uploads.py\<close> and \<open>agent/filedata.py\<close> make. A file system
  is a dictionary from absolute paths to nodes (no \<open>.\<close>, \<open>..\<close>, double or final slash; symbolic links
  are followed at the end of a path; a path through a link in the middle is refused as if the link were
  a file). \<open>wk_fault\<close> adds any further failure, among
  them those of permissions, as in \<open>World\<close>.
\<close>

section \<open>Nodes\<close>

datatype ukind = Plain bytes | Folder | Symlink string

record unode =
  un_kind :: ukind
  un_owner :: int
  un_mode :: nat
  un_mtime :: rat

type_synonym ufs = "(string, unode) dict"

text \<open>\<open>stat.S_ISDIR\<close>, \<open>S_ISLNK\<close> and \<open>st_size\<close>; the size of a directory is a matter of the file system,
  here 4096.\<close>

definition is_folder :: "unode \<Rightarrow> bool" where
  "is_folder n \<longleftrightarrow> un_kind n = Folder"

fun link_target :: "unode option \<Rightarrow> string option" where
  "link_target (Some n) = (case un_kind n of Symlink t \<Rightarrow> Some t | _ \<Rightarrow> None)"
| "link_target None = None"

definition node_size :: "unode \<Rightarrow> int" where
  "node_size n = (case un_kind n of Plain d \<Rightarrow> int (length d) | Folder \<Rightarrow> 4096 | Symlink t \<Rightarrow> int (length t))"

text \<open>Everything below a directory, and what is directly in it (in some order).\<close>

definition dir_prefix :: "string \<Rightarrow> string" where
  "dir_prefix p = (if p = ''/'' then p else p @ ''/'')"

definition below :: "string \<Rightarrow> string \<Rightarrow> bool" where
  "below p q \<longleftrightarrow> startswith q (dir_prefix p) \<and> q \<noteq> dir_prefix p"

definition at_or_below :: "string \<Rightarrow> string \<Rightarrow> bool" where
  "at_or_below p q \<longleftrightarrow> q = p \<or> below p q"

definition child_name :: "string \<Rightarrow> string \<Rightarrow> string" where
  "child_name p q = drop (length (dir_prefix p)) q"

definition child_names :: "ufs \<Rightarrow> string \<Rightarrow> string list" where
  "child_names fs p = map (child_name p)
     (filter (\<lambda>q. below p q \<and> CHR ''/'' \<notin> set (child_name p q)) (map fst fs))"

text \<open>At most 40 links are followed (\<open>ELOOP\<close>).\<close>

fun follow :: "nat \<Rightarrow> ufs \<Rightarrow> string \<Rightarrow> os_kind + string" where
  "follow 0 fs p = Inl OtherOSError"
| "follow (Suc k) fs p = (case link_target (dget fs p) of
       None \<Rightarrow> Inr p | Some t \<Rightarrow> follow k fs (path_join (dirname p) t))"

text \<open>A name needs all directories above it: what is wrong with them, if anything.\<close>

fun resolve_dirs :: "ufs \<Rightarrow> string list \<Rightarrow> os_kind option" where
  "resolve_dirs fs [] = None"
| "resolve_dirs fs (a # as) = (case dget fs a of None \<Rightarrow> Some FileNotFoundError
     | Some n \<Rightarrow> if is_folder n then resolve_dirs fs as else Some NotADirectoryError)"

definition new_name :: "ufs \<Rightarrow> string \<Rightarrow> os_kind option" where
  "new_name fs p = (if \<not> startswith p ''/'' \<or> basename p = [] then Some FileNotFoundError
     else resolve_dirs fs (ancestors p))"

definition absent :: "ufs \<Rightarrow> string \<Rightarrow> os_kind" where
  "absent fs p = (case new_name fs p of Some e \<Rightarrow> e | None \<Rightarrow> FileNotFoundError)"

definition lstat_of :: "ufs \<Rightarrow> string \<Rightarrow> os_kind + unode" where
  "lstat_of fs p = (case dget fs p of None \<Rightarrow> Inl (absent fs p) | Some n \<Rightarrow> Inr n)"

definition stat_of :: "ufs \<Rightarrow> string \<Rightarrow> os_kind + unode" where
  "stat_of fs p = (case follow 40 fs p of Inl e \<Rightarrow> Inl e | Inr q \<Rightarrow> lstat_of fs q)"

section \<open>The worker process\<close>

text \<open>\<open>agent/workerstate.py\<close>, with the file system, the clock, how
  deep \<open>shutil\<close> may recurse, whether the job at work was asked to stop, and what it has reported.\<close>

datatype uop = OsStat | OsLstat | OsListdir | OsMkdir | OsRename | OsRemove | OsRmdir | OsSymlink | OsOpenRead
  | OsOpenWrite | OsCopystat | OsPwrite

type_synonym ulog = "(uop \<times> string) list"

record upload_handle =
  uh_dest_path :: string
  uh_part_path :: string

record 'a worker =
  wk_uid :: int
  wk_username :: string
  wk_jobs :: job_runner
  wk_acl :: 'a
  wk_uploads :: "(string, upload_handle) dict"
  wk_fs :: ufs
  wk_log :: ulog
  wk_fault :: "ulog \<Rightarrow> uop \<Rightarrow> string \<Rightarrow> os_kind option"
  wk_time :: "ulog \<Rightarrow> rat"
  wk_cancel :: "ulog \<Rightarrow> bool"
  wk_depth :: nat
  wk_progress :: "(rat \<times> string) list"

type_synonym ('a, 'b) wprog = "('a worker, 'b) prog"

text \<open>One system call: it may fail for reasons of its own, and otherwise does what it does to the files.\<close>

definition sys :: "uop \<Rightarrow> string \<Rightarrow> (ufs \<Rightarrow> os_kind + ('b \<times> ufs)) \<Rightarrow> ('a, 'b) wprog" where
  "sys op p f k = (let k' = k\<lparr>wk_log := wk_log k @ [(op, p)]\<rparr> in
     case wk_fault k (wk_log k) op p of
       Some e \<Rightarrow> (Inl (OSError e p), k')
     | None \<Rightarrow> (case f (wk_fs k) of
         Inl e \<Rightarrow> (Inl (OSError e p), k')
       | Inr (x, fs') \<Rightarrow> (Inr x, k'\<lparr>wk_fs := fs'\<rparr>)))"

text \<open>A node the worker makes: it belongs to the worker's user.\<close>

definition new_node :: "'a worker \<Rightarrow> ukind \<Rightarrow> nat \<Rightarrow> unode" where
  "new_node k kd m = \<lparr>un_kind = kd, un_owner = wk_uid k, un_mode = m, un_mtime = wk_time k (wk_log k)\<rparr>"

section \<open>Queries\<close>

definition os_stat :: "string \<Rightarrow> ('a, unode) wprog" where
  "os_stat p = sys OsStat p (\<lambda>fs. case stat_of fs p of Inl e \<Rightarrow> Inl e | Inr n \<Rightarrow> Inr (n, fs))"

definition os_lstat :: "string \<Rightarrow> ('a, unode) wprog" where
  "os_lstat p = sys OsLstat p (\<lambda>fs. case lstat_of fs p of Inl e \<Rightarrow> Inl e | Inr n \<Rightarrow> Inr (n, fs))"

definition os_listdir :: "string \<Rightarrow> ('a, string list) wprog" where
  "os_listdir p = sys OsListdir p (\<lambda>fs. case follow 40 fs p of Inl e \<Rightarrow> Inl e
     | Inr q \<Rightarrow> (case lstat_of fs q of Inl e \<Rightarrow> Inl e
       | Inr n \<Rightarrow> if is_folder n then Inr (child_names fs q, fs) else Inl NotADirectoryError))"

text \<open>\<open>except OSError\<close>; the predicates of \<open>os.path\<close> are false where the call fails.\<close>

definition on_os_error :: "('a, 'b) wprog \<Rightarrow> (os_kind \<Rightarrow> string \<Rightarrow> ('a, 'b) wprog) \<Rightarrow> ('a, 'b) wprog" where
  "on_os_error m h = tryE m (\<lambda>e. case e of OSError k t \<Rightarrow> h k t | _ \<Rightarrow> raise e)"

definition path_exists :: "string \<Rightarrow> ('a, bool) wprog" where
  "path_exists p = on_os_error (bindE (os_stat p) (\<lambda>_. ret True)) (\<lambda>_ _. ret False)"

definition path_isdir :: "string \<Rightarrow> ('a, bool) wprog" where
  "path_isdir p = on_os_error (bindE (os_stat p) (\<lambda>n. ret (is_folder n))) (\<lambda>_ _. ret False)"

definition path_islink :: "string \<Rightarrow> ('a, bool) wprog" where
  "path_islink p = on_os_error (bindE (os_lstat p) (\<lambda>n. ret (link_target (Some n) \<noteq> None))) (\<lambda>_ _. ret False)"

text \<open>\<open>os.path.isdir(p) and not os.path.islink(p)\<close>\<close>

definition real_dir :: "string \<Rightarrow> ('a, bool) wprog" where
  "real_dir p = bindE (path_isdir p) (\<lambda>d. if d then bindE (path_islink p) (\<lambda>l. ret (\<not> l)) else ret False)"

section \<open>Changes\<close>

definition os_mkdir :: "string \<Rightarrow> ('a, unit) wprog" where
  "os_mkdir p k = sys OsMkdir p (\<lambda>fs. if dget fs p \<noteq> None then Inl FileExistsError else
     case new_name fs p of Some e \<Rightarrow> Inl e
     | None \<Rightarrow> Inr ((), dset p (new_node k Folder 509) fs)) k"

definition os_symlink :: "string \<Rightarrow> string \<Rightarrow> ('a, unit) wprog" where
  "os_symlink target p k = sys OsSymlink p (\<lambda>fs. if dget fs p \<noteq> None then Inl FileExistsError else
     case new_name fs p of Some e \<Rightarrow> Inl e
     | None \<Rightarrow> Inr ((), dset p (new_node k (Symlink target) 511) fs)) k"

definition os_remove :: "string \<Rightarrow> ('a, unit) wprog" where
  "os_remove p = sys OsRemove p (\<lambda>fs. case dget fs p of None \<Rightarrow> Inl (absent fs p)
     | Some n \<Rightarrow> if is_folder n then Inl IsADirectoryError else Inr ((), dpop p fs))"

definition os_rmdir :: "string \<Rightarrow> ('a, unit) wprog" where
  "os_rmdir p = sys OsRmdir p (\<lambda>fs. case dget fs p of None \<Rightarrow> Inl (absent fs p)
     | Some n \<Rightarrow> if \<not> is_folder n then Inl NotADirectoryError
         else if p = ''/'' \<or> child_names fs p \<noteq> [] then Inl OtherOSError else Inr ((), dpop p fs))"

text \<open>\<open>rename(2)\<close> with everything below; a destination is replaced only by something of its sort.\<close>

definition moved :: "string \<Rightarrow> string \<Rightarrow> ufs \<Rightarrow> ufs" where
  "moved src dst fs = filter (\<lambda>(q, _). \<not> at_or_below src q \<and> q \<noteq> dst) fs @
     map (\<lambda>(q, n). (dst @ drop (length src) q, n)) (filter (\<lambda>(q, _). at_or_below src q) fs)"

definition rename_to :: "string \<Rightarrow> string \<Rightarrow> ufs \<Rightarrow> os_kind + (unit \<times> ufs)" where
  "rename_to src dst fs = (case dget fs src of
       None \<Rightarrow> Inl (absent fs src)
     | Some n \<Rightarrow> if src = dst then Inr ((), fs)
         else if below src dst then Inl OtherOSError
         else (case new_name fs dst of Some e \<Rightarrow> Inl e | None \<Rightarrow>
           (case dget fs dst of
              None \<Rightarrow> Inr ((), moved src dst fs)
            | Some d \<Rightarrow> if is_folder d \<and> \<not> is_folder n then Inl IsADirectoryError
                else if is_folder n \<and> \<not> is_folder d then Inl NotADirectoryError
                else if is_folder d \<and> child_names fs dst \<noteq> [] then Inl OtherOSError
                else Inr ((), moved src dst fs))))"

definition os_rename :: "string \<Rightarrow> string \<Rightarrow> ('a, unit) wprog" where
  "os_rename src dst = sys OsRename src (rename_to src dst)"

text \<open>Opening a file to read it, and to write it anew: both follow links.\<close>

definition read_all :: "string \<Rightarrow> ('a, bytes) wprog" where
  "read_all p = sys OsOpenRead p (\<lambda>fs. case stat_of fs p of Inl e \<Rightarrow> Inl e
     | Inr n \<Rightarrow> (case un_kind n of Plain d \<Rightarrow> Inr (d, fs) | _ \<Rightarrow> Inl IsADirectoryError))"

definition write_to :: "unode \<Rightarrow> string \<Rightarrow> ufs \<Rightarrow> os_kind + (unit \<times> ufs)" where
  "write_to new p fs = (case follow 40 fs p of Inl e \<Rightarrow> Inl e | Inr q \<Rightarrow> (case dget fs q of
       Some n \<Rightarrow> if is_folder n then Inl IsADirectoryError
         else Inr ((), dset q (n\<lparr>un_kind := un_kind new, un_mtime := un_mtime new\<rparr>) fs)
     | None \<Rightarrow> (case new_name fs q of Some e \<Rightarrow> Inl e | None \<Rightarrow> Inr ((), dset q new fs))))"

definition write_all :: "string \<Rightarrow> bytes \<Rightarrow> ('a, unit) wprog" where
  "write_all p d k = sys OsOpenWrite p (write_to (new_node k (Plain d) 436) p) k"

text \<open>\<open>shutil.copystat\<close>: mode and time of the source; without following, a link keeps its mode.\<close>

definition copystat :: "bool \<Rightarrow> string \<Rightarrow> string \<Rightarrow> ('a, unit) wprog" where
  "copystat following src dst = sys OsCopystat dst (\<lambda>fs.
     case (if following then stat_of fs src else lstat_of fs src) of Inl e \<Rightarrow> Inl e
     | Inr s \<Rightarrow> (case (if following then follow 40 fs dst else Inr dst) of Inl e \<Rightarrow> Inl e
       | Inr q \<Rightarrow> (case dget fs q of None \<Rightarrow> Inl FileNotFoundError
         | Some n \<Rightarrow> Inr ((), dset q (n\<lparr>un_mode := un_mode s, un_mtime := un_mtime s\<rparr>) fs))))"

section \<open>\<open>shutil\<close>\<close>

definition os_readlink :: "string \<Rightarrow> ('a, string) wprog" where
  "os_readlink p = sys OsLstat p (\<lambda>fs. case link_target (dget fs p) of
       None \<Rightarrow> Inl (if dget fs p = None then absent fs p else OtherOSError) | Some t \<Rightarrow> Inr (t, fs))"

text \<open>\<open>copy2\<close>: into the directory if the destination is one.\<close>

definition copy2 :: "bool \<Rightarrow> string \<Rightarrow> string \<Rightarrow> ('a, unit) wprog" where
  "copy2 following src dst0 =
     bindE (path_isdir dst0) (\<lambda>into. let dst = if into then path_join dst0 (basename src) else dst0 in
     bindE (path_islink src) (\<lambda>l.
     thenE (if l \<and> \<not> following then bindE (os_readlink src) (\<lambda>t. os_symlink t dst)
            else bindE (read_all src) (write_all dst))
       (copystat (following \<or> \<not> l) src dst)))"

text \<open>\<open>os.makedirs\<close>: what is missing above first; above, what exists already is fine.\<close>

definition make_missing :: "string \<Rightarrow> ('a, unit) wprog" where
  "make_missing d = bindE (path_exists d) (\<lambda>there. whenE (\<not> there)
     (tryE (os_mkdir d) (\<lambda>e. case e of OSError FileExistsError _ \<Rightarrow> ret () | _ \<Rightarrow> raise e)))"

definition makedirs :: "string \<Rightarrow> ('a, unit) wprog" where
  "makedirs p = thenE (forE make_missing (ancestors p)) (os_mkdir p)"

text \<open>\<open>shutil.Error\<close> is an \<open>OSError\<close>; errors below one directory are collected. The recursion ends with
  the interpreter's limit.\<close>

fun each_ok :: "('x \<Rightarrow> ('a, unit) wprog) \<Rightarrow> 'x list \<Rightarrow> ('a, bool) wprog" where
  "each_ok f [] = ret True"
| "each_ok f (x # xs) = bindE (on_os_error (bindE (f x) (\<lambda>_. ret True)) (\<lambda>_ _. ret False))
     (\<lambda>ok. bindE (each_ok f xs) (\<lambda>rest. ret (ok \<and> rest)))"

fun copytree :: "nat \<Rightarrow> string \<Rightarrow> string \<Rightarrow> ('a, unit) wprog" where
  "copytree 0 src dst = raise (RuntimeError ''maximum recursion depth exceeded'')"
| "copytree (Suc n) src dst =
     bindE (os_listdir src) (\<lambda>names.
     thenE (makedirs dst)
     (bindE (each_ok (\<lambda>name. let s = path_join src name; d = path_join dst name in
         bindE (path_islink s) (\<lambda>l.
           if l then bindE (os_readlink s) (\<lambda>t. thenE (os_symlink t d) (copystat False s d))
           else bindE (path_isdir s) (\<lambda>dir. if dir then copytree n s d else copy2 True s d))) names) (\<lambda>ok.
     bindE (on_os_error (bindE (copystat True src dst) (\<lambda>_. ret True)) (\<lambda>_ _. ret False)) (\<lambda>stat_ok.
     whenE (\<not> (ok \<and> stat_ok)) (raise (OSError OtherOSError dst))))))"

text \<open>\<open>rmtree\<close> does not follow links: it opens directories with \<open>O_NOFOLLOW\<close> and removes a link like a file.\<close>

definition list_nofollow :: "string \<Rightarrow> ('a, string list) wprog" where
  "list_nofollow p = sys OsListdir p (\<lambda>fs. case lstat_of fs p of Inl e \<Rightarrow> Inl e
     | Inr n \<Rightarrow> if is_folder n then Inr (child_names fs p, fs) else Inl NotADirectoryError)"

definition real_entry :: "string \<Rightarrow> ('a, bool) wprog" where
  "real_entry p = on_os_error (bindE (os_lstat p) (\<lambda>e. ret (is_folder e))) (\<lambda>_ _. ret False)"

fun rmtree :: "nat \<Rightarrow> string \<Rightarrow> ('a, unit) wprog" where
  "rmtree 0 p = raise (RuntimeError ''maximum recursion depth exceeded'')"
| "rmtree (Suc n) p =
     bindE (list_nofollow p) (\<lambda>names.
     thenE (forE (\<lambda>name. bindE (real_entry (path_join p name)) (\<lambda>dir.
         if dir then rmtree n (path_join p name) else os_remove (path_join p name))) names)
       (os_rmdir p))"

text \<open>Both with the limit the worker runs under.\<close>

definition shutil_copytree :: "string \<Rightarrow> string \<Rightarrow> ('a, unit) wprog" where
  "shutil_copytree src dst k = copytree (wk_depth k) src dst k"

definition shutil_rmtree :: "string \<Rightarrow> ('a, unit) wprog" where
  "shutil_rmtree p k = rmtree (wk_depth k) p k"

text \<open>\<open>shutil.move\<close>: into the directory if the destination is one; \<open>rename\<close>, or else copy and remove.\<close>

definition move_to :: "string \<Rightarrow> string \<Rightarrow> ('a, unit) wprog" where
  "move_to src dst = on_os_error (os_rename src dst) (\<lambda>_ _.
     bindE (path_islink src) (\<lambda>l.
       if l then bindE (os_readlink src) (\<lambda>t. thenE (os_symlink t dst) (os_remove src))
       else bindE (path_isdir src) (\<lambda>d.
         if d then if at_or_below src dst then raise (OSError OtherOSError src)
           else thenE (shutil_copytree src dst) (shutil_rmtree src)
         else thenE (copy2 True src dst) (os_remove src))))"

definition shutil_move :: "string \<Rightarrow> string \<Rightarrow> ('a, unit) wprog" where
  "shutil_move src dst = bindE (path_isdir dst) (\<lambda>into.
     if \<not> into then move_to src dst
     else if src = dst then os_rename src dst
     else (let real = path_join dst (basename (rstrip_by (\<lambda>c. c = CHR ''/'') src)) in
       bindE (path_exists real) (\<lambda>taken. if taken then raise (OSError OtherOSError real) else move_to src real)))"

end
