(* ===== verification/FileOps.thy ===== *)
theory FileOps
  imports UserFs "HOL-Library.List_Lexorder" "HOL-Library.Char_ord" "HOL-Library.Product_Lexorder"
begin

text \<open>
  \<open>agent/handlers/files.py\<close>: every handler of \<open>files.*\<close>. A handler that starts a job returns at once;
  the body of the job is a program of its own (\<open>copy_body\<close> and the like) over the worker. Parameters: the user
  database (\<open>getpwuid\<close>), the archive format of \<open>zipfile\<close> and the random job id.
\<close>

section \<open>Errors\<close>

fun os_code :: "os_kind \<Rightarrow> string" where
  "os_code FileNotFoundError = ''not_found''"
| "os_code FileExistsError = ''already_exists''"
| "os_code PermissionError = ''permission_denied''"
| "os_code IsADirectoryError = ''is_a_directory''"
| "os_code NotADirectoryError = ''not_a_directory''"
| "os_code OtherOSError = ''io_error''"

definition wrap_os_error :: "('a, 'b) wprog \<Rightarrow> ('a, 'b) wprog" where
  "wrap_os_error m = on_os_error m (\<lambda>k t. raise (RpcException (os_code k) t))"

section \<open>Entries\<close>

definition file_entry_of :: "string \<Rightarrow> ('a, file_entry) wprog" where
  "file_entry_of p = bindE (on_os_error (os_stat p) (\<lambda>_ _. os_lstat p)) (\<lambda>st.
     ret \<lparr>fe_name = basename p, fe_path = p, fe_is_dir = is_folder st, fe_size = node_size st,
       fe_mtime = un_mtime st, fe_owner_uid = un_owner st\<rparr>)"

definition without_slashes :: "string \<Rightarrow> string" where
  "without_slashes = rstrip_by (\<lambda>c. c = CHR ''/'')"

definition dest_path :: "string \<Rightarrow> string \<Rightarrow> string" where
  "dest_path source dest_dir = path_join dest_dir (basename (without_slashes source))"

definition dest_for :: "string \<Rightarrow> string \<Rightarrow> ('a, string) wprog" where
  "dest_for source dest_dir = (let dest = dest_path source dest_dir in
     bindE (path_exists dest) (\<lambda>taken.
       if taken then raise (RpcException ''already_exists'' (dest @ '' already exists'')) else ret dest))"

section \<open>Listing and searching\<close>

text \<open>What cannot be read is left out.\<close>

fun entries_of :: "string list \<Rightarrow> ('a, file_entry list) wprog" where
  "entries_of [] = ret []"
| "entries_of (p # ps) = bindE (on_os_error (bindE (file_entry_of p) (\<lambda>e. ret [e])) (\<lambda>_ _. ret []))
     (\<lambda>es. bindE (entries_of ps) (\<lambda>rest. ret (es @ rest)))"

definition entry_key :: "file_entry \<Rightarrow> bool \<times> string" where
  "entry_key e = (\<not> fe_is_dir e, lower (fe_name e))"

definition list_dir :: "string \<Rightarrow> ('a, rpc_result) wprog" where
  "list_dir p = bindE (wrap_os_error (os_listdir p)) (\<lambda>names.
     bindE (entries_of (map (path_join p) names)) (\<lambda>es. ret (FilesListResult (sort_key entry_key es))))"

definition max_search_results :: nat where
  "max_search_results = 500"

text \<open>One directory of \<open>os.walk\<close>: its subdirectories and its other names, or nothing where it cannot be read.\<close>

fun split_dirs :: "string \<Rightarrow> string list \<Rightarrow> ('a, string list \<times> string list) wprog" where
  "split_dirs dir [] = ret ([], [])"
| "split_dirs dir (n # ns) = bindE (path_isdir (path_join dir n)) (\<lambda>d.
     bindE (split_dirs dir ns) (\<lambda>(ds, fs). ret (if d then (n # ds, fs) else (ds, n # fs))))"

definition scan_dir :: "string \<Rightarrow> ('a, (string list \<times> string list) option) wprog" where
  "scan_dir dir = on_os_error (bindE (os_listdir dir) (\<lambda>names.
     bindE (split_dirs dir names) (\<lambda>r. ret (Some r)))) (\<lambda>_ _. ret None)"

text \<open>The matches so far, newest last; the flag says that there are enough of them.\<close>

fun search_names :: "string \<Rightarrow> string \<Rightarrow> string list \<Rightarrow> file_entry list \<Rightarrow> ('a, bool \<times> file_entry list) wprog" where
  "search_names query dir [] acc = ret (False, acc)"
| "search_names query dir (n # ns) acc =
     (if \<not> contains (lower n) query then search_names query dir ns acc
      else bindE (on_os_error (bindE (file_entry_of (path_join dir n)) (\<lambda>e. ret (acc @ [e]))) (\<lambda>_ _. ret acc))
        (\<lambda>acc'. if acc' \<noteq> acc \<and> max_search_results \<le> length acc' then ret (True, acc')
           else search_names query dir ns acc'))"

text \<open>\<open>os.walk\<close> goes into the subdirectories that are not links; \<open>n\<close> levels are enough for any tree of
  less than \<open>n\<close> nodes.\<close>

fun search_below :: "nat \<Rightarrow> string \<Rightarrow> string \<Rightarrow> file_entry list \<Rightarrow> ('a, bool \<times> file_entry list) wprog"
  and search_dirs :: "nat \<Rightarrow> string \<Rightarrow> string \<Rightarrow> string list \<Rightarrow> file_entry list \<Rightarrow> ('a, bool \<times> file_entry list) wprog"
where
  "search_below 0 query dir acc = ret (False, acc)"
| "search_below (Suc n) query dir acc = bindE (scan_dir dir) (\<lambda>r. case r of
       None \<Rightarrow> ret (False, acc)
     | Some (ds, fs) \<Rightarrow> bindE (search_names query dir (ds @ fs) acc) (\<lambda>(stop, acc').
         if stop then ret (True, acc') else search_dirs n query dir ds acc'))"
| "search_dirs n query dir [] acc = ret (False, acc)"
| "search_dirs n query dir (d # ds) acc = bindE (path_islink (path_join dir d)) (\<lambda>l.
     bindE (if l then ret (False, acc) else search_below n query (path_join dir d) acc) (\<lambda>(stop, acc').
       if stop then ret (True, acc') else search_dirs n query dir ds acc'))"

definition search :: "string \<Rightarrow> string \<Rightarrow> ('a, rpc_result) wprog" where
  "search p query = bindE (getsE (\<lambda>k. length (wk_fs k) + 1)) (\<lambda>n.
     bindE (wrap_os_error (search_below n (lower query) p [])) (\<lambda>(_, es). ret (FilesSearchResult es)))"

section \<open>Single changes\<close>

definition mkdir :: "string \<Rightarrow> ('a, rpc_result) wprog" where
  "mkdir p = thenE (wrap_os_error (os_mkdir p)) (ret OkResult)"

definition rename :: "string \<Rightarrow> string \<Rightarrow> ('a, rpc_result) wprog" where
  "rename p name =
     (if CHR ''/'' \<in> set name
      then raise (RpcException ''invalid_params'' ''new_name must not contain a path separator'')
      else (let dest = path_join (dirname p) name in
        bindE (path_exists dest) (\<lambda>taken.
          if taken then raise (RpcException ''already_exists'' (dest @ '' already exists''))
          else thenE (wrap_os_error (os_rename p dest)) (ret OkResult))))"

section \<open>The bodies of the jobs\<close>

text \<open>\<open>for i, x in enumerate(xs)\<close>: stop when asked to; report after each.\<close>

definition report :: "rat \<Rightarrow> string \<Rightarrow> ('a, unit) wprog" where
  "report f m = modifyE (\<lambda>k. k\<lparr>wk_progress := wk_progress k @ [(max 0 (min 1 f), m)]\<rparr>)"

fun each_item :: "('x \<Rightarrow> ('a, string) wprog) \<Rightarrow> nat \<Rightarrow> nat \<Rightarrow> 'x list \<Rightarrow> ('a, unit) wprog" where
  "each_item f cnt i [] = ret ()"
| "each_item f cnt i (x # xs) = bindE (getsE (\<lambda>k. wk_cancel k (wk_log k))) (\<lambda>stop.
     if stop then ret ()
     else bindE (f x) (\<lambda>m. thenE (report (of_nat (i + 1) / of_nat cnt) m) (each_item f cnt (i + 1) xs)))"

definition delete_item :: "string \<Rightarrow> ('a, string) wprog" where
  "delete_item p = thenE (wrap_os_error (bindE (real_dir p) (\<lambda>d.
     if d then shutil_rmtree p else os_remove p))) (ret p)"

definition delete_body :: "string list \<Rightarrow> ('a, unit) wprog" where
  "delete_body paths = each_item delete_item (length paths) 0 paths"

definition copy_item :: "string \<Rightarrow> string \<Rightarrow> ('a, string) wprog" where
  "copy_item dest_dir source = bindE (dest_for source dest_dir) (\<lambda>dest.
     thenE (wrap_os_error (bindE (real_dir source) (\<lambda>d.
       if d then shutil_copytree source dest else copy2 False source dest))) (ret dest))"

definition copy_body :: "string list \<Rightarrow> string \<Rightarrow> ('a, unit) wprog" where
  "copy_body sources dest_dir = each_item (copy_item dest_dir) (length sources) 0 sources"

definition move_item :: "string \<Rightarrow> string \<Rightarrow> ('a, string) wprog" where
  "move_item dest_dir source = bindE (dest_for source dest_dir) (\<lambda>dest.
     thenE (wrap_os_error (shutil_move source dest)) (ret dest))"

definition move_body :: "string list \<Rightarrow> string \<Rightarrow> ('a, unit) wprog" where
  "move_body sources dest_dir = each_item (move_item dest_dir) (length sources) 0 sources"

section \<open>Archives\<close>

text \<open>\<open>os.path.relpath\<close> of something below \<open>source\<close>, and the walk of \<open>_files_under\<close>.\<close>

definition rel_path :: "string \<Rightarrow> string \<Rightarrow> string" where
  "rel_path source full = child_name (without_slashes source) full"

fun walk_files :: "nat \<Rightarrow> string \<Rightarrow> ('a, string list) wprog"
  and walk_dirs :: "nat \<Rightarrow> string \<Rightarrow> string list \<Rightarrow> ('a, string list) wprog"
where
  "walk_files 0 dir = ret []"
| "walk_files (Suc n) dir = bindE (scan_dir dir) (\<lambda>r. case r of
       None \<Rightarrow> ret []
     | Some (ds, fs) \<Rightarrow> bindE (walk_dirs n dir ds) (\<lambda>rest. ret (map (path_join dir) fs @ rest)))"
| "walk_dirs n dir [] = ret []"
| "walk_dirs n dir (d # ds) = bindE (path_islink (path_join dir d)) (\<lambda>l.
     bindE (if l then ret [] else walk_files n (path_join dir d)) (\<lambda>a.
     bindE (walk_dirs n dir ds) (\<lambda>b. ret (a @ b))))"

definition files_of_source :: "string \<Rightarrow> ('a, (string \<times> string) list) wprog" where
  "files_of_source source = (let base = basename (without_slashes source) in
     bindE (path_isdir source) (\<lambda>d.
       if d then bindE (getsE (\<lambda>k. length (wk_fs k) + 1)) (\<lambda>n. bindE (walk_files n source) (\<lambda>fs.
         ret (map (\<lambda>full. (full, path_join base (rel_path source full))) fs)))
       else ret [(source, base)]))"

definition files_under :: "string list \<Rightarrow> ('a, (string \<times> string) list) wprog" where
  "files_under sources = bindE (mapE files_of_source sources) (\<lambda>xss. ret (concat xss))"

text \<open>The archive is written as it is closed, also after an error; \<open>pack\<close> gives the bytes of the entries.\<close>

fun zip_entries :: "nat \<Rightarrow> nat \<Rightarrow> (string \<times> string) list \<Rightarrow> (string \<times> bytes) list
    \<Rightarrow> ('a, (string \<times> bytes) list \<times> exn option) wprog" where
  "zip_entries cnt i [] acc = ret (acc, None)"
| "zip_entries cnt i ((full, arcname) # fs) acc = bindE (getsE (\<lambda>k. wk_cancel k (wk_log k))) (\<lambda>stop.
     if stop then ret (acc, None)
     else bindE (tryE (bindE (read_all full) (\<lambda>d. ret (Inr d))) (\<lambda>e. ret (Inl e))) (\<lambda>r. case r of
         Inl e \<Rightarrow> ret (acc, Some e)
       | Inr d \<Rightarrow> thenE (report (of_nat (i + 1) / of_nat (max cnt 1)) arcname)
           (zip_entries cnt (i + 1) fs (acc @ [(arcname, d)]))))"

definition zip_body :: "((string \<times> bytes) list \<Rightarrow> bytes) \<Rightarrow> string list \<Rightarrow> string \<Rightarrow> ('a, unit) wprog" where
  "zip_body pack sources dest = bindE (files_under sources) (\<lambda>files.
     thenE (write_all dest [])
     (bindE (zip_entries (length files) 0 files []) (\<lambda>(es, failure).
     thenE (write_all dest (pack es)) (case failure of None \<Rightarrow> ret () | Some e \<Rightarrow> raise e))))"

section \<open>Properties and access-control lists\<close>

text \<open>\<open>stat.filemode(mode)[1:]\<close>: the bits of the mode as letters.\<close>

definition mode_bit :: "nat \<Rightarrow> nat \<Rightarrow> bool" where
  "mode_bit m b = odd (m div 2 ^ b)"

definition exec_letter :: "bool \<Rightarrow> bool \<Rightarrow> char \<Rightarrow> char \<Rightarrow> char" where
  "exec_letter x special both only = (if special then (if x then both else only) else if x then CHR ''x'' else CHR ''-'')"

definition filemode_tail :: "nat \<Rightarrow> string" where
  "filemode_tail m = (let flag = (\<lambda>b c. if mode_bit m b then c else CHR ''-'') in
     [flag 8 CHR ''r'', flag 7 CHR ''w'', exec_letter (mode_bit m 6) (mode_bit m 11) CHR ''s'' CHR ''S'',
      flag 5 CHR ''r'', flag 4 CHR ''w'', exec_letter (mode_bit m 3) (mode_bit m 10) CHR ''s'' CHR ''S'',
      flag 2 CHR ''r'', flag 1 CHR ''w'', exec_letter (mode_bit m 0) (mode_bit m 9) CHR ''t'' CHR ''T''])"

definition properties :: "(int \<Rightarrow> string option) \<Rightarrow> string \<Rightarrow> ('a, rpc_result) wprog" where
  "properties getpwuid p = bindE (wrap_os_error (os_stat p)) (\<lambda>st.
     let owner = (case getpwuid (un_owner st) of None \<Rightarrow> int_str (un_owner st) | Some n \<Rightarrow> n) in
     bindE (if is_folder st then on_os_error (bindE (os_listdir p) (\<lambda>ns. ret (Some (int (length ns))))) (\<lambda>_ _. ret None)
            else ret None) (\<lambda>count.
     ret (FilesPropertiesResult \<lparr>fe_name = or_else (basename (without_slashes p)) p, fe_path = p,
       fe_is_dir = is_folder st, fe_size = node_size st, fe_mtime = un_mtime st, fe_owner_uid = un_owner st\<rparr>
       owner (filemode_tail (un_mode st)) count)))"

definition on_acl :: "('a, 'b) prog \<Rightarrow> ('a, 'b) wprog" where
  "on_acl m k = (let (r, a) = m (wk_acl k) in (r, k\<lparr>wk_acl := a\<rparr>))"

definition get_acl :: "'a acl \<Rightarrow> string \<Rightarrow> ('a, rpc_result) wprog" where
  "get_acl acl p = bindE (on_acl (acl_read acl p)) (\<lambda>es. ret (FilesGetAclResult es))"

definition submit_job :: "string \<Rightarrow> string \<Rightarrow> rpc_context \<Rightarrow> ('a, rpc_result) wprog" where
  "submit_job jid kind ctx = thenE (modifyE (\<lambda>k. k\<lparr>wk_jobs := submit jid kind None (ctx_user ctx) (wk_jobs k)\<rparr>))
     (ret (JobStartedResult (Some jid)))"

definition set_acl :: "'a acl \<Rightarrow> string \<Rightarrow> rpc_context \<Rightarrow> string \<Rightarrow> acl_entry list \<Rightarrow> bool \<Rightarrow> ('a, rpc_result) wprog" where
  "set_acl acl jid ctx p entries recursive =
     (if \<not> recursive then thenE (on_acl (acl_replace_all acl p entries False)) (ret (JobStartedResult None))
      else submit_job jid ''files.set_acl'' ctx)"

definition set_acl_body :: "'a acl \<Rightarrow> string \<Rightarrow> acl_entry list \<Rightarrow> ('a, unit) wprog" where
  "set_acl_body acl p entries = thenE (report 0 p) (on_acl (acl_replace_all acl p entries True))"

section \<open>The handlers\<close>

fun files_handler :: "'a acl \<Rightarrow> (int \<Rightarrow> string option) \<Rightarrow> string \<Rightarrow> rpc_context \<Rightarrow> files_params
    \<Rightarrow> ('a, rpc_result) wprog" where
  "files_handler acl getpwuid jid ctx (FilesListParams p) = list_dir p"
| "files_handler acl getpwuid jid ctx (FilesSearchParams p q) = search p q"
| "files_handler acl getpwuid jid ctx (FilesMkdirParams p) = mkdir p"
| "files_handler acl getpwuid jid ctx (FilesRenameParams p n) = rename p n"
| "files_handler acl getpwuid jid ctx (FilesDeleteParams ps) = submit_job jid ''files.delete'' ctx"
| "files_handler acl getpwuid jid ctx (FilesCopyParams ss d) = submit_job jid ''files.copy'' ctx"
| "files_handler acl getpwuid jid ctx (FilesMoveParams ss d) = submit_job jid ''files.move'' ctx"
| "files_handler acl getpwuid jid ctx (FilesZipParams ss d) = submit_job jid ''files.zip'' ctx"
| "files_handler acl getpwuid jid ctx (FilesPropertiesParams p) = properties getpwuid p"
| "files_handler acl getpwuid jid ctx (FilesGetAclParams p) = get_acl acl p"
| "files_handler acl getpwuid jid ctx (FilesSetAclParams p es r) = set_acl acl jid ctx p es r"

text \<open>The body of the job a request starts.\<close>

fun job_body :: "'a acl \<Rightarrow> ((string \<times> bytes) list \<Rightarrow> bytes) \<Rightarrow> files_params \<Rightarrow> ('a, unit) wprog option" where
  "job_body acl pack (FilesDeleteParams ps) = Some (delete_body ps)"
| "job_body acl pack (FilesCopyParams ss d) = Some (copy_body ss d)"
| "job_body acl pack (FilesMoveParams ss d) = Some (move_body ss d)"
| "job_body acl pack (FilesZipParams ss d) = Some (zip_body pack ss d)"
| "job_body acl pack (FilesSetAclParams p es r) = (if r then Some (set_acl_body acl p es) else None)"
| "job_body acl pack _ = None"

fun status_str :: "job_status \<Rightarrow> string" where
  "status_str Queued = ''queued''"
| "status_str Running = ''running''"
| "status_str Done = ''done''"
| "status_str Failed = ''failed''"
| "status_str Cancelled = ''cancelled''"

definition job_list_result :: "job_runner \<Rightarrow> rpc_result" where
  "job_list_result jobs = JobListResult (map (\<lambda>(i, kd, rs, st, pr, ms). (i, kd, rs, status_str st, pr, ms)) (list_jobs jobs))"

definition worker_list_jobs :: "('a, rpc_result) wprog" where
  "worker_list_jobs = getsE (\<lambda>k. job_list_result (wk_jobs k))"

end
