(* ===== verification/FileTrees.thy ===== *)
theory FileTrees
  imports FileOps
begin

text \<open>
  Facts about the file system of \<open>UserFs\<close>: every name has its directories (\<open>tree\<close>), what each call may
  change, and what copying and removing whole trees changes.
\<close>

section \<open>Paths\<close>

lemma ancestors_aux_iff:
  "a \<in> set (ancestors_aux pre s) \<longleftrightarrow> (\<exists>u t. s = u @ ''/'' @ t \<and> a = pre @ u \<and> a \<noteq> [])"
proof (induction pre s rule: ancestors_aux.induct)
  case (1 pre)
  show ?case by simp
next
  case (2 pre c s)
  have split: "(\<exists>u t. c # s = u @ ''/'' @ t \<and> a = pre @ u \<and> a \<noteq> []) \<longleftrightarrow>
      (c = CHR ''/'' \<and> a = pre \<and> a \<noteq> []) \<or> (\<exists>u t. s = u @ ''/'' @ t \<and> a = (pre @ [c]) @ u \<and> a \<noteq> [])"
    (is "?l \<longleftrightarrow> ?a \<or> ?b")
  proof
    assume ?l
    then obtain u t where u: "c # s = u @ ''/'' @ t" "a = pre @ u" "a \<noteq> []" by blast
    then show "?a \<or> ?b" by (cases u) simp_all
  next
    assume "?a \<or> ?b"
    then show ?l
    proof
      assume ?a
      then have "c # s = [] @ ''/'' @ s \<and> a = pre @ [] \<and> a \<noteq> []" by auto
      then show ?l by blast
    next
      assume ?b
      then obtain u t where "s = u @ ''/'' @ t" "a = (pre @ [c]) @ u" "a \<noteq> []" by blast
      then have "c # s = (c # u) @ ''/'' @ t \<and> a = pre @ (c # u) \<and> a \<noteq> []" by simp
      then show ?l by blast
    qed
  qed
  show ?case using 2 unfolding split by auto
qed

lemma ancestors_iff: "a \<in> set (ancestors q) \<longleftrightarrow> a \<noteq> [] \<and> (\<exists>t. q = a @ ''/'' @ t)"
  by (auto simp: ancestors_def ancestors_aux_iff)

text \<open>A name that can be made: it ends with something.\<close>

definition plain_name :: "string \<Rightarrow> bool" where
  "plain_name p \<longleftrightarrow> startswith p ''/'' \<and> basename p \<noteq> []"

lemma plain_name_last: "plain_name p \<Longrightarrow> p \<noteq> [] \<and> last p \<noteq> CHR ''/''"
  by (cases p rule: rev_cases) (auto simp: plain_name_def basename_def path_tail_def)

lemma plain_name_root: "plain_name p \<Longrightarrow> p \<noteq> ''/'' \<and> p \<noteq> []"
  using plain_name_last [of p] by auto

lemma new_name_plain: "new_name fs p = None \<Longrightarrow> plain_name p"
  by (simp add: new_name_def plain_name_def split: if_splits)

lemma below_plain: "plain_name p \<Longrightarrow> below p q \<longleftrightarrow> (\<exists>t. q = p @ ''/'' @ t \<and> t \<noteq> [])"
  using plain_name_root [of p] by (auto simp: below_def dir_prefix_def startswith_iff)

lemma below_ancestor: "plain_name p \<Longrightarrow> below p q \<Longrightarrow> p \<in> set (ancestors q)"
  using plain_name_root [of p] by (auto simp: below_plain ancestors_iff)

lemma endswith_last: "p \<noteq> [] \<Longrightarrow> endswith p [c] \<longleftrightarrow> last p = c"
  by (cases p rule: rev_cases) (simp_all add: endswith_def startswith_def)

lemma path_join_plain:
  "plain_name p \<Longrightarrow> CHR ''/'' \<notin> set n \<Longrightarrow> path_join p n = p @ ''/'' @ n"
  using plain_name_last [of p]
  by (cases n) (auto simp: path_join_def endswith_last startswith_def)

text \<open>Two names in one directory are apart from each other.\<close>

lemma slash_apart:
  "a @ ''/'' @ n = b @ ''/'' @ m \<Longrightarrow> CHR ''/'' \<notin> set n \<Longrightarrow> CHR ''/'' \<notin> set m \<Longrightarrow> a = b \<and> n = m"
  using path_split [of n a] path_split [of m b] by (metis append_same_eq)

lemma siblings_apart:
  assumes "CHR ''/'' \<notin> set n" "CHR ''/'' \<notin> set m" "n \<noteq> m"
  shows "p @ ''/'' @ m \<noteq> (p @ ''/'' @ n) @ ''/'' @ t" "p @ ''/'' @ m \<notin> set (ancestors (p @ ''/'' @ n))"
proof -
  show "p @ ''/'' @ m \<noteq> (p @ ''/'' @ n) @ ''/'' @ t"
  proof
    assume "p @ ''/'' @ m = (p @ ''/'' @ n) @ ''/'' @ t"
    then have "m = n @ ''/'' @ t" by simp
    with assms(2) show False by simp
  qed
  show "p @ ''/'' @ m \<notin> set (ancestors (p @ ''/'' @ n))"
  proof
    assume "p @ ''/'' @ m \<in> set (ancestors (p @ ''/'' @ n))"
    then obtain t where "n = m @ ''/'' @ t" by (auto simp: ancestors_iff)
    with assms(1) show False by simp
  qed
qed

section \<open>Trees\<close>

definition tree :: "ufs \<Rightarrow> bool" where
  "tree fs \<longleftrightarrow> distinct (map fst fs) \<and> (\<exists>r. dget fs ''/'' = Some r \<and> is_folder r) \<and> (\<forall>q n. dget fs q = Some n \<longrightarrow> (q = ''/'' \<or> plain_name q) \<and>
     (\<forall>a \<in> set (ancestors q). \<exists>d. dget fs a = Some d \<and> is_folder d))"

lemma treeD: "tree fs \<Longrightarrow> dget fs q = Some n \<Longrightarrow> a \<in> set (ancestors q) \<Longrightarrow> \<exists>d. dget fs a = Some d \<and> is_folder d"
  unfolding tree_def by blast

lemma tree_plain: "tree fs \<Longrightarrow> dget fs q = Some n \<Longrightarrow> q = ''/'' \<or> plain_name q"
  unfolding tree_def by blast

lemma tree_distinct: "tree fs \<Longrightarrow> distinct (map fst fs)"
  unfolding tree_def by blast

lemma tree_root: "tree fs \<Longrightarrow> \<exists>r. dget fs ''/'' = Some r \<and> is_folder r"
  unfolding tree_def by blast

lemma treeI:
  assumes "distinct (map fst fs)" "\<exists>r. dget fs ''/'' = Some r \<and> is_folder r"
    "\<And>q n. dget fs q = Some n \<Longrightarrow> q = ''/'' \<or> plain_name q"
    "\<And>q n a. dget fs q = Some n \<Longrightarrow> a \<in> set (ancestors q) \<Longrightarrow> \<exists>d. dget fs a = Some d \<and> is_folder d"
  shows "tree fs"
  unfolding tree_def using assms by blast

lemma tree_fresh: "tree fs \<Longrightarrow> dget fs p = None \<Longrightarrow> plain_name p \<Longrightarrow> below p q \<Longrightarrow> dget fs q = None"
  by (metis below_ancestor not_Some_eq treeD)

lemma resolve_dirs_None: "resolve_dirs fs as = None \<longleftrightarrow> (\<forall>a \<in> set as. \<exists>d. dget fs a = Some d \<and> is_folder d)"
  by (induction fs as rule: resolve_dirs.induct) (auto split: option.splits if_splits)

lemma new_name_dirs: "new_name fs p = None \<Longrightarrow> a \<in> set (ancestors p) \<Longrightarrow> \<exists>d. dget fs a = Some d \<and> is_folder d"
  by (simp add: new_name_def resolve_dirs_None split: if_splits)

lemma not_own_ancestor: "p \<notin> set (ancestors p)"
  by (simp add: ancestors_iff)

text \<open>A node may be made where its directories are, and may be replaced by one of its sort.\<close>

lemma tree_make:
  assumes "tree fs" "new_name fs p = None" "dget fs p = None" shows "tree (dset p n fs)"
proof (rule treeI)
  show "distinct (map fst (dset p n fs))" using tree_distinct [OF assms(1)] by (rule distinct_dset)
  from tree_root [OF assms(1)] obtain r where "dget fs ''/'' = Some r" "is_folder r" by blast
  with assms(3) show "\<exists>r. dget (dset p n fs) ''/'' = Some r \<and> is_folder r"
    by (cases "p = ''/''") (simp_all add: dget_dset)
next
  fix q m assume q: "dget (dset p n fs) q = Some m"
  show "q = ''/'' \<or> plain_name q"
  proof (cases "q = p")
    case True
    with assms(2) new_name_plain show ?thesis by blast
  next
    case False
    with q have "dget fs q = Some m" by (simp add: dget_dset)
    with assms(1) show ?thesis by (rule tree_plain)
  qed
  fix a assume a: "a \<in> set (ancestors q)"
  have "\<exists>d. dget fs a = Some d \<and> is_folder d"
  proof (cases "q = p")
    case True
    with a assms(2) new_name_dirs show ?thesis by blast
  next
    case False
    with q have "dget fs q = Some m" by (simp add: dget_dset)
    with assms(1) show ?thesis using a by (rule treeD)
  qed
  moreover with assms(3) have "a \<noteq> p" by (metis option.distinct(1))
  ultimately show "\<exists>d. dget (dset p n fs) a = Some d \<and> is_folder d" by (simp add: dget_dset)
qed

lemma tree_replace:
  assumes "tree fs" "dget fs p = Some m" "is_folder m \<Longrightarrow> is_folder n" shows "tree (dset p n fs)"
proof (rule treeI)
  show "distinct (map fst (dset p n fs))" using tree_distinct [OF assms(1)] by (rule distinct_dset)
  from tree_root [OF assms(1)] obtain r where "dget fs ''/'' = Some r" "is_folder r" by blast
  with assms(2,3) show "\<exists>r. dget (dset p n fs) ''/'' = Some r \<and> is_folder r"
    by (cases "p = ''/''") (simp_all add: dget_dset)
next
  fix q x assume q: "dget (dset p n fs) q = Some x"
  with assms(2) obtain y where y: "dget fs q = Some y" by (cases "q = p") (simp_all add: dget_dset)
  with assms(1) show "q = ''/'' \<or> plain_name q" by (rule tree_plain)
  fix a assume "a \<in> set (ancestors q)"
  then obtain d where "dget fs a = Some d" "is_folder d" using treeD [OF assms(1) y] by blast
  with assms(2,3) show "\<exists>d. dget (dset p n fs) a = Some d \<and> is_folder d" by (cases "a = p") (simp_all add: dget_dset)
qed

lemma tree_drop:
  assumes "tree fs" "\<And>q n. dget fs q = Some n \<Longrightarrow> p \<notin> set (ancestors q)" "p \<noteq> ''/''" shows "tree (dpop p fs)"
proof (rule treeI)
  show "distinct (map fst (dpop p fs))" using tree_distinct [OF assms(1)] by (rule distinct_dpop)
  show "\<exists>r. dget (dpop p fs) ''/'' = Some r \<and> is_folder r"
    using tree_root [OF assms(1)] assms(3) by (simp add: dget_dpop)
next
  fix q x assume q: "dget (dpop p fs) q = Some x"
  then have y: "dget fs q = Some x" by (cases "q = p") (simp_all add: dget_dpop)
  with assms(1) show "q = ''/'' \<or> plain_name q" by (rule tree_plain)
  fix a assume a: "a \<in> set (ancestors q)"
  then have "a \<noteq> p" using assms(2) y by blast
  with a show "\<exists>d. dget (dpop p fs) a = Some d \<and> is_folder d" using treeD [OF assms(1) y] by (simp add: dget_dpop)
qed

lemma dget_child:
  assumes "dget fs q = Some n" "below p q" "CHR ''/'' \<notin> set (child_name p q)"
  shows "child_name p q \<in> set (child_names fs p)"
  using assms by (auto simp: child_names_def intro!: image_eqI [of _ _ "(q, n)"] map_of_SomeD)

text \<open>A directory without entries has nothing below.\<close>

lemma empty_folder:
  assumes "tree fs" "plain_name p" "child_names fs p = []" "below p q" shows "dget fs q = None"
proof (rule ccontr)
  assume "dget fs q \<noteq> None"
  then obtain n where q: "dget fs q = Some n" by blast
  from assms(2,4) obtain t where t: "q = p @ ''/'' @ t" "t \<noteq> []" by (auto simp: below_plain)
  have pre: "dir_prefix p = p @ ''/''" using plain_name_root [OF assms(2)] by (simp add: dir_prefix_def)
  show False
  proof (cases "CHR ''/'' \<in> set t")
    case False
    with t q assms(3,4) dget_child [of fs q n p] show False by (simp add: child_name_def pre)
  next
    case True
    then obtain u v where uv: "t = u @ ''/'' @ v" "CHR ''/'' \<notin> set u"
      by (metis append_Cons append_Nil split_list_first)
    let ?a = "p @ ''/'' @ u"
    have "?a \<in> set (ancestors q)" by (simp add: ancestors_iff t uv)
    then obtain d where a: "dget fs ?a = Some d" using treeD [OF assms(1) q] by blast
    show False
    proof (cases "u = []")
      case False
      with a uv(2) assms(2,3) dget_child [of fs ?a d p] show False by (simp add: child_name_def pre below_plain)
    next
      case True
      with a have "dget fs (p @ ''/'') = Some d" by simp
      then have "p @ ''/'' = ''/'' \<or> plain_name (p @ ''/'')" by (rule tree_plain [OF assms(1)])
      with plain_name_root [OF assms(2)] plain_name_last [of "p @ ''/''"] show False by simp
    qed
  qed
qed

section \<open>What a call changes\<close>

text \<open>The file system moves by \<open>R\<close>; the surroundings stay.\<close>

definition moves :: "(ufs \<Rightarrow> ufs \<Rightarrow> bool) \<Rightarrow> 'a worker \<Rightarrow> 'a worker \<Rightarrow> bool" where
  "moves R s t \<longleftrightarrow> R (wk_fs s) (wk_fs t) \<and> wk_fault t = wk_fault s \<and> wk_depth t = wk_depth s \<and>
     wk_uploads t = wk_uploads s \<and> wk_cancel t = wk_cancel s"

lemma moves_reflp: "reflp R \<Longrightarrow> reflp (moves R)"
  by (simp add: reflp_def moves_def)

lemma moves_transp: "transp R \<Longrightarrow> transp (moves R)"
  unfolding transp_def moves_def by metis

lemma moves_mono: "moves R s t \<Longrightarrow> (R (wk_fs s) (wk_fs t) \<Longrightarrow> R' (wk_fs s) (wk_fs t)) \<Longrightarrow> moves R' s t"
  by (simp add: moves_def)

lemma moves_trans: "moves R s t \<Longrightarrow> moves R' t u \<Longrightarrow> (\<And>a b c. R a b \<Longrightarrow> R' b c \<Longrightarrow> R'' a c) \<Longrightarrow> moves R'' s u"
  unfolding moves_def by metis

lemma sys_cases:
  obtains (fails) e l where "sys op p f k = (Inl (OSError e p), k\<lparr>wk_log := l\<rparr>)"
  | (works) x fs l where "f (wk_fs k) = Inr (x, fs)" "sys op p f k = (Inr x, k\<lparr>wk_log := l, wk_fs := fs\<rparr>)"
proof (cases "wk_fault k (wk_log k) op p")
  case (Some e)
  then show ?thesis by (intro fails) (simp add: sys_def Let_def)
next
  case None
  show ?thesis
  proof (cases "f (wk_fs k)")
    case (Inl e)
    with None show ?thesis by (intro fails) (simp add: sys_def Let_def)
  next
    case (Inr r)
    obtain x fs where "r = (x, fs)" by fastforce
    with None Inr show ?thesis by (intro works) (simp_all add: sys_def Let_def)
  qed
qed

lemma sys_InrE:
  assumes "sys op p f k = (Inr x, t)" obtains "f (wk_fs k) = Inr (x, wk_fs t)"
  using assms by (cases rule: sys_cases [of op p f k]) auto

text \<open>A call that only looks.\<close>

abbreviation quiet :: "('a, 'b) wprog \<Rightarrow> bool" where
  "quiet \<equiv> keeps (moves (=))"

lemma sys_moves:
  assumes "R (wk_fs k) (wk_fs k)" "\<And>x fs. f (wk_fs k) = Inr (x, fs) \<Longrightarrow> R (wk_fs k) fs"
  shows "moves R k (snd (sys op p f k))"
  by (cases rule: sys_cases [of op p f k]) (simp_all add: moves_def assms)

lemma sys_quiet: "(\<And>fs x fs'. f fs = Inr (x, fs') \<Longrightarrow> fs' = fs) \<Longrightarrow> quiet (sys op p f)"
  by (rule keepsI, rule sys_moves) auto

lemma eq_reflp_transp: "reflp (moves (=))" "transp (moves (=))"
  by (simp_all add: moves_reflp moves_transp)

lemmas quiet_combinators = keeps_bindE [OF eq_reflp_transp(2)] keeps_tryE [OF eq_reflp_transp(2)]
  keeps_ret [OF eq_reflp_transp(1)] keeps_raise [OF eq_reflp_transp(1)]
  keeps_thenE [OF eq_reflp_transp(2)] keeps_whenE [OF eq_reflp_transp(1)]

lemma on_os_error_keeps: "transp R \<Longrightarrow> reflp R \<Longrightarrow> keeps R m \<Longrightarrow> (\<And>k t. keeps R (h k t)) \<Longrightarrow> keeps R (on_os_error m h)"
  unfolding on_os_error_def by (intro keeps_tryE) (auto split: exn.split intro: keeps_raise)

lemma queries_quiet:
  "quiet (os_stat p)" "quiet (os_lstat p)" "quiet (os_listdir p)" "quiet (read_all p)" "quiet (os_readlink p)"
  unfolding os_stat_def os_lstat_def os_listdir_def read_all_def os_readlink_def
  by (rule sys_quiet, auto split: sum.splits option.splits ukind.splits if_splits)+

lemma checks_quiet:
  "quiet (path_exists p)" "quiet (path_isdir p)" "quiet (path_islink p)" "quiet (real_dir p)"
proof -
  show "quiet (path_exists p)" and d: "quiet (path_isdir p)" and l: "quiet (path_islink p)"
    unfolding path_exists_def path_isdir_def path_islink_def
    by (intro on_os_error_keeps eq_reflp_transp quiet_combinators queries_quiet)+
  show "quiet (real_dir p)"
    unfolding real_dir_def using d l by (intro quiet_combinators) (auto intro: quiet_combinators)
qed

text \<open>What holds after a sequence.\<close>

lemma snd_bindE:
  assumes "\<And>e t. m s = (Inl e, t) \<Longrightarrow> Q t" "\<And>x t. m s = (Inr x, t) \<Longrightarrow> Q (snd (k x t))"
  shows "Q (snd (bindE m k s))"
  using assms by (cases "m s"; cases "fst (m s)") (auto simp: bindE_def)

lemma snd_tryE:
  assumes "\<And>x t. m s = (Inr x, t) \<Longrightarrow> Q t" "\<And>e t. m s = (Inl e, t) \<Longrightarrow> Q (snd (h e t))"
  shows "Q (snd (tryE m h s))"
  using assms by (cases "m s"; cases "fst (m s)") (auto simp: tryE_def)

lemma snd_on_os_error:
  assumes "Q (snd (m s))" "\<And>c t' t. Q t \<Longrightarrow> Q (snd (h c t' t))"
  shows "Q (snd (on_os_error m h s))"
  unfolding on_os_error_def
proof (rule snd_tryE)
  fix e t assume "m s = (Inl e, t)"
  with assms(1) have "Q t" by simp
  then show "Q (snd ((case e of OSError k t \<Rightarrow> h k t | _ \<Rightarrow> raise e) t))"
    using assms(2) by (cases e) simp_all
qed (use assms(1) in simp)

lemma snd_attempt: "Q (snd (m s)) \<Longrightarrow> Q (snd (on_os_error (bindE m (\<lambda>_. ret a)) (\<lambda>_ _. ret b) s))"
  by (rule snd_on_os_error) (simp_all only: bind_ret_snd ret_apply snd_conv)

lemma moves_bindE:
  assumes "moves R s (snd (m s))" "\<And>x t. m s = (Inr x, t) \<Longrightarrow> moves R t (snd (k x t))"
    "\<And>a b c. R a b \<Longrightarrow> R b c \<Longrightarrow> R a c"
  shows "moves R s (snd (bindE m k s))"
proof (rule snd_bindE)
  fix x t assume m: "m s = (Inr x, t)"
  with assms(1) have "moves R s t" by simp
  then show "moves R s (snd (k x t))" using assms(2) [OF m] assms(3) by (rule moves_trans)
qed (use assms(1) in simp)

text \<open>Looking first: the rest runs on the same files.\<close>

lemma quiet_then:
  assumes "quiet m" "\<And>x t. m s = (Inr x, t) \<Longrightarrow> moves (=) s t \<Longrightarrow> moves R t (snd (k x t))" "R (wk_fs s) (wk_fs s)"
  shows "moves R s (snd (bindE m k s))"
proof (rule snd_bindE)
  fix e t assume "m s = (Inl e, t)"
  with keepsD [OF assms(1)] have "moves (=) s t" by blast
  with assms(3) show "moves R s t" by (simp add: moves_def)
next
  fix x t assume m: "m s = (Inr x, t)"
  with keepsD [OF assms(1)] have eq: "moves (=) s t" by blast
  with assms(2) [OF m] show "moves R s (snd (k x t))" by (simp add: moves_def)
qed

section \<open>Copying\<close>

text \<open>Nothing that was there changes; what is new is at or below \<open>p\<close>, or a directory above it.\<close>

definition adds :: "string \<Rightarrow> ufs \<Rightarrow> ufs \<Rightarrow> bool" where
  "adds p fs fs' \<longleftrightarrow> (tree fs \<longrightarrow> tree fs' \<and> dget fs \<subseteq>\<^sub>m dget fs' \<and>
     (\<forall>q. \<not> at_or_below p q \<longrightarrow> dget fs' q = dget fs q \<or> (dget fs q = None \<and> q \<in> set (ancestors p))))"

lemma adds_refl [simp]: "adds p fs fs" by (simp add: adds_def)

lemma adds_trans: "adds p a b \<Longrightarrow> adds p b c \<Longrightarrow> adds p a c"
  unfolding adds_def by (metis map_le_trans)

lemma adds_reflp_transp: "reflp (moves (adds p))" "transp (moves (adds p))"
  by (intro moves_reflp moves_transp; auto simp: reflp_def transp_def intro: adds_trans)+

lemma map_le_upd: "f x = None \<Longrightarrow> f \<subseteq>\<^sub>m f(x \<mapsto> y)"
  by (auto simp: map_le_def)

lemma adds_new:
  assumes "new_name fs q = None" "dget fs q = None" "q = p \<or> q \<in> set (ancestors p)"
  shows "adds p fs (dset q n fs)"
  unfolding adds_def dget_dset
  using assms map_le_upd [of "dget fs" q n] tree_make [OF _ assms(1,2)] by (auto simp: at_or_below_def)

lemma mkdir_adds: "q = p \<or> q \<in> set (ancestors p) \<Longrightarrow> keeps (moves (adds p)) (os_mkdir q)"
  unfolding os_mkdir_def
  by (rule keepsI, rule sys_moves) (auto split: if_splits option.splits intro: adds_new)

lemma quiet_moves: "quiet m \<Longrightarrow> reflp R \<Longrightarrow> keeps (moves R) m"
  unfolding keeps_def moves_def by (metis reflpD)

lemma keeps_exists_ok:
  assumes "reflp R" shows "keeps R (case e of OSError FileExistsError _ \<Rightarrow> ret () | _ \<Rightarrow> raise e)"
proof -
  note r = keeps_ret [OF assms] keeps_raise [OF assms]
  show ?thesis
  proof (cases e)
    case (OSError c t)
    with r show ?thesis by (cases c) simp_all
  qed (simp_all add: r)
qed

lemma make_missing_adds: "d \<in> set (ancestors p) \<Longrightarrow> keeps (moves (adds p)) (make_missing d)"
  unfolding make_missing_def
  by (intro keeps_bindE keeps_whenE keeps_tryE adds_reflp_transp(1) adds_reflp_transp(2) mkdir_adds
    quiet_moves [OF checks_quiet(1)] keeps_exists_ok disjI2) (simp_all add: reflp_def)

lemma make_missing_all: "keeps (moves (adds p)) (forE make_missing (ancestors p))"
  by (intro keeps_forE adds_reflp_transp make_missing_adds)

lemma makedirs_adds: "keeps (moves (adds p)) (makedirs p)"
  unfolding makedirs_def by (intro keeps_thenE adds_reflp_transp make_missing_all mkdir_adds disjI1 refl)

text \<open>After \<open>makedirs\<close> the directory is new and empty.\<close>

lemma mkdir_Inr:
  assumes "os_mkdir p k = (Inr (), t)"
  obtains n where "dget (wk_fs k) p = None" "new_name (wk_fs k) p = None" "is_folder n"
    "wk_fs t = dset p n (wk_fs k)"
proof (rule sys_cases [of OsMkdir p "\<lambda>fs. if dget fs p \<noteq> None then Inl FileExistsError else
     case new_name fs p of Some e \<Rightarrow> Inl e | None \<Rightarrow> Inr ((), dset p (new_node k Folder 509) fs)" k])
  fix e l assume "sys OsMkdir p (\<lambda>fs. if dget fs p \<noteq> None then Inl FileExistsError else
     case new_name fs p of Some e \<Rightarrow> Inl e | None \<Rightarrow> Inr ((), dset p (new_node k Folder 509) fs)) k = (Inl (OSError e p), k\<lparr>wk_log := l\<rparr>)"
  with assms show thesis by (simp add: os_mkdir_def)
next
  fix x fs l
  assume f: "(if dget (wk_fs k) p \<noteq> None then Inl FileExistsError else
     case new_name (wk_fs k) p of Some e \<Rightarrow> Inl e | None \<Rightarrow> Inr ((), dset p (new_node k Folder 509) (wk_fs k))) = Inr (x, fs)"
    and r: "sys OsMkdir p (\<lambda>fs. if dget fs p \<noteq> None then Inl FileExistsError else
     case new_name fs p of Some e \<Rightarrow> Inl e | None \<Rightarrow> Inr ((), dset p (new_node k Folder 509) fs)) k
       = (Inr x, k\<lparr>wk_log := l, wk_fs := fs\<rparr>)"
  have "is_folder (new_node k Folder 509)" by (simp add: is_folder_def new_node_def)
  with f r assms show thesis by (auto simp: os_mkdir_def split: if_splits option.splits intro!: that)
qed

lemma makedirs_Inr:
  assumes "makedirs p k = (Inr (), t)" "tree (wk_fs k)"
  shows "dget (wk_fs k) p = None" "plain_name p" "tree (wk_fs t)" "moves (adds p) k t"
    "\<exists>n. dget (wk_fs t) p = Some n \<and> is_folder n" "\<And>q. below p q \<Longrightarrow> dget (wk_fs t) q = None"
proof -
  from keepsD [OF makedirs_adds assms(1)] show m: "moves (adds p) k t" .
  with assms(2) show tree_t: "tree (wk_fs t)" by (simp add: moves_def adds_def)
  from assms(1) obtain k1 where up: "forE make_missing (ancestors p) k = (Inr (), k1)"
    and mk: "os_mkdir p k1 = (Inr (), t)"
    by (auto simp: makedirs_def thenE_def bindE_eq_Inr)
  from keepsD [OF make_missing_all up] assms(2) have t1: "tree (wk_fs k1)" and le: "dget (wk_fs k) \<subseteq>\<^sub>m dget (wk_fs k1)"
    by (simp_all add: moves_def adds_def)
  from mkdir_Inr [OF mk] obtain n where n: "dget (wk_fs k1) p = None" "new_name (wk_fs k1) p = None"
      "is_folder n" "wk_fs t = dset p n (wk_fs k1)" by blast
  from n(1) le show "dget (wk_fs k) p = None" by (metis domIff map_le_implies_dom_le subset_iff)
  from n(2) show pl: "plain_name p" by (rule new_name_plain)
  show "\<exists>n. dget (wk_fs t) p = Some n \<and> is_folder n" using n(3,4) by (simp add: dget_dset)
  show "dget (wk_fs t) q = None" if "below p q" for q
    using tree_fresh [OF t1 n(1) pl that] n(4) that pl not_own_ancestor below_ancestor
    by (metis dget_dset fun_upd_apply)
qed

text \<open>Making one node at a free name and giving it the times of its source.\<close>

lemma adds_free:
  assumes "adds q fs fs1" "dget fs q = None" "dget fs1 q = Some n" "is_folder n = is_folder n'"
  shows "adds q fs (dset q n' fs1)"
proof (cases "tree fs")
  case True
  with assms(1) have a: "tree fs1" "dget fs \<subseteq>\<^sub>m dget fs1"
      "\<And>x. \<not> at_or_below q x \<Longrightarrow> dget fs1 x = dget fs x \<or> (dget fs x = None \<and> x \<in> set (ancestors q))"
    by (auto simp: adds_def)
  have "dget fs \<subseteq>\<^sub>m dget (dset q n' fs1)"
    using a(2) assms(2) by (auto simp: map_le_def dget_dset)
  with tree_replace [OF a(1) assms(3)] assms(4) a(3) show ?thesis
    by (simp add: adds_def dget_dset at_or_below_def)
qed (simp add: adds_def)

lemma follow_plain: "link_target (dget fs p) = None \<Longrightarrow> follow (Suc n) fs p = Inr p"
  by simp

lemma follow_40: "link_target (dget fs p) = None \<Longrightarrow> follow 40 fs p = Inr p"
  using follow_plain [of fs p 39] by simp

lemma link_target_dset_other: "p \<noteq> q \<Longrightarrow> link_target (dget (dset q n fs) p) = link_target (dget fs p)"
  by (simp add: dget_dset)

lemma follow_dset:
  assumes "link_target (Some n) = None"
  shows "follow i fs p = Inr q \<Longrightarrow> link_target (dget fs q) = None \<Longrightarrow> follow i (dset q n fs) p = Inr q"
proof (induction i arbitrary: p)
  case (Suc i)
  show ?case
  proof (cases "p = q")
    case True
    with assms show ?thesis by (simp add: dget_dset)
  next
    case False
    with Suc show ?thesis by (auto simp: link_target_dset_other split: option.splits)
  qed
qed simp

lemma copystat_moves:
  assumes "adds q fs0 (wk_fs k)" "dget fs0 q = None" "dget (wk_fs k) q = Some n"
    "following \<Longrightarrow> follow 40 (wk_fs k) d = Inr q" "\<not> following \<Longrightarrow> d = q"
  shows "moves (\<lambda>_. adds q fs0) k (snd (copystat following src d k))"
proof -
  have "adds q fs0 (dset q (n\<lparr>un_mode := m, un_mtime := t\<rparr>) (wk_fs k))" for m t
    by (rule adds_free [OF assms(1-3)]) (simp add: is_folder_def)
  with assms show ?thesis
    unfolding copystat_def by (intro sys_moves) (auto split: sum.splits option.splits if_splits)
qed

lemma symlink_copystat:
  assumes "tree (wk_fs k)"
  shows "moves (adds d) k (snd (thenE (os_symlink t d) (copystat False s d) k))"
proof -
  let ?f = "\<lambda>fs. if dget fs d \<noteq> None then Inl FileExistsError else case new_name fs d of Some e \<Rightarrow> Inl e
     | None \<Rightarrow> Inr ((), dset d (new_node k (Symlink t) 511) fs)"
  show ?thesis unfolding thenE_def
  proof (rule snd_bindE)
    fix e t' assume "os_symlink t d k = (Inl e, t')"
    then show "moves (adds d) k t'"
      by (cases rule: sys_cases [of OsSymlink d ?f k]) (auto simp: os_symlink_def moves_def)
  next
    fix x t' assume "os_symlink t d k = (Inr x, t')"
    then have new: "new_name (wk_fs k) d = None" "dget (wk_fs k) d = None"
        "wk_fs t' = dset d (new_node k (Symlink t) 511) (wk_fs k)" and m: "moves (\<lambda>_ _. True) k t'"
      by (cases rule: sys_cases [of OsSymlink d ?f k];
          auto simp: os_symlink_def moves_def split: if_splits option.splits)+
    have "adds d (wk_fs k) (wk_fs t')" unfolding new(3) by (rule adds_new [OF new(1,2)]) simp
    then have "moves (\<lambda>_. adds d (wk_fs k)) t' (snd (copystat False s d t'))"
      by (rule copystat_moves [OF _ new(2)]) (simp_all add: new(3) dget_dset)
    with m show "moves (adds d) k (snd (copystat False s d t'))" by (simp add: moves_def)
  qed
qed

text \<open>Copying a file to where nothing is, also through a link that points nowhere.\<close>

lemma write_copystat:
  assumes "follow 40 (wk_fs k) d = Inr q" "dget (wk_fs k) q = None"
  shows "moves (adds q) k (snd (thenE (write_all d b) (copystat True s d) k))"
  unfolding thenE_def
proof (rule snd_bindE)
  let ?n = "new_node k (Plain b) 436"
  fix e t assume "write_all d b k = (Inl e, t)"
  then show "moves (adds q) k t"
    by (cases rule: sys_cases [of OsOpenWrite d "write_to ?n d" k]) (auto simp: write_all_def moves_def)
next
  let ?n = "new_node k (Plain b) 436"
  fix x t assume "write_all d b k = (Inr x, t)"
  then have new: "new_name (wk_fs k) q = None" "wk_fs t = dset q ?n (wk_fs k)" and m: "moves (\<lambda>_ _. True) k t"
    using assms by (cases rule: sys_cases [of OsOpenWrite d "write_to ?n d" k];
      auto simp: write_all_def write_to_def moves_def split: option.splits)+
  have "adds q (wk_fs k) (wk_fs t)" unfolding new(2) by (rule adds_new [OF new(1) assms(2)]) simp
  moreover have "follow 40 (wk_fs t) d = Inr q"
    unfolding new(2) by (rule follow_dset) (simp_all add: assms new_node_def)
  ultimately have "moves (\<lambda>_. adds q (wk_fs k)) t (snd (copystat True s d t))"
    by (intro copystat_moves [OF _ assms(2)]) (simp_all add: new(2) dget_dset)
  with m show "moves (adds q) k (snd (copystat True s d t))" by (simp add: moves_def)
qed

lemma os_stat_None: "stat_of (wk_fs k) p = Inl e \<Longrightarrow> os_stat p k \<noteq> (Inr n, t)"
  by (cases rule: sys_cases [of OsStat p "\<lambda>fs. case stat_of fs p of Inl e \<Rightarrow> Inl e | Inr n \<Rightarrow> Inr (n, fs)" k])
    (simp_all add: os_stat_def)

lemma on_os_error_Inr: "on_os_error m h s = (Inr x, t) \<longleftrightarrow>
    m s = (Inr x, t) \<or> (\<exists>c p s'. m s = (Inl (OSError c p), s') \<and> h c p s' = (Inr x, t))"
proof -
  have "(case e of OSError c p \<Rightarrow> h c p | _ \<Rightarrow> raise e) s' = (Inr x, t) \<longleftrightarrow>
      (\<exists>c p. e = OSError c p \<and> h c p s' = (Inr x, t))" for e s'
    by (cases e) simp_all
  then show ?thesis by (auto simp: on_os_error_def tryE_eq_Inr)
qed

lemma isdir_free: "stat_of (wk_fs k) p = Inl e \<Longrightarrow> path_isdir p k = (Inr b, t) \<Longrightarrow> \<not> b"
  by (auto simp: path_isdir_def on_os_error_Inr bindE_eq_Inr os_stat_None)

lemma bindE_assoc: "bindE (bindE m f) g = bindE m (\<lambda>x. bindE (f x) g)"
  by (rule ext) (simp add: bindE_def split: prod.split sum.split)

lemma write_copystat_link:
  assumes "follow 40 (wk_fs k) d = Inl e"
  shows "moves (=) k (snd (thenE (write_all d b) c k))"
  unfolding thenE_def
proof (rule snd_bindE)
  let ?n = "new_node k (Plain b) 436"
  fix x t assume "write_all d b k = (Inl x, t)"
  then show "moves (=) k t"
    by (cases rule: sys_cases [of OsOpenWrite d "write_to ?n d" k]) (auto simp: write_all_def moves_def)
next
  let ?n = "new_node k (Plain b) 436"
  fix x t assume "write_all d b k = (Inr x, t)"
  with assms show "moves (=) k (snd (c t))"
    by (cases rule: sys_cases [of OsOpenWrite d "write_to ?n d" k]) (auto simp: write_all_def write_to_def)
qed

text \<open>The node a copy to a free name makes: at the name, or where a link at the name points.\<close>

definition lands :: "ufs \<Rightarrow> string \<Rightarrow> string" where
  "lands fs d = (case follow 40 fs d of Inr q \<Rightarrow> q | Inl _ \<Rightarrow> d)"

definition adds_at :: "string \<Rightarrow> ufs \<Rightarrow> ufs \<Rightarrow> bool" where
  "adds_at d fs fs' \<longleftrightarrow> adds (lands fs d) fs fs' \<or> adds d fs fs'"

lemma copy_one:
  assumes "tree (wk_fs k)" "stat_of (wk_fs k) d = Inl e"
  shows "moves (adds_at d) k (snd (thenE (if l \<and> \<not> f then bindE (os_readlink s) (\<lambda>t. os_symlink t d)
     else bindE (read_all s) (write_all d)) (copystat (f \<or> \<not> l) s d) k))"
proof (cases "l \<and> \<not> f")
  case True
  have "moves (adds_at d) k (snd (bindE (os_readlink s) (\<lambda>t. thenE (os_symlink t d) (copystat False s d)) k))"
  proof (rule quiet_then [OF queries_quiet(5)])
    fix t u assume "moves (=) k u"
    with assms(1) have "tree (wk_fs u)" by (simp add: moves_def)
    from symlink_copystat [OF this] show "moves (adds_at d) u (snd (thenE (os_symlink t d) (copystat False s d) u))"
      by (rule moves_mono) (simp add: adds_at_def)
  qed (simp add: adds_at_def)
  with True show ?thesis by (simp add: thenE_def bindE_assoc)
next
  case False
  have "moves (adds_at d) k (snd (bindE (read_all s) (\<lambda>b. thenE (write_all d b) (copystat True s d)) k))"
  proof (rule quiet_then [OF queries_quiet(4)])
    fix b u assume "moves (=) k u"
    then have u: "wk_fs u = wk_fs k" by (simp add: moves_def)
    show "moves (adds_at d) u (snd (thenE (write_all d b) (copystat True s d) u))"
    proof (cases "follow 40 (wk_fs u) d")
      case (Inl e)
      from write_copystat_link [OF this] show ?thesis by (rule moves_mono) (simp add: adds_at_def)
    next
      case (Inr q)
      moreover with assms(2) u have "dget (wk_fs u) q = None"
        by (simp add: stat_of_def lstat_of_def split: option.splits)
      ultimately have "moves (adds q) u (snd (thenE (write_all d b) (copystat True s d) u))"
        by (rule write_copystat)
      with Inr show ?thesis by (elim moves_mono) (simp add: adds_at_def lands_def)
    qed
  qed (simp add: adds_at_def)
  moreover from False have "(f \<or> \<not> l) = True" by auto
  ultimately show ?thesis using False by (auto simp add: thenE_def bindE_assoc)
qed

lemma copy2_adds:
  assumes "tree (wk_fs k)" "stat_of (wk_fs k) d = Inl e"
  shows "moves (adds_at d) k (snd (copy2 f s d k))"
  unfolding copy2_def
proof (rule quiet_then [OF checks_quiet(2)])
  fix into t assume into: "path_isdir d k = (Inr into, t)" and eq: "moves (=) k t"
  from isdir_free [OF assms(2) into] have "\<not> into" .
  moreover have "moves (adds_at d) t (snd (bindE (path_islink s) (\<lambda>l. thenE (if l \<and> \<not> f
      then bindE (os_readlink s) (\<lambda>t. os_symlink t d) else bindE (read_all s) (write_all d))
      (copystat (f \<or> \<not> l) s d)) t))"
  proof (rule quiet_then [OF checks_quiet(3)])
    fix l u assume "moves (=) t u"
    with eq have "wk_fs u = wk_fs k" by (simp add: moves_def)
    with assms show "moves (adds_at d) u (snd (thenE (if l \<and> \<not> f then bindE (os_readlink s) (\<lambda>t. os_symlink t d)
        else bindE (read_all s) (write_all d)) (copystat (f \<or> \<not> l) s d) u))" by (intro copy_one) simp_all
  qed (simp add: adds_at_def)
  ultimately show "moves (adds_at d) t (snd ((let dst = if into then path_join d (basename s) else d in
      bindE (path_islink s) (\<lambda>l. thenE (if l \<and> \<not> f then bindE (os_readlink s) (\<lambda>t. os_symlink t dst)
        else bindE (read_all s) (write_all dst)) (copystat (f \<or> \<not> l) s dst))) t))" by simp
qed (simp add: adds_at_def)

text \<open>At a name that is not even a link, the copy lands at the name.\<close>

lemma adds_at_free: "dget fs d = None \<Longrightarrow> adds_at d fs fs' \<Longrightarrow> adds d fs fs'"
  using follow_40 [of fs d] by (auto simp: adds_at_def lands_def)

lemma stat_free: "dget fs d = None \<Longrightarrow> stat_of fs d = Inl (absent fs d)"
  using follow_40 [of fs d] by (simp add: stat_of_def lstat_of_def)

lemma copy2_free: "tree (wk_fs k) \<Longrightarrow> dget (wk_fs k) d = None \<Longrightarrow> moves (adds d) k (snd (copy2 f s d k))"
  using copy2_adds [OF _ stat_free] by (rule moves_mono) (auto intro: adds_at_free)

section \<open>Whole trees\<close>

lemma child_names_plain: "n \<in> set (child_names fs q) \<Longrightarrow> CHR ''/'' \<notin> set n"
  by (auto simp: child_names_def)

lemma child_names_distinct: "distinct (map fst fs) \<Longrightarrow> distinct (child_names fs q)"
proof -
  assume d: "distinct (map fst fs)"
  have "inj_on (child_name q) {x. below q x}"
    by (auto simp: inj_on_def child_name_def below_def startswith_iff)
  then have "inj_on (child_name q) (set (filter (\<lambda>x. below q x \<and> CHR ''/'' \<notin> set (child_name q x)) (map fst fs)))"
    by (rule inj_on_subset) auto
  with d show ?thesis unfolding child_names_def by (simp add: distinct_map del: filter_map)
qed

lemma listdir_Inr:
  assumes "os_listdir p k = (Inr names, t)"
  shows "moves (=) k t \<and> (\<exists>q. names = child_names (wk_fs k) q)"
  using assms keepsD [OF queries_quiet(3) assms]
  by (cases rule: sys_cases [of OsListdir p "\<lambda>fs. case follow 40 fs p of Inl e \<Rightarrow> Inl e
     | Inr q \<Rightarrow> (case lstat_of fs q of Inl e \<Rightarrow> Inl e
       | Inr n \<Rightarrow> if is_folder n then Inr (child_names fs q, fs) else Inl NotADirectoryError)" k])
    (auto simp: os_listdir_def split: sum.splits if_splits)

lemma child_names_not_Nil: "n \<in> set (child_names fs q) \<Longrightarrow> n \<noteq> []"
  by (auto simp: child_names_def child_name_def below_def startswith_iff)

text \<open>A copy below a directory leaves the other names in it free.\<close>

lemma plain_child: "plain_name p \<Longrightarrow> n \<noteq> [] \<Longrightarrow> CHR ''/'' \<notin> set n \<Longrightarrow> plain_name (p @ ''/'' @ n)"
  using path_split(2) [of n p] by (auto simp: plain_name_def basename_def startswith_iff)

lemma ancestors_child:
  assumes "CHR ''/'' \<notin> set n" "q \<in> set (ancestors (p @ ''/'' @ n))"
  shows "q = p \<or> q \<in> set (ancestors p)"
proof -
  from assms(2) obtain t where t: "q \<noteq> []" "p @ ''/'' @ n = q @ ''/'' @ t" by (auto simp: ancestors_iff)
  then consider u where "q = p @ u" "u @ ''/'' @ t = ''/'' @ n" | u where "p = q @ u" "u @ ''/'' @ n = ''/'' @ t"
    by (auto simp: append_eq_append_conv2)
  then show ?thesis
  proof cases
    case 1
    then show ?thesis using assms(1) by (cases u) auto
  next
    case 2
    then show ?thesis using t(1) by (cases u) (auto simp: ancestors_iff)
  qed
qed

lemma adds_child:
  assumes "plain_name p" "n \<noteq> []" "CHR ''/'' \<notin> set n" "adds (p @ ''/'' @ n) fs fs'"
  shows "adds p fs fs'"
proof -
  have "at_or_below p q" if "at_or_below (p @ ''/'' @ n) q" for q
    using that below_plain [OF plain_child [OF assms(1-3)]] below_plain [OF assms(1)] assms(2)
    by (auto simp: at_or_below_def)
  with ancestors_child [OF assms(3)] assms(4) show ?thesis unfolding adds_def at_or_below_def by blast
qed

lemma adds_sibling:
  assumes "tree fs" "adds (p @ ''/'' @ n) fs fs'" "n \<noteq> m" "CHR ''/'' \<notin> set n" "CHR ''/'' \<notin> set m" "n \<noteq> []"
    "plain_name p" "dget fs (p @ ''/'' @ m) = None"
  shows "dget fs' (p @ ''/'' @ m) = None"
proof -
  have "\<not> at_or_below (p @ ''/'' @ n) (p @ ''/'' @ m)"
    using below_plain [OF plain_child [OF assms(7,6,4)]] siblings_apart(1) [OF assms(4,5,3)] assms(3)
    by (auto simp: at_or_below_def)
  moreover have "p @ ''/'' @ m \<notin> set (ancestors (p @ ''/'' @ n))" using siblings_apart(2) assms(3-5) by blast
  ultimately show ?thesis using assms(1,2,8) by (metis adds_def)
qed

text \<open>One entry after the other.\<close>

lemma each_ok_adds:
  assumes "\<And>n j. n \<in> set names \<Longrightarrow> tree (wk_fs j) \<Longrightarrow> dget (wk_fs j) (p @ ''/'' @ n) = None \<Longrightarrow>
      moves (adds (p @ ''/'' @ n)) j (snd (f n j))"
    and "plain_name p" "tree (wk_fs k)" "distinct names"
    and "\<And>n. n \<in> set names \<Longrightarrow> n \<noteq> [] \<and> CHR ''/'' \<notin> set n \<and> dget (wk_fs k) (p @ ''/'' @ n) = None"
  shows "moves (adds p) k (snd (each_ok f names k))"
  using assms
proof (induction names arbitrary: k)
  case Nil
  show ?case by (simp add: moves_def)
next
  case (Cons n ns)
  let ?one = "on_os_error (bindE (f n) (\<lambda>_. ret True)) (\<lambda>_ _. ret False)"
  from Cons.prems(5) [of n] have n: "n \<noteq> []" "CHR ''/'' \<notin> set n" "dget (wk_fs k) (p @ ''/'' @ n) = None" by simp_all
  have here: "moves (adds (p @ ''/'' @ n)) k (snd (?one k))"
  proof (rule snd_attempt)
    show "moves (adds (p @ ''/'' @ n)) k (snd (f n k))" using Cons.prems(1,3) n(3) by simp
  qed
  show ?case unfolding each_ok.simps
  proof (rule snd_bindE)
    fix e t assume "?one k = (Inl e, t)"
    with here show "moves (adds p) k t" by (simp add: moves_def adds_child [OF Cons.prems(2) n(1,2)])
  next
    fix b t assume one: "?one k = (Inr b, t)"
    with here have m: "moves (adds (p @ ''/'' @ n)) k t" by simp
    with Cons.prems(3) have t: "tree (wk_fs t)" by (simp add: moves_def adds_def)
    have "moves (adds p) t (snd (each_ok f ns t))"
    proof (rule Cons.IH [OF _ Cons.prems(2) t])
      fix m' assume m': "m' \<in> set ns"
      with Cons.prems(4,5) have "n \<noteq> m'" "m' \<noteq> []" "CHR ''/'' \<notin> set m'" "dget (wk_fs k) (p @ ''/'' @ m') = None"
        by auto
      with m adds_sibling [OF Cons.prems(3) _ _ n(2) _ n(1) Cons.prems(2)]
      show "m' \<noteq> [] \<and> CHR ''/'' \<notin> set m' \<and> dget (wk_fs t) (p @ ''/'' @ m') = None" by (simp add: moves_def)
    qed (use Cons.prems(1,4) in simp_all)
    then have "moves (adds p) t (snd (bindE (each_ok f ns) (\<lambda>rest. ret (b \<and> rest)) t))"
      by (simp only: bind_ret_snd)
    with m show "moves (adds p) k (snd (bindE (each_ok f ns) (\<lambda>rest. ret (b \<and> rest)) t))"
      using adds_trans [OF adds_child [OF Cons.prems(2) n(1,2)]] by (rule moves_trans)
  qed
qed

text \<open>The body of \<open>copytree\<close> for one entry.\<close>

definition copy_entry :: "(string \<Rightarrow> string \<Rightarrow> ('a, unit) wprog) \<Rightarrow> string \<Rightarrow> string \<Rightarrow> ('a, unit) wprog" where
  "copy_entry tree_copy s d = bindE (path_islink s) (\<lambda>l.
     if l then bindE (os_readlink s) (\<lambda>t. thenE (os_symlink t d) (copystat False s d))
     else bindE (path_isdir s) (\<lambda>dir. if dir then tree_copy s d else copy2 True s d))"

lemma copytree_Suc: "copytree (Suc n) src dst =
     bindE (os_listdir src) (\<lambda>names.
     thenE (makedirs dst)
     (bindE (each_ok (\<lambda>name. copy_entry (copytree n) (path_join src name) (path_join dst name)) names) (\<lambda>ok.
     bindE (on_os_error (bindE (copystat True src dst) (\<lambda>_. ret True)) (\<lambda>_ _. ret False)) (\<lambda>stat_ok.
     whenE (\<not> (ok \<and> stat_ok)) (raise (OSError OtherOSError dst))))))"
  by (simp add: copy_entry_def Let_def)

lemma copy_entry_adds:
  assumes "\<And>j. tree (wk_fs j) \<Longrightarrow> moves (adds d) j (snd (c s d j))" "tree (wk_fs k)" "dget (wk_fs k) d = None"
  shows "moves (adds d) k (snd (copy_entry c s d k))"
  unfolding copy_entry_def
proof (rule quiet_then [OF checks_quiet(3)])
  fix l t assume "moves (=) k t"
  with assms(2,3) have t: "tree (wk_fs t)" "dget (wk_fs t) d = None" by (simp_all add: moves_def)
  show "moves (adds d) t (snd ((if l then bindE (os_readlink s) (\<lambda>t. thenE (os_symlink t d) (copystat False s d))
     else bindE (path_isdir s) (\<lambda>dir. if dir then c s d else copy2 True s d)) t))"
  proof (cases l)
    case True
    have "moves (adds d) t (snd (bindE (os_readlink s) (\<lambda>t. thenE (os_symlink t d) (copystat False s d)) t))"
    proof (rule quiet_then [OF queries_quiet(5)])
      fix x u assume "moves (=) t u"
      with t(1) have "tree (wk_fs u)" by (simp add: moves_def)
      then show "moves (adds d) u (snd (thenE (os_symlink x d) (copystat False s d) u))" by (rule symlink_copystat)
    qed simp
    with True show ?thesis by simp
  next
    case False
    have "moves (adds d) t (snd (bindE (path_isdir s) (\<lambda>dir. if dir then c s d else copy2 True s d) t))"
    proof (rule quiet_then [OF checks_quiet(2)])
      fix dir u assume "moves (=) t u"
      with t have "tree (wk_fs u)" "dget (wk_fs u) d = None" by (simp_all add: moves_def)
      with assms(1) [of u] copy2_free [of u d True s]
      show "moves (adds d) u (snd ((if dir then c s d else copy2 True s d) u))" by simp
    qed simp
    with False show ?thesis by simp
  qed
qed simp

lemma copytree_adds: "tree (wk_fs k) \<Longrightarrow> moves (adds dst) k (snd (copytree n src dst k))"
proof (induction n arbitrary: src dst k)
  case 0
  show ?case by (simp add: moves_def)
next
  case (Suc n)
  let ?entries = "\<lambda>names. each_ok (\<lambda>name. copy_entry (copytree n) (path_join src name) (path_join dst name)) names"
  let ?stat = "on_os_error (bindE (copystat True src dst) (\<lambda>_. ret True)) (\<lambda>_ _. ret False)"
  show ?case unfolding copytree_Suc
  proof (rule quiet_then [OF queries_quiet(3)])
    fix names t assume ls: "os_listdir src k = (Inr names, t)" and "moves (=) k t"
    then have tt: "tree (wk_fs t)" using Suc.prems by (simp add: moves_def)
    from listdir_Inr [OF ls] obtain q where q: "names = child_names (wk_fs k) q" by blast
    show "moves (adds dst) t (snd (thenE (makedirs dst) (bindE (?entries names) (\<lambda>ok. bindE ?stat (\<lambda>stat_ok.
        whenE (\<not> (ok \<and> stat_ok)) (raise (OSError OtherOSError dst))))) t))"
      unfolding thenE_def
    proof (rule snd_bindE)
      fix e u assume "makedirs dst t = (Inl e, u)"
      with keepsD [OF makedirs_adds] show "moves (adds dst) t u" by blast
    next
      fix x u assume mk: "makedirs dst t = (Inr x, u)"
      then have mk: "makedirs dst t = (Inr (), u)" by simp
      note new = makedirs_Inr [OF mk tt]
      have entries: "moves (adds dst) u (snd (?entries names u))"
      proof (rule each_ok_adds [OF _ new(2,3)])
        show "distinct names" unfolding q by (rule child_names_distinct [OF tree_distinct [OF Suc.prems]])
      next
        fix m assume "m \<in> set names"
        then have "m \<noteq> [] \<and> CHR ''/'' \<notin> set m" unfolding q using child_names_plain child_names_not_Nil by blast
        with new(6) below_plain [OF new(2)]
        show "m \<noteq> [] \<and> CHR ''/'' \<notin> set m \<and> dget (wk_fs u) (dst @ ''/'' @ m) = None" by blast
      next
        fix m and j :: "'a worker"
        assume m: "m \<in> set names" "tree (wk_fs j)" "dget (wk_fs j) (dst @ ''/'' @ m) = None"
        from m(1) have "CHR ''/'' \<notin> set m" unfolding q by (rule child_names_plain)
        then have join: "path_join dst m = dst @ ''/'' @ m" by (rule path_join_plain [OF new(2)])
        from m(2,3) Suc.IH
        show "moves (adds (dst @ ''/'' @ m)) j
            (snd (copy_entry (copytree n) (path_join src m) (path_join dst m) j))"
          unfolding join by (intro copy_entry_adds)
      qed
      show "moves (adds dst) t (snd (bindE (?entries names) (\<lambda>ok. bindE ?stat (\<lambda>stat_ok.
          whenE (\<not> (ok \<and> stat_ok)) (raise (OSError OtherOSError dst)))) u))"
      proof (rule snd_bindE)
        fix e v assume "?entries names u = (Inl e, v)"
        with entries have "moves (adds dst) u v" by simp
        with new(4) show "moves (adds dst) t v" using adds_trans by (rule moves_trans)
      next
        fix ok v assume "?entries names u = (Inr ok, v)"
        with entries have "moves (adds dst) u v" by simp
        with new(4) have tv: "moves (adds dst) t v" and uv: "moves (adds dst) u v"
          using adds_trans by (auto intro: moves_trans)
        from new(5) obtain f where f: "dget (wk_fs u) dst = Some f" "is_folder f" by blast
        with uv new(3) have fv: "dget (wk_fs v) dst = Some f" by (auto simp: moves_def adds_def map_le_def dom_def)
        then have "follow 40 (wk_fs v) dst = Inr dst" using f(2) by (intro follow_40) (simp add: is_folder_def)
        with tv fv have "moves (\<lambda>_. adds dst (wk_fs t)) v (snd (copystat True src dst v))"
          by (intro copystat_moves [OF _ new(1)]) (simp_all add: moves_def)
        then have "moves (\<lambda>_. adds dst (wk_fs t)) v (snd (?stat v))" by (rule snd_attempt)
        with tv have stat: "moves (adds dst) t (snd (?stat v))" by (simp add: moves_def)
        show "moves (adds dst) t (snd (bindE ?stat (\<lambda>stat_ok. whenE (\<not> (ok \<and> stat_ok))
            (raise (OSError OtherOSError dst))) v))"
          by (rule snd_bindE) (use stat in simp_all)
      qed
    qed
  qed simp
qed

section \<open>Removing\<close>

text \<open>Only what is at or below \<open>p\<close> may go.\<close>

definition removes :: "string \<Rightarrow> ufs \<Rightarrow> ufs \<Rightarrow> bool" where
  "removes p fs fs' \<longleftrightarrow> (tree fs \<longrightarrow> tree fs' \<and> dget fs' \<subseteq>\<^sub>m dget fs \<and>
     (\<forall>q. \<not> at_or_below p q \<longrightarrow> dget fs' q = dget fs q))"

lemma removes_refl [simp]: "removes p fs fs" by (simp add: removes_def)

lemma removes_trans: "removes p a b \<Longrightarrow> removes p b c \<Longrightarrow> removes p a c"
  unfolding removes_def by (metis map_le_trans)

lemma removes_reflp_transp: "reflp (moves (removes p))" "transp (moves (removes p))"
  by (intro moves_reflp moves_transp; auto simp: reflp_def transp_def intro: removes_trans)+

lemma removes_drop:
  assumes "\<And>q n. tree fs \<Longrightarrow> dget fs q = Some n \<Longrightarrow> p \<notin> set (ancestors q)" "tree fs \<Longrightarrow> p \<noteq> ''/''"
  shows "removes p fs (dpop p fs)"
proof (cases "tree fs")
  case True
  with tree_drop [OF True] assms have "tree (dpop p fs)" by blast
  then show ?thesis by (auto simp: removes_def dget_dpop at_or_below_def map_le_def)
qed (simp add: removes_def)

lemma file_no_ancestor:
  assumes "tree fs" "dget fs p = Some n" "\<not> is_folder n"
  shows "p \<noteq> ''/''" "dget fs q = Some m \<Longrightarrow> p \<notin> set (ancestors q)"
proof -
  show "p \<noteq> ''/''" using tree_root [OF assms(1)] assms(2,3) by auto
  show "p \<notin> set (ancestors q)" if q: "dget fs q = Some m"
  proof
    assume "p \<in> set (ancestors q)"
    from treeD [OF assms(1) q this] assms(2,3) show False by simp
  qed
qed

lemma remove_Inr_node:
  assumes "os_remove p k = (Inr x, t)"
  obtains n where "dget (wk_fs k) p = Some n" "\<not> is_folder n" "wk_fs t = dpop p (wk_fs k)"
  using assms
  by (cases rule: sys_cases [of OsRemove p "\<lambda>fs. case dget fs p of None \<Rightarrow> Inl (absent fs p)
     | Some n \<Rightarrow> if is_folder n then Inl IsADirectoryError else Inr ((), dpop p fs)" k])
    (auto simp: os_remove_def split: option.splits if_splits)

lemma remove_removes: "keeps (moves (removes p)) (os_remove p)"
  unfolding os_remove_def
proof (rule keepsI, rule sys_moves)
  fix k :: "'a worker" and x fs
  assume "(case dget (wk_fs k) p of None \<Rightarrow> Inl (absent (wk_fs k) p)
     | Some n \<Rightarrow> if is_folder n then Inl IsADirectoryError else Inr ((), dpop p (wk_fs k))) = Inr (x, fs)"
  then obtain n where n: "dget (wk_fs k) p = Some n" "\<not> is_folder n" "fs = dpop p (wk_fs k)"
    by (auto split: option.splits if_splits)
  show "removes p (wk_fs k) fs" unfolding n(3)
    by (rule removes_drop) (erule file_no_ancestor(2) [OF _ n(1,2)], assumption, erule file_no_ancestor(1) [OF _ n(1,2)])
qed simp

lemma empty_no_ancestor:
  assumes "tree fs" "dget fs p = Some n" "p \<noteq> ''/''" "child_names fs p = []" "dget fs q = Some m"
  shows "p \<notin> set (ancestors q)"
proof
  assume a: "p \<in> set (ancestors q)"
  from assms(1-3) tree_plain have p: "plain_name p" by blast
  from a obtain t where q: "q = p @ ''/'' @ t" by (auto simp: ancestors_iff)
  have "t \<noteq> []"
  proof
    assume "t = []"
    with q assms(5) have "dget fs (p @ ''/'') = Some m" by simp
    from tree_plain [OF assms(1) this] plain_name_root [OF p] plain_name_last [of "p @ ''/''"] show False by simp
  qed
  with q p have "below p q" by (auto simp: below_plain)
  with empty_folder [OF assms(1) p assms(4)] assms(5) show False by simp
qed

lemma rmdir_Inr:
  assumes "os_rmdir p k = (Inr x, t)"
  shows "wk_fs t = dpop p (wk_fs k)" "\<exists>n. dget (wk_fs k) p = Some n" "p \<noteq> ''/''" "child_names (wk_fs k) p = []"
  using assms
  by (cases rule: sys_cases [of OsRmdir p "\<lambda>fs. case dget fs p of None \<Rightarrow> Inl (absent fs p)
     | Some n \<Rightarrow> if \<not> is_folder n then Inl NotADirectoryError
         else if p = ''/'' \<or> child_names fs p \<noteq> [] then Inl OtherOSError else Inr ((), dpop p fs)" k];
      auto simp: os_rmdir_def split: option.splits if_splits)+

lemma rmdir_removes: "keeps (moves (removes p)) (os_rmdir p)"
  unfolding os_rmdir_def
proof (rule keepsI, rule sys_moves)
  fix k :: "'a worker" and x fs
  assume "(case dget (wk_fs k) p of None \<Rightarrow> Inl (absent (wk_fs k) p)
     | Some n \<Rightarrow> if \<not> is_folder n then Inl NotADirectoryError
         else if p = ''/'' \<or> child_names (wk_fs k) p \<noteq> [] then Inl OtherOSError
         else Inr ((), dpop p (wk_fs k))) = Inr (x, fs)"
  then obtain n where n: "dget (wk_fs k) p = Some n" "p \<noteq> ''/''" "child_names (wk_fs k) p = []" "fs = dpop p (wk_fs k)"
    by (auto split: option.splits if_splits)
  show "removes p (wk_fs k) fs" unfolding n(4)
    by (rule removes_drop) (rule empty_no_ancestor [OF _ n(1-3)], assumption+, rule n(2))
qed simp

text \<open>What is below a child is below the directory.\<close>

lemma child_path:
  assumes "n \<in> set (child_names fs p)" "p = ''/'' \<or> plain_name p" "at_or_below (path_join p n) q"
  shows "at_or_below p q"
proof -
  note n = child_names_plain [OF assms(1)] child_names_not_Nil [OF assms(1)]
  from assms(2) show ?thesis
  proof
    assume p: "p = ''/''"
    with n have "path_join p n = ''/'' @ n" by (cases n) (auto simp: path_join_def endswith_last startswith_def)
    with assms(3) n(2) p show ?thesis
      by (auto simp: at_or_below_def below_def dir_prefix_def startswith_iff split: if_splits)
  next
    assume p: "plain_name p"
    with path_join_plain [OF p n(1)] below_plain [OF plain_child [OF p n(2,1)]] below_plain [OF p] n(2) assms(3)
    show ?thesis by (auto simp: at_or_below_def)
  qed
qed

lemma removes_child:
  "n \<in> set (child_names fs0 p) \<Longrightarrow> p = ''/'' \<or> plain_name p \<Longrightarrow> removes (path_join p n) fs fs' \<Longrightarrow> removes p fs fs'"
  unfolding removes_def using child_path by blast

lemma forE_moves:
  assumes "\<And>a. R a a" "\<And>a b c. R a b \<Longrightarrow> R b c \<Longrightarrow> R a c" "\<And>a b. R a b \<Longrightarrow> tree a \<Longrightarrow> tree b"
    "\<And>x j. x \<in> set xs \<Longrightarrow> tree (wk_fs j) \<Longrightarrow> moves R j (snd (f x j))" "tree (wk_fs k)"
  shows "moves R k (snd (forE f xs k))"
  using assms(4,5)
proof (induction xs arbitrary: k)
  case Nil
  show ?case using assms(1) by (simp add: moves_def)
next
  case (Cons x xs)
  show ?case unfolding forE.simps thenE_def
  proof (rule moves_bindE)
    show here: "moves R k (snd (f x k))" using Cons.prems by simp
    fix y t assume "f x k = (Inr y, t)"
    with here assms(3) Cons.prems(2) have "tree (wk_fs t)" by (auto simp: moves_def)
    with Cons show "moves R t (snd (forE f xs t))" by simp
  qed (rule assms(2))
qed

lemma list_nofollow_Inr:
  assumes "list_nofollow p k = (Inr names, t)"
  shows "names = child_names (wk_fs k) p" "\<exists>n. dget (wk_fs k) p = Some n"
  using assms
  by (cases rule: sys_cases [of OsListdir p "\<lambda>fs. case lstat_of fs p of Inl e \<Rightarrow> Inl e
     | Inr n \<Rightarrow> if is_folder n then Inr (child_names fs p, fs) else Inl NotADirectoryError" k];
    auto simp: list_nofollow_def lstat_of_def split: sum.splits if_splits option.splits)+

lemma list_nofollow_quiet: "quiet (list_nofollow p)" "quiet (real_entry p)"
proof -
  show "quiet (list_nofollow p)" unfolding list_nofollow_def
    by (rule sys_quiet) (auto split: sum.splits if_splits)
  show "quiet (real_entry p)" unfolding real_entry_def
    by (intro on_os_error_keeps eq_reflp_transp quiet_combinators queries_quiet)
qed

lemma rmtree_entries:
  assumes "\<And>q j. tree (wk_fs j) \<Longrightarrow> moves (removes q) j (snd (r q j))"
    "tree (wk_fs k)" "list_nofollow p k = (Inr names, t)"
  shows "moves (removes p) t (snd (forE (\<lambda>name. bindE (real_entry (path_join p name)) (\<lambda>dir.
      if dir then r (path_join p name) else os_remove (path_join p name))) names t))"
proof (rule forE_moves)
  have rm: "moves (removes q) j (snd (os_remove q j))" for q and j :: "'a worker"
    using remove_removes [unfolded keeps_def] by (rule spec)
  note names = list_nofollow_Inr [OF assms(3)]
  from names(2) assms(2) tree_plain have p: "p = ''/'' \<or> plain_name p" by blast
  fix m and j :: "'a worker" assume m: "m \<in> set names" "tree (wk_fs j)"
  have "moves (removes (path_join p m)) j (snd (bindE (real_entry (path_join p m)) (\<lambda>dir.
      if dir then r (path_join p m) else os_remove (path_join p m)) j))"
  proof (rule quiet_then [OF list_nofollow_quiet(2)])
    fix dir u assume "moves (=) j u"
    with m(2) have "tree (wk_fs u)" by (simp add: moves_def)
    with assms(1) [of u "path_join p m"] rm
    show "moves (removes (path_join p m)) u (snd ((if dir then r (path_join p m) else os_remove (path_join p m)) u))"
      by (cases dir) simp_all
  qed simp
  then show "moves (removes p) j (snd (bindE (real_entry (path_join p m)) (\<lambda>dir.
      if dir then r (path_join p m) else os_remove (path_join p m)) j))"
    by (rule moves_mono) (rule removes_child [OF m(1) [unfolded names(1)] p])
next
  from keepsD [OF list_nofollow_quiet(1) assms(3)] assms(2) show "tree (wk_fs t)" by (simp add: moves_def)
qed (simp, erule (1) removes_trans, simp add: removes_def)

lemma rmtree_removes: "tree (wk_fs k) \<Longrightarrow> moves (removes p) k (snd (rmtree n p k))"
proof (induction n arbitrary: p k)
  case 0
  show ?case by (simp add: moves_def)
next
  case (Suc n)
  show ?case unfolding rmtree.simps
  proof (rule quiet_then [OF list_nofollow_quiet(1)])
    fix names t assume ls: "list_nofollow p k = (Inr names, t)"
    show "moves (removes p) t (snd (thenE (forE (\<lambda>name. bindE (real_entry (path_join p name)) (\<lambda>dir.
        if dir then rmtree n (path_join p name) else os_remove (path_join p name))) names) (os_rmdir p) t))"
      unfolding thenE_def
    proof (rule moves_bindE)
      fix x u
      show "moves (removes p) u (snd (os_rmdir p u))" using rmdir_removes [unfolded keeps_def] by (rule spec)
    qed (rule rmtree_entries [OF Suc.IH Suc.prems ls], assumption, erule (1) removes_trans)
  qed simp
qed

end
