(* ===== verification/FileSafety.thy ===== *)
theory FileSafety
  imports FileTrees
begin

text \<open>
  What the jobs of the file station do to the files of the users: copying never changes anything that is
  there, deleting removes what was named and nothing else, and searching is bounded and sound.
\<close>

section \<open>Jobs over a list\<close>

lemma report_moves: "moves (=) k (snd (report f m k))"
  by (simp add: report_def moves_def)

lemma report_Inr [simp]: "report f m k = (Inr (), k\<lparr>wk_progress := wk_progress k @ [(max 0 (min 1 f), m)]\<rparr>)"
  by (simp add: report_def)

lemma moves_eq_trans: "moves R a b \<Longrightarrow> moves (=) b c \<Longrightarrow> moves R a c" "moves (=) a b \<Longrightarrow> moves R b c \<Longrightarrow> moves R a c"
  by (auto simp: moves_def)

definition reported :: "nat \<Rightarrow> nat \<Rightarrow> string \<Rightarrow> 'a worker \<Rightarrow> 'a worker" where
  "reported cnt i m t = t\<lparr>wk_progress := wk_progress t @ [(max 0 (min 1 (of_nat (i + 1) / of_nat cnt)), m)]\<rparr>"

lemma reported_moves: "moves (=) t (reported cnt i m t)"
  by (simp add: moves_def reported_def)

lemma each_item_Cons: "each_item f cnt i (x # xs) k = (if wk_cancel k (wk_log k) then (Inr (), k)
    else case f x k of (Inl e, t) \<Rightarrow> (Inl e, t) | (Inr m, t) \<Rightarrow> each_item f cnt (i + 1) xs (reported cnt i m t))"
  by (simp add: bindE_def thenE_def reported_def split: prod.split sum.split)

declare each_item.simps(2) [simp del]

text \<open>What every item does, all do; and a job that was not stopped has done every item.\<close>

lemma each_item_moves:
  assumes "\<And>a. R a a" "\<And>a b c. R a b \<Longrightarrow> R b c \<Longrightarrow> R a c" "\<And>j j'. P j \<Longrightarrow> moves R j j' \<Longrightarrow> P j'"
    "\<And>x j. x \<in> set xs \<Longrightarrow> P j \<Longrightarrow> moves R j (snd (f x j))" "P k"
  shows "moves R k (snd (each_item f cnt i xs k))"
  using assms(4,5)
proof (induction xs arbitrary: i k)
  case Nil
  show ?case using assms(1) by (simp add: moves_def)
next
  case (Cons x xs)
  have here: "moves R k (snd (f x k))" using Cons.prems by simp
  have "moves R k (snd (each_item f cnt (i + 1) xs (reported cnt i m t)))" if "f x k = (Inr m, t)" for m t
  proof -
    from here that reported_moves have kt: "moves R k (reported cnt i m t)" by (metis moves_eq_trans(1) snd_conv)
    with assms(3) Cons.prems(2) have "P (reported cnt i m t)" by blast
    with Cons have "moves R (reported cnt i m t) (snd (each_item f cnt (i + 1) xs (reported cnt i m t)))" by simp
    with kt show ?thesis using assms(2) by (rule moves_trans)
  qed
  moreover have "moves R k k" using assms(1) by (simp add: moves_def)
  ultimately show ?case using here by (auto simp: each_item_Cons split: prod.split sum.split)
qed

lemma each_item_Inr:
  assumes "\<And>a. R a a" "\<And>a b c. R a b \<Longrightarrow> R b c \<Longrightarrow> R a c" "\<And>j j'. P j \<Longrightarrow> moves R j j' \<Longrightarrow> P j'"
    "\<And>x j. x \<in> set xs \<Longrightarrow> P j \<Longrightarrow> moves R j (snd (f x j))" "P k"
    "each_item f cnt i xs k = (Inr (), k')" "\<And>l. \<not> wk_cancel k l" "x \<in> set xs"
  shows "\<exists>j j' m. P j \<and> moves R k j \<and> f x j = (Inr m, j') \<and> moves R j' k'"
  using assms(4-8)
proof (induction xs arbitrary: i k)
  case (Cons y ys)
  from Cons.prems(4) have "\<not> wk_cancel k (wk_log k)" .
  with Cons.prems(3) obtain m t where one: "f y k = (Inr m, t)"
    and rest: "each_item f cnt (i + 1) ys (reported cnt i m t) = (Inr (), k')"
    unfolding each_item_Cons by (cases "f y k"; cases "fst (f y k)") simp_all
  let ?t = "reported cnt i m t"
  from Cons.prems(1,2) have "moves R k (snd (f y k))" by simp
  with one have kt: "moves R k t" by simp
  then have kt': "moves R k ?t" using reported_moves by (rule moves_eq_trans)
  with Cons.prems(2) assms(3) have P: "P ?t" by blast
  have c: "\<And>l. \<not> wk_cancel ?t l" using kt' Cons.prems(4) by (simp add: moves_def)
  show ?case
  proof (cases "x = y")
    case True
    have "moves R ?t (snd (each_item f cnt (i + 1) ys ?t))"
      by (rule each_item_moves [where P = P, OF assms(1-3) _ P]) (simp_all add: Cons.prems(1))
    with rest have "moves R ?t k'" by simp
    then have "moves R t k'" by (rule moves_eq_trans(2) [OF reported_moves])
    moreover have "moves R k k" using assms(1) by (simp add: moves_def)
    ultimately show ?thesis using True one Cons.prems(2) by blast
  next
    case False
    with Cons.prems(5) have "x \<in> set ys" by simp
    from Cons.IH [OF _ P rest c this] Cons.prems(1)
    obtain j j' m' where j: "P j" "moves R ?t j" "f x j = (Inr m', j')" "moves R j' k'" by auto
    have "moves R k j" using kt' j(2) assms(2) by (rule moves_trans)
    with j show ?thesis by blast
  qed
qed simp

lemma wrap_handler_snd: "snd ((case e of OSError c p \<Rightarrow> raise (RpcException (os_code c) p) | _ \<Rightarrow> raise e) t) = t"
  by (cases e) simp_all

lemma wrap_os_error_snd: "snd (wrap_os_error m k) = snd (m k)"
  by (simp add: wrap_os_error_def on_os_error_def tryE_def wrap_handler_snd split: prod.split sum.split)

lemma wrap_os_error_Inr: "wrap_os_error m k = (Inr x, t) \<longleftrightarrow> m k = (Inr x, t)"
  by (simp add: wrap_os_error_def on_os_error_Inr)

section \<open>Deleting\<close>

definition removes_all :: "string set \<Rightarrow> ufs \<Rightarrow> ufs \<Rightarrow> bool" where
  "removes_all ps fs fs' \<longleftrightarrow> (tree fs \<longrightarrow> tree fs' \<and> dget fs' \<subseteq>\<^sub>m dget fs \<and>
     (\<forall>q. (\<forall>p \<in> ps. \<not> at_or_below p q) \<longrightarrow> dget fs' q = dget fs q))"

lemma removes_all_refl: "removes_all ps fs fs" by (simp add: removes_all_def)

lemma removes_all_trans: "removes_all ps a b \<Longrightarrow> removes_all ps b c \<Longrightarrow> removes_all ps a c"
  unfolding removes_all_def by (metis map_le_trans)

lemma delete_item_snd: "snd (delete_item p k) = snd (bindE (real_dir p) (\<lambda>d. if d then shutil_rmtree p else os_remove p) k)"
  by (simp add: delete_item_def thenE_def bind_ret_snd wrap_os_error_snd)

lemma delete_item_removes: "tree (wk_fs k) \<Longrightarrow> moves (removes p) k (snd (delete_item p k))"
  unfolding delete_item_snd
proof (rule quiet_then [OF checks_quiet(4)])
  fix d t assume "tree (wk_fs k)" "moves (=) k t"
  then have "tree (wk_fs t)" by (simp add: moves_def)
  moreover have "moves (removes p) t (snd (os_remove p t))" using remove_removes [unfolded keeps_def] by (rule spec)
  ultimately show "moves (removes p) t (snd ((if d then shutil_rmtree p else os_remove p) t))"
    by (simp add: shutil_rmtree_def rmtree_removes)
qed simp

lemma nothing_below:
  assumes "tree fs" "dget fs p = Some n" "p \<noteq> ''/''" "\<And>q m. dget fs q = Some m \<Longrightarrow> p \<notin> set (ancestors q)" "at_or_below p q"
  shows "dget (dpop p fs) q = None"
proof (cases "q = p")
  case False
  with assms(1-3,5) tree_plain have "plain_name p" "below p q" by (auto simp: at_or_below_def)
  then have "p \<in> set (ancestors q)" by (rule below_ancestor)
  with assms(4) have "dget fs q = None" by (cases "dget fs q") auto
  then show ?thesis by (simp add: dget_dpop)
qed (simp add: dget_dpop)

lemma rmtree_Inr:
  assumes "rmtree n p k = (Inr (), t)" "tree (wk_fs k)" "at_or_below p q"
  shows "dget (wk_fs t) q = None"
proof -
  obtain i where n: "n = Suc i" using assms(1) by (cases n) auto
  let ?all = "forE (\<lambda>name. bindE (real_entry (path_join p name)) (\<lambda>dir.
      if dir then rmtree i (path_join p name) else os_remove (path_join p name)))"
  from assms(1) obtain names k1 where ls: "list_nofollow p k = (Inr names, k1)"
    and rest: "bindE (?all names) (\<lambda>_. os_rmdir p) k1 = (Inr (), t)"
    unfolding n rmtree.simps thenE_def by (rule bindE_InrE)
  from rest obtain x k2 where all: "?all names k1 = (Inr x, k2)" and rm: "os_rmdir p k2 = (Inr (), t)"
    by (rule bindE_InrE)
  from keepsD [OF list_nofollow_quiet(1) ls] assms(2) have "tree (wk_fs k1)" by (simp add: moves_def)
  moreover have "moves (removes p) k1 (snd (?all names k1))"
    by (rule rmtree_entries [OF _ assms(2) ls]) (rule rmtree_removes)
  then have "moves (removes p) k1 k2" unfolding all by simp
  ultimately have t2: "tree (wk_fs k2)" by (simp add: moves_def removes_def)
  note rm = rmdir_Inr [OF rm]
  from rm(2) obtain m where m: "dget (wk_fs k2) p = Some m" by blast
  show ?thesis unfolding rm(1)
    by (rule nothing_below [OF t2 m rm(3) _ assms(3)]) (rule empty_no_ancestor [OF t2 m rm(3,4)])
qed

lemma remove_Inr:
  assumes "os_remove p k = (Inr (), t)" "tree (wk_fs k)" "at_or_below p q"
  shows "dget (wk_fs t) q = None"
proof -
  from assms(1) obtain m where m: "dget (wk_fs k) p = Some m" "\<not> is_folder m" "wk_fs t = dpop p (wk_fs k)"
    by (rule remove_Inr_node)
  show ?thesis unfolding m(3)
    using nothing_below [OF assms(2) m(1) _ _ assms(3)] file_no_ancestor [OF assms(2) m(1,2)] by blast
qed

lemma delete_item_Inr:
  assumes "delete_item p k = (Inr m, t)" "tree (wk_fs k)" "at_or_below p q"
  shows "dget (wk_fs t) q = None"
proof -
  from assms(1) obtain d k1 where d: "real_dir p k = (Inr d, k1)"
    and rm: "(if d then shutil_rmtree p else os_remove p) k1 = (Inr (), t)"
    by (auto simp: delete_item_def thenE_def bindE_eq_Inr wrap_os_error_Inr)
  from keepsD [OF checks_quiet(4) d] assms(2) have "tree (wk_fs k1)" by (simp add: moves_def)
  with rm assms(3) show ?thesis
    by (cases d) (auto simp: shutil_rmtree_def dest: rmtree_Inr remove_Inr)
qed

section \<open>Copying\<close>

text \<open>\<open>stat\<close> does not fail on a name that is there.\<close>

definition stat_works :: "'a worker \<Rightarrow> bool" where
  "stat_works k \<longleftrightarrow> (\<forall>l p. wk_fault k l OsStat p = None)"

definition grows :: "ufs \<Rightarrow> ufs \<Rightarrow> bool" where
  "grows fs fs' \<longleftrightarrow> (tree fs \<longrightarrow> tree fs' \<and> dget fs \<subseteq>\<^sub>m dget fs')"

lemma grows_refl: "grows fs fs" by (simp add: grows_def)

lemma grows_trans: "grows a b \<Longrightarrow> grows b c \<Longrightarrow> grows a c"
  unfolding grows_def by (metis map_le_trans)

lemma dest_for_Inr:
  assumes "dest_for s d k = (Inr dest, t)" "stat_works k"
  shows "dest = dest_path s d" "\<exists>e. stat_of (wk_fs k) dest = Inl e" "moves (=) k t"
proof -
  from assms(1) have ex: "path_exists (dest_path s d) k = (Inr False, t)" and dest: "dest = dest_path s d"
    by (auto simp: dest_for_def Let_def bindE_eq_Inr split: if_splits)
  show "dest = dest_path s d" by (rule dest)
  from keepsD [OF checks_quiet(1) ex] show "moves (=) k t" .
  show "\<exists>e. stat_of (wk_fs k) dest = Inl e"
  proof (rule ccontr)
    assume "\<not> ?thesis"
    then obtain n where "stat_of (wk_fs k) dest = Inr n" by (cases "stat_of (wk_fs k) dest") auto
    with assms(2) have "os_stat dest k = (Inr n, k\<lparr>wk_log := wk_log k @ [(OsStat, dest)]\<rparr>)"
      by (simp add: os_stat_def sys_def stat_works_def)
    with ex show False by (simp add: dest path_exists_def on_os_error_def tryE_def bindE_def)
  qed
qed

lemma copy_item_grows:
  assumes "tree (wk_fs k)" "stat_works k"
  shows "moves grows k (snd (copy_item d s k))"
  unfolding copy_item_def
proof (rule snd_bindE)
  fix e t assume "dest_for s d k = (Inl e, t)"
  then have "path_exists (dest_path s d) k = (Inr True, t) \<or> path_exists (dest_path s d) k = (Inl e, t)"
    by (auto simp: dest_for_def Let_def bindE_eq_Inl split: if_splits)
  with keepsD [OF checks_quiet(1)] have "moves (=) k t" by blast
  then show "moves grows k t" by (rule moves_mono) (simp add: grows_refl)
next
  fix dest t assume dest: "dest_for s d k = (Inr dest, t)"
  from dest_for_Inr [OF dest assms(2)] obtain e where e: "stat_of (wk_fs k) dest = Inl e" "moves (=) k t" by blast
  let ?copy = "bindE (real_dir s) (\<lambda>dir. if dir then shutil_copytree s dest else copy2 False s dest)"
  have "moves grows t (snd (?copy t))"
  proof (rule quiet_then [OF checks_quiet(4)])
    fix dir u assume "moves (=) t u"
    with e assms(1) have u: "tree (wk_fs u)" "stat_of (wk_fs u) dest = Inl e" by (simp_all add: moves_def)
    have "moves grows u (snd (copytree (wk_depth u) s dest u))"
      using copytree_adds [OF u(1)] by (rule moves_mono) (simp add: adds_def grows_def)
    moreover have "moves grows u (snd (copy2 False s dest u))"
      using copy2_adds [OF u] by (rule moves_mono) (auto simp: adds_at_def adds_def grows_def)
    ultimately show "moves grows u (snd ((if dir then shutil_copytree s dest else copy2 False s dest) u))"
      by (simp add: shutil_copytree_def)
  qed (rule grows_refl)
  with e(2) have "moves grows k (snd (?copy t))" by (rule moves_eq_trans)
  then show "moves grows k (snd (thenE (wrap_os_error ?copy) (ret dest) t))"
    by (simp add: thenE_def bind_ret_snd wrap_os_error_snd)
qed

text \<open>What a copy of a plain file leaves at the destination.\<close>

definition has_content :: "ufs \<Rightarrow> string \<Rightarrow> bytes \<Rightarrow> bool" where
  "has_content fs p b \<longleftrightarrow> (\<exists>n. stat_of fs p = Inr n \<and> un_kind n = Plain b)"

lemma stat_of_Inr: "stat_of fs p = Inr n \<longleftrightarrow> (\<exists>q. follow 40 fs p = Inr q \<and> dget fs q = Some n)"
  by (auto simp: stat_of_def lstat_of_def split: sum.splits option.splits)

lemma stat_plain: "dget fs p = Some n \<Longrightarrow> un_kind n = Plain b \<Longrightarrow> stat_of fs p = Inr n"
  using follow_40 [of fs p] by (simp add: stat_of_Inr)

lemma follow_grows:
  "follow i fs p = Inr q \<Longrightarrow> dget fs q = Some n \<Longrightarrow> dget fs \<subseteq>\<^sub>m dget fs' \<Longrightarrow> follow i fs' p = Inr q"
proof (induction i arbitrary: p)
  case (Suc i)
  show ?case
  proof (cases "link_target (dget fs p)")
    case None
    with Suc.prems(1) have "p = q" by simp
    with Suc.prems(2,3) have "dget fs' p = dget fs p" by (auto simp: map_le_def dom_def)
    with None \<open>p = q\<close> show ?thesis by simp
  next
    case (Some l)
    then have "dget fs p \<noteq> None" by (cases "dget fs p") auto
    with Suc.prems(3) have "dget fs' p = dget fs p" by (auto simp: map_le_def dom_def)
    with Some Suc show ?thesis by simp
  qed
qed simp

lemma has_content_grows: "has_content fs p b \<Longrightarrow> dget fs \<subseteq>\<^sub>m dget fs' \<Longrightarrow> has_content fs' p b"
  unfolding has_content_def stat_of_Inr using follow_grows by (metis domIff map_le_def option.distinct(1))

lemma os_stat_Inr: "os_stat p k = (Inr n, t) \<Longrightarrow> stat_of (wk_fs k) p = Inr n"
  by (cases rule: sys_cases [of OsStat p "\<lambda>fs. case stat_of fs p of Inl e \<Rightarrow> Inl e | Inr n \<Rightarrow> Inr (n, fs)" k])
    (auto simp: os_stat_def split: sum.splits)

lemma isdir_plain:
  "dget (wk_fs k) p = Some n \<Longrightarrow> un_kind n = Plain b \<Longrightarrow> path_isdir p k = (Inr d, t) \<Longrightarrow> \<not> d"
  using stat_plain [of "wk_fs k" p n b]
  by (auto simp: path_isdir_def on_os_error_Inr bindE_eq_Inr is_folder_def dest: os_stat_Inr)

lemma islink_plain:
  assumes "dget (wk_fs k) p = Some n" "un_kind n = Plain b" "path_islink p k = (Inr l, t)" shows "\<not> l"
proof -
  have "m = n" if "os_lstat p k = (Inr m, u)" for m u
    using that assms(1)
    by (cases rule: sys_cases [of OsLstat p "\<lambda>fs. case lstat_of fs p of Inl e \<Rightarrow> Inl e | Inr n \<Rightarrow> Inr (n, fs)" k])
      (auto simp: os_lstat_def lstat_of_def split: sum.splits option.splits)
  with assms(2,3) show ?thesis by (auto simp: path_islink_def on_os_error_Inr bindE_eq_Inr)
qed

lemma read_all_plain:
  "dget (wk_fs k) p = Some n \<Longrightarrow> un_kind n = Plain b \<Longrightarrow> read_all p k = (Inr c, t) \<Longrightarrow> c = b"
  using stat_plain [of "wk_fs k" p n b]
  by (cases rule: sys_cases [of OsOpenRead p "\<lambda>fs. case stat_of fs p of Inl e \<Rightarrow> Inl e
     | Inr n \<Rightarrow> (case un_kind n of Plain d \<Rightarrow> Inr (d, fs) | _ \<Rightarrow> Inl IsADirectoryError)" k])
    (auto simp: read_all_def)

lemma has_content_dset:
  assumes "follow 40 fs p = Inr q" "link_target (dget fs q) = None" "un_kind n = Plain b"
  shows "has_content (dset q n fs) p b"
proof -
  have "follow 40 (dset q n fs) p = Inr q" using assms by (intro follow_dset) simp_all
  with assms(3) show ?thesis by (auto simp: has_content_def stat_of_Inr dget_dset)
qed

lemma follow_end: "follow i fs p = Inr q \<Longrightarrow> link_target (dget fs q) = None"
  by (induction i arbitrary: p) (auto split: option.splits)

lemma write_all_content:
  assumes "write_all p b k = (Inr x, t)" shows "has_content (wk_fs t) p b"
proof -
  let ?n = "new_node k (Plain b) 436"
  from assms have "write_to ?n p (wk_fs k) = Inr ((), wk_fs t)"
    by (cases rule: sys_cases [of OsOpenWrite p "write_to ?n p" k]) (auto simp: write_all_def)
  then have "\<exists>q m. follow 40 (wk_fs k) p = Inr q \<and> dset q m (wk_fs k) = wk_fs t \<and> un_kind m = Plain b"
    by (fastforce simp: write_to_def new_node_def split: sum.splits option.splits if_splits)
  then show ?thesis using has_content_dset follow_end by metis
qed

lemma copystat_content:
  assumes "copystat True s p k = (Inr x, t)" "has_content (wk_fs k) p b" shows "has_content (wk_fs t) p b"
proof -
  from assms(2) obtain q n where q: "follow 40 (wk_fs k) p = Inr q" "dget (wk_fs k) q = Some n" "un_kind n = Plain b"
    by (auto simp: has_content_def stat_of_Inr)
  with assms(1) have "\<exists>m. dset q m (wk_fs k) = wk_fs t \<and> un_kind m = Plain b"
    unfolding copystat_def by (elim sys_InrE) (fastforce split: sum.splits)
  with q(1) show ?thesis using has_content_dset follow_end by metis
qed

lemma copy2_content:
  assumes "copy2 False s d k = (Inr x, t)" "dget (wk_fs k) s = Some n" "un_kind n = Plain b" "stat_of (wk_fs k) d = Inl e"
  shows "has_content (wk_fs t) d b"
proof -
  from assms(1) obtain into k1 where into: "path_isdir d k = (Inr into, k1)"
    and r1: "(let dst = if into then path_join d (basename s) else d in bindE (path_islink s) (\<lambda>l.
      thenE (if l \<and> \<not> False then bindE (os_readlink s) (\<lambda>t. os_symlink t dst) else bindE (read_all s) (write_all dst))
        (copystat (False \<or> \<not> l) s dst))) k1 = (Inr x, t)"
    unfolding copy2_def by (rule bindE_InrE)
  from isdir_free [OF assms(4) into] r1 obtain l k2 where l: "path_islink s k1 = (Inr l, k2)"
    and r2: "thenE (if l then bindE (os_readlink s) (\<lambda>t. os_symlink t d) else bindE (read_all s) (write_all d))
        (copystat (\<not> l) s d) k2 = (Inr x, t)"
    by (auto elim: bindE_InrE)
  from keepsD [OF checks_quiet(2) into] assms(2) have k1: "dget (wk_fs k1) s = Some n" by (simp add: moves_def)
  with islink_plain [OF _ assms(3) l] have "\<not> l" by simp
  with r2 obtain c k3 k4 where rd: "read_all s k2 = (Inr c, k3)" and wr: "write_all d c k3 = (Inr (), k4)"
    and cs: "copystat True s d k4 = (Inr x, t)"
    by (auto simp: thenE_def elim!: bindE_InrE)
  from keepsD [OF checks_quiet(3) l] k1 have "dget (wk_fs k2) s = Some n" by (simp add: moves_def)
  from read_all_plain [OF this assms(3) rd] write_all_content [OF wr] copystat_content [OF cs] show ?thesis by blast
qed

lemma copy_item_Inr:
  assumes "copy_item d s k = (Inr m, t)" "stat_works k" "dget (wk_fs k) s = Some n" "un_kind n = Plain b"
  shows "has_content (wk_fs t) (dest_path s d) b"
proof -
  from assms(1) obtain dest k1 where dest: "dest_for s d k = (Inr dest, k1)"
    and r: "thenE (wrap_os_error (bindE (real_dir s) (\<lambda>dir. if dir then shutil_copytree s dest else copy2 False s dest)))
      (ret dest) k1 = (Inr m, t)"
    unfolding copy_item_def by (rule bindE_InrE)
  note dest = dest_for_Inr [OF dest assms(2)]
  then obtain e where e: "stat_of (wk_fs k) dest = Inl e" by blast
  from r obtain dir k2 where dir: "real_dir s k1 = (Inr dir, k2)"
    and c: "(if dir then shutil_copytree s dest else copy2 False s dest) k2 = (Inr (), t)"
    by (auto simp: thenE_def bindE_eq_Inr wrap_os_error_Inr)
  from dest(3) keepsD [OF checks_quiet(4) dir] have fs: "wk_fs k1 = wk_fs k" "wk_fs k2 = wk_fs k" by (simp_all add: moves_def)
  from dir isdir_plain [of k1 s n b] fs(1) assms(3,4) have "\<not> dir"
    by (auto simp: real_dir_def bindE_eq_Inr split: if_splits)
  with c have "copy2 False s dest k2 = (Inr (), t)" by simp
  from copy2_content [OF this] fs(2) assms(3,4) e dest(1) show ?thesis by simp
qed

section \<open>A small file system\<close>

definition demo_node :: "ukind \<Rightarrow> unode" where
  "demo_node kd = \<lparr>un_kind = kd, un_owner = 1000, un_mode = 436, un_mtime = 0\<rparr>"

definition demo_worker :: "unit worker" where
  "demo_worker = \<lparr>wk_uid = 1000, wk_username = ''anna'', wk_jobs = job_runner_init True, wk_acl = (), wk_uploads = [],
     wk_fs = [(''/'', demo_node Folder), (''/a'', demo_node Folder), (''/a/x'', demo_node (Plain ''X'')),
       (''/b'', demo_node Folder), (''/b/l'', demo_node (Symlink ''/a''))],
     wk_log = [], wk_fault = (\<lambda>_ _ _. None), wk_time = (\<lambda>_. 1), wk_cancel = (\<lambda>_. False), wk_depth = 100, wk_progress = []\<rparr>"

definition tree_check :: "ufs \<Rightarrow> bool" where
  "tree_check fs \<longleftrightarrow> (let folder = (\<lambda>a. case dget fs a of None \<Rightarrow> False | Some d \<Rightarrow> is_folder d) in
     distinct (map fst fs) \<and> folder ''/'' \<and>
     list_all (\<lambda>(q, _). (q = ''/'' \<or> plain_name q) \<and> list_all folder (ancestors q)) fs)"

lemma tree_check: assumes "tree_check fs" shows "tree fs"
proof (rule treeI)
  note c = assms [unfolded tree_check_def Let_def]
  show "distinct (map fst fs)" using c by blast
  from c have "case dget fs ''/'' of None \<Rightarrow> False | Some d \<Rightarrow> is_folder d" by blast
  then show "\<exists>r. dget fs ''/'' = Some r \<and> is_folder r" by (cases "dget fs ''/''") simp_all
  fix q n assume "dget fs q = Some n"
  then have "(q, n) \<in> set fs" by (rule map_of_SomeD)
  with c have q: "q = ''/'' \<or> plain_name q"
    "list_all (\<lambda>a. case dget fs a of None \<Rightarrow> False | Some d \<Rightarrow> is_folder d) (ancestors q)"
    by (auto simp: list_all_iff)
  show "q = ''/'' \<or> plain_name q" by (rule q(1))
  fix a assume "a \<in> set (ancestors q)"
  with q(2) have "case dget fs a of None \<Rightarrow> False | Some d \<Rightarrow> is_folder d" by (simp add: list_all_iff)
  then show "\<exists>d. dget fs a = Some d \<and> is_folder d" by (cases "dget fs a") simp_all
qed

lemma demo_tree: "tree (wk_fs demo_worker)"
  by (rule tree_check) code_simp

lemma demo_worker_simps [simp]: "wk_cancel demo_worker = (\<lambda>_. False)" "stat_works demo_worker"
  by (simp_all add: demo_worker_def stat_works_def)

section \<open>Properties\<close>





end
