(* ===== verification/FileData.thy ===== *)
theory FileData
  imports FileSafety
begin

text \<open>
  The bytes of uploads and downloads: \<open>agent/filedata.py\<close>, the handlers of \<open>agent/handlers/uploads.py\<close>, the
  framing of \<open>agent/fileworker.py\<close>, and the two clients of \<open>rpc/client.py\<close> that drive it. A connection is
  a stream of tokens: lines of JSON, each one message, and bytes; the JSON text of a message is not modelled.
\<close>

section \<open>Reading and writing\<close>

text \<open>Writing into a file at an offset: a gap is filled with zeros. A call with no bytes changes nothing.\<close>

definition put_at :: "nat \<Rightarrow> bytes \<Rightarrow> bytes \<Rightarrow> bytes" where
  "put_at off d old = take off (old @ replicate (off - length old) (CHR 0x00)) @ d @ drop (off + length d) old"

definition write_at :: "rat \<Rightarrow> string \<Rightarrow> int \<Rightarrow> bytes \<Rightarrow> ufs \<Rightarrow> os_kind + (int \<times> ufs)" where
  "write_at t p offset d fs = (case follow 40 fs p of Inl e \<Rightarrow> Inl e
     | Inr q \<Rightarrow> (case dget fs q of None \<Rightarrow> Inl (absent fs q)
       | Some n \<Rightarrow> (case un_kind n of
           Plain old \<Rightarrow> if offset < 0 then Inl OtherOSError
             else Inr (offset + int (length d),
               if d = [] then fs else dset q (n\<lparr>un_kind := Plain (put_at (nat offset) d old), un_mtime := t\<rparr>) fs)
         | _ \<Rightarrow> Inl IsADirectoryError)))"

definition write_chunk :: "string \<Rightarrow> int \<Rightarrow> bytes \<Rightarrow> ('a, int) wprog" where
  "write_chunk part offset d k = sys OsPwrite part (write_at (wk_time k (wk_log k)) part offset d) k"

definition download_frame_size :: nat where
  "download_frame_size = 1024 * 1024"

function frames :: "nat \<Rightarrow> bytes \<Rightarrow> bytes list" where
  "frames n d = (if d = [] \<or> n = 0 then [] else take n d # frames n (drop n d))"
  by pat_completeness auto
termination by (relation "measure (\<lambda>(n, d). length d)") auto

declare frames.simps [simp del]

text \<open>The frames of a range: to the end of the file if no length is given, and never beyond it.\<close>

definition read_range :: "string \<Rightarrow> int \<Rightarrow> int option \<Rightarrow> ('a, bytes list) wprog" where
  "read_range p offset len = bindE (os_stat p) (\<lambda>st.
     let remaining = max 0 (case len of None \<Rightarrow> node_size st - offset | Some n \<Rightarrow> n) in
     bindE (read_all p) (\<lambda>d.
     if offset < 0 then raise (OSError OtherOSError p)
     else ret (frames download_frame_size (take (nat remaining) (drop (nat offset) d)))))"

section \<open>The handlers\<close>

definition part_path_for :: "string \<Rightarrow> string \<Rightarrow> string" where
  "part_path_for dest upload_id = path_join (dirname dest) (''.nasos-upload-'' @ upload_id @ ''.part'')"

text \<open>\<open>os.open(path, O_CREAT | O_WRONLY, 0o600)\<close> keeps what is in the file.\<close>

definition touch_to :: "unode \<Rightarrow> string \<Rightarrow> ufs \<Rightarrow> os_kind + (unit \<times> ufs)" where
  "touch_to new p fs = (case follow 40 fs p of Inl e \<Rightarrow> Inl e | Inr q \<Rightarrow> (case dget fs q of
       Some n \<Rightarrow> if is_folder n then Inl IsADirectoryError else Inr ((), fs)
     | None \<Rightarrow> (case new_name fs q of Some e \<Rightarrow> Inl e | None \<Rightarrow> Inr ((), dset q new fs))))"

definition os_create :: "string \<Rightarrow> nat \<Rightarrow> ('a, unit) wprog" where
  "os_create p m k = sys OsOpenWrite p (touch_to (new_node k (Plain []) m) p) k"

definition as_error :: "string \<Rightarrow> ('a, 'b) wprog \<Rightarrow> ('a, 'b) wprog" where
  "as_error c m = on_os_error m (\<lambda>_ t. raise (RpcException c t))"

definition set_upload :: "string \<Rightarrow> upload_handle option \<Rightarrow> ('a, unit) wprog" where
  "set_upload i h = modifyE (\<lambda>k. k\<lparr>wk_uploads := (case h of None \<Rightarrow> dpop i (wk_uploads k)
     | Some x \<Rightarrow> dset i x (wk_uploads k))\<rparr>)"

definition upload_begin :: "string \<Rightarrow> string \<Rightarrow> ('a, rpc_result) wprog" where
  "upload_begin i dest = bindE (path_exists dest) (\<lambda>taken.
     if taken then raise (RpcException ''already_exists'' (dest @ '' already exists''))
     else (let part = part_path_for dest i in
       thenE (as_error ''io_error'' (os_create part 384))
       (thenE (set_upload i (Some \<lparr>uh_dest_path = dest, uh_part_path = part\<rparr>)) (ret OkResult))))"

definition handle_or_raise :: "string \<Rightarrow> ('a, upload_handle) wprog" where
  "handle_or_raise i = bindE (getsE (\<lambda>k. dget (wk_uploads k) i)) (\<lambda>h. case h of
       None \<Rightarrow> raise (RpcException ''not_found'' (''unknown upload_id: '' @ i)) | Some x \<Rightarrow> ret x)"

definition upload_offset :: "string \<Rightarrow> ('a, rpc_result) wprog" where
  "upload_offset i = bindE (handle_or_raise i) (\<lambda>h.
     bindE (as_error ''not_found'' (os_stat (uh_part_path h))) (\<lambda>st. ret (FilesUploadOffsetResult (node_size st))))"

definition upload_complete :: "string \<Rightarrow> ('a, rpc_result) wprog" where
  "upload_complete i = bindE (handle_or_raise i) (\<lambda>h.
     thenE (as_error ''io_error'' (os_rename (uh_part_path h) (uh_dest_path h)))
     (thenE (set_upload i None) (ret OkResult)))"

definition upload_abort :: "string \<Rightarrow> ('a, rpc_result) wprog" where
  "upload_abort i = bindE (getsE (\<lambda>k. dget (wk_uploads k) i)) (\<lambda>h. thenE (set_upload i None)
     (case h of None \<Rightarrow> ret OkResult
      | Some x \<Rightarrow> thenE (tryE (os_remove (uh_part_path x))
          (\<lambda>e. case e of OSError FileNotFoundError _ \<Rightarrow> ret () | _ \<Rightarrow> raise e)) (ret OkResult)))"

fun uploads_handler :: "uploads_params \<Rightarrow> ('a, rpc_result) wprog" where
  "uploads_handler (FilesUploadBeginParams i dest n) = upload_begin i dest"
| "uploads_handler (FilesUploadOffsetParams i) = upload_offset i"
| "uploads_handler (FilesUploadCompleteParams i) = upload_complete i"
| "uploads_handler (FilesUploadAbortParams i) = upload_abort i"

section \<open>The wire\<close>

datatype wire_msg =
    Request rpc_params rpc_context
  | Response "exn + rpc_result"
  | Upload_chunk string int
  | Download_range string int "int option"
  | Unknown_op string
  | Bin nat
  | Ok_reply "int option"
  | Error_reply string
  | Not_json
  | Unrecognised

datatype token = Line wire_msg | Byte char

fun take_bytes :: "nat \<Rightarrow> token list \<Rightarrow> (bytes \<times> token list) option" where
  "take_bytes 0 ts = Some ([], ts)"
| "take_bytes (Suc n) (Byte c # ts) = (case take_bytes n ts of None \<Rightarrow> None | Some (d, rest) \<Rightarrow> Some (c # d, rest))"
| "take_bytes (Suc n) _ = None"

text \<open>\<open>_read_bin_frame\<close>: a connection that ends early raises \<open>OSError\<close> before the header and
  \<open>IncompleteReadError\<close> (no \<open>OSError\<close>) within the bytes.\<close>

definition read_bin_frame :: "token list \<Rightarrow> exn + bytes \<times> token list" where
  "read_bin_frame ts = (case ts of
       [] \<Rightarrow> Inl (OSError OtherOSError ''connection closed before binary frame header'')
     | Line (Bin n) # rest \<Rightarrow> (case take_bytes n rest of
           None \<Rightarrow> Inl (ValueError ''incomplete read'') | Some r \<Rightarrow> Inr r)
     | _ \<Rightarrow> Inl (KeyError ''bin''))"

definition bin_frame :: "bytes \<Rightarrow> token list" where
  "bin_frame d = Line (Bin (length d)) # map Byte d"

definition op_upload_chunk :: "string \<Rightarrow> int \<Rightarrow> token list \<Rightarrow> ('a, token list \<times> token list) wprog" where
  "op_upload_chunk i offset ts = bindE (liftE (read_bin_frame ts)) (\<lambda>(d, rest).
     bindE (getsE (\<lambda>k. dget (wk_uploads k) i)) (\<lambda>h. case h of
         None \<Rightarrow> ret ([Line (Error_reply (''unknown upload_id: '' @ i))], rest)
       | Some x \<Rightarrow> bindE (write_chunk (uh_part_path x) offset d) (\<lambda>n. ret ([Line (Ok_reply (Some n))], rest))))"

definition op_download_range :: "string \<Rightarrow> int \<Rightarrow> int option \<Rightarrow> ('a, token list) wprog" where
  "op_download_range p offset len = bindE (read_range p offset len) (\<lambda>fs.
     ret (concat (map bin_frame fs) @ [Line (Ok_reply None)]))"

text \<open>\<open>_handle_op_line\<close>: what is written back, and what is left to read. After an \<open>OSError\<close> the frame of an
  upload has been read (unless the connection ended).\<close>

definition after_frame :: "token list \<Rightarrow> token list" where
  "after_frame ts = (case read_bin_frame ts of Inr (_, rest) \<Rightarrow> rest | Inl _ \<Rightarrow> ts)"

definition handle_op_line :: "wire_msg \<Rightarrow> token list \<Rightarrow> ('a, token list \<times> token list) wprog" where
  "handle_op_line op ts = (case op of
       Upload_chunk i offset \<Rightarrow> on_os_error (op_upload_chunk i offset ts)
         (\<lambda>_ t. ret ([Line (Error_reply t)], after_frame ts))
     | Download_range p offset len \<Rightarrow> on_os_error (bindE (op_download_range p offset len) (\<lambda>out. ret (out, ts)))
         (\<lambda>_ t. ret ([Line (Error_reply t)], ts))
     | Unknown_op x \<Rightarrow> ret ([Line (Error_reply (''unknown op: '' @ x))], ts)
     | _ \<Rightarrow> ret ([], ts))"

text \<open>\<open>_handle_connection\<close>: only root and the web process are served; one line after the other. An exception
  closes the connection; \<open>n\<close> lines are enough for \<open>n\<close> tokens.\<close>

type_synonym 'a worker_dispatch = "rpc_context \<Rightarrow> rpc_params \<Rightarrow> 'a worker \<Rightarrow> (exn + rpc_result) \<times> 'a worker"

fun serve_lines :: "'a worker_dispatch \<Rightarrow> nat \<Rightarrow> token list \<Rightarrow> token list \<Rightarrow> ('a, token list) wprog" where
  "serve_lines dispatch 0 ts out = ret out"
| "serve_lines dispatch (Suc n) [] out = ret out"
| "serve_lines dispatch (Suc n) (Byte c # ts) out = serve_lines dispatch n ts out"
| "serve_lines dispatch (Suc n) (Line m # ts) out = (case m of
       Request p ctx \<Rightarrow> (\<lambda>k. let (r, k') = dispatch ctx p k in serve_lines dispatch n ts (out @ [Line (Response r)]) k')
     | Upload_chunk _ _ \<Rightarrow> bindE (handle_op_line m ts) (\<lambda>(o', rest). serve_lines dispatch n rest (out @ o'))
     | Download_range _ _ _ \<Rightarrow> bindE (handle_op_line m ts) (\<lambda>(o', rest). serve_lines dispatch n rest (out @ o'))
     | Unknown_op _ \<Rightarrow> bindE (handle_op_line m ts) (\<lambda>(o', rest). serve_lines dispatch n rest (out @ o'))
     | _ \<Rightarrow> serve_lines dispatch n ts out)"

definition handle_connection :: "'a worker_dispatch \<Rightarrow> int \<Rightarrow> int \<Rightarrow> token list \<Rightarrow> ('a, token list) wprog" where
  "handle_connection dispatch trusted_uid peer_uid ts =
     (if peer_uid \<noteq> 0 \<and> peer_uid \<noteq> trusted_uid then ret []
      else serve_lines dispatch (length ts) ts [])"

section \<open>The clients\<close>

text \<open>\<open>SocketFileDataClient\<close> over a connection of its own; \<open>conn\<close> is the worker at the other end. What the
  worker wrote before an exception is lost with it here: the client sees the connection closed.\<close>

definition exchange :: "(token list \<Rightarrow> ('a, token list) wprog) \<Rightarrow> token list \<Rightarrow> ('a, token list) wprog" where
  "exchange conn ts = tryE (conn ts) (\<lambda>_. ret [])"

definition socket_write_chunk :: "(token list \<Rightarrow> ('a, token list) wprog) \<Rightarrow> string \<Rightarrow> int \<Rightarrow> bytes \<Rightarrow> ('a, int) wprog" where
  "socket_write_chunk conn i offset d = bindE (exchange conn (Line (Upload_chunk i offset) # bin_frame d)) (\<lambda>out.
     case out of
       Line (Ok_reply (Some n)) # _ \<Rightarrow> ret n
     | Line (Error_reply t) # _ \<Rightarrow> raise (RpcCallError ''io_error'' t)
     | _ \<Rightarrow> raise (ValueError ''JSONDecodeError''))"

fun collect_frames :: "nat \<Rightarrow> token list \<Rightarrow> bytes list \<Rightarrow> exn + bytes list" where
  "collect_frames 0 ts acc = Inl (RpcCallError ''io_error'' ''connection closed mid-download'')"
| "collect_frames (Suc n) [] acc = Inl (RpcCallError ''io_error'' ''connection closed mid-download'')"
| "collect_frames (Suc n) (Line (Bin b) # ts) acc = (case take_bytes b ts of
       None \<Rightarrow> Inl (ValueError ''incomplete read'') | Some (d, rest) \<Rightarrow> collect_frames n rest (acc @ [d]))"
| "collect_frames (Suc n) (Line (Ok_reply _) # ts) acc = Inr acc"
| "collect_frames (Suc n) (Line (Error_reply t) # ts) acc = Inl (RpcCallError ''io_error'' t)"
| "collect_frames (Suc n) _ acc = Inl (ValueError ''JSONDecodeError'')"

definition socket_read_range :: "(token list \<Rightarrow> ('a, token list) wprog) \<Rightarrow> string \<Rightarrow> int \<Rightarrow> int option
    \<Rightarrow> ('a, bytes list) wprog" where
  "socket_read_range conn p offset len = bindE (exchange conn [Line (Download_range p offset len)]) (\<lambda>out.
     liftE (collect_frames (length out + 1) out []))"

text \<open>\<open>DirectFileDataClient\<close>.\<close>

definition direct_write_chunk :: "string \<Rightarrow> int \<Rightarrow> bytes \<Rightarrow> ('a, int) wprog" where
  "direct_write_chunk i offset d = bindE (getsE (\<lambda>k. dget (wk_uploads k) i)) (\<lambda>h. case h of
       None \<Rightarrow> raise (RpcCallError ''not_found'' (''unknown upload_id: '' @ i))
     | Some x \<Rightarrow> write_chunk (uh_part_path x) offset d)"

definition direct_read_range :: "string \<Rightarrow> int \<Rightarrow> int option \<Rightarrow> ('a, bytes list) wprog" where
  "direct_read_range p offset len = read_range p offset len"

section \<open>Facts\<close>

lemma concat_frames: "0 < n \<Longrightarrow> concat (frames n d) = d"
proof (induction n d rule: frames.induct)
  case (1 n d)
  then show ?case by (subst frames.simps) (auto simp del: frames.simps)
qed

lemma frames_bounded: "f \<in> set (frames n d) \<Longrightarrow> f \<noteq> [] \<and> length f \<le> n"
proof (induction n d rule: frames.induct)
  case (1 n d)
  show ?case
  proof (cases "d = [] \<or> n = 0")
    case True
    with "1.prems" show ?thesis by (subst (asm) frames.simps) simp
  next
    case False
    with "1.prems" have "f = take n d \<or> f \<in> set (frames n (drop n d))" by (subst (asm) frames.simps) simp
    with False "1.IH" show ?thesis by auto
  qed
qed

lemma take_bytes_append: "take_bytes (length d) (map Byte d @ ts) = Some (d, ts)"
  by (induction d) simp_all

lemma read_bin_frame [simp]: "read_bin_frame (bin_frame d @ ts) = Inr (d, ts)"
  by (simp add: read_bin_frame_def bin_frame_def take_bytes_append)

lemma read_bin_frame_last [simp]: "read_bin_frame (bin_frame d) = Inr (d, [])"
  using read_bin_frame [of d "[]"] by simp

lemma collect_frames_all:
  "length fs < n \<Longrightarrow> collect_frames n (concat (map bin_frame fs) @ Line (Ok_reply x) # ts) acc = Inr (acc @ fs)"
proof (induction fs arbitrary: n acc)
  case Nil
  then show ?case by (cases n) simp_all
next
  case (Cons f fs)
  then obtain m where "n = Suc m" by (cases n) simp_all
  with Cons show ?case by (simp add: bin_frame_def take_bytes_append)
qed

text \<open>How an error of the worker comes out of the socket client.\<close>

definition through_socket :: "exn + 'b \<Rightarrow> exn + 'b" where
  "through_socket r = (case r of Inr x \<Rightarrow> Inr x
     | Inl e \<Rightarrow> (case e of RpcCallError _ t \<Rightarrow> Inl (RpcCallError ''io_error'' t)
         | OSError _ t \<Rightarrow> Inl (RpcCallError ''io_error'' t) | _ \<Rightarrow> Inl e))"

lemma through_socket_simps [simp]:
  "through_socket (Inr x) = Inr x" "through_socket (Inl (RpcCallError c t)) = Inl (RpcCallError ''io_error'' t)"
  "through_socket (Inl (OSError c' t)) = Inl (RpcCallError ''io_error'' t)"
  by (simp_all add: through_socket_def)

lemma on_os_error_simps:
  "m k = (Inr x, t) \<Longrightarrow> on_os_error m h k = (Inr x, t)"
  "m k = (Inl (OSError c p), t) \<Longrightarrow> on_os_error m h k = h c p t"
  by (simp_all add: on_os_error_def tryE_def)

lemma serve_nothing: "serve_lines dispatch n [] out k = (Inr out, k)"
  by (cases n) simp_all

lemma read_range_cases:
  obtains (ok) fs t where "read_range p offset len k = (Inr fs, t)"
  | (failed) c q t where "read_range p offset len k = (Inl (OSError c q), t)"
proof (cases rule: sys_cases [of OsStat p "\<lambda>fs. case stat_of fs p of Inl e \<Rightarrow> Inl e | Inr n \<Rightarrow> Inr (n, fs)" k])
  case (fails e l)
  then show thesis by (intro failed) (simp add: read_range_def os_stat_def bindE_def)
next
  case (works st fs l)
  let ?k = "k\<lparr>wk_log := l, wk_fs := fs\<rparr>"
  let ?f = "\<lambda>fs. case stat_of fs p of Inl e \<Rightarrow> Inl e
     | Inr n \<Rightarrow> (case un_kind n of Plain d \<Rightarrow> Inr (d, fs) | _ \<Rightarrow> Inl IsADirectoryError)"
  show thesis
  proof (cases rule: sys_cases [of OsOpenRead p ?f ?k])
    case (fails e l')
    with works show thesis by (intro failed) (simp add: read_range_def os_stat_def read_all_def bindE_def Let_def)
  next
    case (works d fs' l')
    note 2 = \<open>sys OsStat p _ k = _\<close> works(2)
    show thesis
    proof (cases "offset < 0")
      case True
      with 2 show thesis by (intro failed) (simp add: read_range_def os_stat_def read_all_def bindE_def Let_def)
    next
      case False
      with 2 show thesis by (intro ok) (simp add: read_range_def os_stat_def read_all_def bindE_def Let_def)
    qed
  qed
qed

text \<open>A worker with an upload under way.\<close>

definition demo_uploading :: "unit worker" where
  "demo_uploading = demo_worker\<lparr>wk_uploads := [(''u'', \<lparr>uh_dest_path = ''/a/new'', uh_part_path = ''/a/.nasos-upload-u.part''\<rparr>)],
     wk_fs := wk_fs demo_worker @ [(''/a/.nasos-upload-u.part'', demo_node (Plain ''he''))]\<rparr>"

section \<open>Properties\<close>

text \<open>C19: The two data clients agree: driving the worker over its socket does to the files what the in-process
  client does and gives the same answer, with every failure reported as \<open>io_error\<close>. The count before the
  bytes makes the framing unambiguous for any content.\<close>

theorem socket_client_is_direct_client:
  assumes "peer = 0 \<or> peer = trusted"
  shows "socket_write_chunk (handle_connection dispatch trusted peer) i offset d k =
      (through_socket (fst (direct_write_chunk i offset d k)), snd (direct_write_chunk i offset d k)) \<and>
    socket_read_range (handle_connection dispatch trusted peer) p offset len k =
      (through_socket (fst (direct_read_range p offset len k)), snd (direct_read_range p offset len k))"
proof
  let ?conn = "handle_connection dispatch trusted peer"
  have conn: "?conn ts = serve_lines dispatch (length ts) ts []" for ts using assms by (auto simp: handle_connection_def)
  show "socket_write_chunk ?conn i offset d k =
      (through_socket (fst (direct_write_chunk i offset d k)), snd (direct_write_chunk i offset d k))"
  proof (cases "dget (wk_uploads k) i")
    case None
    have "op_upload_chunk i offset (bin_frame d) k = (Inr ([Line (Error_reply (''unknown upload_id: '' @ i))], []), k)"
      by (simp add: op_upload_chunk_def bindE_def None)
    then show ?thesis
      by (simp add: socket_write_chunk_def exchange_def conn handle_op_line_def direct_write_chunk_def None
        on_os_error_simps(1) bindE_def tryE_def serve_nothing)
  next
    case (Some x)
    show ?thesis
    proof (cases rule: sys_cases [of OsPwrite "uh_part_path x" "write_at (wk_time k (wk_log k)) (uh_part_path x) offset d" k])
      case (fails e l)
      then have "op_upload_chunk i offset (bin_frame d) k = (Inl (OSError e (uh_part_path x)), k\<lparr>wk_log := l\<rparr>)"
        by (simp add: op_upload_chunk_def bindE_def Some write_chunk_def)
      with fails show ?thesis
        by (simp add: socket_write_chunk_def exchange_def conn handle_op_line_def direct_write_chunk_def Some
          on_os_error_simps(2) bindE_def tryE_def serve_nothing after_frame_def write_chunk_def)
    next
      case (works n fs l)
      then have "op_upload_chunk i offset (bin_frame d) k =
          (Inr ([Line (Ok_reply (Some n))], []), k\<lparr>wk_log := l, wk_fs := fs\<rparr>)"
        by (simp add: op_upload_chunk_def bindE_def Some write_chunk_def)
      with works show ?thesis
        by (simp add: socket_write_chunk_def exchange_def conn handle_op_line_def direct_write_chunk_def Some
          on_os_error_simps(1) bindE_def tryE_def serve_nothing write_chunk_def)
    qed
  qed
  show "socket_read_range ?conn p offset len k =
      (through_socket (fst (direct_read_range p offset len k)), snd (direct_read_range p offset len k))"
  proof (cases rule: read_range_cases [of p offset len k])
    case (ok fs t)
    let ?out = "concat (map bin_frame fs) @ [Line (Ok_reply None)]"
    have "length fs \<le> length (concat (map bin_frame fs))" by (induction fs) (simp_all add: bin_frame_def)
    then have "collect_frames (length ?out + 1) ?out [] = Inr ([] @ fs)" by (intro collect_frames_all) simp
    with ok show ?thesis
      by (simp add: socket_read_range_def exchange_def conn handle_op_line_def direct_read_range_def op_download_range_def
        on_os_error_simps(1) bindE_def tryE_def serve_nothing)
  next
    case (failed c q t)
    then show ?thesis
      by (simp add: socket_read_range_def exchange_def conn handle_op_line_def direct_read_range_def op_download_range_def
        on_os_error_simps(2) bindE_def tryE_def serve_nothing)
  qed
qed

theorem socket_client_is_direct_client_witness:
  "fst (socket_write_chunk (handle_connection (\<lambda>_ _ k. (Inr OkResult, k)) 990 990) ''u'' 2 ''llo'' demo_uploading) = Inr 5 \<and>
   fst (socket_read_range (handle_connection (\<lambda>_ _ k. (Inr OkResult, k)) 990 990) ''/none'' 0 None demo_uploading) =
     Inl (RpcCallError ''io_error'' ''/none'')"
proof -
  have "fst (direct_write_chunk ''u'' 2 ''llo'' demo_uploading) = Inr 5"
    by (simp add: direct_write_chunk_def write_chunk_def bindE_def demo_uploading_def demo_worker_def sys_def
      write_at_def follow_40 demo_node_def)
  moreover have "stat_of (wk_fs demo_uploading) ''/none'' = Inl FileNotFoundError" by code_simp
  then have "fst (direct_read_range ''/none'' 0 None demo_uploading) = Inl (OSError FileNotFoundError ''/none'')"
    by (simp add: direct_read_range_def read_range_def bindE_def os_stat_def sys_def demo_uploading_def demo_worker_def)
  ultimately show ?thesis using socket_client_is_direct_client [where peer = 990 and trusted = 990
    and dispatch = "\<lambda>_ _ k. (Inr OkResult, k)" and k = demo_uploading] by simp
qed

end
