(* ===== verification/UploadApi.thy ===== *)
theory UploadApi
  imports ApiSafety Dispatch FileData
begin

text \<open>
  Uploads and the file station from the web side: \<open>services/uploads.py\<close> and the routes of \<open>api/uploads.py\<close>
  and \<open>api/files.py\<close> over a \<open>FileWorkerClient\<close>. The state of the agent is here the worker of the user.
  Parameters: the free space of a file system, \<open>mimetypes.guess_type\<close>, and the random id of a request. Base 64
  and UTF-8 are modelled as the header parser uses them.
\<close>

section \<open>The client\<close>

record 'w fw_client =
  fw_metadata :: "'w agent"
  fw_write_chunk :: "string \<Rightarrow> int \<Rightarrow> bytes \<Rightarrow> ('w, int) prog"
  fw_read_range :: "string \<Rightarrow> int \<Rightarrow> int option \<Rightarrow> ('w, bytes list) prog"

text \<open>The handlers of a worker, and the client of the development server: the in-process transport and the
  direct data client.\<close>

fun worker_handler :: "'a acl \<Rightarrow> (int \<Rightarrow> string option) \<Rightarrow> string \<Rightarrow> rpc_context \<Rightarrow> rpc_params \<Rightarrow> ('a, rpc_result) wprog" where
  "worker_handler acl getpwuid jid ctx (Files p) = files_handler acl getpwuid jid ctx p"
| "worker_handler acl getpwuid jid ctx (Uploads p) = uploads_handler p"
| "worker_handler acl getpwuid jid ctx FilesJobListParams = worker_list_jobs"
| "worker_handler acl getpwuid jid ctx p = raise (RpcException ''not_implemented'' (''no handler for: '' @ method_of p))"

definition worker_agent :: "'a acl \<Rightarrow> (int \<Rightarrow> string option) \<Rightarrow> string \<Rightarrow> 'a worker agent" where
  "worker_agent acl getpwuid jid ctx p k = (let (r, t) = worker_handler acl getpwuid jid ctx p k in (caller_view r, t))"

definition dev_client :: "'a acl \<Rightarrow> (int \<Rightarrow> string option) \<Rightarrow> string \<Rightarrow> 'a worker fw_client" where
  "dev_client acl getpwuid jid = \<lparr>fw_metadata = worker_agent acl getpwuid jid, fw_write_chunk = direct_write_chunk,
     fw_read_range = direct_read_range\<rparr>"

definition on_worker :: "('w, 'b) prog \<Rightarrow> ('w, 'b) web_prog" where
  "on_worker m w = (let (r, a) = m (wb_agent w) in (r, w\<lparr>wb_agent := a\<rparr>))"

section \<open>The service\<close>

definition volume_for :: "string \<Rightarrow> volume_row list \<Rightarrow> volume_row option" where
  "volume_for p vs = find_row (\<lambda>v. p = vo_mountpoint v \<or> startswith p (without_slashes (vo_mountpoint v) @ ''/'')) vs"

definition check_free_space :: "(string \<Rightarrow> os_kind + int) \<Rightarrow> string \<Rightarrow> int \<Rightarrow> ('w, unit) web_prog" where
  "check_free_space disk_free dest_dir n = bindE (getsE (\<lambda>w. volume_for dest_dir (wb_volumes w))) (\<lambda>v. case v of
       None \<Rightarrow> ret ()
     | Some x \<Rightarrow> (case disk_free (vo_mountpoint x) of
         Inl k \<Rightarrow> raise (OSError k (vo_mountpoint x))
       | Inr free \<Rightarrow> whenE (free < n) (raise (ServiceError ''insufficient_space''
           (int_str n @ '' bytes requested, '' @ int_str free @ '' free'')))))"

definition add_upload :: "upload_row \<Rightarrow> ('w, unit) web_prog" where
  "add_upload u w = (if up_id u \<in> up_id ` set (wb_uploads w) then (Inl (IntegrityError ''uploads''), w)
     else (Inr (), w\<lparr>wb_uploads := wb_uploads w @ [u]\<rparr>))"

definition begin_upload :: "(string \<Rightarrow> os_kind + int) \<Rightarrow> 'w fw_client \<Rightarrow> rpc_context \<Rightarrow> string \<Rightarrow> int \<Rightarrow> string \<Rightarrow> string
    \<Rightarrow> int \<Rightarrow> ('w, upload_row) web_prog" where
  "begin_upload disk_free client ctx fresh uid dest_dir filename n =
     thenE (check_free_space disk_free dest_dir n)
     (let dest = path_join dest_dir filename in
      thenE (service_error (agent_call (fw_metadata client) ctx (Uploads (FilesUploadBeginParams fresh dest n))))
      (bindE (getsE wb_now) (\<lambda>now.
       let u = \<lparr>up_id = fresh, up_uid = uid, up_dest_path = dest, up_size = n, up_offset = 0,
          up_status = ''uploading'', up_updated_at = now\<rparr> in
       thenE (add_upload u) (ret u))))"

definition get_upload :: "string \<Rightarrow> ('w, upload_row option) web_prog" where
  "get_upload i = getsE (\<lambda>w. find_row (\<lambda>u. up_id u = i) (wb_uploads w))"

definition put_offset :: "string \<Rightarrow> int \<Rightarrow> ('w, unit) web_prog" where
  "put_offset i off = modifyE (\<lambda>w. w\<lparr>wb_uploads := update_rows (\<lambda>u. up_id u = i \<and> up_offset u \<noteq> off)
     (\<lambda>u. u\<lparr>up_offset := off, up_updated_at := wb_now w\<rparr>) (wb_uploads w)\<rparr>)"

definition drop_upload :: "string \<Rightarrow> ('w, unit) web_prog" where
  "drop_upload i = modifyE (\<lambda>w. w\<lparr>wb_uploads := delete_rows (\<lambda>u. up_id u = i) (wb_uploads w)\<rparr>)"

definition svc_write_chunk :: "'w fw_client \<Rightarrow> string \<Rightarrow> int \<Rightarrow> bytes \<Rightarrow> ('w, int) web_prog" where
  "svc_write_chunk client i offset d =
     bindE (service_error (on_worker (fw_write_chunk client i offset d))) (\<lambda>off. thenE (put_offset i off) (ret off))"

definition current_offset :: "'w fw_client \<Rightarrow> rpc_context \<Rightarrow> string \<Rightarrow> ('w, int) web_prog" where
  "current_offset client ctx i =
     bindE (service_error (agent_call (fw_metadata client) ctx (Uploads (FilesUploadOffsetParams i)))) (\<lambda>r. case r of
         FilesUploadOffsetResult n \<Rightarrow> ret n | _ \<Rightarrow> raise (ValidationError ''FilesUploadOffsetResult''))"

definition complete_upload :: "'w fw_client \<Rightarrow> rpc_context \<Rightarrow> string \<Rightarrow> ('w, unit) web_prog" where
  "complete_upload client ctx i =
     thenE (service_error (agent_call (fw_metadata client) ctx (Uploads (FilesUploadCompleteParams i)))) (drop_upload i)"

definition abort_upload :: "'w fw_client \<Rightarrow> rpc_context \<Rightarrow> string \<Rightarrow> ('w, unit) web_prog" where
  "abort_upload client ctx i =
     thenE (service_error (agent_call (fw_metadata client) ctx (Uploads (FilesUploadAbortParams i)))) (drop_upload i)"

section \<open>The metadata header\<close>

definition b64_chars :: string where
  "b64_chars = ''ABCDEFGHIJKLMNOPQRSTUVWXYZabcdefghijklmnopqrstuvwxyz0123456789+/''"

fun index_in :: "string \<Rightarrow> char \<Rightarrow> nat option" where
  "index_in [] c = None"
| "index_in (d # s) c = (if d = c then Some 0 else map_option Suc (index_in s c))"

text \<open>\<open>base64.b64decode\<close> without validation: characters outside the alphabet are skipped, a full padding ends
  the text; \<open>q\<close> characters of a group are read, \<open>left\<close> are the bits not used yet.\<close>

fun b64_decode :: "nat \<Rightarrow> nat \<Rightarrow> nat \<Rightarrow> string \<Rightarrow> bytes option" where
  "b64_decode q pads left [] = (if q = 0 then Some [] else None)"
| "b64_decode q pads left (c # s) =
     (if c = CHR ''='' then (if 2 \<le> q \<and> 4 \<le> q + pads + 1 then Some []
        else b64_decode q (if 2 \<le> q then pads + 1 else pads) left s)
      else (case index_in b64_chars c of
        None \<Rightarrow> b64_decode q pads left s
      | Some v \<Rightarrow>
          if q = 0 then b64_decode 1 0 v s
          else if q = 1 then map_option (Cons (char_of (left * 4 + v div 16))) (b64_decode 2 0 (v mod 16) s)
          else if q = 2 then map_option (Cons (char_of (left * 16 + v div 4))) (b64_decode 3 0 (v mod 4) s)
          else map_option (Cons (char_of (left * 64 + v))) (b64_decode 0 0 0 s)))"

text \<open>\<open>bytes.decode("utf-8")\<close> into code points below 256; any other text counts as undecodable here.\<close>

fun utf8_decode :: "bytes \<Rightarrow> string option" where
  "utf8_decode [] = Some []"
| "utf8_decode [c] = (if code c < 128 then Some [c] else None)"
| "utf8_decode (c # d # s) =
     (if code c < 128 then map_option (Cons c) (utf8_decode (d # s))
      else if (code c = 194 \<or> code c = 195) \<and> 128 \<le> code d \<and> code d < 192
      then map_option (Cons (char_of ((code c - 192) * 64 + (code d - 128)))) (utf8_decode s)
      else None)"

definition decode_value :: "string \<Rightarrow> string option" where
  "decode_value s = (case b64_decode 0 0 0 s of None \<Rightarrow> None | Some d \<Rightarrow> utf8_decode d)"

definition metadata_pair :: "(string, string) dict \<Rightarrow> string \<Rightarrow> (string, string) dict" where
  "metadata_pair out pr = (let (key, b64) = partition_on (CHR '' '') (strip pr) in
     if strip pr = [] then out else (case decode_value b64 of None \<Rightarrow> out | Some v \<Rightarrow> dset key v out))"

definition parse_metadata :: "string option \<Rightarrow> (string, string) dict" where
  "parse_metadata header = (case header of None \<Rightarrow> []
     | Some h \<Rightarrow> if h = [] then [] else foldl metadata_pair [] (split_on (CHR '','') h))"

section \<open>The routes of uploads\<close>

record up_request =
  ur_length :: "string option"
  ur_metadata :: "string option"
  ur_content_type :: "string option"
  ur_offset :: "string option"
  ur_stream :: "bytes list"
  ur_cut :: bool

record up_response =
  rs_status :: nat
  rs_location :: "string option"
  rs_offset :: "int option"
  rs_length :: "int option"

definition plain_response :: "nat \<Rightarrow> up_response" where
  "plain_response st = \<lparr>rs_status = st, rs_location = None, rs_offset = None, rs_length = None\<rparr>"

definition tus_options :: up_response where
  "tus_options = plain_response 204"

definition create_upload :: "'a env \<Rightarrow> client \<Rightarrow> (string \<Rightarrow> os_kind + int) \<Rightarrow> 'w fw_client \<Rightarrow> up_request
    \<Rightarrow> ('w, up_response) web_prog" where
  "create_upload ev c disk_free client rq =
     bindE (current_session (ev_hash ev) (ev_settings ev) (cl_cookie c)) (\<lambda>s.
     case ur_length rq of None \<Rightarrow> raise (HTTPException 400 ''Upload-Length header required'')
     | Some l \<Rightarrow> (case parse_int l of None \<Rightarrow> raise (HTTPException 400 ''invalid Upload-Length'')
       | Some n \<Rightarrow> (let md = parse_metadata (ur_metadata rq) in
           case (dget md ''filename'', dget md ''dir'') of
             (Some (f # fs), Some (d # ds)) \<Rightarrow>
               bindE (bad_request (begin_upload disk_free client (session_ctx s) (ev_fresh ev) (se_uid s) (d # ds) (f # fs) n))
                 (\<lambda>u. ret ((plain_response 201)\<lparr>rs_location := Some (''/api/v1/uploads/'' @ up_id u)\<rparr>))
           | _ \<Rightarrow> raise (HTTPException 400 ''Upload-Metadata must include filename and dir''))))"

text \<open>The upload of the session, or 404.\<close>

definition own_upload :: "session_row \<Rightarrow> string \<Rightarrow> ('w, upload_row) web_prog" where
  "own_upload s i = bindE (get_upload i) (\<lambda>u. case u of
       None \<Rightarrow> raise (HTTPException 404 ''no such upload'')
     | Some x \<Rightarrow> if up_uid x \<noteq> se_uid s then raise (HTTPException 404 ''no such upload'') else ret x)"

definition head_upload :: "'a env \<Rightarrow> client \<Rightarrow> 'w fw_client \<Rightarrow> string \<Rightarrow> ('w, up_response) web_prog" where
  "head_upload ev c client i = bindE (current_session (ev_hash ev) (ev_settings ev) (cl_cookie c)) (\<lambda>s.
     bindE (own_upload s i) (\<lambda>u. bindE (current_offset client (session_ctx s) i) (\<lambda>off.
     ret ((plain_response 200)\<lparr>rs_offset := Some off, rs_length := Some (up_size u)\<rparr>))))"

definition patch_buffer_size :: nat where
  "patch_buffer_size = 1024 * 1024"

text \<open>The full chunks of the buffer, and what is left of it.\<close>

function full_chunks :: "nat \<Rightarrow> bytes \<Rightarrow> bytes list \<times> bytes" where
  "full_chunks n buf = (if n = 0 \<or> length buf < n then ([], buf)
     else (let (cs, rest) = full_chunks n (drop n buf) in (take n buf # cs, rest)))"
  by pat_completeness auto
termination by (relation "measure (\<lambda>(n, buf). length buf)") auto

declare full_chunks.simps [simp del]

fun write_chunks :: "'w fw_client \<Rightarrow> string \<Rightarrow> int \<Rightarrow> bytes list \<Rightarrow> ('w, int) web_prog" where
  "write_chunks client i off [] = ret off"
| "write_chunks client i off (d # ds) = bindE (svc_write_chunk client i off d) (\<lambda>o'. write_chunks client i o' ds)"

fun write_stream :: "'w fw_client \<Rightarrow> string \<Rightarrow> int \<Rightarrow> bytes \<Rightarrow> bytes list \<Rightarrow> ('w, int \<times> bytes) web_prog" where
  "write_stream client i off buf [] = ret (off, buf)"
| "write_stream client i off buf (p # ps) = (let (cs, rest) = full_chunks patch_buffer_size (buf @ p) in
     bindE (write_chunks client i off cs) (\<lambda>o'. write_stream client i o' rest ps))"

text \<open>A client that goes away raises \<open>ClientDisconnect\<close> out of the stream; what is in the buffer is lost.\<close>

definition patch_body :: "'w fw_client \<Rightarrow> rpc_context \<Rightarrow> upload_row \<Rightarrow> int \<Rightarrow> up_request \<Rightarrow> ('w, int) web_prog" where
  "patch_body client ctx u offset rq =
     bindE (write_stream client (up_id u) offset [] (ur_stream rq)) (\<lambda>(off, buf).
     if ur_cut rq then raise (RuntimeError ''ClientDisconnect'')
     else bindE (if buf = [] then ret off else svc_write_chunk client (up_id u) off buf) (\<lambda>off'.
     thenE (whenE (up_size u \<le> off') (complete_upload client ctx (up_id u))) (ret off')))"

definition patch_upload :: "'a env \<Rightarrow> client \<Rightarrow> 'w fw_client \<Rightarrow> string \<Rightarrow> up_request \<Rightarrow> ('w, up_response) web_prog" where
  "patch_upload ev c client i rq = bindE (current_session (ev_hash ev) (ev_settings ev) (cl_cookie c)) (\<lambda>s.
     bindE (own_upload s i) (\<lambda>u.
     if ur_content_type rq \<noteq> Some ''application/offset+octet-stream''
     then raise (HTTPException 415 ''expected application/offset+octet-stream'')
     else case ur_offset rq of None \<Rightarrow> raise (HTTPException 400 ''Upload-Offset header required'')
     | Some l \<Rightarrow> (case parse_int l of None \<Rightarrow> raise (ValueError l)
       | Some offset \<Rightarrow> bindE (current_offset client (session_ctx s) i) (\<lambda>server.
           if offset \<noteq> server then ret (plain_response 409)
           else bindE (bad_request (patch_body client (session_ctx s) u offset rq)) (\<lambda>off.
             ret ((plain_response 204)\<lparr>rs_offset := Some off\<rparr>))))))"

definition delete_upload :: "'a env \<Rightarrow> client \<Rightarrow> 'w fw_client \<Rightarrow> string \<Rightarrow> ('w, up_response) web_prog" where
  "delete_upload ev c client i = bindE (current_session (ev_hash ev) (ev_settings ev) (cl_cookie c)) (\<lambda>s.
     bindE (own_upload s i) (\<lambda>u.
     thenE (bad_request (abort_upload client (session_ctx s) i)) (ret (plain_response 204))))"

section \<open>The routes of the file station\<close>

definition error_status :: "string \<Rightarrow> nat" where
  "error_status c = (if c = ''not_found'' then 404 else if c = ''already_exists'' then 409
     else if c = ''permission_denied'' then 403 else 400)"

definition files_call :: "'w fw_client \<Rightarrow> rpc_context \<Rightarrow> rpc_params \<Rightarrow> ('w, rpc_result) web_prog" where
  "files_call client ctx p = tryE (agent_call (fw_metadata client) ctx p) (\<lambda>e. case e of
       RpcCallError c t \<Rightarrow> raise (HTTPException (error_status c) t) | _ \<Rightarrow> raise e)"

definition list_roots :: "'a env \<Rightarrow> client \<Rightarrow> ('w, (int \<times> string \<times> string) list) web_prog" where
  "list_roots ev c = bindE (current_session (ev_hash ev) (ev_settings ev) (cl_cookie c)) (\<lambda>s.
     bindE list_shares (\<lambda>hs. ret (map (\<lambda>h. (sh_id h, sh_name h, sh_path h)) hs)))"

text \<open>A route that hands its parameters on.\<close>

definition files_route :: "'a env \<Rightarrow> client \<Rightarrow> 'w fw_client \<Rightarrow> rpc_params \<Rightarrow> ('w, rpc_result) web_prog" where
  "files_route ev c client p = bindE (current_session (ev_hash ev) (ev_settings ev) (cl_cookie c)) (\<lambda>s.
     files_call client (session_ctx s) p)"

definition files_jobs_route :: "'a env \<Rightarrow> client \<Rightarrow> 'w fw_client \<Rightarrow> ('w, rpc_result) web_prog" where
  "files_jobs_route ev c client = files_route ev c client FilesJobListParams"

definition list_dir_route :: "'a env \<Rightarrow> client \<Rightarrow> 'w fw_client \<Rightarrow> string \<Rightarrow> ('w, rpc_result) web_prog" where
  "list_dir_route ev c client p = files_route ev c client (Files (FilesListParams p))"

definition search_route :: "'a env \<Rightarrow> client \<Rightarrow> 'w fw_client \<Rightarrow> string \<Rightarrow> string \<Rightarrow> ('w, rpc_result) web_prog" where
  "search_route ev c client p query = files_route ev c client (Files (FilesSearchParams p query))"

definition mkdir_route :: "'a env \<Rightarrow> client \<Rightarrow> 'w fw_client \<Rightarrow> string \<Rightarrow> ('w, bool) web_prog" where
  "mkdir_route ev c client p = thenE (files_route ev c client (Files (FilesMkdirParams p))) (ret True)"

definition rename_route :: "'a env \<Rightarrow> client \<Rightarrow> 'w fw_client \<Rightarrow> string \<Rightarrow> string \<Rightarrow> ('w, bool) web_prog" where
  "rename_route ev c client p name = thenE (files_route ev c client (Files (FilesRenameParams p name))) (ret True)"

definition delete_route :: "'a env \<Rightarrow> client \<Rightarrow> 'w fw_client \<Rightarrow> string list \<Rightarrow> ('w, string option) web_prog" where
  "delete_route ev c client paths = bindE (files_route ev c client (Files (FilesDeleteParams paths))) job_started"

definition copy_route :: "'a env \<Rightarrow> client \<Rightarrow> 'w fw_client \<Rightarrow> string list \<Rightarrow> string \<Rightarrow> ('w, string option) web_prog" where
  "copy_route ev c client sources dest = bindE (files_route ev c client (Files (FilesCopyParams sources dest))) job_started"

definition move_route :: "'a env \<Rightarrow> client \<Rightarrow> 'w fw_client \<Rightarrow> string list \<Rightarrow> string \<Rightarrow> ('w, string option) web_prog" where
  "move_route ev c client sources dest = bindE (files_route ev c client (Files (FilesMoveParams sources dest))) job_started"

definition properties_route :: "'a env \<Rightarrow> client \<Rightarrow> 'w fw_client \<Rightarrow> string \<Rightarrow> ('w, rpc_result) web_prog" where
  "properties_route ev c client p = files_route ev c client (Files (FilesPropertiesParams p))"

definition get_acl_route :: "'a env \<Rightarrow> client \<Rightarrow> 'w fw_client \<Rightarrow> string \<Rightarrow> ('w, rpc_result) web_prog" where
  "get_acl_route ev c client p = files_route ev c client (Files (FilesGetAclParams p))"

definition set_acl_route :: "'a env \<Rightarrow> client \<Rightarrow> 'w fw_client \<Rightarrow> string \<Rightarrow> acl_entry list \<Rightarrow> bool
    \<Rightarrow> ('w, string option) web_prog" where
  "set_acl_route ev c client p es recursive = bindE (files_route ev c client (Files (FilesSetAclParams p es recursive))) job_started"

definition zip_route :: "'a env \<Rightarrow> client \<Rightarrow> 'w fw_client \<Rightarrow> string list \<Rightarrow> ('w, string option \<times> string) web_prog" where
  "zip_route ev c client sources = bindE (current_session (ev_hash ev) (ev_settings ev) (cl_cookie c)) (\<lambda>s.
     let dest = ''/tmp/nasos-zip-'' @ ev_fresh ev @ ''.zip'' in
     bindE (bindE (files_call client (session_ctx s) (Files (FilesZipParams sources dest))) job_started) (\<lambda>j. ret (j, dest)))"

text \<open>The range of a request: offset, length, status and the \<open>Content-Range\<close> header.\<close>

definition byte_range :: "int \<Rightarrow> string option \<Rightarrow> exn + int \<times> int \<times> nat \<times> string option" where
  "byte_range cnt header = (case header of None \<Rightarrow> Inr (0, cnt, 200, None)
     | Some h \<Rightarrow> if \<not> startswith h ''bytes='' then Inr (0, cnt, 200, None)
       else (let (a, b) = partition_on (CHR ''-'') (drop 6 h) in
         case (if a = [] then Some 0 else parse_int a) of None \<Rightarrow> Inl (ValueError a)
         | Some start \<Rightarrow> (case (if b = [] then Some (cnt - 1) else parse_int b) of None \<Rightarrow> Inl (ValueError b)
           | Some final \<Rightarrow> Inr (start, final - start + 1, 206,
               Some (''bytes '' @ int_str start @ ''-'' @ int_str final @ ''/'' @ int_str cnt)))))"

record content_response =
  cr_status :: nat
  cr_length :: int
  cr_type :: string
  cr_disposition :: string
  cr_range :: "string option"
  cr_body :: "exn + bytes list"

definition content :: "'a env \<Rightarrow> client \<Rightarrow> (string \<Rightarrow> string option) \<Rightarrow> 'w fw_client \<Rightarrow> string \<Rightarrow> string option \<Rightarrow> string
    \<Rightarrow> ('w, content_response) web_prog" where
  "content ev c guess client p range_header disposition =
     bindE (current_session (ev_hash ev) (ev_settings ev) (cl_cookie c)) (\<lambda>s.
     bindE (files_call client (session_ctx s) (Files (FilesPropertiesParams p))) (\<lambda>r. case r of
       FilesPropertiesResult e owner md items \<Rightarrow>
         bindE (liftE (byte_range (fe_size e) range_header)) (\<lambda>(offset, len, status, rng).
         bindE (tryE (bindE (on_worker (fw_read_range client p offset (Some len))) (\<lambda>fs. ret (Inr fs)))
             (\<lambda>x. ret (Inl (case x of RpcCallError cd t \<Rightarrow> HTTPException (error_status cd) t | _ \<Rightarrow> x)))) (\<lambda>body.
         ret \<lparr>cr_status = status, cr_length = len,
           cr_type = (case guess (fe_name e) of None \<Rightarrow> ''application/octet-stream'' | Some t \<Rightarrow> t),
           cr_disposition = disposition @ ''; filename=\"'' @ fe_name e @ ''\"'', cr_range = rng, cr_body = body\<rparr>))
     | _ \<Rightarrow> raise (ValidationError ''FilesPropertiesResult'')))"

end
