(* ===== verification/UploadSafety.thy ===== *)
theory UploadSafety
  imports UploadApi
begin

text \<open>
  What the upload routes guarantee: a \<open>PATCH\<close> appends its body to the part file, whatever the pieces it
  arrives in, and the upload appears under its name exactly when it is complete.
\<close>

section \<open>The worker\<close>

text \<open>Part file \<open>p\<close> of upload \<open>i\<close> holds \<open>c\<close>; otherwise the files are as in \<open>fs\<close>, and no call fails by itself.\<close>

definition part_holds :: "ufs \<Rightarrow> string \<Rightarrow> upload_handle \<Rightarrow> unode \<Rightarrow> bytes \<Rightarrow> 'a worker \<Rightarrow> bool" where
  "part_holds fs i h n c k \<longleftrightarrow> dget (wk_uploads k) i = Some h \<and> wk_fault k = (\<lambda>_ _ _. None) \<and> tree (wk_fs k) \<and>
     (\<exists>t. dget (wk_fs k) = (dget fs)(uh_part_path h \<mapsto> n\<lparr>un_kind := Plain c, un_mtime := t\<rparr>))"

lemma put_at_end: "put_at (length c) d c = c @ d"
  by (simp add: put_at_def)

lemma write_chunk_appends:
  assumes "part_holds fs i h n c k"
  obtains l k' where "write_chunk (uh_part_path h) (int (length c)) d k = (Inr (int (length (c @ d))), k')"
    "part_holds fs i h n (c @ d) k'"
proof -
  let ?p = "uh_part_path h"
  obtain t where t: "dget (wk_fs k) = (dget fs)(?p \<mapsto> n\<lparr>un_kind := Plain c, un_mtime := t\<rparr>)"
    using assms by (auto simp: part_holds_def)
  let ?m = "n\<lparr>un_kind := Plain (c @ d), un_mtime := wk_time k (wk_log k)\<rparr>"
  let ?fs = "if d = [] then wk_fs k else dset ?p ?m (wk_fs k)"
  let ?k = "k\<lparr>wk_log := wk_log k @ [(OsPwrite, ?p)], wk_fs := ?fs\<rparr>"
  have "follow 40 (wk_fs k) ?p = Inr ?p" by (rule follow_40) (simp add: t)
  then have "write_chunk ?p (int (length c)) d k = (Inr (int (length (c @ d))), ?k)"
    using assms by (simp add: write_chunk_def sys_def write_at_def t put_at_end part_holds_def)
  moreover have "tree (dset ?p ?m (wk_fs k))"
    using assms by (intro tree_replace [of _ _ "n\<lparr>un_kind := Plain c, un_mtime := t\<rparr>"])
      (auto simp: part_holds_def t is_folder_def)
  then have "part_holds fs i h n (c @ d) ?k"
    using assms by (auto simp: part_holds_def t dget_dset)
  ultimately show thesis by (rule that)
qed


section \<open>The web side\<close>

definition web_holds :: "ufs \<Rightarrow> string \<Rightarrow> upload_handle \<Rightarrow> unode \<Rightarrow> upload_row list \<Rightarrow> bytes \<Rightarrow> 'a worker web \<Rightarrow> bool" where
  "web_holds fs i h n rows c w \<longleftrightarrow> part_holds fs i h n c (wb_agent w) \<and> map up_id (wb_uploads w) = map up_id rows"

text \<open>A step that appends \<open>d\<close> to the part and answers with its new length.\<close>

definition appends :: "ufs \<Rightarrow> string \<Rightarrow> upload_handle \<Rightarrow> unode \<Rightarrow> upload_row list \<Rightarrow> bytes \<Rightarrow> bytes
    \<Rightarrow> ('a worker, 'b) web_prog \<Rightarrow> 'b \<Rightarrow> bool" where
  "appends fs i h n rows c d m x \<longleftrightarrow> (\<forall>w. web_holds fs i h n rows c w \<longrightarrow>
     (\<exists>w'. m w = (Inr x, w') \<and> web_holds fs i h n rows (c @ d) w'))"

lemma appends_ret: "appends fs i h n rows c [] (ret x) x"
  by (simp add: appends_def)

lemma appends_bindE:
  assumes "appends fs i h n rows c d m x" "appends fs i h n rows (c @ d) e (f x) y"
  shows "appends fs i h n rows c (d @ e) (bindE m f) y"
  using assms by (fastforce simp: appends_def bindE_def)

lemma svc_write_chunk_appends:
  "appends fs i h n rows c d (svc_write_chunk (dev_client acl pw jid) i (int (length c)) d) (int (length (c @ d)))"
  unfolding appends_def
proof (intro allI impI)
  fix w :: "'a worker web" assume w: "web_holds fs i h n rows c w"
  then have "part_holds fs i h n c (wb_agent w)" by (simp add: web_holds_def)
  then obtain k' where k': "write_chunk (uh_part_path h) (int (length c)) d (wb_agent w) = (Inr (int (length (c @ d))), k')"
    "part_holds fs i h n (c @ d) k'" by (rule write_chunk_appends)
  from w have "dget (wk_uploads (wb_agent w)) i = Some h" by (simp add: web_holds_def part_holds_def)
  with k'(1) have direct: "direct_write_chunk i (int (length c)) d (wb_agent w) = (Inr (int (length (c @ d))), k')"
    by (simp add: direct_write_chunk_def bindE_def)
  let ?rs = "update_rows (\<lambda>u. up_id u = i \<and> up_offset u \<noteq> int (length (c @ d)))
    (\<lambda>u. u\<lparr>up_offset := int (length (c @ d)), up_updated_at := wb_now w\<rparr>) (wb_uploads w)"
  have "svc_write_chunk (dev_client acl pw jid) i (int (length c)) d w =
      (Inr (int (length (c @ d))), w\<lparr>wb_agent := k', wb_uploads := ?rs\<rparr>)"
    using direct by (simp add: svc_write_chunk_def on_worker_def dev_client_def service_error_def tryE_def bindE_def put_offset_def thenE_def)
  moreover have "map up_id ?rs = map up_id (wb_uploads w)" by (simp add: update_rows_def)
  ultimately show "\<exists>w'. svc_write_chunk (dev_client acl pw jid) i (int (length c)) d w = (Inr (int (length (c @ d))), w') \<and>
      web_holds fs i h n rows (c @ d) w'"
    using k'(2) w by (auto simp: web_holds_def)
qed

lemma write_chunks_append:
  "appends fs i h n rows c (concat ds) (write_chunks (dev_client acl pw jid) i (int (length c)) ds)
     (int (length (c @ concat ds)))"
proof (induction ds arbitrary: c)
  case Nil
  show ?case by (simp add: appends_def)
next
  case (Cons d ds)
  have "appends fs i h n rows c (d @ concat ds) (write_chunks (dev_client acl pw jid) i (int (length c)) (d # ds))
      (int (length ((c @ d) @ concat ds)))"
    unfolding write_chunks.simps by (rule appends_bindE, rule svc_write_chunk_appends, rule Cons.IH)
  then show ?case by simp
qed

lemma full_chunks_concat: "full_chunks n buf = (cs, rest) \<Longrightarrow> concat cs @ rest = buf"
proof (induction n buf arbitrary: cs rest rule: full_chunks.induct)
  case (1 n buf)
  show ?case
  proof (cases "n = 0 \<or> length buf < n")
    case True
    with 1(2) show ?thesis by (subst (asm) full_chunks.simps) simp
  next
    case False
    obtain ds r where ds: "full_chunks n (drop n buf) = (ds, r)" by fastforce
    with 1(2) False have "cs = take n buf # ds" "rest = r" by (subst (asm) full_chunks.simps, simp)+
    with 1(1) [OF False ds] show ?thesis by simp
  qed
qed

lemma write_stream_appends:
  obtains d rest where "d @ rest = buf @ concat ps"
    "appends fs i h n rows c d (write_stream (dev_client acl pw jid) i (int (length c)) buf ps) (int (length (c @ d)), rest)"
proof (induction ps arbitrary: c buf thesis)
  case Nil
  show ?case by (intro Nil [of "[]" buf]) (simp_all add: appends_def)
next
  case (Cons p ps)
  obtain cs rest where cs: "full_chunks patch_buffer_size (buf @ p) = (cs, rest)" by fastforce
  obtain d r where d: "d @ r = rest @ concat ps" "appends fs i h n rows (c @ concat cs) d
      (write_stream (dev_client acl pw jid) i (int (length (c @ concat cs))) rest ps) (int (length ((c @ concat cs) @ d)), r)"
    by (rule Cons.IH)
  from full_chunks_concat [OF cs] d(1) have "(concat cs @ d) @ r = buf @ concat (p # ps)" by simp
  moreover have "appends fs i h n rows c (concat cs @ d) (write_stream (dev_client acl pw jid) i (int (length c)) buf (p # ps))
      (int (length ((c @ concat cs) @ d)), r)"
    unfolding write_stream.simps cs Let_def prod.case by (rule appends_bindE, rule write_chunks_append, rule d(2))
  ultimately show ?case by (intro Cons.prems [of "concat cs @ d" r]) simp_all
qed

section \<open>Completion\<close>

lemma moved_file:
  assumes "tree fs" "dget fs src = Some n" "\<not> is_folder n" "src \<noteq> dst"
  shows "dget (moved src dst fs) = (dget fs)(src := None, dst \<mapsto> n)"
proof -
  have src: "plain_name src" using tree_plain [OF assms(1,2)] file_no_ancestor(1) [OF assms(1-3)] by blast
  have none: "\<not> at_or_below src q" if q: "(q, m) \<in> set fs" "q \<noteq> src" for q m
  proof -
    have "dget fs q = Some m" using tree_distinct [OF assms(1)] q(1) by simp
    then have "src \<notin> set (ancestors q)" by (rule file_no_ancestor(2) [OF assms(1-3)])
    with q(2) below_ancestor [OF src, of q] show ?thesis by (auto simp: at_or_below_def)
  qed
  have keep: "filter (\<lambda>(q, _). \<not> at_or_below src q \<and> q \<noteq> dst) fs = filter (\<lambda>(q, _). q \<noteq> src \<and> q \<noteq> dst) fs"
    using none by (intro filter_cong) (auto simp: at_or_below_def)
  have mine: "filter (\<lambda>(q, _). at_or_below src q) fs = filter (\<lambda>(q, _). q = src) fs"
    using none by (intro filter_cong) (auto simp: at_or_below_def)
  have old: "dget (filter (\<lambda>(q, _). q \<noteq> src \<and> q \<noteq> dst) fs) q = (if q = src \<or> q = dst then None else dget fs q)" for q
    by (induction fs) auto
  have new: "dget (map (\<lambda>(q, m). (dst @ drop (length src) q, m)) (filter (\<lambda>(q, _). q = src) fs)) q =
      (if q = dst then dget fs src else None)" for q
  proof (induction fs)
    case (Cons x fs)
    then show ?case by (cases "fst x = src"; cases "q = dst") (simp_all add: case_prod_beta)
  qed simp
  show ?thesis
  proof
    fix q show "dget (moved src dst fs) q = ((dget fs)(src := None, dst \<mapsto> n)) q"
      unfolding moved_def keep mine map_of_append map_add_def old new using assms(2,4)
        by (simp split: option.split)
  qed
qed

lemma upload_complete_installs:
  assumes k: "part_holds fs i h n c k" and
    dest: "uh_dest_path h \<noteq> uh_part_path h" "new_name fs (uh_dest_path h) = None"
      "\<And>d. dget fs (uh_dest_path h) = Some d \<Longrightarrow> \<not> is_folder d" "dget fs (uh_part_path h) = Some n" "\<not> is_folder n"
  obtains k' t where "upload_complete i k = (Inr OkResult, k')" "wk_uploads k' = dpop i (wk_uploads k)"
    "dget (wk_fs k') = (dget fs)(uh_part_path h := None, uh_dest_path h \<mapsto> n\<lparr>un_kind := Plain c, un_mtime := t\<rparr>)"
proof -
  let ?p = "uh_part_path h" and ?q = "uh_dest_path h"
  from k obtain t where t: "dget (wk_fs k) = (dget fs)(?p \<mapsto> n\<lparr>un_kind := Plain c, un_mtime := t\<rparr>)"
    by (auto simp: part_holds_def)
  let ?m = "n\<lparr>un_kind := Plain c, un_mtime := t\<rparr>"
  let ?k = "k\<lparr>wk_log := wk_log k @ [(OsRename, ?p)], wk_fs := moved ?p ?q (wk_fs k), wk_uploads := dpop i (wk_uploads k)\<rparr>"
  have not_above: "?p \<notin> set (ancestors ?q)" using new_name_dirs [OF dest(2), of ?p] dest(4,5) by auto
  have tree: "tree (wk_fs k)" using k by (simp add: part_holds_def)
  have m: "dget (wk_fs k) ?p = Some ?m" "\<not> is_folder ?m" by (simp_all add: t is_folder_def)
  have "\<not> below ?p ?q"
    using below_ancestor [of ?p ?q] not_above tree_plain [OF tree m(1)] file_no_ancestor(1) [OF tree m] by blast
  moreover have "resolve_dirs (wk_fs k) (ancestors ?q) = None"
    using new_name_dirs [OF dest(2)] not_above by (auto simp: resolve_dirs_None t)
  then have "new_name (wk_fs k) ?q = None" using dest(2) by (auto simp: new_name_def split: if_splits)
  ultimately have "rename_to ?p ?q (wk_fs k) = Inr ((), moved ?p ?q (wk_fs k))"
    using dest(1,3) m(2) by (auto simp: rename_to_def t split: option.split)
  then have "upload_complete i k = (Inr OkResult, ?k)"
    using k by (simp add: upload_complete_def handle_or_raise_def bindE_def thenE_def part_holds_def as_error_def
      on_os_error_def tryE_def os_rename_def sys_def set_upload_def)
  moreover have "dget (moved ?p ?q (wk_fs k)) = (dget fs)(?p := None, ?q \<mapsto> ?m)"
    using moved_file [OF tree m, of ?q] dest(1) by (auto simp: t fun_eq_iff)
  ultimately show thesis by (intro that [of ?k t]) (simp_all add: fun_eq_iff)
qed

section \<open>The route\<close>

lemma current_session_frame:
  obtains ss where "snd (current_session hash st cookie w) = w\<lparr>wb_sessions := ss\<rparr>"
proof -
  have "\<exists>ss. snd (current_session hash st cookie w) = w\<lparr>wb_sessions := ss\<rparr>"
  proof (cases "or_else (case cookie of None \<Rightarrow> [] | Some t \<Rightarrow> t) []")
    case Nil
    then show ?thesis by (intro exI [of _ "wb_sessions w"]) (simp add: current_session_def)
  next
    case (Cons a t)
    show ?thesis
    proof (cases "find_row (\<lambda>r. se_token_hash r = hash (a # t)) (wb_sessions w)")
      case None
      with Cons show ?thesis
        by (intro exI [of _ "wb_sessions w"]) (simp add: current_session_def resolve_session_def bindE_def)
    next
      case (Some row)
      show ?thesis
      proof (cases "wb_now w - se_last_seen row > session_timeout st")
        case True
        with Cons Some show ?thesis
          by (intro exI [of _ "delete_rows (\<lambda>r. se_id r = se_id row) (wb_sessions w)"])
            (simp add: current_session_def resolve_session_def bindE_def)
      next
        case False
        with Cons Some show ?thesis
          by (intro exI [of _ "update_rows (\<lambda>r. se_id r = se_id row) (\<lambda>_. row\<lparr>se_last_seen := wb_now w\<rparr>) (wb_sessions w)"])
            (simp add: current_session_def resolve_session_def bindE_def Let_def)
      qed
    qed
  qed
  then show thesis using that by blast
qed

lemma current_offset_is_length: "appends fs i h n rows c [] (current_offset (dev_client acl pw jid) ctx i) (int (length c))"
  unfolding appends_def
proof (intro allI impI)
  fix w :: "'a worker web" assume w: "web_holds fs i h n rows c w"
  let ?k = "wb_agent w" and ?p = "uh_part_path h"
  from w obtain t where t: "dget (wk_fs ?k) = (dget fs)(?p \<mapsto> n\<lparr>un_kind := Plain c, un_mtime := t\<rparr>)"
    by (auto simp: web_holds_def part_holds_def)
  have "stat_of (wk_fs ?k) ?p = Inr (n\<lparr>un_kind := Plain c, un_mtime := t\<rparr>)"
    by (rule stat_plain) (simp_all add: t)
  with w have "current_offset (dev_client acl pw jid) ctx i w =
      (Inr (int (length c)), w\<lparr>wb_agent := ?k\<lparr>wk_log := wk_log ?k @ [(OsStat, ?p)]\<rparr>\<rparr>)"
    by (simp add: current_offset_def agent_call_def dev_client_def worker_agent_def upload_offset_def handle_or_raise_def
      bindE_def service_error_def tryE_def as_error_def on_os_error_def os_stat_def sys_def node_size_def web_holds_def
      part_holds_def)
  with w show "\<exists>w'. current_offset (dev_client acl pw jid) ctx i w = (Inr (int (length c)), w') \<and>
      web_holds fs i h n rows (c @ []) w'"
    by (simp add: web_holds_def part_holds_def)
qed

lemma patch_body_appends:
  assumes "\<not> ur_cut rq"
  obtains m where "patch_body (dev_client acl pw jid) ctx u (int (length c)) rq =
      bindE m (\<lambda>off. thenE (whenE (up_size u \<le> off) (complete_upload (dev_client acl pw jid) ctx (up_id u))) (ret off))"
    "appends fs (up_id u) h n rows c (concat (ur_stream rq)) m (int (length (c @ concat (ur_stream rq))))"
proof -
  let ?client = "dev_client acl pw jid"
  let ?rest = "\<lambda>(off, buf). if buf = [] then ret off else svc_write_chunk ?client (up_id u) off buf"
  let ?m = "bindE (write_stream ?client (up_id u) (int (length c)) [] (ur_stream rq)) ?rest"
  obtain d r where d: "d @ r = [] @ concat (ur_stream rq)" "appends fs (up_id u) h n rows c d
      (write_stream ?client (up_id u) (int (length c)) [] (ur_stream rq)) (int (length (c @ d)), r)"
    by (rule write_stream_appends)
  have "appends fs (up_id u) h n rows (c @ d) r (?rest (int (length (c @ d)), r)) (int (length ((c @ d) @ r)))"
  proof (cases "r = []")
    case True
    then show ?thesis by (simp add: appends_def)
  next
    case False
    then show ?thesis using svc_write_chunk_appends [of fs "up_id u" h n rows "c @ d" r acl pw jid] by simp
  qed
  with d(2) have "appends fs (up_id u) h n rows c (d @ r) ?m (int (length ((c @ d) @ r)))" by (rule appends_bindE)
  moreover have "patch_body ?client ctx u (int (length c)) rq =
      bindE ?m (\<lambda>off. thenE (whenE (up_size u \<le> off) (complete_upload ?client ctx (up_id u))) (ret off))"
    using assms by (simp add: patch_body_def bindE_assoc case_prod_beta')
  ultimately show thesis using d(1) by (intro that) simp_all
qed

lemma complete_upload_installs:
  assumes w: "web_holds fs i h n rows c w" and
    dest: "uh_dest_path h \<noteq> uh_part_path h" "new_name fs (uh_dest_path h) = None"
      "\<And>d. dget fs (uh_dest_path h) = Some d \<Longrightarrow> \<not> is_folder d" "dget fs (uh_part_path h) = Some n" "\<not> is_folder n"
  obtains w' t where "complete_upload (dev_client acl pw jid) ctx i w = (Inr (), w')"
    "dget (wk_fs (wb_agent w')) =
      (dget fs)(uh_part_path h := None, uh_dest_path h \<mapsto> n\<lparr>un_kind := Plain c, un_mtime := t\<rparr>)"
    "dget (wk_uploads (wb_agent w')) i = None" "i \<notin> up_id ` set (wb_uploads w')"
proof -
  from w have "part_holds fs i h n c (wb_agent w)" by (simp add: web_holds_def)
  then obtain k' t where k': "upload_complete i (wb_agent w) = (Inr OkResult, k')"
    "wk_uploads k' = dpop i (wk_uploads (wb_agent w))"
    "dget (wk_fs k') = (dget fs)(uh_part_path h := None, uh_dest_path h \<mapsto> n\<lparr>un_kind := Plain c, un_mtime := t\<rparr>)"
    by (rule upload_complete_installs [OF _ dest])
  then have "complete_upload (dev_client acl pw jid) ctx i w =
      (Inr (), w\<lparr>wb_agent := k', wb_uploads := delete_rows (\<lambda>u. up_id u = i) (wb_uploads w)\<rparr>)"
    by (simp add: complete_upload_def agent_call_def dev_client_def worker_agent_def service_error_def tryE_def thenE_def
      drop_upload_def)
  with k' show thesis by (intro that) (auto simp: dget_dpop delete_rows_def)
qed

definition upload_content_type :: string where
  "upload_content_type = ''application/offset+octet-stream''"

section \<open>Properties\<close>

text \<open>C20: A \<open>PATCH\<close> of an upload of the caller, sent with the length of the part as its offset, appends its
  body to the part, whatever pieces it arrives in, and answers with the new length. When the length announced for
  the upload is reached, the part becomes the file under the name asked for and the upload is gone from the
  worker and from the table; until then nothing but the part changes.\<close>

theorem patch_appends:
  fixes w :: "'a worker web"
  defines "k \<equiv> wb_agent w" and "fs \<equiv> wk_fs (wb_agent w)"
  assumes session: "fst (current_session (ev_hash ev) (ev_settings ev) (cl_cookie c) w) = Inr s"
      "find_row (\<lambda>u. up_id u = i) (wb_uploads w) = Some u" "up_uid u = se_uid s"
    and part: "dget (wk_uploads k) i = Some h" "dget fs (uh_part_path h) = Some n" "un_kind n = Plain old"
    and dest: "uh_dest_path h \<noteq> uh_part_path h" "new_name fs (uh_dest_path h) = None"
      "\<forall>d. dget fs (uh_dest_path h) = Some d \<longrightarrow> \<not> is_folder d"
    and files: "tree fs" "wk_fault k = (\<lambda>_ _ _. None)"
    and request: "ur_content_type rq = Some upload_content_type" "ur_offset rq = Some l"
      "parse_int l = Some (int (length old))" "\<not> ur_cut rq"
  shows "\<exists>w' t. let data = old @ concat (ur_stream rq); m = n\<lparr>un_kind := Plain data, un_mtime := t\<rparr> in
    patch_upload ev c (dev_client acl pw jid) i rq w =
      (Inr ((plain_response 204)\<lparr>rs_offset := Some (int (length data))\<rparr>), w') \<and>
    (if up_size u \<le> int (length data)
     then dget (wk_fs (wb_agent w')) = (dget fs)(uh_part_path h := None, uh_dest_path h \<mapsto> m) \<and>
       dget (wk_uploads (wb_agent w')) i = None \<and> i \<notin> up_id ` set (wb_uploads w')
     else dget (wk_fs (wb_agent w')) = (dget fs)(uh_part_path h \<mapsto> m) \<and>
       dget (wk_uploads (wb_agent w')) i = Some h \<and> map up_id (wb_uploads w') = map up_id (wb_uploads w))"
proof -
  let ?client = "dev_client acl pw jid" and ?rows = "wb_uploads w" and ?d = "concat (ur_stream rq)"
  have i: "up_id u = i" using find_row_Some [OF session(2)] by simp
  have n: "\<not> is_folder n" "n = n\<lparr>un_kind := Plain old, un_mtime := un_mtime n\<rparr>" using part(3) by (simp_all add: is_folder_def)
  obtain ss where ss: "current_session (ev_hash ev) (ev_settings ev) (cl_cookie c) w = (Inr s, w\<lparr>wb_sessions := ss\<rparr>)"
    using session(1) current_session_frame [of "ev_hash ev" "ev_settings ev" "cl_cookie c" w] by (metis prod.collapse)
  have same: "dget fs = (dget fs)(uh_part_path h \<mapsto> n\<lparr>un_kind := Plain old, un_mtime := un_mtime n\<rparr>)"
    unfolding n(2) [symmetric] using part(2) by (simp add: fun_upd_idem)
  then have holds: "part_holds fs i h n old k" using part(1) files unfolding part_holds_def k_def fs_def by blast
  have "web_holds fs i h n ?rows old (w\<lparr>wb_sessions := ss\<rparr>)"
    using holds by (simp add: web_holds_def k_def)
  then obtain w2 where w2: "current_offset ?client (session_ctx s) i (w\<lparr>wb_sessions := ss\<rparr>) = (Inr (int (length old)), w2)"
    "web_holds fs i h n ?rows old w2"
    using current_offset_is_length unfolding appends_def by fastforce
  obtain m where m: "patch_body ?client (session_ctx s) u (int (length old)) rq =
      bindE m (\<lambda>off. thenE (whenE (up_size u \<le> off) (complete_upload ?client (session_ctx s) (up_id u))) (ret off))"
    "appends fs (up_id u) h n ?rows old ?d m (int (length (old @ ?d)))"
    by (rule patch_body_appends [OF request(4)])
  from m(2) w2(2) obtain w3 where w3: "m w2 = (Inr (int (length (old @ ?d))), w3)" "web_holds fs i h n ?rows (old @ ?d) w3"
    unfolding appends_def i by fastforce
  have route: "patch_upload ev c ?client i rq w = bindE (bad_request (patch_body ?client (session_ctx s) u (int (length old)) rq))
      (\<lambda>off. ret ((plain_response 204)\<lparr>rs_offset := Some off\<rparr>)) w2"
    using ss session(2,3) w2(1) request by (simp add: patch_upload_def bindE_def own_upload_def get_upload_def upload_content_type_def)
  show ?thesis
  proof (cases "up_size u \<le> int (length (old @ ?d))")
    case True
    obtain w4 t where w4: "complete_upload ?client (session_ctx s) i w3 = (Inr (), w4)"
      "dget (wk_fs (wb_agent w4)) =
        (dget fs)(uh_part_path h := None, uh_dest_path h \<mapsto> n\<lparr>un_kind := Plain (old @ ?d), un_mtime := t\<rparr>)"
      "dget (wk_uploads (wb_agent w4)) i = None" "i \<notin> up_id ` set (wb_uploads w4)"
      using complete_upload_installs [OF w3(2) dest(1,2) _ part(2) n(1)] dest(3) by blast
    with True w3(1) m(1) i route show ?thesis
      by (intro exI [of _ w4] exI [of _ t]) (simp add: bindE_def bad_request_def tryE_def thenE_def)
  next
    case False
    obtain t where "dget (wk_fs (wb_agent w3)) = (dget fs)(uh_part_path h \<mapsto> n\<lparr>un_kind := Plain (old @ ?d), un_mtime := t\<rparr>)"
      using w3(2) by (auto simp: web_holds_def part_holds_def)
    with False w3 m(1) i route show ?thesis
      by (intro exI [of _ w3] exI [of _ t])
        (simp add: bindE_def bad_request_def tryE_def thenE_def web_holds_def part_holds_def)
  qed
qed

text \<open>C21: An upload is out of reach of everybody but the user who began it: to all others it is an unknown one,
  for the worker nothing happened, and no row is touched.\<close>

theorem uploads_are_private:
  assumes "fst (current_session (ev_hash ev) (ev_settings ev) (cl_cookie c) w) = Inr s"
    "\<forall>u \<in> set (wb_uploads w). up_id u = i \<longrightarrow> up_uid u \<noteq> se_uid s"
    "m \<in> {patch_upload ev c client i rq, head_upload ev c client i, delete_upload ev c client i}"
  shows "fst (m w) = Inl (HTTPException 404 ''no such upload'') \<and> wb_agent (snd (m w)) = wb_agent w \<and>
    wb_uploads (snd (m w)) = wb_uploads w"
proof -
  obtain ss where ss: "current_session (ev_hash ev) (ev_settings ev) (cl_cookie c) w = (Inr s, w\<lparr>wb_sessions := ss\<rparr>)"
    using assms(1) current_session_frame [of "ev_hash ev" "ev_settings ev" "cl_cookie c" w] by (metis prod.collapse)
  have "own_upload s i (w\<lparr>wb_sessions := ss\<rparr>) = (Inl (HTTPException 404 ''no such upload''), w\<lparr>wb_sessions := ss\<rparr>)"
  proof (cases "find_row (\<lambda>u. up_id u = i) (wb_uploads w)")
    case None
    then show ?thesis by (simp add: own_upload_def get_upload_def bindE_def)
  next
    case (Some u)
    with find_row_Some [OF Some] assms(2) show ?thesis by (simp add: own_upload_def get_upload_def bindE_def)
  qed
  note facts = ss this
  from assms(3) consider "m = patch_upload ev c client i rq" | "m = head_upload ev c client i" | "m = delete_upload ev c client i"
    by blast
  then show ?thesis
    by cases (use facts in \<open>simp_all add: patch_upload_def head_upload_def delete_upload_def bindE_def\<close>)
qed

text \<open>A client that lost count is told so before anything is written.\<close>

theorem stale_offset_is_refused:
  fixes w :: "'a worker web"
  assumes "fst (current_session (ev_hash ev) (ev_settings ev) (cl_cookie c) w) = Inr s"
    "find_row (\<lambda>u. up_id u = i) (wb_uploads w) = Some u" "up_uid u = se_uid s" "part_holds fs i h n old (wb_agent w)"
    "ur_content_type rq = Some upload_content_type" "ur_offset rq = Some l" "parse_int l = Some off" "off \<noteq> int (length old)"
  shows "\<exists>w'. patch_upload ev c (dev_client acl pw jid) i rq w = (Inr (plain_response 409), w') \<and>
    part_holds fs i h n old (wb_agent w') \<and> map up_id (wb_uploads w') = map up_id (wb_uploads w)"
proof -
  obtain ss where ss: "current_session (ev_hash ev) (ev_settings ev) (cl_cookie c) w = (Inr s, w\<lparr>wb_sessions := ss\<rparr>)"
    using assms(1) current_session_frame [of "ev_hash ev" "ev_settings ev" "cl_cookie c" w] by (metis prod.collapse)
  have "web_holds fs i h n (wb_uploads w) old (w\<lparr>wb_sessions := ss\<rparr>)" using assms(4) by (simp add: web_holds_def)
  then obtain w2 where w2: "current_offset (dev_client acl pw jid) (session_ctx s) i (w\<lparr>wb_sessions := ss\<rparr>) =
      (Inr (int (length old)), w2)" "web_holds fs i h n (wb_uploads w) old w2"
    using current_offset_is_length unfolding appends_def by fastforce
  have "patch_upload ev c (dev_client acl pw jid) i rq w = (Inr (plain_response 409), w2)"
    using ss assms w2(1) by (simp add: patch_upload_def bindE_def own_upload_def get_upload_def upload_content_type_def)
  with w2(2) show ?thesis by (simp add: web_holds_def)
qed

section \<open>An upload of five bytes\<close>

definition demo_uploads :: "unit worker web" where
  "demo_uploads = (demo_web demo_uploading)\<lparr>wb_sessions := [demo_session 2 ''b'' 5 ''user'', demo_session 3 ''c'' 6 ''user''],
     wb_uploads := [\<lparr>up_id = ''u'', up_uid = 5, up_dest_path = ''/a/new'', up_size = 5, up_offset = 0,
       up_status = ''uploading'', up_updated_at = 0\<rparr>]\<rparr>"

definition demo_patch :: up_request where
  "demo_patch = \<lparr>ur_length = None, ur_metadata = None, ur_content_type = Some upload_content_type, ur_offset = Some ''2'',
     ur_stream = [''l'', ''lo''], ur_cut = False\<rparr>"

lemma demo_upload_session:
  "fst (current_session (ev_hash demo_env) (ev_settings demo_env) (cl_cookie (demo_client ''b'')) demo_uploads) =
     Inr (demo_session 2 ''b'' 5 ''user'')"
  "fst (current_session (ev_hash demo_env) (ev_settings demo_env) (cl_cookie (demo_client ''c'')) demo_uploads) =
     Inr (demo_session 3 ''c'' 6 ''user'')"
  by (simp_all add: current_session_def resolve_session_def demo_env_def demo_client_def or_else_def demo_uploads_def
    demo_web_def demo_session_def find_row_def bindE_def Let_def)

definition no_acl :: "'a acl" where
  "no_acl = \<lparr>acl_replace_all = (\<lambda>_ _ _. ret ()), acl_read = (\<lambda>_. ret [])\<rparr>"

theorem patch_appends_witness:
  "let r = patch_upload demo_env (demo_client ''b'') (dev_client no_acl (\<lambda>_. None) ''j'') ''u'' demo_patch demo_uploads in
     fst r = Inr ((plain_response 204)\<lparr>rs_offset := Some 5\<rparr>) \<and>
     map_option un_kind (dget (wk_fs (wb_agent (snd r))) ''/a/new'') = Some (Plain ''hello'')"
proof -
  let ?fs = "wk_fs demo_uploading" and ?u = "hd (wb_uploads demo_uploads)"
  have agent: "wb_agent demo_uploads = demo_uploading" by (simp add: demo_uploads_def demo_web_def)
  have u: "find_row (\<lambda>u. up_id u = ''u'') (wb_uploads demo_uploads) = Some ?u" "up_uid ?u = 5" "up_size ?u = 5"
    by (simp_all add: demo_uploads_def find_row_def)
  have tree: "tree ?fs" by (rule tree_check) code_simp
  have dest: "new_name ?fs ''/a/new'' = None" "dget ?fs ''/a/new'' = None" by code_simp+
  have part: "dget (wk_uploads demo_uploading) ''u'' = Some \<lparr>uh_dest_path = ''/a/new'', uh_part_path = ''/a/.nasos-upload-u.part''\<rparr>"
    "dget ?fs ''/a/.nasos-upload-u.part'' = Some (demo_node (Plain ''he''))"
    by (simp_all add: demo_uploading_def demo_worker_def)
  have two: "parse_int ''2'' = Some 2" by code_simp
  show ?thesis
    using patch_appends [where ev = demo_env and c = "demo_client ''b''" and w = demo_uploads and i = "''u''" and u = ?u and
      rq = demo_patch and acl = no_acl and pw = "\<lambda>_. None" and jid = "''j''" and l = "''2''" and old = "''he''" and n = "demo_node (Plain ''he'')" and
      h = "\<lparr>uh_dest_path = ''/a/new'', uh_part_path = ''/a/.nasos-upload-u.part''\<rparr>",
      OF demo_upload_session(1) u(1)]
    using agent tree dest part two u
    by (auto simp: demo_session_def demo_node_def demo_patch_def demo_uploading_def demo_worker_def Let_def)
qed

theorem uploads_are_private_witness:
  "fst (delete_upload demo_env (demo_client ''c'') (dev_client no_acl (\<lambda>_. None) ''j'') ''u'' demo_uploads) = Inl (HTTPException 404 ''no such upload'')"
proof -
  have "\<forall>u \<in> set (wb_uploads demo_uploads). up_id u = ''u'' \<longrightarrow> up_uid u \<noteq> se_uid (demo_session 3 ''c'' 6 ''user'')"
    by (simp add: demo_uploads_def demo_session_def)
  from uploads_are_private [OF demo_upload_session(2) this, of _ "dev_client no_acl (\<lambda>_. None) ''j''" demo_patch] show ?thesis by blast
qed

end
