(* ===== verification/Systemd.thy ===== *)
theory Systemd
  imports World
begin

text \<open>
  \<open>system/systemd.py\<close>: the units as the rest of the back end drives them. \<open>DBusSystemd\<close> talks to a
  \<open>bus\<close>: any method of systemd's manager answers, or fails, as a function of the calls made so far, and
  takes its time. \<open>FakeSystemd\<close> is modelled as it is written. In the theories about handlers a unit call is one
  step of the \<open>world\<close>; here is what such a step consists of.
\<close>

section \<open>The bus\<close>

type_synonym bus_log = "(string \<times> string list) list"

record bus =
  bs_log :: bus_log
  bs_answer :: "bus_log \<Rightarrow> string \<Rightarrow> string list \<Rightarrow> string + string"
  bs_time :: "bus_log \<Rightarrow> rat"
  bs_now :: rat

text \<open>A method of the manager, or a property of a unit; \<open>bs_time\<close> is how long the call takes, at least nothing.\<close>

definition bus_call :: "string \<Rightarrow> string list \<Rightarrow> (bus, string) prog" where
  "bus_call meth args b = (case bs_answer b (bs_log b) meth args of Inl e \<Rightarrow> Inl (DBusError e) | Inr r \<Rightarrow> Inr r,
     b\<lparr>bs_log := bs_log b @ [(meth, args)], bs_now := bs_now b + max 0 (bs_time b (bs_log b))\<rparr>)"

definition bus_do :: "string \<Rightarrow> string list \<Rightarrow> (bus, unit) prog" where
  "bus_do meth args = bindE (bus_call meth args) (\<lambda>_. ret ())"

definition bus_sleep :: "rat \<Rightarrow> bus \<Rightarrow> bus" where
  "bus_sleep t b = b\<lparr>bs_now := bs_now b + t\<rparr>"

section \<open>DBusSystemd\<close>

definition replace_mode :: string where
  "replace_mode = ''replace''"

definition poll_interval :: rat where
  "poll_interval = 1 / 5"

definition dbus_start :: "string \<Rightarrow> (bus, unit) prog" where
  "dbus_start u = bus_do ''StartUnit'' [u, replace_mode]"

definition dbus_stop :: "string \<Rightarrow> (bus, unit) prog" where
  "dbus_stop u = bus_do ''StopUnit'' [u, replace_mode]"

definition dbus_restart :: "string \<Rightarrow> (bus, unit) prog" where
  "dbus_restart u = bus_do ''RestartUnit'' [u, replace_mode]"

definition dbus_reload :: "string \<Rightarrow> (bus, unit) prog" where
  "dbus_reload u = bus_do ''ReloadUnit'' [u, replace_mode]"

definition dbus_enable :: "string \<Rightarrow> (bus, unit) prog" where
  "dbus_enable u = bus_do ''EnableUnitFiles'' [u, ''False'', ''False'']"

definition dbus_disable :: "string \<Rightarrow> (bus, unit) prog" where
  "dbus_disable u = bus_do ''DisableUnitFiles'' [u, ''False'']"

definition dbus_daemon_reload :: "(bus, unit) prog" where
  "dbus_daemon_reload = bus_do ''Reload'' []"

text \<open>A unit that is not loaded yet is loaded, whatever \<open>GetUnit\<close> failed for.\<close>

definition dbus_active_state :: "string \<Rightarrow> (bus, string) prog" where
  "dbus_active_state u = bindE (tryE (bus_call ''GetUnit'' [u]) (\<lambda>_. bus_call ''LoadUnit'' [u]))
     (\<lambda>path. bus_call ''ActiveState'' [path])"

definition dbus_is_enabled :: "string \<Rightarrow> (bus, bool) prog" where
  "dbus_is_enabled u = bindE (bus_call ''GetUnitFileState'' [u]) (\<lambda>s. ret (s = ''enabled''))"

lemma bus_call_now: "bs_now b \<le> bs_now (snd (bus_call meth args b))"
  by (simp add: bus_call_def)

lemma active_state_now: "bs_now b \<le> bs_now (snd (dbus_active_state u b))"
proof -
  have now: "keeps (\<lambda>s t. bs_now s \<le> bs_now t) (bus_call m args)" for m args
    by (rule keepsI) (rule bus_call_now)
  have "transp (\<lambda>s t. bs_now (s :: bus) \<le> bs_now t)" by (auto simp: transp_def)
  then have "keeps (\<lambda>s t. bs_now s \<le> bs_now t) (dbus_active_state u)"
    unfolding dbus_active_state_def by (intro keeps_bindE keeps_tryE now)
  then show ?thesis by (simp add: keeps_def)
qed

text \<open>The loop of \<open>wait_active\<close>: every turn takes at least the polling interval.\<close>

function wait_until :: "string \<Rightarrow> rat \<Rightarrow> exn \<Rightarrow> (bus, unit) prog" where
  "wait_until u deadline late b = (if deadline \<le> bs_now b then (Inl late, b)
     else (case dbus_active_state u b of
         (Inl e, b') \<Rightarrow> (Inl e, b')
       | (Inr st, b') \<Rightarrow> if st = ''active'' then (Inr (), b')
           else if st = ''failed'' then (Inl (UnitTimeoutError (u @ '' entered state '' @ repr_str ''failed'')), b')
           else wait_until u deadline late (bus_sleep poll_interval b')))"
  by pat_completeness auto


definition turns_left :: "rat \<Rightarrow> bus \<Rightarrow> nat" where
  "turns_left deadline b = nat \<lceil>(deadline - bs_now b) * 5\<rceil>"

lemma turns_left_decreases:
  assumes "bs_now b < deadline" "bs_now b \<le> bs_now b'"
  shows "turns_left deadline (bus_sleep poll_interval b') < turns_left deadline b"
proof -
  have "(deadline - bs_now (bus_sleep poll_interval b')) * 5 = (deadline - bs_now b') * 5 - 1"
    by (simp add: bus_sleep_def poll_interval_def algebra_simps)
  then have "\<lceil>(deadline - bs_now (bus_sleep poll_interval b')) * 5\<rceil> = \<lceil>(deadline - bs_now b') * 5\<rceil> - 1"
    by (simp only: ceiling_diff_one)
  moreover have "\<lceil>(deadline - bs_now b') * 5\<rceil> \<le> \<lceil>(deadline - bs_now b) * 5\<rceil>" by (rule ceiling_mono) (use assms in simp)
  moreover have "0 < \<lceil>(deadline - bs_now b) * 5\<rceil>" using assms by simp
  ultimately show ?thesis by (simp add: turns_left_def)
qed

termination wait_until
proof (relation "measure (\<lambda>(u, deadline, late, b). turns_left deadline b)")
  fix u deadline late b r b' st
  assume "\<not> deadline \<le> bs_now b" "(r, b') = dbus_active_state u b"
  with active_state_now [of b u] show "((u, deadline, late, bus_sleep poll_interval b'), (u, deadline, late, b))
      \<in> measure (\<lambda>(u, deadline, late, b). turns_left deadline b)"
    by (auto intro!: turns_left_decreases simp: prod_eq_iff)
qed simp

declare wait_until.simps [simp del]

definition dbus_wait_active :: "string \<Rightarrow> int \<Rightarrow> (bus, unit) prog" where
  "dbus_wait_active u timeout b = wait_until u (bs_now b + of_int timeout)
     (UnitTimeoutError (u @ '' did not become active within '' @ int_str timeout @ ''s'')) b"

section \<open>FakeSystemd\<close>

record fake_systemd =
  fsd_states :: "(string, string) dict"
  fsd_enabled :: "string list"
  fsd_calls :: "(string \<times> string) list"
  fsd_fail_units :: "string list"

definition fake_systemd_init :: fake_systemd where
  "fake_systemd_init = \<lparr>fsd_states = [], fsd_enabled = [], fsd_calls = [], fsd_fail_units = []\<rparr>"

definition fsd_call :: "string \<Rightarrow> string \<Rightarrow> fake_systemd \<Rightarrow> fake_systemd" where
  "fsd_call op u s = s\<lparr>fsd_calls := fsd_calls s @ [(op, u)]\<rparr>"

definition fsd_state :: "string \<Rightarrow> string \<Rightarrow> fake_systemd \<Rightarrow> fake_systemd" where
  "fsd_state u st s = s\<lparr>fsd_states := dset u st (fsd_states s)\<rparr>"

definition fsd_up :: "string \<Rightarrow> fake_systemd \<Rightarrow> fake_systemd" where
  "fsd_up u s = fsd_state u (if u \<in> set (fsd_fail_units s) then ''failed'' else ''active'') s"

definition fake_start :: "string \<Rightarrow> (fake_systemd, unit) prog" where
  "fake_start u = modifyE (\<lambda>s. fsd_up u (fsd_call ''start'' u s))"

definition fake_stop :: "string \<Rightarrow> (fake_systemd, unit) prog" where
  "fake_stop u = modifyE (\<lambda>s. fsd_state u ''inactive'' (fsd_call ''stop'' u s))"

definition fake_restart :: "string \<Rightarrow> (fake_systemd, unit) prog" where
  "fake_restart u = modifyE (\<lambda>s. fsd_up u (fsd_call ''restart'' u s))"

definition fake_reload :: "string \<Rightarrow> (fake_systemd, unit) prog" where
  "fake_reload u = modifyE (fsd_call ''reload'' u)"

definition fake_enable :: "string \<Rightarrow> (fake_systemd, unit) prog" where
  "fake_enable u = modifyE (\<lambda>s. (fsd_call ''enable'' u s)\<lparr>fsd_enabled := List.insert u (fsd_enabled s)\<rparr>)"

definition fake_disable :: "string \<Rightarrow> (fake_systemd, unit) prog" where
  "fake_disable u = modifyE (\<lambda>s. (fsd_call ''disable'' u s)\<lparr>fsd_enabled := removeAll u (fsd_enabled s)\<rparr>)"

definition fake_daemon_reload :: "(fake_systemd, unit) prog" where
  "fake_daemon_reload = modifyE (fsd_call ''daemon-reload'' [])"

definition fake_active_state :: "string \<Rightarrow> (fake_systemd, string) prog" where
  "fake_active_state u = getsE (\<lambda>s. case dget (fsd_states s) u of None \<Rightarrow> ''inactive'' | Some st \<Rightarrow> st)"

definition fake_is_enabled :: "string \<Rightarrow> (fake_systemd, bool) prog" where
  "fake_is_enabled u = getsE (\<lambda>s. u \<in> set (fsd_enabled s))"

definition fake_wait_active :: "string \<Rightarrow> (fake_systemd, unit) prog" where
  "fake_wait_active u = bindE (fake_active_state u) (\<lambda>st. whenE (st \<noteq> ''active'')
     (raise (UnitTimeoutError (u @ '' did not become active (fake state='' @ repr_str st @ '')''))))"

section \<open>Waiting ends\<close>

text \<open>Between two states of the bus: it is the same bus, and so many polls were made.\<close>

definition same_bus :: "bus \<Rightarrow> bus \<Rightarrow> bool" where
  "same_bus a b \<longleftrightarrow> bs_answer b = bs_answer a \<and> bs_time b = bs_time a"

definition polls :: "bus \<Rightarrow> nat" where
  "polls b = length (filter (\<lambda>(m, _). m = ''ActiveState'') (bs_log b))"

definition last_answer :: "bus \<Rightarrow> string \<Rightarrow> bool" where
  "last_answer b st \<longleftrightarrow> (\<exists>l p. bs_log b = l @ [(''ActiveState'', [p])] \<and> bs_answer b l ''ActiveState'' [p] = Inr st)"

lemma active_state_polls:
  assumes "dbus_active_state u b = (r, b')"
  shows "same_bus b b'" "polls b' \<le> polls b + 1" "r = Inr st \<Longrightarrow> last_answer b' st"
    "(\<And>l. bs_time b l \<le> c) \<Longrightarrow> 0 \<le> c \<Longrightarrow> bs_now b' \<le> bs_now b + 3 * c"
proof -
  note defs = dbus_active_state_def bus_call_def bindE_def tryE_def same_bus_def polls_def last_answer_def
  show "same_bus b b'" "polls b' \<le> polls b + 1" "r = Inr st \<Longrightarrow> last_answer b' st"
    using assms by (auto simp: defs split: sum.splits)
  assume c: "\<And>l. bs_time b l \<le> c" "0 \<le> c"
  then have "max 0 (bs_time b l) \<le> c" for l by simp
  from this [of "bs_log b"] this [of "bs_log b @ [(''GetUnit'', [u])]"]
    this [of "bs_log b @ [(''GetUnit'', [u]), (''LoadUnit'', [u])]"] c(2)
  show "bs_now b' \<le> bs_now b + 3 * c"
    using assms by (auto simp: defs split: sum.splits)
qed

lemma wait_until_ends:
  assumes "wait_until u deadline late b = (r, b')"
  shows "same_bus b b' \<and> polls b' \<le> polls b + turns_left deadline b \<and> (r = Inr () \<longrightarrow> last_answer b' ''active'') \<and>
    (\<forall>c \<ge> 0. (\<forall>l. bs_time b l \<le> c) \<longrightarrow> bs_now b' \<le> max (bs_now b) (deadline + 3 * c + poll_interval))"
  using assms
proof (induction u deadline late b rule: wait_until.induct)
  case (1 u deadline late b)
  show ?case
  proof (cases "deadline \<le> bs_now b")
    case True
    with "1.prems" show ?thesis by (subst (asm) wait_until.simps) (auto simp: same_bus_def)
  next
    case False
    obtain a b1 where a: "dbus_active_state u b = (a, b1)" by fastforce
    note st = active_state_polls [OF a] and now = active_state_now [of b u]
    have early: "0 < turns_left deadline b" using False by (simp add: turns_left_def)
    have time: "bs_now b1 \<le> deadline + 3 * c" if "0 \<le> c" "\<forall>l. bs_time b l \<le> c" for c
      using st(4) [of c] that False by simp
    show ?thesis
    proof (cases "\<exists>s. a = Inr s \<and> s \<noteq> ''active'' \<and> s \<noteq> ''failed''")
      case True
      then obtain s where s: "a = Inr s" "s \<noteq> ''active''" "s \<noteq> ''failed''" by blast
      let ?b = "bus_sleep poll_interval b1"
      have "wait_until u deadline late ?b = (r, b')"
        using "1.prems" False a s by (subst (asm) wait_until.simps) simp
      note ih = "1.IH" [OF False a [symmetric] s(1) s(2,3) this]
      have "turns_left deadline ?b < turns_left deadline b"
        using turns_left_decreases [of b deadline b1] False now a by simp
      moreover have "same_bus b ?b" "polls ?b = polls b1" using st(1) by (simp_all add: bus_sleep_def same_bus_def polls_def)
      ultimately show ?thesis
        using ih st(2) time by (fastforce simp: same_bus_def bus_sleep_def poll_interval_def max_def)
    next
      case False2: False
      then have b': "b' = b1" "r = Inr () \<longrightarrow> a = Inr ''active''"
        using "1.prems" False a by (subst (asm) wait_until.simps, force split: sum.splits if_splits)+
      with st early time show ?thesis
        by (fastforce simp: poll_interval_def)
    qed
  qed
qed

text \<open>C34: Waiting for a unit always ends: after at most five polls per second of the timeout, and, when no call to
  systemd takes longer than \<open>c\<close>, within three such calls and one polling interval of the deadline. It ends
  well only when the last answer of systemd was that the unit is active.\<close>

theorem wait_active_ends:
  assumes "dbus_wait_active u timeout b = (r, b')"
  shows "polls b' \<le> polls b + nat (5 * timeout) \<and> (r = Inr () \<longrightarrow> last_answer b' ''active'') \<and>
    (\<forall>c \<ge> 0. (\<forall>l. bs_time b l \<le> c) \<longrightarrow> bs_now b' \<le> bs_now b + of_int (max 0 timeout) + 3 * c + poll_interval)"
proof -
  have "\<lceil>(of_int timeout :: rat) * 5\<rceil> = timeout * 5" by (metis ceiling_of_int of_int_mult of_int_numeral)
  then have turns: "turns_left (bs_now b + of_int timeout) b = nat (5 * timeout)" by (simp add: turns_left_def mult.commute)
  note ends = wait_until_ends [OF assms [unfolded dbus_wait_active_def]]
  moreover have "bs_now b' \<le> bs_now b + of_int (max 0 timeout) + 3 * c + poll_interval"
    if "0 \<le> c" "\<forall>l. bs_time b l \<le> c" for c
    using ends that by (fastforce simp: max_def poll_interval_def split: if_splits)
  ultimately show ?thesis unfolding turns by blast
qed

text \<open>A bus on which the unit becomes active at the second look.\<close>

definition demo_bus :: bus where
  "demo_bus = \<lparr>bs_log = [], bs_answer = (\<lambda>l m _. if m = ''ActiveState'' then Inr (if length l < 3 then ''activating'' else ''active'')
     else Inr ''/path''), bs_time = (\<lambda>_. 1), bs_now = 0\<rparr>"

theorem wait_active_ends_witness:
  "polls (snd (dbus_wait_active ''smb.service'' 15 demo_bus)) \<le> 75 \<and>
   bs_now (snd (dbus_wait_active ''smb.service'' 15 demo_bus)) \<le> 18 + 1 / 5"
proof -
  have "polls demo_bus = 0" by (simp add: polls_def demo_bus_def)
  moreover have bus: "\<forall>l. bs_time demo_bus l \<le> 1" "bs_now demo_bus = 0" by (simp_all add: demo_bus_def)
  note ends = wait_active_ends [of "''smb.service''" 15 demo_bus, OF surjective_pairing]
  from ends [THEN conjunct2, THEN conjunct2, rule_format, of 1] bus
  have "bs_now (snd (dbus_wait_active ''smb.service'' 15 demo_bus)) \<le> 18 + 1 / 5" by (simp add: poll_interval_def)
  ultimately show ?thesis using ends by simp
qed

end
