(* ===== verification/Supervisor.thy ===== *)
theory Supervisor
  imports Config
begin

text \<open>
  \<open>agent/fileworker_supervisor.py\<close>: the root agent starts one worker process per user, hands out the
  socket it listens on and forgets it when it has ended. The \<open>host\<close> is what the kernel keeps: the processes,
  with the argument list each was started with, and the sockets in the file system. Which process number a new
  process gets and what fails is a function of the calls made so far.
\<close>

section \<open>The host\<close>

record process =
  pr_argv :: "string list"
  pr_fd3 :: "nat option"
  pr_child :: bool
  pr_exited :: bool

record socket_file =
  so_id :: nat
  so_owner :: "int \<times> int"
  so_mode :: nat
  so_backlog :: "nat option"

datatype host_call = Mkdir_parents string | Unlink_path string | Bind_socket string | Getpwnam string | Chown_path string
  | Chmod_path string nat | Listen nat | Posix_spawn "string list" | Waitpid

type_synonym host_log = "host_call list"

record host =
  ho_log :: host_log
  ho_fault :: "host_log \<Rightarrow> host_call \<Rightarrow> os_kind option"
  ho_pid :: "host_log \<Rightarrow> int"
  ho_nasos :: "(int \<times> int) option"
  ho_procs :: "(int, process) dict"
  ho_sockets :: "(string, socket_file) dict"
  ho_next_socket :: nat

text \<open>A call is logged; it may fail by itself.\<close>

definition host_do :: "host_call \<Rightarrow> string \<Rightarrow> (host, 'b) prog \<Rightarrow> (host, 'b) prog" where
  "host_do c what m h = (let h' = h\<lparr>ho_log := ho_log h @ [c]\<rparr> in
     case ho_fault h (ho_log h) c of Some e \<Rightarrow> (Inl (OSError e what), h') | None \<Rightarrow> m h')"

text \<open>\<open>os.kill(pid, 0)\<close>: a process that has ended answers until its parent has waited for it.\<close>

definition process_alive :: "int \<Rightarrow> host \<Rightarrow> bool" where
  "process_alive pid h \<longleftrightarrow> dget (ho_procs h) pid \<noteq> None"

text \<open>\<open>socket.bind\<close> makes the file; another one under the name is refused. The socket is known by a number of
  its own, as a file descriptor stands for it.\<close>

definition bind_socket :: "string \<Rightarrow> (host, nat) prog" where
  "bind_socket p = host_do (Bind_socket p) p (\<lambda>h. if dget (ho_sockets h) p \<noteq> None then (Inl (OSError OtherOSError p), h)
     else (Inr (ho_next_socket h), h\<lparr>ho_next_socket := ho_next_socket h + 1, ho_sockets := dset p
       \<lparr>so_id = ho_next_socket h, so_owner = (0, 0), so_mode = 493, so_backlog = None\<rparr> (ho_sockets h)\<rparr>))"

definition change_socket :: "string \<Rightarrow> (socket_file \<Rightarrow> socket_file) \<Rightarrow> (host, unit) prog" where
  "change_socket p f h = (case dget (ho_sockets h) p of None \<Rightarrow> (Inl (OSError FileNotFoundError p), h)
     | Some s \<Rightarrow> (Inr (), h\<lparr>ho_sockets := dset p (f s) (ho_sockets h)\<rparr>))"

definition getpwnam_nasos :: "(host, int \<times> int) prog" where
  "getpwnam_nasos = host_do (Getpwnam ''nasos'') ''nasos'' (\<lambda>h. case ho_nasos h of
       None \<Rightarrow> (Inl (KeyError ''nasos''), h) | Some ids \<Rightarrow> (Inr ids, h))"

text \<open>The kernel never gives a number that is in use.\<close>

definition new_pid :: "host \<Rightarrow> int" where
  "new_pid h = (let pid = ho_pid h (ho_log h) in
     if 0 < pid \<and> dget (ho_procs h) pid = None then pid else fold max (map fst (ho_procs h)) 0 + 1)"

definition posix_spawn :: "string list \<Rightarrow> nat \<Rightarrow> (host, int) prog" where
  "posix_spawn argv fd3 = host_do (Posix_spawn argv) (concat (take 1 argv)) (\<lambda>h. let pid = new_pid h in
     (Inr pid, h\<lparr>ho_procs := dset pid \<lparr>pr_argv = argv, pr_fd3 = Some fd3, pr_child = True, pr_exited = False\<rparr> (ho_procs h)\<rparr>))"

text \<open>\<open>os.waitpid(-1, WNOHANG)\<close>: no child at all is a \<open>ChildProcessError\<close> (here \<open>Inl\<close>), none that has ended is
  0, and one that has ended is forgotten by the kernel.\<close>

definition ended_child :: "(int, process) dict \<Rightarrow> int option" where
  "ended_child ps = map_option fst (List.find (\<lambda>(_, p). pr_child p \<and> pr_exited p) ps)"

definition waitpid_any :: "host \<Rightarrow> (unit + int) \<times> host" where
  "waitpid_any h = (let h' = h\<lparr>ho_log := ho_log h @ [Waitpid]\<rparr> in
     if \<not> list_ex (\<lambda>(_, p). pr_child p) (ho_procs h) then (Inl (), h')
     else (case ended_child (ho_procs h) of None \<Rightarrow> (Inr 0, h')
       | Some pid \<Rightarrow> (Inr pid, h'\<lparr>ho_procs := dpop pid (ho_procs h)\<rparr>)))"

section \<open>The supervisor\<close>

record worker_entry =
  we_pid :: int
  we_socket_path :: string

record supervisor =
  sv_run_dir :: string
  sv_binary :: string
  sv_workers :: "(int, worker_entry) dict"
  sv_pid_to_uid :: "(int, int) dict"
  sv_host :: host

definition fileworker_binary :: string where
  "fileworker_binary = ''/usr/libexec/nasos/nasos-fileworker''"

definition supervisor_init :: "string \<Rightarrow> host \<Rightarrow> supervisor" where
  "supervisor_init run_dir h = \<lparr>sv_run_dir = run_dir, sv_binary = fileworker_binary, sv_workers = [], sv_pid_to_uid = [], sv_host = h\<rparr>"

definition worker_socket_path :: "string \<Rightarrow> int \<Rightarrow> string" where
  "worker_socket_path run_dir uid = run_dir @ ''/workers/'' @ int_str uid @ ''.sock''"

definition bind_worker_socket :: "string \<Rightarrow> (host, nat) prog" where
  "bind_worker_socket p =
     thenE (host_do (Mkdir_parents p) p (ret ()))
     (thenE (bindE (getsE (\<lambda>h. dget (ho_sockets h) p)) (\<lambda>s. whenE (s \<noteq> None)
        (host_do (Unlink_path p) p (modifyE (\<lambda>h. h\<lparr>ho_sockets := dpop p (ho_sockets h)\<rparr>)))))
     (bindE (bind_socket p) (\<lambda>sock.
      bindE getpwnam_nasos (\<lambda>ids.
      thenE (host_do (Chown_path p) p (change_socket p (\<lambda>s. s\<lparr>so_owner := ids\<rparr>)))
      (thenE (host_do (Chmod_path p 384) p (change_socket p (\<lambda>s. s\<lparr>so_mode := 384\<rparr>)))
      (thenE (host_do (Listen sock) p (change_socket p (\<lambda>s. s\<lparr>so_backlog := Some 16\<rparr>)))
       (ret sock)))))))"

definition worker_argv :: "string \<Rightarrow> int \<Rightarrow> string list" where
  "worker_argv binary uid = [binary, ''--uid'', int_str uid, ''--listen-fd'', ''3'']"

definition spawn_worker :: "string \<Rightarrow> int \<Rightarrow> nat \<Rightarrow> (host, int) prog" where
  "spawn_worker binary uid sock = posix_spawn (worker_argv binary uid) sock"

definition on_host :: "(host, 'b) prog \<Rightarrow> (supervisor, 'b) prog" where
  "on_host m s = (let (r, h) = m (sv_host s) in (r, s\<lparr>sv_host := h\<rparr>))"

definition track_worker :: "int \<Rightarrow> int \<Rightarrow> string \<Rightarrow> (supervisor, unit) prog" where
  "track_worker uid pid p = modifyE (\<lambda>s. s\<lparr>sv_workers := dset uid \<lparr>we_pid = pid, we_socket_path = p\<rparr> (sv_workers s),
     sv_pid_to_uid := dset pid uid (sv_pid_to_uid s)\<rparr>)"

definition ensure_worker :: "int \<Rightarrow> (supervisor, string) prog" where
  "ensure_worker uid = bindE (getsE (\<lambda>s. case dget (sv_workers s) uid of
        Some e \<Rightarrow> if process_alive (we_pid e) (sv_host s) then Some (we_socket_path e) else None | None \<Rightarrow> None)) (\<lambda>old.
     case old of Some p \<Rightarrow> ret p | None \<Rightarrow>
       bindE (getsE (\<lambda>s. worker_socket_path (sv_run_dir s) uid)) (\<lambda>p.
       bindE (on_host (bind_worker_socket p)) (\<lambda>sock.
       bindE (getsE sv_binary) (\<lambda>binary.
       bindE (on_host (spawn_worker binary uid sock)) (\<lambda>pid.
       thenE (track_worker uid pid p) (ret p))))))"

text \<open>What \<open>reap\<close> does about one process that has ended.\<close>

definition forget_process :: "int \<Rightarrow> supervisor \<Rightarrow> supervisor" where
  "forget_process pid s = (case dget (sv_pid_to_uid s) pid of None \<Rightarrow> s
     | Some uid \<Rightarrow> (let s' = s\<lparr>sv_pid_to_uid := dpop pid (sv_pid_to_uid s)\<rparr> in
         case dget (sv_workers s') uid of
           Some e \<Rightarrow> if we_pid e = pid then s'\<lparr>sv_workers := dpop uid (sv_workers s')\<rparr> else s'
         | None \<Rightarrow> s'))"

lemma waitpid_shrinks:
  assumes "waitpid_any h = (Inr pid, h')" "pid \<noteq> 0"
  shows "length (ho_procs h') < length (ho_procs h)"
proof -
  from assms obtain p where p: "List.find (\<lambda>(_, p). pr_child p \<and> pr_exited p) (ho_procs h) = Some (pid, p)"
    and h': "ho_procs h' = dpop pid (ho_procs h)"
    by (auto simp: waitpid_any_def ended_child_def Let_def split: if_splits option.splits)
  from p have "(pid, p) \<in> set (ho_procs h)" by (auto simp: find_Some_iff) (metis nth_mem)
  then have "pid \<in> fst ` set (ho_procs h)" by force
  then show ?thesis by (auto simp: h' AList.delete_eq intro: length_filter_less)
qed

function reap :: "supervisor \<Rightarrow> supervisor" where
  "reap s = (case waitpid_any (sv_host s) of
       (Inl _, h) \<Rightarrow> s\<lparr>sv_host := h\<rparr>
     | (Inr pid, h) \<Rightarrow> if pid = 0 then s\<lparr>sv_host := h\<rparr> else reap (forget_process pid (s\<lparr>sv_host := h\<rparr>)))"
  by pat_completeness auto
termination
proof (relation "measure (\<lambda>s. length (ho_procs (sv_host s)))")
  have host: "sv_host (forget_process pid s) = sv_host s" for pid and s :: supervisor
    by (simp add: forget_process_def Let_def split: option.split)
  fix s :: supervisor and r h pid assume "(r, h) = waitpid_any (sv_host s)" "r = Inr pid" "pid \<noteq> (0 :: int)"
  with waitpid_shrinks [of "sv_host s" pid h] host
  show "(forget_process pid (s\<lparr>sv_host := h\<rparr>), s) \<in> measure (\<lambda>s. length (ho_procs (sv_host s)))" by simp
qed simp

declare reap.simps [simp del]

section \<open>What can happen\<close>

text \<open>Requests and signals come in any order; any process may end at any time; the agent runs commands, which are
  its children too, and collects those that end.\<close>

definition set_procs :: "(int, process) dict \<Rightarrow> supervisor \<Rightarrow> supervisor" where
  "set_procs ps s = s\<lparr>sv_host := (sv_host s)\<lparr>ho_procs := ps\<rparr>\<rparr>"

abbreviation sv_procs :: "supervisor \<Rightarrow> (int, process) dict" where
  "sv_procs s \<equiv> ho_procs (sv_host s)"

abbreviation sv_sockets :: "supervisor \<Rightarrow> (string, socket_file) dict" where
  "sv_sockets s \<equiv> ho_sockets (sv_host s)"

definition command_process :: "string list \<Rightarrow> process" where
  "command_process argv = \<lparr>pr_argv = argv, pr_fd3 = None, pr_child = True, pr_exited = False\<rparr>"

inductive sup_step :: "supervisor \<Rightarrow> supervisor \<Rightarrow> bool" where
  Ensure: "sup_step s (snd (ensure_worker uid s))"
| Sigchld: "sup_step s (reap s)"
| Exits: "dget (sv_procs s) pid = Some p \<Longrightarrow> sup_step s (set_procs (dset pid (p\<lparr>pr_exited := True\<rparr>) (sv_procs s)) s)"
| Command: "0 < pid \<Longrightarrow> dget (sv_procs s) pid = None \<Longrightarrow>
    sup_step s (set_procs (dset pid (command_process argv) (sv_procs s)) s)"
| Collect: "dget (sv_procs s) pid = Some p \<Longrightarrow> pr_fd3 p = None \<Longrightarrow> pr_exited p \<Longrightarrow>
    sup_step s (set_procs (dpop pid (sv_procs s)) s)"

inductive sup_reachable :: "string \<Rightarrow> host \<Rightarrow> supervisor \<Rightarrow> bool" for run_dir h where
  Start: "sup_reachable run_dir h (supervisor_init run_dir h)"
| Step: "sup_reachable run_dir h s \<Longrightarrow> sup_step s t \<Longrightarrow> sup_reachable run_dir h t"

section \<open>The invariant\<close>

text \<open>The process of user \<open>uid\<close> was started for that user with the socket of that user, which nobody but the web
  process may connect to.\<close>

definition serves :: "supervisor \<Rightarrow> int \<Rightarrow> process \<Rightarrow> bool" where
  "serves s uid p \<longleftrightarrow> pr_argv p = worker_argv (sv_binary s) uid \<and> pr_child p \<and>
     (\<exists>so ids. dget (sv_sockets s) (worker_socket_path (sv_run_dir s) uid) = Some so \<and> pr_fd3 p = Some (so_id so) \<and>
        so_mode so = 384 \<and> ho_nasos (sv_host s) = Some ids \<and> so_owner so = ids \<and> so_backlog so \<noteq> None)"

definition tracks :: "supervisor \<Rightarrow> int \<Rightarrow> worker_entry \<Rightarrow> bool" where
  "tracks s uid e \<longleftrightarrow> we_socket_path e = worker_socket_path (sv_run_dir s) uid \<and>
     dget (sv_pid_to_uid s) (we_pid e) = Some uid \<and> (\<exists>p. dget (sv_procs s) (we_pid e) = Some p \<and> serves s uid p)"

definition supervisor_ok :: "supervisor \<Rightarrow> bool" where
  "supervisor_ok s \<longleftrightarrow> distinct (map fst (sv_procs s)) \<and> (\<forall>pid \<in> fst ` set (sv_procs s). 0 < pid) \<and>
     (\<forall>uid e. dget (sv_workers s) uid = Some e \<longrightarrow> tracks s uid e) \<and>
     (\<forall>pid uid. dget (sv_pid_to_uid s) pid = Some uid \<longrightarrow>
        (\<exists>p. dget (sv_procs s) pid = Some p \<and> pr_fd3 p \<noteq> None \<and> pr_child p) \<and> map_option we_pid (dget (sv_workers s) uid) = Some pid)"

lemma int_str_inj: "int_str a = int_str b \<longleftrightarrow> a = b"
proof
  have minus: "CHR ''-'' \<notin> set (nat_str n)" for n
    using nat_str_digits [of _ n] by (auto simp: is_digit_code)
  show "int_str a = int_str b \<Longrightarrow> a = b"
    using minus [of "nat a"] minus [of "nat b"] by (auto simp: int_str_def split: if_splits) (metis list.set_intros(1))+
qed simp

lemma socket_path_inj: "worker_socket_path d u = worker_socket_path d v \<longleftrightarrow> u = v"
  by (simp add: worker_socket_path_def int_str_inj)

text \<open>Work on the socket at \<open>p\<close> leaves all else on the host as it is.\<close>

definition at_socket :: "string \<Rightarrow> host \<Rightarrow> host \<Rightarrow> bool" where
  "at_socket p g h \<longleftrightarrow> ho_procs h = ho_procs g \<and> ho_nasos h = ho_nasos g \<and>
     (\<forall>q. q \<noteq> p \<longrightarrow> dget (ho_sockets h) q = dget (ho_sockets g) q)"

lemma at_socket_order: "reflp (at_socket p)" "transp (at_socket p)"
  by (auto simp: reflp_def transp_def at_socket_def)

lemma host_do_keeps: "keeps (at_socket p) m \<Longrightarrow> keeps (at_socket p) (host_do c q m)"
  by (auto simp: keeps_def host_do_def at_socket_def Let_def split: option.split)

lemma host_do_InrE:
  assumes "host_do c q m h = (Inr x, t)" obtains "m (h\<lparr>ho_log := ho_log h @ [c]\<rparr>) = (Inr x, t)"
  using assms by (auto simp: host_do_def Let_def split: option.splits)

lemma bind_worker_socket_keeps: "keeps (at_socket p) (bind_worker_socket p)"
proof -
  have "keeps (at_socket p) (modifyE (\<lambda>h. h\<lparr>ho_sockets := dpop p (ho_sockets h)\<rparr>))"
    by (auto simp: keeps_def at_socket_def dget_dpop)
  moreover have "keeps (at_socket p) (change_socket p f)" for f
    by (auto simp: keeps_def at_socket_def change_socket_def dget_dset split: option.split)
  moreover have "keeps (at_socket p) getpwnam_nasos" unfolding getpwnam_nasos_def
    by (rule host_do_keeps) (auto simp: keeps_def at_socket_def split: option.split)
  moreover have "keeps (at_socket p) (bind_socket p)" unfolding bind_socket_def
    by (rule host_do_keeps) (auto simp: keeps_def at_socket_def dget_dset)
  ultimately show ?thesis
    unfolding bind_worker_socket_def
    by (intro keeps_bindE keeps_thenE keeps_ret keeps_getsE keeps_whenE host_do_keeps at_socket_order)
qed

lemma bind_worker_socket_Inr:
  assumes "bind_worker_socket p h = (Inr sock, t)"
  obtains so ids where "dget (ho_sockets t) p = Some so" "so_id so = sock" "so_mode so = 384" "so_owner so = ids"
    "ho_nasos t = Some ids" "so_backlog so \<noteq> None"
  using assms unfolding bind_worker_socket_def
  by (auto simp: bind_socket_def getpwnam_nasos_def change_socket_def thenE_def bindE_eq_Inr dget_dset
    split: option.splits if_splits elim!: host_do_InrE)

section \<open>The invariant is kept\<close>

lemma supervisor_okD:
  assumes "supervisor_ok s"
  shows "distinct (map fst (sv_procs s))" "pid \<in> fst ` set (sv_procs s) \<Longrightarrow> 0 < pid"
    "dget (sv_workers s) uid = Some e \<Longrightarrow> tracks s uid e"
    "dget (sv_pid_to_uid s) pid = Some uid \<Longrightarrow> (\<exists>p. dget (sv_procs s) pid = Some p \<and> pr_fd3 p \<noteq> None \<and> pr_child p) \<and>
       map_option we_pid (dget (sv_workers s) uid) = Some pid"
  using assms by (auto simp: supervisor_ok_def)

lemma supervisor_okI:
  assumes "distinct (map fst (sv_procs s))" "\<And>pid. pid \<in> fst ` set (sv_procs s) \<Longrightarrow> 0 < pid"
    "\<And>uid e. dget (sv_workers s) uid = Some e \<Longrightarrow> tracks s uid e"
    "\<And>pid uid. dget (sv_pid_to_uid s) pid = Some uid \<Longrightarrow> \<exists>p. dget (sv_procs s) pid = Some p \<and> pr_fd3 p \<noteq> None \<and> pr_child p"
    "\<And>pid uid. dget (sv_pid_to_uid s) pid = Some uid \<Longrightarrow> map_option we_pid (dget (sv_workers s) uid) = Some pid"
  shows "supervisor_ok s"
  unfolding supervisor_ok_def using assms by blast

lemma dpop_keys: "pid \<in> fst ` set (dpop q ps) \<Longrightarrow> pid \<in> fst ` set ps"
  by (auto simp: AList.delete_eq)

text \<open>Changing processes that are not workers of the supervisor, or ending them.\<close>

lemma set_procs_ok:
  assumes "supervisor_ok s" "distinct (map fst ps)" "\<forall>pid \<in> fst ` set ps. 0 < pid"
    "\<And>pid p. dget (sv_procs s) pid = Some p \<Longrightarrow> pr_fd3 p \<noteq> None \<Longrightarrow> pr_child p \<Longrightarrow>
      \<exists>q. dget ps pid = Some q \<and> pr_fd3 q = pr_fd3 p \<and> pr_child q \<and> pr_argv q = pr_argv p"
  shows "supervisor_ok (set_procs ps s)"
proof -
  have serves: "serves (set_procs ps s) uid q" if "serves s uid p" "pr_fd3 q = pr_fd3 p" "pr_child q" "pr_argv q = pr_argv p" for uid p q
    using that by (auto simp: serves_def set_procs_def)
  have "tracks (set_procs ps s) uid e" if "dget (sv_workers s) uid = Some e" for uid e
  proof -
    from supervisor_okD(3) [OF assms(1) that] obtain p where p: "dget (sv_procs s) (we_pid e) = Some p" "serves s uid p"
      and e: "we_socket_path e = worker_socket_path (sv_run_dir s) uid" "dget (sv_pid_to_uid s) (we_pid e) = Some uid"
      by (auto simp: tracks_def)
    from p(2) have "pr_fd3 p \<noteq> None" "pr_child p" by (auto simp: serves_def)
    from assms(4) [OF p(1) this] obtain q where "dget ps (we_pid e) = Some q" "serves (set_procs ps s) uid q"
      using serves [OF p(2)] by auto
    with e show ?thesis by (auto simp: tracks_def set_procs_def)
  qed
  note tracked = this
  have fields: "sv_procs (set_procs ps s) = ps" "sv_workers (set_procs ps s) = sv_workers s"
    "sv_pid_to_uid (set_procs ps s) = sv_pid_to_uid s" by (simp_all add: set_procs_def)
  show ?thesis
  proof (rule supervisor_okI)
    show "distinct (map fst (sv_procs (set_procs ps s)))" unfolding fields by (rule assms(2))
    show "0 < pid" if "pid \<in> fst ` set (sv_procs (set_procs ps s))" for pid using that assms(3) unfolding fields by blast
    show "tracks (set_procs ps s) uid e" if "dget (sv_workers (set_procs ps s)) uid = Some e" for uid e
      using that unfolding fields by (rule tracked)
    fix pid uid assume pid: "dget (sv_pid_to_uid (set_procs ps s)) pid = Some uid"
    note old = supervisor_okD(4) [OF assms(1) pid [unfolded fields]]
    from old obtain p where p: "dget (sv_procs s) pid = Some p" "pr_fd3 p \<noteq> None" "pr_child p" by blast
    obtain q where "dget ps pid = Some q" "pr_fd3 q = pr_fd3 p" "pr_child q" using assms(4) [OF p] by blast
    with p(2) show "\<exists>q. dget (sv_procs (set_procs ps s)) pid = Some q \<and> pr_fd3 q \<noteq> None \<and> pr_child q"
      unfolding fields by metis
    show "map_option we_pid (dget (sv_workers (set_procs ps s)) uid) = Some pid" unfolding fields using old by blast
  qed
qed

lemma init_ok:
  assumes "distinct (map fst (ho_procs h))" "\<forall>pid \<in> fst ` set (ho_procs h). 0 < pid"
  shows "supervisor_ok (supervisor_init d h)"
  using assms by (simp add: supervisor_ok_def supervisor_init_def)

lemma new_pid_free: "0 < new_pid h" "dget (ho_procs h) (new_pid h) = None"
proof -
  let ?pids = "map fst (ho_procs h)"
  have m: "p \<in> set ps \<or> p \<le> a \<Longrightarrow> p \<le> fold max ps a" for p a and ps :: "int list"
    by (induction ps arbitrary: a) (auto simp: max_def)
  have "0 \<le> fold max ?pids 0" by (rule m) simp
  then show "0 < new_pid h" by (simp add: new_pid_def Let_def)
  have "fold max ?pids 0 + 1 \<notin> set ?pids" using m [of "fold max ?pids 0 + 1" ?pids 0] by auto
  then have "dget (ho_procs h) (fold max ?pids 0 + 1) = None" by (simp add: map_of_eq_None_iff)
  then show "dget (ho_procs h) (new_pid h) = None" by (simp add: new_pid_def Let_def)
qed

text \<open>A process that was waited for is not a worker any more.\<close>

lemma forget_ok:
  assumes ok: "supervisor_ok s"
  shows "supervisor_ok (forget_process pid (set_procs (dpop pid (sv_procs s)) s))"
proof (cases "dget (sv_pid_to_uid s) pid")
  case None
  have t: "forget_process pid (set_procs (dpop pid (sv_procs s)) s) = set_procs (dpop pid (sv_procs s)) s"
    by (simp add: forget_process_def None set_procs_def)
  have other: "dget (dpop pid (sv_procs s)) q = dget (sv_procs s) q" if "dget (sv_pid_to_uid s) q = Some uid" for q uid
    using that None by (auto simp: dget_dpop)
  let ?t = "set_procs (dpop pid (sv_procs s)) s"
  have fields: "sv_procs ?t = dpop pid (sv_procs s)" "sv_workers ?t = sv_workers s" "sv_pid_to_uid ?t = sv_pid_to_uid s"
    by (simp_all add: set_procs_def)
  show ?thesis unfolding t
  proof (rule supervisor_okI)
    show "distinct (map fst (sv_procs ?t))" unfolding fields by (rule distinct_dpop, rule supervisor_okD(1) [OF ok])
    show "0 < q" if "q \<in> fst ` set (sv_procs ?t)" for q
      by (rule supervisor_okD(2) [OF ok], rule dpop_keys) (use that in \<open>unfold fields\<close>)
    fix uid
    show "tracks ?t uid e" if "dget (sv_workers ?t) uid = Some e" for e
      using supervisor_okD(3) [OF ok that [unfolded fields]] other by (auto simp: tracks_def serves_def set_procs_def)
    fix q assume q: "dget (sv_pid_to_uid ?t) q = Some uid"
    show "\<exists>p. dget (sv_procs ?t) q = Some p \<and> pr_fd3 p \<noteq> None \<and> pr_child p"
      unfolding fields other [OF q [unfolded fields]] using supervisor_okD(4) [OF ok q [unfolded fields]] by blast
    show "map_option we_pid (dget (sv_workers ?t) uid) = Some q"
      unfolding fields using supervisor_okD(4) [OF ok q [unfolded fields]] by blast
  qed
next
  case (Some uid)
  with supervisor_okD(4) [OF ok Some] obtain e where e: "dget (sv_workers s) uid = Some e" "we_pid e = pid" by auto
  let ?t = "forget_process pid (set_procs (dpop pid (sv_procs s)) s)"
  have t: "sv_workers ?t = dpop uid (sv_workers s)" "sv_pid_to_uid ?t = dpop pid (sv_pid_to_uid s)"
    "sv_host ?t = (sv_host s)\<lparr>ho_procs := dpop pid (sv_procs s)\<rparr>" "sv_run_dir ?t = sv_run_dir s" "sv_binary ?t = sv_binary s"
    using Some e by (simp_all add: forget_process_def set_procs_def Let_def)
  have procs: "sv_procs ?t = dpop pid (sv_procs s)" by (simp add: t)
  show ?thesis
  proof (rule supervisor_okI)
    show "distinct (map fst (sv_procs ?t))" unfolding procs by (rule distinct_dpop, rule supervisor_okD(1) [OF ok])
    show "0 < q" if "q \<in> fst ` set (sv_procs ?t)" for q
      by (rule supervisor_okD(2) [OF ok], rule dpop_keys) (use that in \<open>unfold procs\<close>)
    fix v
    show "tracks ?t v f" if f: "dget (sv_workers ?t) v = Some f" for f
    proof -
      from f have v: "v \<noteq> uid" "dget (sv_workers s) v = Some f" by (auto simp: t dget_dpop split: if_splits)
      with supervisor_okD(3) [OF ok v(2)] Some have "we_pid f \<noteq> pid" by (auto simp: tracks_def)
      with supervisor_okD(3) [OF ok v(2)] show ?thesis by (auto simp: tracks_def serves_def t dget_dpop)
    qed
    fix q assume "dget (sv_pid_to_uid ?t) q = Some v"
    then have q: "q \<noteq> pid" "dget (sv_pid_to_uid s) q = Some v" by (auto simp: t dget_dpop split: if_splits)
    with supervisor_okD(4) [OF ok q(2)] e have v: "v \<noteq> uid" by auto
    from q(1) have same: "dget (sv_procs ?t) q = dget (sv_procs s) q" by (simp add: procs dget_dpop)
    show "\<exists>p. dget (sv_procs ?t) q = Some p \<and> pr_fd3 p \<noteq> None \<and> pr_child p"
      unfolding same using supervisor_okD(4) [OF ok q(2)] by blast
    have same_w: "dget (sv_workers ?t) v = dget (sv_workers s) v" using v by (simp add: t dget_dpop)
    show "map_option we_pid (dget (sv_workers ?t) v) = Some q"
      unfolding same_w using supervisor_okD(4) [OF ok q(2)] by blast
  qed
qed

lemma log_ok: "supervisor_ok (s\<lparr>sv_host := (sv_host s)\<lparr>ho_log := l\<rparr>\<rparr>) \<longleftrightarrow> supervisor_ok s"
  by (simp add: supervisor_ok_def tracks_def serves_def)

lemma waitpid_cases:
  obtains (childless) "waitpid_any h = (Inl (), h\<lparr>ho_log := ho_log h @ [Waitpid]\<rparr>)" "ended_child (ho_procs h) = None"
  | (running) "waitpid_any h = (Inr 0, h\<lparr>ho_log := ho_log h @ [Waitpid]\<rparr>)" "ended_child (ho_procs h) = None"
  | (got) pid where "waitpid_any h = (Inr pid, h\<lparr>ho_log := ho_log h @ [Waitpid], ho_procs := dpop pid (ho_procs h)\<rparr>)"
      "ended_child (ho_procs h) = Some pid" "pid \<in> fst ` set (ho_procs h)"
proof (cases "ended_child (ho_procs h)")
  case None
  then show thesis using childless running by (cases "list_ex (\<lambda>(_, p). pr_child p) (ho_procs h)") (auto simp: waitpid_any_def Let_def)
next
  case (Some pid)
  then obtain p where "List.find (\<lambda>(_, p). pr_child p \<and> pr_exited p) (ho_procs h) = Some (pid, p)"
    by (auto simp: ended_child_def)
  then obtain j where j: "j < length (ho_procs h)" "ho_procs h ! j = (pid, p)" "pr_child p" by (auto simp: find_Some_iff)
  then have m: "(pid, p) \<in> set (ho_procs h)" by (metis nth_mem)
  with j(3) have "list_ex (\<lambda>(_, p). pr_child p) (ho_procs h)" by (auto simp: list_ex_iff)
  with Some m show thesis by (intro got [of pid]) (force simp: waitpid_any_def Let_def)+
qed

lemma reap_ok: "supervisor_ok s \<Longrightarrow> supervisor_ok (reap s) \<and> ended_child (sv_procs (reap s)) = None"
proof (induction s rule: reap.induct)
  case (1 s)
  show ?case
  proof (cases rule: waitpid_cases [of "sv_host s"])
    case (got pid)
    have "0 < pid" by (rule supervisor_okD(2) [OF "1.prems" got(3)])
    let ?t = "s\<lparr>sv_host := (sv_host s)\<lparr>ho_log := ho_log (sv_host s) @ [Waitpid]\<rparr>\<rparr>"
    have t: "s\<lparr>sv_host := (sv_host s)\<lparr>ho_log := ho_log (sv_host s) @ [Waitpid], ho_procs := dpop pid (sv_procs s)\<rparr>\<rparr> =
        set_procs (dpop pid (sv_procs ?t)) ?t" by (simp add: set_procs_def)
    have "supervisor_ok (forget_process pid (set_procs (dpop pid (sv_procs ?t)) ?t))"
      by (rule forget_ok) (use "1.prems" in \<open>simp only: log_ok\<close>)
    from "1.IH" [OF got(1) [symmetric] refl, unfolded t, OF _ this] \<open>0 < pid\<close> got(1) show ?thesis
      by (subst (1 2) reap.simps) (simp add: t)
  qed (use "1.prems" in \<open>(subst (1 2) reap.simps, simp add: log_ok)+\<close>)
qed

text \<open>Work on the socket of a user without a worker.\<close>

lemma socket_work_ok:
  assumes ok: "supervisor_ok s" and h: "at_socket (worker_socket_path (sv_run_dir s) uid) (sv_host s) h"
    and free: "dget (sv_workers s) uid = None"
  shows "supervisor_ok (s\<lparr>sv_host := h\<rparr>)"
proof -
  let ?t = "s\<lparr>sv_host := h\<rparr>"
  have procs: "sv_procs ?t = sv_procs s" using h by (simp add: at_socket_def)
  show ?thesis
  proof (rule supervisor_okI, unfold procs)
    show "distinct (map fst (sv_procs s))" by (rule supervisor_okD(1) [OF ok])
    show "0 < q" if "q \<in> fst ` set (sv_procs s)" for q using ok that by (rule supervisor_okD(2))
    show "tracks ?t v e" if "dget (sv_workers ?t) v = Some e" for v e
    proof -
      from that have v: "dget (sv_workers s) v = Some e" by simp
      with free have "v \<noteq> uid" by auto
      then have "dget (ho_sockets h) (worker_socket_path (sv_run_dir s) v) = dget (sv_sockets s) (worker_socket_path (sv_run_dir s) v)"
        using h by (simp add: at_socket_def socket_path_inj)
      with supervisor_okD(3) [OF ok v] h show ?thesis by (auto simp: tracks_def serves_def at_socket_def)
    qed
    fix q v assume q: "dget (sv_pid_to_uid ?t) q = Some v"
    then have q': "dget (sv_pid_to_uid s) q = Some v" by simp
    show "\<exists>p. dget (sv_procs s) q = Some p \<and> pr_fd3 p \<noteq> None \<and> pr_child p" using supervisor_okD(4) [OF ok q'] by blast
    show "map_option we_pid (dget (sv_workers ?t) v) = Some q" using supervisor_okD(4) [OF ok q'] by simp
  qed
qed

text \<open>Adding the process of a user without a worker.\<close>

lemma track_ok:
  assumes ok: "supervisor_ok s" and free: "dget (sv_workers s) uid = None" and pid: "0 < pid" "dget (sv_procs s) pid = None"
    and p: "serves s uid p" and path: "path = worker_socket_path (sv_run_dir s) uid"
  shows "supervisor_ok (snd (track_worker uid pid path (set_procs (dset pid p (sv_procs s)) s)))" (is "supervisor_ok ?t")
proof -
  have t: "sv_workers ?t = dset uid \<lparr>we_pid = pid, we_socket_path = path\<rparr> (sv_workers s)"
    "sv_pid_to_uid ?t = dset pid uid (sv_pid_to_uid s)" "sv_procs ?t = dset pid p (sv_procs s)"
    by (simp_all add: track_worker_def set_procs_def)
  have serves: "serves ?t v q \<longleftrightarrow> serves s v q" for v q by (simp add: serves_def track_worker_def set_procs_def)
  have dir: "sv_run_dir ?t = sv_run_dir s" by (simp add: track_worker_def set_procs_def)
  show ?thesis
  proof (rule supervisor_okI)
    show "distinct (map fst (sv_procs ?t))" unfolding t by (rule distinct_dset, rule supervisor_okD(1) [OF ok])
    show "0 < q" if "q \<in> fst ` set (sv_procs ?t)" for q
    proof -
      from that have "dget (dset pid p (sv_procs s)) q \<noteq> None" unfolding t by (simp only: map_of_eq_None_iff not_not)
      then have "q = pid \<or> dget (sv_procs s) q \<noteq> None" by (auto simp: dget_dset)
      then show ?thesis using pid(1) supervisor_okD(2) [OF ok, of q] by (metis map_of_eq_None_iff)
    qed
    show "tracks ?t v e" if "dget (sv_workers ?t) v = Some e" for v e
    proof (cases "v = uid")
      case True
      with that p show ?thesis by (auto simp: tracks_def serves dir t dget_dset path [symmetric])
    next
      case False
      with that have "dget (sv_workers s) v = Some e" by (simp add: t dget_dset)
      from supervisor_okD(3) [OF ok this] pid(2) show ?thesis by (auto simp: tracks_def serves dir t dget_dset)
    qed
    fix q v assume q: "dget (sv_pid_to_uid ?t) q = Some v"
    show "\<exists>p. dget (sv_procs ?t) q = Some p \<and> pr_fd3 p \<noteq> None \<and> pr_child p"
      using q supervisor_okD(4) [OF ok, of q v] p by (auto simp: t dget_dset serves_def split: if_splits)
    show "map_option we_pid (dget (sv_workers ?t) v) = Some q"
      using q supervisor_okD(4) [OF ok, of q v] free by (auto simp: t dget_dset split: if_splits)
  qed
qed

lemma posix_spawn_cases:
  obtains (fails) e l where "posix_spawn argv fd h = (Inl e, h\<lparr>ho_log := l\<rparr>)"
  | (spawns) pid l where "posix_spawn argv fd h = (Inr pid, h\<lparr>ho_log := l,
        ho_procs := dset pid \<lparr>pr_argv = argv, pr_fd3 = Some fd, pr_child = True, pr_exited = False\<rparr> (ho_procs h)\<rparr>)"
      "0 < pid" "dget (ho_procs h) pid = None"
proof (cases "ho_fault h (ho_log h) (Posix_spawn argv)")
  case None
  let ?h = "h\<lparr>ho_log := ho_log h @ [Posix_spawn argv]\<rparr>"
  from None new_pid_free [of ?h] show ?thesis by (intro spawns [of "new_pid ?h"]) (simp_all add: posix_spawn_def host_do_def Let_def)
qed (auto simp: posix_spawn_def host_do_def intro: fails)

lemma ensure_ok:
  assumes ok: "supervisor_ok s" and e: "ensure_worker uid s = (r, t)"
  shows "supervisor_ok t" and "sv_run_dir t = sv_run_dir s"
    and "r = Inr p \<Longrightarrow> p = worker_socket_path (sv_run_dir s) uid \<and> dget (sv_workers t) uid \<noteq> None"
    and "dget (sv_procs t) q = Some pr \<Longrightarrow> dget (sv_procs s) q = Some pr \<or> \<not> pr_exited pr"
proof -
  have "supervisor_ok t \<and> sv_run_dir t = sv_run_dir s \<and>
    (\<forall>p. r = Inr p \<longrightarrow> p = worker_socket_path (sv_run_dir s) uid \<and> dget (sv_workers t) uid \<noteq> None) \<and>
    (\<forall>q pr. dget (sv_procs t) q = Some pr \<longrightarrow> dget (sv_procs s) q = Some pr \<or> \<not> pr_exited pr)"
  proof (cases "dget (sv_workers s) uid")
    case (Some w)
    from supervisor_okD(3) [OF ok Some] have "we_socket_path w = worker_socket_path (sv_run_dir s) uid"
      "process_alive (we_pid w) (sv_host s)" by (auto simp: tracks_def process_alive_def)
    with Some e have "t = s" "r = Inr (worker_socket_path (sv_run_dir s) uid)" by (auto simp: ensure_worker_def bindE_def)
    with ok Some show ?thesis by simp
  next
    case None
    let ?p = "worker_socket_path (sv_run_dir s) uid"
    obtain b h where b: "bind_worker_socket ?p (sv_host s) = (b, h)" by fastforce
    then have h: "at_socket ?p (sv_host s) h" using bind_worker_socket_keeps by (rule keepsD [rotated])
    from socket_work_ok [OF ok h None] have ok1: "supervisor_ok (s\<lparr>sv_host := h\<rparr>)" .
    have same: "ho_procs h = sv_procs s" using h by (simp add: at_socket_def)
    show ?thesis
    proof (cases b)
      case (Inl x)
      with b None e have "t = s\<lparr>sv_host := h\<rparr>" "r = Inl x" by (simp_all add: ensure_worker_def bindE_def on_host_def)
      with ok1 same show ?thesis by simp
    next
      case (Inr sock)
      let ?argv = "worker_argv (sv_binary s) uid"
      have go: "(r, t) = bindE (on_host (posix_spawn ?argv sock)) (\<lambda>pid. thenE (track_worker uid pid ?p) (ret ?p)) (s\<lparr>sv_host := h\<rparr>)"
        using b None e Inr by (simp add: ensure_worker_def bindE_def on_host_def spawn_worker_def)
      show ?thesis
      proof (cases rule: posix_spawn_cases [of ?argv sock h])
        case (fails x l)
        with go have "t = s\<lparr>sv_host := h\<lparr>ho_log := l\<rparr>\<rparr>" "r = Inl x" by (simp_all add: bindE_def on_host_def)
        with ok1 same log_ok [where s = "s\<lparr>sv_host := h\<rparr>" and l = l] show ?thesis by simp
      next
        case (spawns pid l)
        let ?pr = "\<lparr>pr_argv = ?argv, pr_fd3 = Some sock, pr_child = True, pr_exited = False\<rparr>"
        let ?u = "s\<lparr>sv_host := h\<lparr>ho_log := l\<rparr>\<rparr>"
        have u: "supervisor_ok ?u" using ok1 log_ok [where s = "s\<lparr>sv_host := h\<rparr>" and l = l] by simp
        from b Inr obtain so ids where so: "dget (ho_sockets h) ?p = Some so" "so_id so = sock" "so_mode so = 384" "so_owner so = ids"
          "ho_nasos h = Some ids" "so_backlog so \<noteq> None" by (auto elim: bind_worker_socket_Inr)
        then have serves: "serves ?u uid ?pr" by (simp add: serves_def)
        have "(r, t) = (Inr ?p, snd (track_worker uid pid ?p (set_procs (dset pid ?pr (sv_procs ?u)) ?u)))"
          using go spawns(1) by (simp add: bindE_def on_host_def thenE_def track_worker_def set_procs_def)
        then have t: "r = Inr ?p" "t = snd (track_worker uid pid ?p (set_procs (dset pid ?pr (sv_procs ?u)) ?u))" by simp_all
        have "supervisor_ok t" unfolding t(2)
          using track_ok [OF u _ spawns(2) _ serves refl] None spawns(3) by simp
        moreover have "sv_run_dir t = sv_run_dir s" "dget (sv_workers t) uid \<noteq> None" "sv_procs t = dset pid ?pr (sv_procs s)"
          by (simp_all add: t(2) track_worker_def set_procs_def dget_dset same)
        ultimately show ?thesis by (simp add: t(1) dget_dset)
      qed
    qed
  qed
  then show "supervisor_ok t" "sv_run_dir t = sv_run_dir s"
    "r = Inr p \<Longrightarrow> p = worker_socket_path (sv_run_dir s) uid \<and> dget (sv_workers t) uid \<noteq> None"
    "dget (sv_procs t) q = Some pr \<Longrightarrow> dget (sv_procs s) q = Some pr \<or> \<not> pr_exited pr" by blast+
qed

lemma step_ok:
  assumes "sup_step s t" "supervisor_ok s" shows "supervisor_ok t"
  using assms
proof (induction rule: sup_step.induct)
  case (Ensure s uid)
  then show ?case using ensure_ok(1) [OF _ surjective_pairing] by blast
next
  case (Sigchld s)
  then show ?case using reap_ok by blast
next
  case (Exits s pid p)
  note ok = Exits(2)
  have "pid \<in> fst ` set (sv_procs s)" using Exits(1) by (metis map_of_eq_None_iff option.distinct(1))
  then have "0 < pid" by (rule supervisor_okD(2) [OF ok])
  show ?case
  proof (rule set_procs_ok [OF ok])
    show "distinct (map fst (dset pid (p\<lparr>pr_exited := True\<rparr>) (sv_procs s)))" by (rule distinct_dset, rule supervisor_okD(1) [OF ok])
    show "\<forall>q \<in> fst ` set (dset pid (p\<lparr>pr_exited := True\<rparr>) (sv_procs s)). 0 < q"
      using supervisor_okD(2) [OF ok] \<open>0 < pid\<close> by (simp add: dom_update)
    show "\<exists>r. dget (dset pid (p\<lparr>pr_exited := True\<rparr>) (sv_procs s)) q = Some r \<and> pr_fd3 r = pr_fd3 p' \<and> pr_child r \<and> pr_argv r = pr_argv p'"
      if "dget (sv_procs s) q = Some p'" "pr_child p'" for q p'
      using that Exits(1) by (cases "q = pid") (auto simp: dget_dset)
  qed
next
  case (Command pid s argv)
  note ok = Command(3)
  show ?case
  proof (rule set_procs_ok [OF ok])
    show "distinct (map fst (dset pid (command_process argv) (sv_procs s)))" by (rule distinct_dset, rule supervisor_okD(1) [OF ok])
    show "\<forall>q \<in> fst ` set (dset pid (command_process argv) (sv_procs s)). 0 < q"
      using supervisor_okD(2) [OF ok] Command(1) by (simp add: dom_update)
    show "\<exists>r. dget (dset pid (command_process argv) (sv_procs s)) q = Some r \<and> pr_fd3 r = pr_fd3 p' \<and> pr_child r \<and> pr_argv r = pr_argv p'"
      if "dget (sv_procs s) q = Some p'" "pr_child p'" for q p'
      using that Command(2) by (cases "q = pid") (auto simp: dget_dset)
  qed
next
  case (Collect s pid p)
  note ok = Collect(4)
  show ?case
  proof (rule set_procs_ok [OF ok])
    show "distinct (map fst (dpop pid (sv_procs s)))" by (rule distinct_dpop, rule supervisor_okD(1) [OF ok])
    show "\<forall>q \<in> fst ` set (dpop pid (sv_procs s)). 0 < q" 
      by (intro ballI, rule supervisor_okD(2) [OF ok], rule dpop_keys)
    show "\<exists>r. dget (dpop pid (sv_procs s)) q = Some r \<and> pr_fd3 r = pr_fd3 p' \<and> pr_child r \<and> pr_argv r = pr_argv p'"
      if "dget (sv_procs s) q = Some p'" "pr_fd3 p' \<noteq> None" "pr_child p'" for q p'
      using that Collect(1,2) by (cases "q = pid") (auto simp: dget_dpop)
  qed
qed

definition host_ok :: "host \<Rightarrow> bool" where
  "host_ok h \<longleftrightarrow> distinct (map fst (ho_procs h)) \<and> (\<forall>pid \<in> fst ` set (ho_procs h). 0 < pid)"

lemma reachable_ok: "sup_reachable d h s \<Longrightarrow> host_ok h \<Longrightarrow> supervisor_ok s"
proof (induction rule: sup_reachable.induct)
  case Start
  then show ?case by (intro init_ok) (simp_all add: host_ok_def)
next
  case (Step s t)
  then show ?case by (blast intro: step_ok)
qed

section \<open>A host for the examples\<close>

definition demo_host :: host where
  "demo_host = \<lparr>ho_log = [], ho_fault = (\<lambda>_ _. None), ho_pid = (\<lambda>l. int (100 + length l)), ho_nasos = Some (990, 990),
     ho_procs = [], ho_sockets = [], ho_next_socket = 0\<rparr>"

lemma demo_host_ok: "host_ok demo_host"
  by (simp add: host_ok_def demo_host_def)

section \<open>Properties\<close>

text \<open>C35: Whatever the order of requests, signals, commands and processes that end: the socket handed out for a user is
  the one of that user, and behind it is a child process of the agent that was started for that user and
  inherited just this socket, which only the web process may open. It is running, unless it has ended since
  the agent last looked.\<close>

theorem ensured_worker_serves_user:
  assumes "sup_reachable d h s" "host_ok h" "ensure_worker uid s = (Inr p, t)"
  shows "p = worker_socket_path (sv_run_dir s) uid \<and>
    (\<exists>e proc. dget (sv_workers t) uid = Some e \<and> dget (sv_procs t) (we_pid e) = Some proc \<and> serves t uid proc \<and>
      (ended_child (sv_procs s) = None \<longrightarrow> \<not> pr_exited proc))"
proof -
  have ok: "supervisor_ok s" using assms(1,2) by (rule reachable_ok)
  note ens = ensure_ok [OF ok assms(3)]
  from ens(3) obtain e where e: "p = worker_socket_path (sv_run_dir s) uid" "dget (sv_workers t) uid = Some e" by blast
  from supervisor_okD(3) [OF ens(1) e(2)] obtain proc where
    proc: "dget (sv_procs t) (we_pid e) = Some proc" "serves t uid proc" by (auto simp: tracks_def)
  have running: "\<not> pr_exited proc" if none: "ended_child (sv_procs s) = None"
  proof
    assume "pr_exited proc"
    with ens(4) [OF proc(1)] have "dget (sv_procs s) (we_pid e) = Some proc" by blast
    then have "(we_pid e, proc) \<in> set (sv_procs s)" by (rule map_of_SomeD)
    with none \<open>pr_exited proc\<close> proc(2) show False by (force simp: ended_child_def find_None_iff serves_def)
  qed
  show ?thesis
    by (intro conjI exI [of _ e] exI [of _ proc]) (use e proc running in auto)
qed

theorem ensured_worker_serves_user_witness:
  "let (r, t) = ensure_worker 5 (supervisor_init ''/run'' demo_host) in
     r = Inr ''/run/workers/5.sock'' \<and> (\<exists>e proc. dget (sv_workers t) 5 = Some e \<and> dget (sv_procs t) (we_pid e) = Some proc \<and>
       serves t 5 proc \<and> \<not> pr_exited proc)"
proof -
  obtain r t where rt: "ensure_worker 5 (supervisor_init ''/run'' demo_host) = (r, t)" by fastforce
  have "fst (ensure_worker 5 (supervisor_init ''/run'' demo_host)) = Inr ''/run/workers/5.sock''" by code_simp
  with rt have r: "r = Inr ''/run/workers/5.sock''" by simp
  have "ended_child (sv_procs (supervisor_init ''/run'' demo_host)) = None"
    by (simp add: supervisor_init_def demo_host_def ended_child_def)
  with ensured_worker_serves_user [OF Start demo_host_ok rt [unfolded r]] show ?thesis by (auto simp: rt r)
qed

text \<open>The handler of \<open>SIGCHLD\<close> waits for every child that has ended, not only for workers: a command of the agent
  that has ended by then loses its exit status to it.\<close>

theorem reap_collects_commands:
  assumes "sup_reachable d h s" "host_ok h" "dget (sv_procs s) pid = Some (command_process argv \<lparr>pr_exited := True\<rparr>)"
  shows "dget (sv_procs (reap s)) pid = None"
proof -
  have gone: "dget (sv_procs (reap s)) pid \<noteq> None \<Longrightarrow> dget (sv_procs (reap s)) pid = dget (sv_procs s) pid" for s
  proof (induction s rule: reap.induct)
    case (1 s)
    have host: "sv_host (forget_process q u) = sv_host u" for q and u :: supervisor
      by (simp add: forget_process_def Let_def split: option.split)
    show ?case
    proof (cases rule: waitpid_cases [of "sv_host s"])
      case (got q)
      show ?thesis
      proof (cases "q = 0")
        case False
        let ?t = "forget_process q (s\<lparr>sv_host := (sv_host s)\<lparr>ho_log := ho_log (sv_host s) @ [Waitpid], ho_procs := dpop q (sv_procs s)\<rparr>\<rparr>)"
        have t: "reap s = reap ?t" using False got(1) by (subst reap.simps) simp
        have "dget (sv_procs (reap ?t)) pid = dget (sv_procs ?t) pid"
          using "1.IH" [OF got(1) [symmetric] refl False] "1.prems" unfolding t by blast
        with "1.prems" show ?thesis unfolding t by (auto simp: host dget_dpop split: if_splits)
      qed (use got(1) "1.prems" in \<open>(subst (asm) reap.simps, subst reap.simps, simp add: dget_dpop split: if_splits)\<close>)
    qed (subst reap.simps, simp)+
  qed
  have ok: "supervisor_ok s" using assms(1,2) by (rule reachable_ok)
  show ?thesis
  proof (rule ccontr)
    assume "dget (sv_procs (reap s)) pid \<noteq> None"
    with gone assms(3) have "(pid, command_process argv \<lparr>pr_exited := True\<rparr>) \<in> set (sv_procs (reap s))"
      by (metis map_of_SomeD)
    moreover have "ended_child (sv_procs (reap s)) = None" using reap_ok [OF ok] by blast
    ultimately show False by (force simp: ended_child_def find_None_iff command_process_def)
  qed
qed

theorem reap_collects_commands_witness:
  "\<exists>s. sup_reachable ''/run'' demo_host s \<and> dget (sv_procs s) 7 \<noteq> None \<and> dget (sv_procs (reap s)) 7 = None"
proof -
  let ?s0 = "supervisor_init ''/run'' demo_host"
  let ?s1 = "set_procs (dset 7 (command_process [''mdadm'']) (sv_procs ?s0)) ?s0"
  let ?s2 = "set_procs (dset 7 (command_process [''mdadm'']\<lparr>pr_exited := True\<rparr>) (sv_procs ?s1)) ?s1"
  have 1: "sup_reachable ''/run'' demo_host ?s1"
    by (rule Step, rule Start, rule Command) (simp_all add: supervisor_init_def demo_host_def)
  have 2: "sup_reachable ''/run'' demo_host ?s2"
    by (rule Step, rule 1, rule Exits) (simp add: set_procs_def dget_dset)
  have p: "dget (sv_procs ?s2) 7 = Some (command_process [''mdadm'']\<lparr>pr_exited := True\<rparr>)" by (simp add: set_procs_def dget_dset)
  show ?thesis using reap_collects_commands [OF 2 demo_host_ok p] p 2 by auto
qed

end
