(* ===== verification/Events.thy ===== *)
theory Events
  imports ApiSafety "HOL-Library.Sublist"
begin

text \<open>
  Events on their way to the browsers: the in-process bus of \<open>events/bus.py\<close> and the WebSocket endpoint of
  \<open>web/ws.py\<close>, which forwards what is published on the topics its client subscribed to. The data of an event is a
  type variable. A queue of the bus has a number of its own, since the subscribers of a topic are a set of
  objects. A connection is a state machine: the client's messages, its forwarders and the publishers take steps in
  any order.
\<close>

section \<open>The bus\<close>

definition queue_maxsize :: nat where
  "queue_maxsize = 64"

record 'd event_queue =
  eq_id :: nat
  eq_items :: "'d list"

type_synonym 'd event_bus = "(string, 'd event_queue list) dict"

definition subscribers :: "'d event_bus \<Rightarrow> string \<Rightarrow> 'd event_queue list" where
  "subscribers b topic = (case dget b topic of None \<Rightarrow> [] | Some qs \<Rightarrow> qs)"

text \<open>\<open>put_nowait\<close>; \<open>None\<close> is \<open>QueueFull\<close>. A full queue loses its oldest item.\<close>

definition put_nowait :: "'d \<Rightarrow> 'd list \<Rightarrow> 'd list option" where
  "put_nowait d xs = (if queue_maxsize \<le> length xs then None else Some (xs @ [d]))"

definition offer :: "'d \<Rightarrow> 'd list \<Rightarrow> 'd list" where
  "offer d xs = (case put_nowait d xs of Some ys \<Rightarrow> ys
     | None \<Rightarrow> (let ys = (case xs of [] \<Rightarrow> [] | _ # r \<Rightarrow> r) in
         case put_nowait d ys of Some zs \<Rightarrow> zs | None \<Rightarrow> ys))"

definition bus_subscribe :: "string \<Rightarrow> nat \<Rightarrow> 'd event_bus \<Rightarrow> 'd event_bus" where
  "bus_subscribe topic i b = dset topic (subscribers b topic @ [\<lparr>eq_id = i, eq_items = []\<rparr>]) b"

definition bus_unsubscribe :: "string \<Rightarrow> nat \<Rightarrow> 'd event_bus \<Rightarrow> 'd event_bus" where
  "bus_unsubscribe topic i b = dset topic (filter (\<lambda>q. eq_id q \<noteq> i) (subscribers b topic)) b"

definition bus_publish :: "string \<Rightarrow> 'd \<Rightarrow> 'd event_bus \<Rightarrow> 'd event_bus" where
  "bus_publish topic d b = (case dget b topic of None \<Rightarrow> b
     | Some qs \<Rightarrow> dset topic (map (\<lambda>q. q\<lparr>eq_items := offer d (eq_items q)\<rparr>) qs) b)"

definition queue_items :: "string \<Rightarrow> nat \<Rightarrow> 'd event_bus \<Rightarrow> 'd list option" where
  "queue_items topic i b = map_option eq_items (List.find (\<lambda>q. eq_id q = i) (subscribers b topic))"

text \<open>\<open>queue.get()\<close> of the queue with that number: the oldest item, if there is one.\<close>

definition bus_get :: "string \<Rightarrow> nat \<Rightarrow> 'd event_bus \<Rightarrow> ('d \<times> 'd event_bus) option" where
  "bus_get topic i b = (case queue_items topic i b of
       Some (d # ds) \<Rightarrow> Some (d, dset topic (map (\<lambda>q. if eq_id q = i then q\<lparr>eq_items := ds\<rparr> else q) (subscribers b topic)) b)
     | _ \<Rightarrow> None)"

section \<open>The WebSocket endpoint\<close>

text \<open>A message of the client: \<open>wm_topic\<close> is \<open>None\<close> when the JSON has no string there.\<close>

record ws_msg =
  wm_topic :: "string option"
  wm_action :: "string option"

text \<open>A forwarder is a task: created, and later waiting on its queue.\<close>

datatype forwarder = Created | Forwarding nat

record 'd ws_conn =
  wc_bus :: "'d event_bus"
  wc_next :: nat
  wc_open :: bool
  wc_forwarders :: "(string, forwarder) dict"
  wc_sent :: "(string \<times> 'd) list"

text \<open>Before the connection is accepted the session cookie is looked up as for a request; \<open>False\<close> closes it with
  the code 4401.\<close>

definition ws_accepts :: "(string \<Rightarrow> string) \<Rightarrow> settings \<Rightarrow> string option \<Rightarrow> ('a, bool) web_prog" where
  "ws_accepts hash st cookie = (case cookie of None \<Rightarrow> ret False
     | Some t \<Rightarrow> if t = [] then ret False
       else bindE (resolve_session hash (session_timeout st) t) (\<lambda>s. ret (s \<noteq> None)))"

definition ws_open :: "bool \<Rightarrow> 'd event_bus \<Rightarrow> nat \<Rightarrow> 'd ws_conn" where
  "ws_open accepted b i = \<lparr>wc_bus = b, wc_next = i, wc_open = accepted, wc_forwarders = [], wc_sent = []\<rparr>"

text \<open>Cancelling a forwarder takes its queue out of the bus, if it has one by then.\<close>

definition ws_cancel :: "string \<Rightarrow> forwarder \<Rightarrow> 'd event_bus \<Rightarrow> 'd event_bus" where
  "ws_cancel topic f b = (case f of Created \<Rightarrow> b | Forwarding i \<Rightarrow> bus_unsubscribe topic i b)"

definition ws_receive :: "ws_msg \<Rightarrow> 'd ws_conn \<Rightarrow> 'd ws_conn" where
  "ws_receive m c = (case wm_topic m of None \<Rightarrow> c
     | Some topic \<Rightarrow>
         if wm_action m = Some ''subscribe'' \<and> dget (wc_forwarders c) topic = None
         then c\<lparr>wc_forwarders := dset topic Created (wc_forwarders c)\<rparr>
         else if wm_action m = Some ''unsubscribe'' then (case dget (wc_forwarders c) topic of
             None \<Rightarrow> c
           | Some f \<Rightarrow> c\<lparr>wc_forwarders := dpop topic (wc_forwarders c), wc_bus := ws_cancel topic f (wc_bus c)\<rparr>)
         else c)"

text \<open>The first step of a forwarder subscribes it; each further one sends an item.\<close>

definition ws_start :: "string \<Rightarrow> 'd ws_conn \<Rightarrow> 'd ws_conn" where
  "ws_start topic c = c\<lparr>wc_forwarders := dset topic (Forwarding (wc_next c)) (wc_forwarders c),
     wc_bus := bus_subscribe topic (wc_next c) (wc_bus c), wc_next := wc_next c + 1\<rparr>"

definition ws_forward :: "string \<Rightarrow> nat \<Rightarrow> 'd ws_conn \<Rightarrow> 'd ws_conn option" where
  "ws_forward topic i c = (case bus_get topic i (wc_bus c) of None \<Rightarrow> None
     | Some (d, b) \<Rightarrow> Some (c\<lparr>wc_bus := b, wc_sent := wc_sent c @ [(topic, d)]\<rparr>))"

definition ws_close :: "'d ws_conn \<Rightarrow> 'd ws_conn" where
  "ws_close c = c\<lparr>wc_open := False, wc_forwarders := [],
     wc_bus := fold (\<lambda>(topic, f). ws_cancel topic f) (wc_forwarders c) (wc_bus c)\<rparr>"

text \<open>Other connections subscribe and unsubscribe queues of their own; the numbers are never used twice. The label
  of a step is what it publishes, if anything.\<close>

inductive ws_step :: "'d ws_conn \<Rightarrow> (string \<times> 'd) list \<Rightarrow> 'd ws_conn \<Rightarrow> bool" where
  Receives: "wc_open c \<Longrightarrow> ws_step c [] (ws_receive m c)"
| Starts: "wc_open c \<Longrightarrow> dget (wc_forwarders c) topic = Some Created \<Longrightarrow> ws_step c [] (ws_start topic c)"
| Sends: "wc_open c \<Longrightarrow> dget (wc_forwarders c) topic = Some (Forwarding i) \<Longrightarrow> ws_forward topic i c = Some c' \<Longrightarrow>
    ws_step c [] c'"
| Disconnects: "wc_open c \<Longrightarrow> ws_step c [] (ws_close c)"
| Published: "ws_step c [(topic, d)] (c\<lparr>wc_bus := bus_publish topic d (wc_bus c)\<rparr>)"
| Other_subscribes: "ws_step c [] (c\<lparr>wc_bus := bus_subscribe topic (wc_next c) (wc_bus c), wc_next := wc_next c + 1\<rparr>)"
| Other_leaves: "dget (wc_forwarders c) topic \<noteq> Some (Forwarding i) \<Longrightarrow>
    ws_step c [] (c\<lparr>wc_bus := bus_unsubscribe topic i (wc_bus c)\<rparr>)"
| Other_reads: "dget (wc_forwarders c) topic \<noteq> Some (Forwarding i) \<Longrightarrow> bus_get topic i (wc_bus c) = Some (d, b) \<Longrightarrow>
    ws_step c [] (c\<lparr>wc_bus := b\<rparr>)"

inductive ws_run :: "'d ws_conn \<Rightarrow> (string \<times> 'd) list \<Rightarrow> 'd ws_conn \<Rightarrow> bool" where
  Idle: "ws_run c [] c"
| Then: "ws_run c ps c' \<Longrightarrow> ws_step c' l c'' \<Longrightarrow> ws_run c (ps @ l) c''"

section \<open>Facts\<close>

text \<open>A queue holds the newest items, at most 64 of them.\<close>

lemma offer_newest: "length xs \<le> queue_maxsize \<Longrightarrow> offer d xs = drop (length xs + 1 - queue_maxsize) (xs @ [d])"
  by (cases xs) (auto simp: offer_def put_nowait_def queue_maxsize_def Let_def)

lemma offer_subseq: "subseq (offer d xs) (xs @ [d])"
  by (cases xs) (auto simp: offer_def put_nowait_def Let_def)

lemma offer_length: "length xs \<le> queue_maxsize \<Longrightarrow> length (offer d xs) \<le> queue_maxsize"
  by (simp add: offer_newest)

lemma subscribers_simps [simp]:
  "subscribers (dset topic qs b) t = (if t = topic then qs else subscribers b t)"
  "subscribers (bus_publish topic d b) t =
     (if t = topic then map (\<lambda>q. q\<lparr>eq_items := offer d (eq_items q)\<rparr>) (subscribers b topic) else subscribers b t)"
  by (auto simp: subscribers_def bus_publish_def dget_dset split: option.split)

lemma find_map: "List.find P (map f xs) = map_option f (List.find (\<lambda>x. P (f x)) xs)"
  by (induction xs) auto

lemma find_append: "List.find P (xs @ ys) = (case List.find P xs of None \<Rightarrow> List.find P ys | Some x \<Rightarrow> Some x)"
  by (induction xs) auto

lemma find_filter: "List.find P (filter Q xs) = List.find (\<lambda>x. Q x \<and> P x) xs"
  by (induction xs) auto

lemma queue_items_simps:
  "queue_items t i (bus_publish topic d b) =
     (if t = topic then map_option (offer d) (queue_items t i b) else queue_items t i b)"
  "queue_items t i (bus_subscribe topic j b) =
     (if t = topic \<and> i = j \<and> queue_items t i b = None then Some [] else queue_items t i b)"
  "queue_items t i (bus_unsubscribe topic j b) = (if t = topic \<and> i = j then None else queue_items t i b)"
  "bus_get topic j b = Some (d, b') \<Longrightarrow> queue_items t i b' =
     (if t = topic \<and> i = j then map_option tl (queue_items t i b) else queue_items t i b)"
proof -
  show "queue_items t i (bus_publish topic d b) =
     (if t = topic then map_option (offer d) (queue_items t i b) else queue_items t i b)"
    by (simp add: queue_items_def find_map option.map_comp o_def)
  show "queue_items t i (bus_subscribe topic j b) =
     (if t = topic \<and> i = j \<and> queue_items t i b = None then Some [] else queue_items t i b)"
    by (auto simp: queue_items_def bus_subscribe_def find_append split: option.split)
  have "List.find (\<lambda>q. eq_id q \<noteq> j \<and> eq_id q = i) qs = (if i = j then None else List.find (\<lambda>q. eq_id q = i) qs)" for qs :: "'a event_queue list"
    by (induction qs) auto
  then show "queue_items t i (bus_unsubscribe topic j b) = (if t = topic \<and> i = j then None else queue_items t i b)"
    by (auto simp: queue_items_def bus_unsubscribe_def find_filter)
  have 1: "map_option eq_items (List.find (\<lambda>q. eq_id q = i') (map (\<lambda>q. if eq_id q = j then q\<lparr>eq_items := ds\<rparr> else q) qs)) =
      (if i' = j then map_option (\<lambda>_. ds) (List.find (\<lambda>q. eq_id q = i') qs)
       else map_option eq_items (List.find (\<lambda>q. eq_id q = i') qs))" for i' ds and qs :: "'a event_queue list"
    by (induction qs) auto
  show "queue_items t i b' = (if t = topic \<and> i = j then map_option tl (queue_items t i b) else queue_items t i b)"
    if get: "bus_get topic j b = Some (d, b')"
  proof -
    obtain ds where ds: "queue_items topic j b = Some (d # ds)" and
      b': "b' = dset topic (map (\<lambda>q. if eq_id q = j then q\<lparr>eq_items := ds\<rparr> else q) (subscribers b topic)) b"
      using get by (auto simp: bus_get_def split: option.splits list.splits)
    then show ?thesis using 1 [of i ds "subscribers b topic"]
      by (cases "t = topic"; cases "i = j") (auto simp: queue_items_def)
  qed
qed


text \<open>What is under way to the client on a topic.\<close>

definition under_way :: "string \<Rightarrow> 'd ws_conn \<Rightarrow> 'd list" where
  "under_way t c = (case dget (wc_forwarders c) t of
       Some (Forwarding i) \<Rightarrow> (case queue_items t i (wc_bus c) of None \<Rightarrow> [] | Some xs \<Rightarrow> xs)
     | _ \<Rightarrow> [])"

definition on_topic :: "string \<Rightarrow> (string \<times> 'd) list \<Rightarrow> 'd list" where
  "on_topic t ps = map snd (filter (\<lambda>(u, _). u = t) ps)"

lemma on_topic_simps [simp]:
  "on_topic t [] = []" "on_topic t (ps @ qs) = on_topic t ps @ on_topic t qs"
  "on_topic t [(u, d)] = (if u = t then [d] else [])"
  by (simp_all add: on_topic_def)

definition ids_ok :: "'d ws_conn \<Rightarrow> bool" where
  "ids_ok c \<longleftrightarrow> (\<forall>t i. wc_next c \<le> i \<longrightarrow> queue_items t i (wc_bus c) = None) \<and>
     (\<forall>t i. dget (wc_forwarders c) t = Some (Forwarding i) \<longrightarrow> i < wc_next c)"

lemma ws_cancel_items: "queue_items t i (ws_cancel u f b) = (if t = u \<and> f = Forwarding i then None else queue_items t i b)"
  by (auto simp: ws_cancel_def queue_items_simps split: forwarder.split)

lemma ws_close_items: "queue_items t i b = None \<Longrightarrow> queue_items t i (fold (\<lambda>(u, f). ws_cancel u f) fs b) = None"
  by (induction fs arbitrary: b) (auto simp: ws_cancel_items)

lemma ws_step_ids: "ws_step c l c' \<Longrightarrow> ids_ok c \<Longrightarrow> ids_ok c'"
proof (induction rule: ws_step.induct)
  case (Receives c m)
  then show ?case
    by (auto simp: ids_ok_def ws_receive_def dget_dset dget_dpop ws_cancel_items split: option.split if_splits)
next
  case (Starts c topic)
  then show ?case
    by (auto simp: ids_ok_def ws_start_def dget_dset queue_items_simps less_Suc_eq split: if_splits)
next
  case (Sends c topic i c')
  then show ?case by (auto simp: ids_ok_def ws_forward_def queue_items_simps(4) split: option.splits)
next
  case (Disconnects c)
  then show ?case by (auto simp: ids_ok_def ws_close_def ws_close_items)
qed (auto simp: ids_ok_def queue_items_simps less_Suc_eq)

text \<open>What was sent and is still under way is a part, in order, of what was published.\<close>

definition in_order :: "(string \<times> 'd) list \<Rightarrow> 'd ws_conn \<Rightarrow> bool" where
  "in_order ps c \<longleftrightarrow> (\<forall>t. subseq (on_topic t (wc_sent c) @ under_way t c) (on_topic t ps))"

lemma under_way_published:
  "subseq (under_way t (c\<lparr>wc_bus := bus_publish u d (wc_bus c)\<rparr>)) (under_way t c @ on_topic t [(u, d)])"
  by (auto simp: under_way_def queue_items_simps offer_subseq split: option.split forwarder.split)

lemma in_order_less:
  assumes "in_order ps c" "wc_sent c' = wc_sent c" "\<And>t. subseq (under_way t c') (under_way t c)"
  shows "in_order ps c'"
  unfolding in_order_def
proof
  fix t
  have "subseq (on_topic t (wc_sent c') @ under_way t c') (on_topic t (wc_sent c) @ under_way t c)"
    unfolding assms(2) by (intro list_emb_append_mono assms(3)) simp
  with assms(1) show "subseq (on_topic t (wc_sent c') @ under_way t c') (on_topic t ps)"
    unfolding in_order_def by (meson subseq_order.order_trans)
qed

lemma ws_forward_shifts:
  assumes "ws_forward topic i c = Some c'" "dget (wc_forwarders c) topic = Some (Forwarding i)"
  shows "on_topic t (wc_sent c') @ under_way t c' = on_topic t (wc_sent c) @ under_way t c"
proof -
  from assms(1) obtain d b where b: "bus_get topic i (wc_bus c) = Some (d, b)" and
    c': "c' = c\<lparr>wc_bus := b, wc_sent := wc_sent c @ [(topic, d)]\<rparr>"
    by (auto simp: ws_forward_def split: option.splits)
  then obtain ds where ds: "queue_items topic i (wc_bus c) = Some (d # ds)"
    by (auto simp: bus_get_def split: option.splits list.splits)
  show ?thesis
  proof (cases "t = topic")
    case True
    with assms(2) b ds show ?thesis by (simp add: c' under_way_def queue_items_simps(4))
  next
    case False
    with b have "queue_items t j b = queue_items t j (wc_bus c)" for j by (simp add: queue_items_simps(4))
    with False show ?thesis by (simp add: c' under_way_def split: option.split forwarder.split)
  qed
qed

lemma ws_step_in_order:
  "ws_step c l c' \<Longrightarrow> ids_ok c \<Longrightarrow> in_order ps c \<Longrightarrow> in_order (ps @ l) c'"
proof (induction rule: ws_step.induct)
  case (Receives c m)
  show ?case unfolding append_Nil2
  proof (rule in_order_less [OF Receives(3)])
    show "wc_sent (ws_receive m c) = wc_sent c" by (simp add: ws_receive_def split: option.split)
    fix t show "subseq (under_way t (ws_receive m c)) (under_way t c)"
      by (auto simp: ws_receive_def under_way_def dget_dset dget_dpop ws_cancel_items split: option.split forwarder.split)
  qed
next
  case (Starts c topic)
  show ?case unfolding append_Nil2
  proof (rule in_order_less [OF Starts(4)])
    show "wc_sent (ws_start topic c) = wc_sent c" by (simp add: ws_start_def)
    fix t show "subseq (under_way t (ws_start topic c)) (under_way t c)"
      using Starts(3) by (auto simp: ws_start_def under_way_def dget_dset queue_items_simps ids_ok_def split: option.split forwarder.split)
  qed
next
  case (Sends c topic i c')
  then show ?case by (simp add: in_order_def ws_forward_shifts)
next
  case (Disconnects c)
  show ?case unfolding append_Nil2
    by (rule in_order_less [OF Disconnects(3)]) (simp_all add: ws_close_def under_way_def)
next
  case (Published c topic d)
  show ?case unfolding in_order_def
  proof
    fix t
    let ?c = "c\<lparr>wc_bus := bus_publish topic d (wc_bus c)\<rparr>"
    have "subseq (on_topic t (wc_sent c) @ under_way t ?c) (on_topic t (wc_sent c) @ under_way t c @ on_topic t [(topic, d)])"
      by (intro list_emb_append_mono under_way_published) simp
    also have "subseq \<dots> (on_topic t (ps @ [(topic, d)]))"
      using Published(2) unfolding on_topic_simps append_assoc [symmetric] in_order_def by (intro list_emb_append_mono) auto
    finally show "subseq (on_topic t (wc_sent ?c) @ under_way t ?c) (on_topic t (ps @ [(topic, d)]))" by simp
  qed
next
  case (Other_subscribes c topic)
  show ?case unfolding append_Nil2
    by (rule in_order_less [OF Other_subscribes(2)])
      (use Other_subscribes(1) in \<open>auto simp: under_way_def queue_items_simps ids_ok_def split: option.split forwarder.split\<close>)
next
  case (Other_leaves c topic i)
  show ?case unfolding append_Nil2
    by (rule in_order_less [OF Other_leaves(3)])
      (auto simp: under_way_def queue_items_simps split: option.split forwarder.split)
next
  case (Other_reads c topic i d b)
  show ?case unfolding append_Nil2
    by (rule in_order_less [OF Other_reads(4)])
      (use Other_reads(1,2) in \<open>auto simp: under_way_def queue_items_simps(4) split: option.split forwarder.split\<close>)
qed

section \<open>Properties\<close>

text \<open>A slow consumer loses the oldest events only: after any number of publications a queue holds the newest 64
  of what it held and was offered, in order, and never more.\<close>

theorem queue_keeps_newest:
  "length xs \<le> queue_maxsize \<Longrightarrow> fold offer ds xs = drop (length xs + length ds - queue_maxsize) (xs @ ds)"
proof (induction ds arbitrary: xs)
  case (Cons d ds)
  let ?k = "length xs + 1 - queue_maxsize"
  have k: "?k \<le> 1" using Cons.prems by simp
  have "fold offer (d # ds) xs = drop (length (offer d xs) + length ds - queue_maxsize) (offer d xs @ ds)"
    using Cons.IH [OF offer_length [OF Cons.prems]] by simp
  also have "offer d xs @ ds = drop ?k (xs @ d # ds)" using k by (simp add: offer_newest [OF Cons.prems] queue_maxsize_def)
  also have "drop (length (offer d xs) + length ds - queue_maxsize) (drop ?k (xs @ d # ds)) =
      drop (length xs + length (d # ds) - queue_maxsize) (xs @ d # ds)"
    using k by (cases "?k = 0") (auto simp: offer_newest [OF Cons.prems] queue_maxsize_def add.commute)
  finally show ?case .
qed simp

theorem queue_keeps_newest_witness: "fold offer [1, 2] (replicate 64 0) = replicate 62 0 @ [1, 2 :: nat]"
proof -
  have "fold offer [1 :: nat, 2] (replicate 64 0) =
      drop (length (replicate 64 (0 :: nat)) + length [1 :: nat, 2] - queue_maxsize) (replicate 64 0 @ [1, 2])"
    by (rule queue_keeps_newest) (simp add: queue_maxsize_def)
  then show ?thesis by (simp only: queue_maxsize_def) simp
qed

text \<open>C33: What a browser receives on a topic is what was published there since the connection was opened, in the order of
  publication, each event at most once and nothing else, whatever it subscribes to and leaves meanwhile and
  whatever other connections do; one that was not accepted receives nothing.\<close>

theorem websocket_forwards_in_order:
  assumes "ws_run (ws_open accepted b i) ps c" "\<forall>t j. i \<le> j \<longrightarrow> queue_items t j b = None"
  shows "subseq (on_topic t (wc_sent c)) (on_topic t ps) \<and> (\<not> accepted \<longrightarrow> wc_sent c = [])"
proof -
  have "ids_ok c \<and> in_order ps c \<and> (\<not> accepted \<longrightarrow> \<not> wc_open c \<and> wc_sent c = [])"
    using assms
  proof (induction "ws_open accepted b i" ps c rule: ws_run.induct)
    case Idle
    then show ?case by (simp add: ids_ok_def in_order_def ws_open_def under_way_def)
  next
    case (Then ps c' l c'')
    moreover have "\<not> wc_open c' \<and> wc_sent c' = [] \<Longrightarrow> \<not> wc_open c'' \<and> wc_sent c'' = []"
      using Then(3) by (cases rule: ws_step.cases) auto
    ultimately show ?case by (blast intro: ws_step_ids ws_step_in_order)
  qed
  moreover have "subseq (on_topic t (wc_sent c)) (on_topic t (wc_sent c) @ under_way t c)"
    using list_emb_append_mono [of "(=)" "on_topic t (wc_sent c)" "on_topic t (wc_sent c)" "[]" "under_way t c"] by simp
  ultimately show ?thesis unfolding in_order_def by (meson subseq_order.order_trans)
qed

theorem websocket_forwards_in_order_witness:
  "\<exists>c. ws_run (ws_open True [] 0) [(''job'', 1 :: nat), (''job'', 2)] c \<and> wc_sent c = [(''job'', 2)] \<and>
    subseq (on_topic ''job'' (wc_sent c)) [1, 2]"
proof -
  let ?c0 = "ws_open True [] 0 :: nat ws_conn"
  let ?c1 = "ws_receive \<lparr>wm_topic = Some ''job'', wm_action = Some ''subscribe''\<rparr> ?c0"
  let ?c2 = "?c1\<lparr>wc_bus := bus_publish ''job'' 1 (wc_bus ?c1)\<rparr>"
  let ?c3 = "ws_start ''job'' ?c2"
  let ?c4 = "?c3\<lparr>wc_bus := bus_publish ''job'' 2 (wc_bus ?c3)\<rparr>"
  obtain c5 where c5: "ws_forward ''job'' 0 ?c4 = Some c5" "wc_sent c5 = [(''job'', 2)]"
    by (simp add: ws_open_def ws_receive_def ws_start_def ws_forward_def bus_get_def bus_publish_def bus_subscribe_def
      subscribers_def queue_items_def offer_def put_nowait_def queue_maxsize_def)
  have "ws_run ?c0 ([] @ []) ?c1" by (rule ws_run.Then, rule Idle, rule Receives) (simp add: ws_open_def)
  then have "ws_run ?c0 (([] @ []) @ [(''job'', 1)]) ?c2" by (rule ws_run.Then) (rule Published)
  then have "ws_run ?c0 ((([] @ []) @ [(''job'', 1)]) @ []) ?c3"
    by (rule ws_run.Then) (rule Starts; simp add: ws_open_def ws_receive_def)
  then have "ws_run ?c0 (((([] @ []) @ [(''job'', 1)]) @ []) @ [(''job'', 2)]) ?c4" by (rule ws_run.Then) (rule Published)
  then have "ws_run ?c0 ((((([] @ []) @ [(''job'', 1)]) @ []) @ [(''job'', 2)]) @ []) c5"
    by (rule ws_run.Then) (rule Sends [OF _ _ c5(1)]; simp add: ws_open_def ws_receive_def ws_start_def)
  then have run: "ws_run ?c0 [(''job'', 1), (''job'', 2)] c5" by simp
  with websocket_forwards_in_order [OF run, of "''job''"] c5(2) show ?thesis
    by (auto simp: queue_items_def subscribers_def)
qed

end
