(* ===== verification/Adapters.thy ===== *)
theory Adapters
  imports DevSeed Acl Accounts Schemas
begin

text \<open>
  The remaining system adapters the agent's handlers are written against: logins
  (\<open>system/pam_auth.py\<close>), mount points (\<open>system/mounts.py\<close>), firewalld (\<open>system/firewall.py\<close>) and the
  distribution (\<open>system/distro/base.py\<close>), each with its real and its development implementation.

  PAM, the system calls behind \<open>os.path.ismount\<close> and the daemon firewalld are not code of the repository: they are
  functions the definitions take. The account databases \<open>pwd\<close> and \<open>grp\<close> read are lists in file order.
\<close>

section \<open>Words and lines\<close>

text \<open>\<open>s.split()\<close>: maximal runs of characters that are no white space; \<open>cur\<close> is the word so far, backwards.\<close>

fun words_from :: "string \<Rightarrow> string \<Rightarrow> string list" where
  "words_from cur [] = (if cur = [] then [] else [rev cur])"
| "words_from cur (c # s) =
     (if is_space c then (if cur = [] then words_from [] s else rev cur # words_from [] s)
      else words_from (c # cur) s)"

definition split_words :: "string \<Rightarrow> string list" where
  "split_words s = words_from [] s"

lemma words_from_clean:
  "\<forall>c \<in> set cur. \<not> is_space c \<Longrightarrow> w \<in> set (words_from cur s) \<Longrightarrow> w \<noteq> [] \<and> (\<forall>c \<in> set w. \<not> is_space c)"
proof (induction s arbitrary: cur)
  case Nil
  then show ?case by (cases "cur = []") auto
next
  case (Cons c s)
  show ?case
  proof (cases "is_space c")
    case True
    with Cons.prems have "w \<in> set (words_from [] s) \<or> (w = rev cur \<and> cur \<noteq> [])" by (cases "cur = []") auto
    with Cons.IH [of "[]"] Cons.prems(1) show ?thesis by auto
  next
    case False
    with Cons.IH [of "c # cur"] Cons.prems show ?thesis by simp
  qed
qed

lemma split_words_clean: "w \<in> set (split_words s) \<Longrightarrow> w \<noteq> [] \<and> (\<forall>c \<in> set w. \<not> is_space c)"
  using words_from_clean [of "[]" w s] by (simp add: split_words_def)

section \<open>Logins\<close>

record passwd_entry =
  pw_name :: string
  pw_uid :: int
  pw_gid :: int
  pw_gecos :: string

record group_entry =
  grp_name :: string
  grp_gid :: int
  grp_mem :: "string list"

text \<open>\<open>oa_pam u p\<close>: what \<open>pam.pam().authenticate(u, p, service="nasos")\<close> answers.\<close>

record os_accounts =
  oa_pam :: "string \<Rightarrow> string \<Rightarrow> bool"
  oa_passwd :: "passwd_entry list"
  oa_groups :: "group_entry list"

definition getpwnam :: "os_accounts \<Rightarrow> string \<Rightarrow> passwd_entry option" where
  "getpwnam db u = List.find (\<lambda>e. pw_name e = u) (oa_passwd db)"

definition getgrnam :: "os_accounts \<Rightarrow> string \<Rightarrow> group_entry option" where
  "getgrnam db g = List.find (\<lambda>e. grp_name e = g) (oa_groups db)"

definition getgrgid :: "os_accounts \<Rightarrow> int \<Rightarrow> group_entry option" where
  "getgrgid db i = List.find (\<lambda>e. grp_gid e = i) (oa_groups db)"

type_synonym login_identity = "int \<times> string \<times> string \<times> string"

text \<open>The groups that list the user, and the primary group of the account.\<close>

definition groups_for :: "os_accounts \<Rightarrow> string \<Rightarrow> int \<Rightarrow> string list" where
  "groups_for db u gid = map grp_name (filter (\<lambda>g. u \<in> set (grp_mem g)) (oa_groups db))
     @ (case getgrgid db gid of None \<Rightarrow> [] | Some g \<Rightarrow> [grp_name g])"

definition pam_authenticate :: "os_accounts \<Rightarrow> string \<Rightarrow> string \<Rightarrow> login_identity option" where
  "pam_authenticate db u p =
     (if \<not> oa_pam db u p then None
      else case getpwnam db u of
        None \<Rightarrow> None
      | Some pw \<Rightarrow> (let groups = groups_for db u (pw_gid pw);
            display_name = or_else (strip (fst (partition_on (CHR '','') (pw_gecos pw)))) u in
          if ''nasos-admin'' \<in> set groups then Some (pw_uid pw, u, ''admin'', display_name)
          else if ''nasos-users'' \<in> set groups then Some (pw_uid pw, u, ''user'', display_name)
          else None))"

text \<open>\<open>DevUsersAuthenticator\<close>: \<open>doc\<close> is what \<open>tomllib\<close> reads from the file, if there is one; a role other than
  the two is refused by the result model.\<close>

definition load_dev_users :: "json option \<Rightarrow> exn + json" where
  "load_dev_users doc = (case doc of None \<Rightarrow> Inr (JObj []) | Some d \<Rightarrow> jget_or d ''users'' (JObj []))"

definition jitem :: "json \<Rightarrow> string \<Rightarrow> exn + json" where
  "jitem e k = rbind (jget e k) (from_option (KeyError k))"

definition dev_authenticate :: "pylib \<Rightarrow> json option \<Rightarrow> string \<Rightarrow> string \<Rightarrow> exn + login_identity option" where
  "dev_authenticate py doc u p =
     rbind (load_dev_users doc) (\<lambda>users. rbind (jget users u) (\<lambda>entry. case entry of
       None \<Rightarrow> Inr None
     | Some e \<Rightarrow> rbind (jget e ''password'') (\<lambda>pw.
         if pw \<noteq> Some (JStr p) then Inr None
         else rbind (jitem e ''uid'') (\<lambda>u'. rbind (py_int u') (\<lambda>uid.
              rbind (jitem e ''role'') (\<lambda>role.
              rbind (jget_or e ''display_name'' (JStr u)) (\<lambda>display_name.
                if role = JStr ''admin'' then Inr (Some (uid, u, ''admin'', py_str py display_name))
                else if role = JStr ''user'' then Inr (Some (uid, u, ''user'', py_str py display_name))
                else Inl (ValidationError ''role''))))))))"

section \<open>Mount points\<close>

text \<open>\<open>for line in fh: fields = line.split()\<close>: the first line whose second field is the path decides.\<close>

definition mount_table :: "string \<Rightarrow> string list list" where
  "mount_table contents = map split_words (split_on LF contents)"

fun mounted_type :: "string \<Rightarrow> string list list \<Rightarrow> string option" where
  "mounted_type p [] = None"
| "mounted_type p (row # rest) =
     (if 3 \<le> length row \<and> row ! 1 = p then Some (row ! 2) else mounted_type p rest)"

definition proc_filesystem_type :: "string \<Rightarrow> (world, string option) prog" where
  "proc_filesystem_type p =
     bindE (read_text ''/proc/mounts'') (\<lambda>t. ret (mounted_type p (mount_table t)))"

record 's mounts =
  mi_is_mountpoint :: "string \<Rightarrow> ('s, bool) prog"
  mi_filesystem_type :: "string \<Rightarrow> ('s, string option) prog"

text \<open>\<open>ProcMounts\<close>; \<open>ismount\<close> is the answer of the kernel.\<close>

definition proc_mounts :: "(world \<Rightarrow> string \<Rightarrow> bool) \<Rightarrow> world mounts" where
  "proc_mounts ismount = \<lparr>mi_is_mountpoint = (\<lambda>p. getsE (\<lambda>w. ismount w p)),
     mi_filesystem_type = proc_filesystem_type\<rparr>"

type_synonym fake_mounts = "(string, string) dict"

definition fake_mounts :: "fake_mounts mounts" where
  "fake_mounts = \<lparr>mi_is_mountpoint = (\<lambda>p. getsE (\<lambda>m. dget m p \<noteq> None)),
     mi_filesystem_type = (\<lambda>p. getsE (\<lambda>m. dget m p))\<rparr>"

lemma mounted_type_listed:
  "mounted_type p tab = Some t \<Longrightarrow> \<exists>row \<in> set tab. 3 \<le> length row \<and> row ! 1 = p \<and> row ! 2 = t"
  by (induction tab) (auto split: if_splits)

text \<open>The kernel writes a space in a mount point as \<open>\040\<close>, so a mount point with a space is in no field.\<close>

lemma spaced_mountpoint_never_found:
  assumes "c \<in> set p" "is_space c"
  shows "mounted_type p (mount_table contents) = None"
proof (rule ccontr)
  assume "mounted_type p (mount_table contents) \<noteq> None"
  then obtain t where "mounted_type p (mount_table contents) = Some t" by blast
  from mounted_type_listed [OF this] obtain l where "3 \<le> length (split_words l)" "split_words l ! 1 = p"
    by (auto simp: mount_table_def)
  then have "p \<in> set (split_words l)" by (metis Suc_le_eq le_less_trans nth_mem numeral_3_eq_3 One_nat_def Suc_leD)
  with split_words_clean [of p l] assms show False by blast
qed

section \<open>Firewalld\<close>

datatype fw_call = New_client | Get_default_zone | Add_service string string | Zone_by_name string
  | Add_permanent string string | Remove_service string string | Remove_permanent string string
  | Query_service string string

text \<open>
  What firewalld answers to a call, after the calls so far, and how long it takes; a call with no time
  never returns. \<open>fd_elapsed\<close> is the time the thread has spent, nothing once it is stuck.
\<close>

record firewalld =
  fd_log :: "fw_call list"
  fd_answer :: "fw_call list \<Rightarrow> fw_call \<Rightarrow> string + string"
  fd_time :: "fw_call list \<Rightarrow> rat option"
  fd_connected :: bool
  fd_elapsed :: "rat option"

definition fw_call :: "fw_call \<Rightarrow> (firewalld, string) prog" where
  "fw_call c f = (case fd_elapsed f of None \<Rightarrow> (Inl TimeoutError, f) | Some t \<Rightarrow>
     (let f' = f\<lparr>fd_log := fd_log f @ [c],
            fd_elapsed := map_option (\<lambda>d. t + max 0 d) (fd_time f (fd_log f))\<rparr>
      in if fd_elapsed f' = None then (Inl TimeoutError, f')
         else (case fd_answer f (fd_log f) c of Inl e \<Rightarrow> Inl (DBusError e) | Inr r \<Rightarrow> Inr r, f')))"

definition fw_call_timeout :: rat where "fw_call_timeout = 10"

text \<open>\<open>asyncio.wait_for(asyncio.to_thread(m), timeout=10)\<close>: the thread runs on after the time is up.\<close>

definition in_time :: "(firewalld, 'b) prog \<Rightarrow> (firewalld, 'b) prog" where
  "in_time m f = (let (r, f') = m (f\<lparr>fd_elapsed := Some 0\<rparr>) in
     case fd_elapsed f' of None \<Rightarrow> (Inl TimeoutError, f')
     | Some t \<Rightarrow> if fw_call_timeout < t then (Inl TimeoutError, f') else (r, f'))"

definition get_client :: "(firewalld, unit) prog" where
  "get_client = bindE (getsE fd_connected) (\<lambda>b. whenE (\<not> b)
     (thenE (bindE (fw_call New_client) (\<lambda>_. ret ())) (modifyE (\<lambda>f. f\<lparr>fd_connected := True\<rparr>))))"

definition error_code :: "string \<Rightarrow> string" where
  "error_code e = strip (fst (partition_on (CHR '':'') e))"

definition unless_already :: "string \<Rightarrow> (firewalld, string) prog \<Rightarrow> (firewalld, unit) prog" where
  "unless_already harmless m = tryE (bindE m (\<lambda>_. ret ())) (\<lambda>e. case e of
       DBusError t \<Rightarrow> if error_code t \<noteq> harmless then raise (FirewallError t) else ret ()
     | _ \<Rightarrow> raise e)"

definition dbus_default_zone :: "(firewalld, string) prog" where
  "dbus_default_zone = in_time (thenE get_client (fw_call Get_default_zone))"

definition ensure_service_sync :: "string \<Rightarrow> string \<Rightarrow> (firewalld, unit) prog" where
  "ensure_service_sync zone service = thenE get_client
     (thenE (unless_already ''ALREADY_ENABLED'' (fw_call (Add_service zone service)))
       (unless_already ''ALREADY_ENABLED'' (thenE (fw_call (Zone_by_name zone)) (fw_call (Add_permanent zone service)))))"

definition dbus_ensure_service :: "string \<Rightarrow> string \<Rightarrow> (firewalld, unit) prog" where
  "dbus_ensure_service zone service = in_time (ensure_service_sync zone service)"

definition remove_service_sync :: "string \<Rightarrow> string \<Rightarrow> (firewalld, unit) prog" where
  "remove_service_sync zone service = thenE get_client
     (thenE (unless_already ''NOT_ENABLED'' (fw_call (Remove_service zone service)))
       (unless_already ''NOT_ENABLED'' (thenE (fw_call (Zone_by_name zone)) (fw_call (Remove_permanent zone service)))))"

definition dbus_remove_service :: "string \<Rightarrow> string \<Rightarrow> (firewalld, unit) prog" where
  "dbus_remove_service zone service = in_time (remove_service_sync zone service)"

definition dbus_has_service :: "string \<Rightarrow> string \<Rightarrow> (firewalld, bool) prog" where
  "dbus_has_service zone service =
     in_time (thenE get_client (bindE (fw_call (Query_service zone service)) (\<lambda>r. ret (r = ''1''))))"

text \<open>The protocol, and the in-memory implementation: the services of each zone.\<close>

record 's firewall =
  fi_default_zone :: "('s, string) prog"
  fi_ensure_service :: "string \<Rightarrow> string \<Rightarrow> ('s, unit) prog"
  fi_remove_service :: "string \<Rightarrow> string \<Rightarrow> ('s, unit) prog"
  fi_has_service :: "string \<Rightarrow> string \<Rightarrow> ('s, bool) prog"

definition dbus_firewall :: "firewalld firewall" where
  "dbus_firewall = \<lparr>fi_default_zone = dbus_default_zone, fi_ensure_service = dbus_ensure_service,
     fi_remove_service = dbus_remove_service, fi_has_service = dbus_has_service\<rparr>"

record fake_firewall =
  ff_default :: string
  ff_services :: "(string, string list) dict"

definition services_in :: "fake_firewall \<Rightarrow> string \<Rightarrow> string list" where
  "services_in f zone = (case dget (ff_services f) zone of None \<Rightarrow> [] | Some ss \<Rightarrow> ss)"

definition fake_firewall :: "fake_firewall firewall" where
  "fake_firewall = \<lparr>fi_default_zone = getsE ff_default,
     fi_ensure_service = (\<lambda>zone service. modifyE (\<lambda>f. f\<lparr>ff_services := dset zone (List.insert service (services_in f zone)) (ff_services f)\<rparr>)),
     fi_remove_service = (\<lambda>zone service. modifyE (\<lambda>f. case dget (ff_services f) zone of None \<Rightarrow> f
        | Some ss \<Rightarrow> f\<lparr>ff_services := dset zone (removeAll service ss) (ff_services f)\<rparr>)),
     fi_has_service = (\<lambda>zone service. getsE (\<lambda>f. service \<in> set (services_in f zone)))\<rparr>"

text \<open>Whatever firewalld answers, a call that comes back in time has put the rule both into the running and into
  the permanent configuration, or firewalld said it was there already.\<close>

definition agreed :: "firewalld \<Rightarrow> fw_call \<Rightarrow> bool" where
  "agreed f c \<longleftrightarrow> (\<exists>before after. fd_log f = before @ c # after \<and>
     (case fd_answer f before c of Inr _ \<Rightarrow> True | Inl e \<Rightarrow> error_code e = ''ALREADY_ENABLED''))"

section \<open>The distribution\<close>

fun os_release_line :: "string \<Rightarrow> (string, string) dict \<Rightarrow> (string, string) dict" where
  "os_release_line line values = (if CHR ''='' \<notin> set line \<or> startswith line ''#'' then values
     else (let (key, raw_value) = partition_on (CHR ''='') line in
       dset key (strip_char (CHR 0x22) (strip raw_value)) values))"

definition os_release_path :: string where
  "os_release_path = ''/etc/os-release''"

definition read_os_release :: "(world, (string, string) dict) prog" where
  "read_os_release = bindE (getsE (\<lambda>w. case node_at w os_release_path of Some (File _ _) \<Rightarrow> True | _ \<Rightarrow> False)) (\<lambda>present.
     if \<not> present then ret []
     else bindE (read_text os_release_path) (\<lambda>t. ret (fold os_release_line (splitlines t) [])))"

definition os_pretty_name :: "string \<Rightarrow> (world, string) prog" where
  "os_pretty_name platform = bindE read_os_release (\<lambda>values.
     ret (case dget values ''PRETTY_NAME'' of None \<Rightarrow> platform | Some n \<Rightarrow> n))"

text \<open>\<open>_uptime_seconds\<close> of \<open>agent/handlers/system.py\<close>.\<close>

definition uptime_seconds :: "pylib \<Rightarrow> (world, rat) prog" where
  "uptime_seconds py = bindE (read_text ''/proc/uptime'') (\<lambda>t.
     case split_words (hd (split_on LF t)) of
       [] \<Rightarrow> raise IndexError
     | x # _ \<Rightarrow> (case py_float py x of None \<Rightarrow> raise (ValueError x) | Some r \<Rightarrow> ret r))"

end
