(* ===== verification/Handlers.thy ===== *)
theory Handlers
  imports Adapters Samba Supervisor UploadApi
begin

text \<open>
  The root agent as a whole: its state (\<open>agent/state.py\<close>), the handlers of \<open>agent/handlers\<close> not modelled with their
  components, and the table of all of them, which takes every request to its handler. A handler is
  written against the protocols of the adapters, so it is a function of an \<open>adapters\<close> record; \<open>build_state\<close>
  fills the record with the real implementations or those of the development server.
\<close>

section \<open>State\<close>

text \<open>\<open>ag_world\<close> is what commands, systemd and files are reached through; \<open>ag_parts\<close> is what the other adapters keep.\<close>

record 'd agent_state =
  ag_world :: world
  ag_jobs :: job_runner
  ag_workers :: supervisor
  ag_parts :: 'd

type_synonym ('d, 'b) aprog = "('d agent_state, 'b) prog"

definition on_world :: "(world, 'b) prog \<Rightarrow> ('d, 'b) aprog" where
  "on_world m s = (let (r, w) = m (ag_world s) in (r, s\<lparr>ag_world := w\<rparr>))"

definition on_workers :: "(supervisor, 'b) prog \<Rightarrow> ('d, 'b) aprog" where
  "on_workers m s = (let (r, v) = m (ag_workers s) in (r, s\<lparr>ag_workers := v\<rparr>))"

text \<open>A program on one part of a record, given how to read and how to write the part.\<close>

definition on_part :: "('d \<Rightarrow> 'p) \<Rightarrow> ('p \<Rightarrow> 'd \<Rightarrow> 'd) \<Rightarrow> ('p, 'b) prog \<Rightarrow> ('d, 'b) aprog" where
  "on_part getp putp m s = (let (r, p) = m (getp (ag_parts s)) in (r, s\<lparr>ag_parts := putp p (ag_parts s)\<rparr>))"

record 'd adapters =
  ad_authenticate :: "string \<Rightarrow> string \<Rightarrow> ('d, login_identity option) aprog"
  ad_users :: "'d agent_state posix_users"
  ad_acl :: "'d agent_state acl"
  ad_mounts :: "'d agent_state mounts"
  ad_firewall :: "'d agent_state firewall"
  ad_mdstat :: "(world, string) prog"

text \<open>
  What the agent reads of the machine besides: the account databases and the mount points are functions of
  what has been run so far.
\<close>

record agent_env =
  en_settings :: settings
  en_py :: pylib
  en_sha :: "bytes \<Rightarrow> string"
  en_accounts :: "world \<Rightarrow> os_accounts"
  en_ismount :: "world \<Rightarrow> string \<Rightarrow> bool"
  en_hostname :: string
  en_platform :: string
  en_kernel :: string

subsection \<open>Building it\<close>

text \<open>Real adapters: commands, the account databases and firewalld.\<close>

definition agent_run :: "'d agent_state runner" where
  "agent_run argv inp = on_world (run_cmd argv inp)"

definition getpw :: "agent_env \<Rightarrow> string \<Rightarrow> ('d, int option) aprog" where
  "getpw en u = getsE (\<lambda>s. map_option pw_uid (getpwnam (en_accounts en (ag_world s)) u))"

definition firewall_part :: "firewalld firewall \<Rightarrow> firewalld agent_state firewall" where
  "firewall_part fw = \<lparr>fi_default_zone = on_part id (\<lambda>p _. p) (fi_default_zone fw),
     fi_ensure_service = (\<lambda>z v. on_part id (\<lambda>p _. p) (fi_ensure_service fw z v)),
     fi_remove_service = (\<lambda>z v. on_part id (\<lambda>p _. p) (fi_remove_service fw z v)),
     fi_has_service = (\<lambda>z v. on_part id (\<lambda>p _. p) (fi_has_service fw z v))\<rparr>"

definition real_adapters :: "agent_env \<Rightarrow> firewalld adapters" where
  "real_adapters en = \<lparr>
     ad_authenticate = (\<lambda>u p. getsE (\<lambda>s. pam_authenticate (en_accounts en (ag_world s)) u p)),
     ad_users = real_users agent_run (getpw en),
     ad_acl = setfacl_acl agent_run,
     ad_mounts = \<lparr>mi_is_mountpoint = (\<lambda>p. on_world (mi_is_mountpoint (proc_mounts (en_ismount en)) p)),
       mi_filesystem_type = (\<lambda>p. on_world (mi_filesystem_type (proc_mounts (en_ismount en)) p))\<rparr>,
     ad_firewall = firewall_part dbus_firewall,
     ad_mdstat = mdstat_read\<rparr>"

text \<open>The adapters of the development server: \<open>dv_users_doc\<close> is the parsed \<open>devusers.toml\<close>, \<open>dv_mdstat\<close> the text
  of \<open>FakeMdstat\<close>.\<close>

record dev_parts =
  dv_users_doc :: "json option"
  dv_posix :: fake_posix
  dv_acl :: fake_acl
  dv_mounts :: fake_mounts
  dv_firewall :: fake_firewall

definition on_posix :: "(fake_posix, 'b) prog \<Rightarrow> (dev_parts, 'b) aprog" where
  "on_posix = on_part dv_posix (\<lambda>p d. d\<lparr>dv_posix := p\<rparr>)"

definition on_fake_acl :: "(fake_acl, 'b) prog \<Rightarrow> (dev_parts, 'b) aprog" where
  "on_fake_acl = on_part dv_acl (\<lambda>p d. d\<lparr>dv_acl := p\<rparr>)"

definition on_fake_mounts :: "(fake_mounts, 'b) prog \<Rightarrow> (dev_parts, 'b) aprog" where
  "on_fake_mounts = on_part dv_mounts (\<lambda>p d. d\<lparr>dv_mounts := p\<rparr>)"

definition on_fake_firewall :: "(fake_firewall, 'b) prog \<Rightarrow> (dev_parts, 'b) aprog" where
  "on_fake_firewall = on_part dv_firewall (\<lambda>p d. d\<lparr>dv_firewall := p\<rparr>)"

definition dev_users :: "dev_parts agent_state posix_users" where
  "dev_users = \<lparr>pu_lookup = (\<lambda>u. on_posix (pu_lookup fake_users u)),
     pu_create = (\<lambda>u h d. on_posix (pu_create fake_users u h d)),
     pu_delete = (\<lambda>u b. on_posix (pu_delete fake_users u b)),
     pu_set_unix_password = (\<lambda>u p. on_posix (pu_set_unix_password fake_users u p)),
     pu_add_to_group = (\<lambda>u g. on_posix (pu_add_to_group fake_users u g)),
     pu_remove_from_group = (\<lambda>u g. on_posix (pu_remove_from_group fake_users u g)),
     pu_smb_create = (\<lambda>u p. on_posix (pu_smb_create fake_users u p)),
     pu_smb_set_password = (\<lambda>u p. on_posix (pu_smb_set_password fake_users u p)),
     pu_smb_delete = (\<lambda>u. on_posix (pu_smb_delete fake_users u)),
     pu_smb_set_enabled = (\<lambda>u b. on_posix (pu_smb_set_enabled fake_users u b)),
     pu_group_create = (\<lambda>g. on_posix (pu_group_create fake_users g)),
     pu_group_delete = (\<lambda>g. on_posix (pu_group_delete fake_users g))\<rparr>"

definition dev_adapters :: "agent_env \<Rightarrow> dev_parts adapters" where
  "dev_adapters en = \<lparr>
     ad_authenticate = (\<lambda>u p. bindE (getsE (\<lambda>s. dv_users_doc (ag_parts s))) (\<lambda>doc. liftE (dev_authenticate (en_py en) doc u p))),
     ad_users = dev_users,
     ad_acl = \<lparr>acl_replace_all = (\<lambda>p es r. on_fake_acl (acl_replace_all fake_acl p es r)),
       acl_read = (\<lambda>p. on_fake_acl (acl_read fake_acl p))\<rparr>,
     ad_mounts = \<lparr>mi_is_mountpoint = (\<lambda>p. on_fake_mounts (mi_is_mountpoint fake_mounts p)),
       mi_filesystem_type = (\<lambda>p. on_fake_mounts (mi_filesystem_type fake_mounts p))\<rparr>,
     ad_firewall = \<lparr>fi_default_zone = on_fake_firewall (fi_default_zone fake_firewall),
       fi_ensure_service = (\<lambda>z v. on_fake_firewall (fi_ensure_service fake_firewall z v)),
       fi_remove_service = (\<lambda>z v. on_fake_firewall (fi_remove_service fake_firewall z v)),
       fi_has_service = (\<lambda>z v. on_fake_firewall (fi_has_service fake_firewall z v))\<rparr>,
     ad_mdstat = ret []\<rparr>"

definition dev_volumes :: "settings \<Rightarrow> fake_mounts" where
  "dev_volumes st = [(path_join (st_devdata_dir st) ''volume1'', ''xfs''), (path_join (st_devdata_dir st) ''volume2'', ''ext4'')]"

section \<open>Handlers\<close>

definition auth_login :: "'d adapters \<Rightarrow> string \<Rightarrow> string \<Rightarrow> ('d, rpc_result) aprog" where
  "auth_login A username password = bindE (ad_authenticate A username password) (\<lambda>identity. case identity of
       None \<Rightarrow> raise (RpcException ''invalid_credentials'' ''invalid username or password'')
     | Some (uid, name, role, display_name) \<Rightarrow> ret (AuthLoginResult uid name role display_name))"

definition nasos_version :: string where "nasos_version = ''0.1.0''"

definition agent_info :: "agent_env \<Rightarrow> ('d, rpc_result) aprog" where
  "agent_info en = on_world (bindE (os_pretty_name (en_platform en)) (\<lambda>os.
     bindE (uptime_seconds (en_py en)) (\<lambda>up.
       ret (SystemInfoResult (en_hostname en) os (en_kernel en) nasos_version up))))"

definition is_forbidden :: "string \<Rightarrow> bool" where
  "is_forbidden mountpoint \<longleftrightarrow> mountpoint = ''/'' \<or> mountpoint = ''/boot'' \<or> startswith mountpoint ''/boot/''"

definition volumes_register :: "'d adapters \<Rightarrow> string \<Rightarrow> ('d, rpc_result) aprog" where
  "volumes_register A path =
     (let mountpoint = or_else (rstrip_by (\<lambda>c. c = CHR ''/'') path) ''/'' in
      if is_forbidden mountpoint
      then raise (RpcException ''forbidden'' (mountpoint @ '' cannot be registered as a NAS-OS volume''))
      else bindE (mi_is_mountpoint (ad_mounts A) mountpoint) (\<lambda>mounted.
        if \<not> mounted then raise (RpcException ''not_a_mountpoint'' (mountpoint @ '' is not a mountpoint''))
        else bindE (mi_filesystem_type (ad_mounts A) mountpoint) (\<lambda>filesystem. case filesystem of
            None \<Rightarrow> raise (RpcException ''not_a_mountpoint'' (mountpoint @ '' is not in /proc/mounts''))
          | Some f \<Rightarrow> ret (VolumeInfo mountpoint f))))"

subsection \<open>Shares\<close>

text \<open>\<open>os.makedirs(path, exist_ok=False)\<close> and \<open>shutil.rmtree\<close>: what is below goes first.\<close>

definition make_new_dirs :: "string \<Rightarrow> (world, unit) prog" where
  "make_new_dirs p = bindE (getsE (fs_exists p)) (\<lambda>there.
     if there then raise (OSError FileExistsError p) else mkdir_p p)"

definition tree_below :: "string \<Rightarrow> world \<Rightarrow> string list" where
  "tree_below p w = rev (sort_key length (filter (\<lambda>q. startswith q (p @ ''/'')) (map fst (w_fs w))))"

definition remove_node :: "string \<Rightarrow> (world, unit) prog" where
  "remove_node p = fs_guard FsUnlink p (\<lambda>w. (Inr (), fs_set p None w))"

definition remove_tree :: "string \<Rightarrow> (world, unit) prog" where
  "remove_tree p = bindE (getsE (\<lambda>w. node_at w p)) (\<lambda>n. case n of
       None \<Rightarrow> raise (OSError FileNotFoundError p)
     | Some (File _ _) \<Rightarrow> raise (OSError NotADirectoryError p)
     | Some Dir \<Rightarrow> bindE (getsE (tree_below p)) (\<lambda>qs. forE remove_node (qs @ [p])))"

text \<open>\<open>_SHARE_MODE\<close> is \<open>0o2700\<close>.\<close>

definition share_mode :: nat where "share_mode = 1472"

definition shares_create :: "agent_env \<Rightarrow> string \<Rightarrow> ('d, rpc_result) aprog" where
  "shares_create en p = on_world (bindE (getsE (fs_exists p)) (\<lambda>there.
     if there then raise (RpcException ''already_exists'' (p @ '' already exists''))
     else let is_sandboxed = is_dev (en_settings en) \<or> is_test (en_settings en) in
       bindE (if is_sandboxed then ret None
          else bindE (getsE (\<lambda>w. getgrnam (en_accounts en w) ''nasos-users'')) (\<lambda>g. case g of
              None \<Rightarrow> raise (RpcException ''system_error'' ''nasos-users group does not exist'')
            | Some e \<Rightarrow> ret (Some (grp_gid e)))) (\<lambda>gid.
       thenE (tryE (thenE (make_new_dirs p) (thenE (whenE (gid \<noteq> None) (chown p)) (chmod p share_mode)))
           (\<lambda>e. raise (system_error e)))
         (ret OkResult))))"

definition shares_delete :: "string \<Rightarrow> bool \<Rightarrow> ('d, rpc_result) aprog" where
  "shares_delete p delete_files = on_world (thenE
     (whenE delete_files (tryE (remove_tree p) (\<lambda>e. case e of
         OSError k q \<Rightarrow> if k = FileNotFoundError then ret () else raise e | _ \<Rightarrow> raise e)))
     (ret OkResult))"

definition acl_as :: "(string \<Rightarrow> exn) \<Rightarrow> ('d, unit) aprog \<Rightarrow> ('d, unit) aprog" where
  "acl_as wrap m = tryE m (\<lambda>e. case e of AclError t \<Rightarrow> raise (wrap t) | _ \<Rightarrow> raise e)"

definition shares_set_permissions :: "'d adapters \<Rightarrow> string \<Rightarrow> rpc_context \<Rightarrow> string \<Rightarrow> acl_entry list \<Rightarrow> bool
    \<Rightarrow> ('d, rpc_result) aprog" where
  "shares_set_permissions A jid ctx p entries recursive =
     (if \<not> recursive
      then thenE (acl_as (RpcException ''system_error'') (acl_replace_all (ad_acl A) p entries False))
             (ret (JobStartedResult None))
      else thenE (modifyE (\<lambda>s. s\<lparr>ag_jobs := submit jid ''shares.apply_permissions'' (Some (''share:'' @ p)) (ctx_user ctx) (ag_jobs s)\<rparr>))
             (ret (JobStartedResult (Some jid))))"

text \<open>The body of that job, at time \<open>now\<close> throughout.\<close>

definition apply_permissions_body :: "'d adapters \<Rightarrow> string \<Rightarrow> rat \<Rightarrow> string \<Rightarrow> acl_entry list \<Rightarrow> ('d, unit) aprog" where
  "apply_permissions_body A jid now p entries =
     thenE (modifyE (\<lambda>s. s\<lparr>ag_jobs := report_progress jid 0 ''applying permissions recursively'' now (ag_jobs s)\<rparr>))
    (thenE (acl_as RuntimeError (acl_replace_all (ad_acl A) p entries True))
       (modifyE (\<lambda>s. s\<lparr>ag_jobs := report_progress jid 1 ''done'' now (ag_jobs s)\<rparr>)))"

fun shares_handler :: "agent_env \<Rightarrow> 'd adapters \<Rightarrow> string \<Rightarrow> rpc_context \<Rightarrow> shares_params \<Rightarrow> ('d, rpc_result) aprog" where
  "shares_handler en A jid ctx (ShareCreateParams p) = shares_create en p"
| "shares_handler en A jid ctx (ShareDeleteParams p b) = shares_delete p b"
| "shares_handler en A jid ctx (ShareSetPermissionsParams p es r) = shares_set_permissions A jid ctx p es r"

subsection \<open>Storage, Samba, firewall, jobs and workers\<close>

fun storage_handler :: "agent_env \<Rightarrow> 'd adapters \<Rightarrow> string \<Rightarrow> rpc_context \<Rightarrow> storage_params \<Rightarrow> ('d, rpc_result) aprog" where
  "storage_handler en A jid ctx StorageInventoryParams =
     bindE (on_world (get_inventory (en_py en) run_cmd (ad_mdstat A))) (\<lambda>iv. ret (StorageInventoryResult iv))"
| "storage_handler en A jid ctx (StorageExecutePlanParams sp sizes mountpoints) =
     bindE (getsE (\<lambda>s. execute_plan jid ctx (ag_jobs s))) (\<lambda>(j, jobs).
     thenE (modifyE (\<lambda>s. s\<lparr>ag_jobs := jobs\<rparr>)) (ret (JobStartedResult (Some j))))"

fun samba_handler :: "agent_env \<Rightarrow> samba_params \<Rightarrow> ('d, rpc_result) aprog" where
  "samba_handler en (SambaApplyConfigParams text restart) =
     bindE (on_world (apply_config (en_sha en) (en_settings en) text restart)) (\<lambda>sha. ret (SambaApplyConfigResult sha))"
| "samba_handler en SambaEnsureEnabledParams = thenE (on_world (ensure_enabled (en_settings en))) (ret OkResult)"

definition firewall_handler :: "'d adapters \<Rightarrow> string \<Rightarrow> ('d, rpc_result) aprog" where
  "firewall_handler A service = thenE (tryE (bindE (fi_default_zone (ad_firewall A)) (\<lambda>zone.
       fi_ensure_service (ad_firewall A) zone service))
     (\<lambda>e. case e of FirewallError t \<Rightarrow> raise (RpcException ''system_error'' t) | _ \<Rightarrow> raise e))
     (ret OkResult)"

definition jobs_list :: "('d, rpc_result) aprog" where
  "jobs_list = getsE (\<lambda>s. job_list_result (ag_jobs s))"

definition fileworker_ensure :: "int \<Rightarrow> string \<Rightarrow> ('d, rpc_result) aprog" where
  "fileworker_ensure uid username = bindE (on_workers (ensure_worker uid)) (\<lambda>p. ret (FileWorkerEnsureResult p))"

fun agent_handler :: "agent_env \<Rightarrow> 'd adapters \<Rightarrow> string \<Rightarrow> rpc_context \<Rightarrow> rpc_params \<Rightarrow> ('d, rpc_result) aprog" where
  "agent_handler en A jid ctx (Auth p) = auth_login A (al_username p) (al_password p)"
| "agent_handler en A jid ctx SystemInfoParams = agent_info en"
| "agent_handler en A jid ctx (Users p) = users_handler (ad_users A) p"
| "agent_handler en A jid ctx (Groups p) = groups_handler (ad_users A) p"
| "agent_handler en A jid ctx (VolumeRegisterParams m) = volumes_register A m"
| "agent_handler en A jid ctx (Storage p) = storage_handler en A jid ctx p"
| "agent_handler en A jid ctx (Shares p) = shares_handler en A jid ctx p"
| "agent_handler en A jid ctx (Samba p) = samba_handler en p"
| "agent_handler en A jid ctx (FirewallEnsureServiceParams v) = firewall_handler A v"
| "agent_handler en A jid ctx JobListParams = jobs_list"
| "agent_handler en A jid ctx (FileWorkerEnsureParams uid u) = fileworker_ensure uid u"
| "agent_handler en A jid ctx p = raise (RpcException ''not_implemented'' (''no handler for: '' @ method_of p))"

end
