(* ===== verification/AgentSafety.thy ===== *)
theory AgentSafety
  imports Handlers
begin

text \<open>
  What holds of the agent as a whole: every handler answers with the result model the registry declares for
  its method; who may log in and as what; what can be registered as a volume; when the firewall rule
  is in place.
\<close>

section \<open>Result models\<close>

text \<open>\<open>REGISTRY\<close>: the result model of each method, by its name.\<close>

definition result_models :: "(string, string) dict" where
  "result_models =
    [(''auth.login'', ''AuthLoginResult''), (''system.info'', ''SystemInfoResult''),
     (''users.create'', ''UserInfo''), (''users.set_smb_enabled'', ''OkResult''), (''users.delete'', ''OkResult''),
     (''users.set_password'', ''OkResult''), (''users.import_existing'', ''UserInfo''),
     (''groups.create'', ''GroupInfo''), (''groups.delete'', ''OkResult''), (''groups.add_member'', ''OkResult''),
     (''groups.remove_member'', ''OkResult''), (''volumes.register'', ''VolumeInfo''),
     (''storage.inventory'', ''StorageInventoryResult''), (''storage.execute_plan'', ''JobStartedResult''),
     (''shares.create'', ''OkResult''), (''shares.delete'', ''OkResult''),
     (''shares.set_permissions'', ''JobStartedResult''), (''samba.apply_config'', ''SambaApplyConfigResult''),
     (''samba.ensure_enabled'', ''OkResult''), (''firewall.ensure_service'', ''OkResult''),
     (''jobs.list'', ''JobListResult''), (''files.list'', ''FilesListResult''), (''files.search'', ''FilesSearchResult''),
     (''files.mkdir'', ''OkResult''), (''files.rename'', ''OkResult''), (''files.delete'', ''JobStartedResult''),
     (''files.copy'', ''JobStartedResult''), (''files.move'', ''JobStartedResult''), (''files.zip'', ''JobStartedResult''),
     (''files.properties'', ''FilesPropertiesResult''), (''files.get_acl'', ''FilesGetAclResult''),
     (''files.set_acl'', ''JobStartedResult''), (''files.upload_begin'', ''OkResult''),
     (''files.upload_offset'', ''FilesUploadOffsetResult''), (''files.upload_complete'', ''OkResult''),
     (''files.upload_abort'', ''OkResult''), (''files.jobs.list'', ''JobListResult''),
     (''agent.fileworker.ensure'', ''FileWorkerEnsureResult'')]"

fun model_of :: "rpc_result \<Rightarrow> string" where
  "model_of (AuthLoginResult _ _ _ _) = ''AuthLoginResult''"
| "model_of (SystemInfoResult _ _ _ _ _) = ''SystemInfoResult''"
| "model_of (UserInfo _ _) = ''UserInfo''"
| "model_of OkResult = ''OkResult''"
| "model_of (GroupInfo _ _) = ''GroupInfo''"
| "model_of (VolumeInfo _ _) = ''VolumeInfo''"
| "model_of (StorageInventoryResult _) = ''StorageInventoryResult''"
| "model_of (JobStartedResult _) = ''JobStartedResult''"
| "model_of (SambaApplyConfigResult _) = ''SambaApplyConfigResult''"
| "model_of (JobListResult _) = ''JobListResult''"
| "model_of (FilesListResult _) = ''FilesListResult''"
| "model_of (FilesSearchResult _) = ''FilesSearchResult''"
| "model_of (FilesPropertiesResult _ _ _ _) = ''FilesPropertiesResult''"
| "model_of (FilesGetAclResult _) = ''FilesGetAclResult''"
| "model_of (FilesUploadOffsetResult _) = ''FilesUploadOffsetResult''"
| "model_of (FileWorkerEnsureResult _) = ''FileWorkerEnsureResult''"

lemma result_models_registry: "map fst result_models = registry"
  by (simp add: result_models_def registry_def)

text \<open>A program that returns only values with a property.\<close>

definition returns :: "('b \<Rightarrow> bool) \<Rightarrow> ('s, 'b) prog \<Rightarrow> bool" where
  "returns P m \<longleftrightarrow> (\<forall>s x t. m s = (Inr x, t) \<longrightarrow> P x)"

named_theorems returning \<open>what programs return\<close>

lemma returnsD: "returns P m \<Longrightarrow> m s = (Inr x, t) \<Longrightarrow> P x" by (auto simp: returns_def)

lemma returns_basic [returning]:
  "P x \<Longrightarrow> returns P (ret x)" "returns P (raise e)" "(\<And>s. P (f s)) \<Longrightarrow> returns P (getsE f)"
  by (simp_all add: returns_def)

lemma returns_bindE [returning]: "(\<And>x. returns P (k x)) \<Longrightarrow> returns P (bindE m k)"
  by (auto simp: returns_def bindE_def split: prod.splits sum.splits)

lemma returns_thenE [returning]: "returns P n \<Longrightarrow> returns P (thenE m n)"
  by (simp add: thenE_def returns_bindE)

lemma returns_tryE [returning]: "returns P m \<Longrightarrow> (\<And>e. returns P (h e)) \<Longrightarrow> returns P (tryE m h)"
  by (auto simp: returns_def tryE_def split: prod.splits sum.splits)

lemma returns_split [returning]:
  "returns P a \<Longrightarrow> (\<And>y. returns P (f y)) \<Longrightarrow> returns P (case x of None \<Rightarrow> a | Some y \<Rightarrow> f y)"
  "returns P m \<Longrightarrow> returns P n \<Longrightarrow> returns P (if b then m else n)"
  "(\<And>y z. returns P (g y z)) \<Longrightarrow> returns P (case p of (y, z) \<Rightarrow> g y z)"
  "(\<And>y. returns P (h y)) \<Longrightarrow> returns P (Let v h)"
  by (simp_all split: option.split prod.split)

lemma returns_on [returning]:
  "returns P m \<Longrightarrow> returns P (on_world m)" "returns P v \<Longrightarrow> returns P (on_workers v)"
  by (auto simp: returns_def on_world_def on_workers_def Let_def split: prod.splits)

abbreviation gives :: "('s, rpc_result) prog \<Rightarrow> string \<Rightarrow> bool" where
  "gives m name \<equiv> returns (\<lambda>r. model_of r = name) m"

lemma users_give: "gives (users_handler pu p) (the (dget result_models (users_method p)))"
  by (cases p) (simp_all add: result_models_def users_create_def users_set_smb_enabled_def users_delete_def
    users_set_password_def users_import_existing_def system_user_error_def; intro returning; simp)+

lemma groups_give: "gives (groups_handler pu p) (the (dget result_models (groups_method p)))"
  by (cases p) (simp_all add: result_models_def; intro returning; simp)+

lemma storage_give: "gives (storage_handler en A jid ctx p) (the (dget result_models (storage_method p)))"
  by (cases p) (simp_all add: result_models_def; intro returning; simp)+

lemma shares_give: "gives (shares_handler en A jid ctx p) (the (dget result_models (shares_method p)))"
  by (cases p) (auto simp add: result_models_def shares_create_def shares_delete_def shares_set_permissions_def
    Let_def intro!: returning)

lemma samba_give: "gives (samba_handler en p) (the (dget result_models (samba_method p)))"
  by (cases p) (simp_all add: result_models_def; intro returning; simp)+

lemma agent_gives: "gives (agent_handler en A jid ctx p) (the (dget result_models (method_of p)))"
proof (cases p)
  case (Auth q)
  then show ?thesis
    by (simp add: result_models_def auth_login_def) (intro returning; simp)
next
  case SystemInfoParams
  then show ?thesis
    by (simp add: result_models_def agent_info_def) (intro returning; simp)
next
  case (VolumeRegisterParams m)
  then show ?thesis
    by (simp add: result_models_def volumes_register_def) (intro returning; simp)
next
  case (FirewallEnsureServiceParams m)
  then show ?thesis
    by (simp add: result_models_def firewall_handler_def) (intro returning; simp)
next
  case JobListParams
  then show ?thesis
    by (simp add: result_models_def jobs_list_def job_list_result_def) (intro returning; simp)
next
  case (FileWorkerEnsureParams uid u)
  then show ?thesis
    by (simp add: result_models_def fileworker_ensure_def) (intro returning; simp)
qed (simp_all add: users_give groups_give storage_give shares_give samba_give returns_basic)

text \<open>The handlers of a worker.\<close>

lemma returns_sys [returning]: "returns P m \<Longrightarrow> returns P (wrap_os_error m)"
  unfolding wrap_os_error_def on_os_error_def
  by (intro returning; simp split: exn.split add: returning)

lemma files_give: "gives (files_handler acl pw jid ctx p) (the (dget result_models (files_method p)))"
  by (cases p) (auto simp add: result_models_def list_dir_def search_def mkdir_def rename_def submit_job_def
    properties_def get_acl_def set_acl_def Let_def intro!: returning)

lemma uploads_give: "gives (uploads_handler p) (the (dget result_models (uploads_method p)))"
  by (cases p) (auto simp add: result_models_def upload_begin_def upload_offset_def upload_complete_def
    upload_abort_def Let_def intro!: returning)

lemma worker_gives: "gives (worker_handler acl pw jid ctx p) (the (dget result_models (method_of p)))"
proof (cases p)
  case FilesJobListParams
  then show ?thesis
    by (simp add: result_models_def worker_list_jobs_def job_list_result_def) (intro returning; simp)
qed (simp_all add: files_give uploads_give returns_basic)

section \<open>Logins\<close>

text \<open>A member of a group: listed there, or the group is the primary one of the account.\<close>

definition member_of :: "os_accounts \<Rightarrow> passwd_entry \<Rightarrow> string \<Rightarrow> bool" where
  "member_of db pw g \<longleftrightarrow> (\<exists>e \<in> set (oa_groups db). grp_name e = g \<and>
     (pw_name pw \<in> set (grp_mem e) \<or> getgrgid db (pw_gid pw) = Some e))"

lemma getpwnam_SomeD: "getpwnam db u = Some pw \<Longrightarrow> pw \<in> set (oa_passwd db) \<and> pw_name pw = u"
  by (auto simp: getpwnam_def find_Some_iff)

lemma getgrgid_in: "getgrgid db i = Some e \<Longrightarrow> e \<in> set (oa_groups db)"
  by (auto simp: getgrgid_def find_Some_iff)

lemma groups_for_member: "pw_name pw = u \<Longrightarrow> g \<in> set (groups_for db u (pw_gid pw)) \<longleftrightarrow> member_of db pw g"
  by (cases "getgrgid db (pw_gid pw)") (auto simp: groups_for_def member_of_def dest: getgrgid_in)

lemma pam_login_iff:
  "let db = en_accounts en (ag_world s) in
     fst (agent_handler en (real_adapters en) jid ctx (Auth (AuthLoginParams u p)) s) = Inr r \<longleftrightarrow>
     (\<exists>pw. oa_pam db u p \<and> getpwnam db u = Some pw \<and> (member_of db pw ''nasos-admin'' \<or> member_of db pw ''nasos-users'') \<and>
       r = AuthLoginResult (pw_uid pw) u (if member_of db pw ''nasos-admin'' then ''admin'' else ''user'')
         (or_else (strip (fst (partition_on (CHR '','') (pw_gecos pw)))) u))"
proof -
  define db where "db = en_accounts en (ag_world s)"
  show ?thesis
  proof (cases "getpwnam db u")
    case None
    then show ?thesis
      by (simp add: auth_login_def real_adapters_def pam_authenticate_def bindE_def db_def [symmetric])
  next
    case (Some pw)
    note members = groups_for_member [OF getpwnam_SomeD [OF Some, THEN conjunct2], of _ db]
    show ?thesis
      using Some by (auto simp: auth_login_def real_adapters_def pam_authenticate_def bindE_def db_def [symmetric] members Let_def)
  qed
qed

section \<open>Firewalld\<close>

text \<open>A call that came back with a result has been made, and is answered in the log where it was made.\<close>

definition accepted :: "firewalld \<Rightarrow> fw_call \<Rightarrow> bool" where
  "accepted f c \<longleftrightarrow> (\<exists>before after. fd_log f = before @ c # after \<and>
     (case fd_answer f before c of Inr _ \<Rightarrow> True | Inl e \<Rightarrow> error_code e = ''ALREADY_ENABLED''))"

definition fw_later :: "firewalld \<Rightarrow> firewalld \<Rightarrow> bool" where
  "fw_later f t \<longleftrightarrow> fd_answer t = fd_answer f \<and> (\<exists>more. fd_log t = fd_log f @ more)"

lemma fw_later_refl: "reflp fw_later" by (simp add: reflp_def fw_later_def)
lemma fw_later_trans: "transp fw_later" by (auto simp: transp_def fw_later_def)

lemma accepted_later: "accepted f c \<Longrightarrow> fw_later f t \<Longrightarrow> accepted t c"
  by (fastforce simp: accepted_def fw_later_def)

lemma fw_call_later: "keeps fw_later (fw_call c)"
  by (rule keepsI) (simp add: fw_call_def fw_later_def Let_def split: option.split)

lemma get_client_later: "keeps fw_later get_client"
  unfolding get_client_def
  by (intro keeps_bindE keeps_whenE keeps_thenE keeps_getsE keeps_ret fw_call_later fw_later_refl fw_later_trans)
    (rule keepsI, simp add: fw_later_def)

lemma unless_already_later: "keeps fw_later m \<Longrightarrow> keeps fw_later (unless_already c m)"
  unfolding unless_already_def
  by (intro keeps_tryE keeps_bindE keeps_ret fw_later_refl fw_later_trans)
    (simp_all add: keeps_ret keeps_raise fw_later_refl split: exn.split)

lemma fw_call_accepted:
  assumes "fw_call c f = (r, t)" "(\<exists>x. r = Inr x) \<or> (\<exists>e. r = Inl (DBusError e) \<and> error_code e = ''ALREADY_ENABLED'')"
  shows "accepted t c"
proof -
  from assms have "fd_log t = fd_log f @ c # []" "fd_answer t = fd_answer f"
    "case fd_answer f (fd_log f) c of Inr _ \<Rightarrow> True | Inl e \<Rightarrow> error_code e = ''ALREADY_ENABLED''"
    by (auto simp: fw_call_def Let_def split: option.splits if_splits sum.splits)
  then show ?thesis unfolding accepted_def by metis
qed

lemma fw_call_failed: "fw_call c f = (Inl (DBusError e), t) \<Longrightarrow> fd_answer f (fd_log f) c = Inl e"
  by (auto simp: fw_call_def Let_def split: option.splits if_splits sum.splits)

lemma fw_call_answer: "fw_call c f = (Inr x, t) \<Longrightarrow> fd_answer f (fd_log f) c = Inr x"
  by (auto simp: fw_call_def Let_def split: option.splits if_splits sum.splits)

lemma on_part_eq_Inr: "on_part g p m s = (Inr x, t) \<longleftrightarrow>
    (\<exists>q. m (g (ag_parts s)) = (Inr x, q) \<and> t = s\<lparr>ag_parts := p q (ag_parts s)\<rparr>)"
  by (auto simp: on_part_def split: prod.splits)

lemma in_time_Inr: "in_time m f = (Inr x, t) \<Longrightarrow> m (f\<lparr>fd_elapsed := Some 0\<rparr>) = (Inr x, t)"
  by (auto simp: in_time_def split: prod.splits option.splits if_splits)

lemma unless_already_cases:
  assumes "unless_already c m f = (Inr (), t)"
  obtains x where "m f = (Inr x, t)" | e where "m f = (Inl (DBusError e), t)" "error_code e = c"
proof (cases "m f")
  case (Pair r t')
  show thesis
  proof (cases r)
    case (Inl e)
    with Pair assms that show thesis
      by (cases e) (auto simp: unless_already_def tryE_def bindE_def split: if_splits)
  next
    case (Inr x)
    with Pair assms that show thesis by (simp add: unless_already_def tryE_def bindE_def)
  qed
qed

lemma ensure_sync_accepted:
  assumes ok: "ensure_service_sync zone service f = (Inr (), t)"
    and zones: "\<forall>l e. fd_answer f l (Zone_by_name zone) = Inl e \<longrightarrow> error_code e \<noteq> ''ALREADY_ENABLED''"
  shows "accepted t (Add_service zone service) \<and> accepted t (Add_permanent zone service)"
proof -
  from ok obtain f1 f2 where c0: "get_client f = (Inr (), f1)" and
    c1: "unless_already ''ALREADY_ENABLED'' (fw_call (Add_service zone service)) f1 = (Inr (), f2)" and
    c2: "unless_already ''ALREADY_ENABLED'' (thenE (fw_call (Zone_by_name zone)) (fw_call (Add_permanent zone service))) f2 = (Inr (), t)"
    by (auto simp: ensure_service_sync_def thenE_def bindE_def split: prod.splits sum.splits)
  have "fw_later f f1" using get_client_later c0 by (rule keepsD)
  moreover have "fw_later f1 f2" using unless_already_later [OF fw_call_later] c1 by (rule keepsD)
  ultimately have same: "fd_answer f2 = fd_answer f" by (simp add: fw_later_def)
  have "keeps fw_later (unless_already ''ALREADY_ENABLED'' (thenE (fw_call (Zone_by_name zone)) (fw_call (Add_permanent zone service))))"
    by (intro unless_already_later keeps_thenE fw_call_later fw_later_trans)
  with c2 have later: "fw_later f2 t" by (rule keepsD [rotated])
  from c1 have "accepted f2 (Add_service zone service)"
  proof (cases rule: unless_already_cases)
    case (1 x)
    then show ?thesis by (rule fw_call_accepted) blast
  next
    case (2 e)
    from 2(1) show ?thesis by (rule fw_call_accepted) (use 2(2) in blast)
  qed
  from this later have 1: "accepted t (Add_service zone service)" by (rule accepted_later)
  from c2 have 2: "accepted t (Add_permanent zone service)"
  proof (cases rule: unless_already_cases)
    case (1 x)
    then obtain f3 where "fw_call (Add_permanent zone service) f3 = (Inr x, t)"
      by (auto simp: thenE_def bindE_def split: prod.splits sum.splits)
    then show ?thesis by (rule fw_call_accepted) blast
  next
    case (2 e)
    then consider f3 where "fw_call (Add_permanent zone service) f3 = (Inl (DBusError e), t)"
      | "fw_call (Zone_by_name zone) f2 = (Inl (DBusError e), t)"
      by (auto simp: thenE_def bindE_def split: prod.splits sum.splits)
    then show ?thesis
    proof cases
      case 1
      then show ?thesis by (rule fw_call_accepted) (use \<open>error_code e = _\<close> in blast)
    next
      case 2
      then have "fd_answer f2 (fd_log f2) (Zone_by_name zone) = Inl e" by (rule fw_call_failed)
      with zones same \<open>error_code e = _\<close> show ?thesis by simp
    qed
  qed
  from 1 2 show ?thesis by blast
qed

lemma default_zone_answer:
  assumes "dbus_default_zone f = (Inr zone, t)"
  shows "\<exists>before. fd_answer f before Get_default_zone = Inr zone" "fd_answer t = fd_answer f"
proof -
  have "thenE get_client (fw_call Get_default_zone) (f\<lparr>fd_elapsed := Some 0\<rparr>) = (Inr zone, t)"
    using assms unfolding dbus_default_zone_def by (rule in_time_Inr)
  then obtain g where g: "get_client (f\<lparr>fd_elapsed := Some 0\<rparr>) = (Inr (), g)" "fw_call Get_default_zone g = (Inr zone, t)"
    by (auto simp: thenE_def bindE_def split: prod.splits sum.splits)
  from keepsD [OF get_client_later g(1)] have same: "fd_answer g = fd_answer f" by (simp add: fw_later_def)
  with fw_call_answer [OF g(2)] show "\<exists>before. fd_answer f before Get_default_zone = Inr zone" by auto
  from keepsD [OF fw_call_later g(2)] same show "fd_answer t = fd_answer f" by (simp add: fw_later_def)
qed

section \<open>Examples\<close>

definition demo_accounts :: os_accounts where
  "demo_accounts = \<lparr>oa_pam = (\<lambda>u p. p = ''secret''),
     oa_passwd = [\<lparr>pw_name = ''anna'', pw_uid = 1000, pw_gid = 900, pw_gecos = ''Anna,,''\<rparr>],
     oa_groups = [\<lparr>grp_name = ''nasos-users'', grp_gid = 900, grp_mem = []\<rparr>]\<rparr>"

definition demo_agent_env :: agent_env where
  "demo_agent_env = \<lparr>en_settings = default_settings, en_py = demo_pylib, en_sha = (\<lambda>_. ''h''),
     en_accounts = (\<lambda>_. demo_accounts), en_ismount = (\<lambda>_ p. p = ''/mnt''), en_hostname = ''nas'', en_platform = ''Linux'',
     en_kernel = ''6''\<rparr>"

text \<open>A firewalld that has the service in its running configuration already.\<close>

definition demo_firewalld :: firewalld where
  "demo_firewalld = \<lparr>fd_log = [], fd_answer = (\<lambda>_ c. case c of Get_default_zone \<Rightarrow> Inr ''public''
       | Add_service _ _ \<Rightarrow> Inl ''ALREADY_ENABLED: samba'' | _ \<Rightarrow> Inr []),
     fd_time = (\<lambda>_. Some 1), fd_connected = False, fd_elapsed = Some 0\<rparr>"

definition demo_agent :: "firewalld agent_state" where
  "demo_agent = \<lparr>ag_world = demo_world\<lparr>w_fs := [(''/proc/mounts'', File (''/dev/sda1 /mnt xfs rw'' @ nl) 292)]\<rparr>,
     ag_jobs = job_runner_init True, ag_workers = supervisor_init ''/run'' demo_host, ag_parts = demo_firewalld\<rparr>"

section \<open>Properties\<close>

text \<open>C36: Whatever handler of the agent or of a worker takes a request, if it returns a result at all, the result
  is of the model the registry declares for the method that was called.\<close>

theorem handlers_return_declared_models:
  assumes "fst (agent_handler en A jid ctx p s) = Inr r \<or> fst (worker_handler acl getpwuid jid ctx p k) = Inr r"
  shows "dget result_models (method_of p) = Some (model_of r)"
proof -
  have "method_of p \<in> set (map fst result_models)"
    unfolding result_models_registry by (rule method_of_in_registry)
  then have "dget result_models (method_of p) \<noteq> None" by (auto simp: map_of_eq_None_iff)
  moreover have "the (dget result_models (method_of p)) = model_of r"
    using assms returnsD [OF agent_gives, of en A jid ctx p s r "snd (agent_handler en A jid ctx p s)"]
      returnsD [OF worker_gives, of acl getpwuid jid ctx p k r "snd (worker_handler acl getpwuid jid ctx p k)"]
    by (metis prod.collapse)
  ultimately show ?thesis by auto
qed

theorem handlers_return_declared_models_witness:
  "dget result_models (method_of (Shares (ShareSetPermissionsParams ''/s'' [] True))) =
     Some (model_of (JobStartedResult (Some ''j'')))"
proof -
  have "fst (agent_handler demo_agent_env (real_adapters demo_agent_env) ''j'' nobody
      (Shares (ShareSetPermissionsParams ''/s'' [] True)) demo_agent) = Inr (JobStartedResult (Some ''j''))"
    by (simp add: shares_set_permissions_def thenE_def bindE_def)
  then show ?thesis by (intro handlers_return_declared_models disjI1)
qed

text \<open>With the real adapters a login succeeds exactly for an account whose password PAM accepts and that is
  in \<open>nasos-admin\<close> or \<open>nasos-users\<close>, as a listed member or by its primary group; the answer carries the
  uid of that account, and the role \<open>admin\<close> exactly for members of \<open>nasos-admin\<close>.\<close>

theorem login_follows_accounts:
  "let db = en_accounts en (ag_world s) in
     fst (agent_handler en (real_adapters en) jid ctx (Auth (AuthLoginParams u p)) s) = Inr r \<longleftrightarrow>
     (\<exists>pw. oa_pam db u p \<and> getpwnam db u = Some pw \<and> (member_of db pw ''nasos-admin'' \<or> member_of db pw ''nasos-users'') \<and>
       r = AuthLoginResult (pw_uid pw) u (if member_of db pw ''nasos-admin'' then ''admin'' else ''user'')
         (or_else (strip (fst (partition_on (CHR '','') (pw_gecos pw)))) u))"
  by (rule pam_login_iff)

text \<open>C37: What is registered as a volume is mounted there: it is not the root directory and not \<open>/boot\<close> or below it, the
  kernel takes it for a mount point, and a line of \<open>/proc/mounts\<close> names it literally, with the file
  system the answer reports.\<close>

theorem registered_volume_is_mounted:
  assumes "fst (agent_handler en (real_adapters en) jid ctx (VolumeRegisterParams path) s) = Inr r"
  shows "\<exists>m t contents row. r = VolumeInfo m t \<and> m \<noteq> ''/'' \<and> m \<noteq> ''/boot'' \<and> \<not> startswith m ''/boot/'' \<and>
    en_ismount en (ag_world s) m \<and> fst (read_text ''/proc/mounts'' (ag_world s)) = Inr contents \<and>
    row \<in> set (mount_table contents) \<and> 3 \<le> length row \<and> row ! 1 = m \<and> row ! 2 = t"
proof -
  define m where "m = or_else (rstrip_by (\<lambda>c. c = CHR ''/'') path) ''/''"
  obtain c w where mnt: "read_text ''/proc/mounts'' (ag_world s) = (c, w)" by fastforce
  from assms have ok: "\<not> is_forbidden m" "en_ismount en (ag_world s) m"
    by (auto simp: volumes_register_def m_def [symmetric] Let_def real_adapters_def proc_mounts_def on_world_def bindE_def
        split: if_splits)
  with assms mnt obtain contents t where c: "c = Inr contents" and
    t: "mounted_type m (mount_table contents) = Some t" "r = VolumeInfo m t"
    by (auto simp: volumes_register_def m_def [symmetric] Let_def real_adapters_def proc_mounts_def on_world_def bindE_def
        proc_filesystem_type_def split: sum.splits option.splits)
  from mounted_type_listed [OF t(1)] t(2) ok c mnt show ?thesis
    by (auto simp: is_forbidden_def)
qed

theorem registered_volume_is_mounted_witness:
  "\<exists>m t. VolumeInfo ''/mnt'' ''xfs'' = VolumeInfo m t \<and> m \<noteq> ''/'' \<and> en_ismount demo_agent_env (ag_world demo_agent) m"
proof -
  have "fst (agent_handler demo_agent_env (real_adapters demo_agent_env) ''j'' nobody (VolumeRegisterParams ''/mnt/'') demo_agent) =
    Inr (VolumeInfo ''/mnt'' ''xfs'')" by code_simp
  from registered_volume_is_mounted [OF this] show ?thesis by blast
qed

text \<open>When \<open>firewall.ensure_service\<close> succeeds with the real adapter, firewalld has named a zone as the default one and
  taken the rule for that zone both into the running and into the permanent configuration, or said that it was there; any
  other answer, and any call that takes longer than the time limit, is an error.\<close>

theorem firewall_rule_is_in_both:
  assumes ok: "agent_handler en (real_adapters en) jid ctx (FirewallEnsureServiceParams service) s = (Inr r, t)"
    and zones: "\<forall>zone l e. fd_answer (ag_parts s) l (Zone_by_name zone) = Inl e \<longrightarrow> error_code e \<noteq> ''ALREADY_ENABLED''"
  shows "\<exists>zone before. fd_answer (ag_parts s) before Get_default_zone = Inr zone \<and>
    accepted (ag_parts t) (Add_service zone service) \<and> accepted (ag_parts t) (Add_permanent zone service)"
proof -
  have fail: "(case e of FirewallError x \<Rightarrow> raise (RpcException ''system_error'' x) | _ \<Rightarrow> raise e) u \<noteq> (Inr y, v)"
    for e and y :: unit and u v :: "firewalld agent_state"
    by (cases e) simp_all
  from ok have "bindE (fi_default_zone (firewall_part dbus_firewall)) (\<lambda>zone.
      fi_ensure_service (firewall_part dbus_firewall) zone service) s = (Inr (), t)"
    by (auto simp: firewall_handler_def real_adapters_def thenE_def bindE_eq_Inr tryE_raises [OF fail])
  then obtain zone f where
    zone: "dbus_default_zone (ag_parts s) = (Inr zone, f)" and
    ens: "dbus_ensure_service zone service f = (Inr (), ag_parts t)"
    by (auto simp: firewall_part_def dbus_firewall_def on_part_eq_Inr bindE_eq_Inr)
  note default = default_zone_answer [OF zone]
  have "ensure_service_sync zone service (f\<lparr>fd_elapsed := Some 0\<rparr>) = (Inr (), ag_parts t)"
    using ens unfolding dbus_ensure_service_def by (rule in_time_Inr)
  then have "accepted (ag_parts t) (Add_service zone service) \<and> accepted (ag_parts t) (Add_permanent zone service)"
    by (rule ensure_sync_accepted) (simp add: default(2) zones)
  with default(1) show ?thesis by blast
qed

theorem firewall_rule_is_in_both_witness:
  "\<exists>zone. accepted (ag_parts (snd (agent_handler demo_agent_env (real_adapters demo_agent_env) ''j'' nobody
     (FirewallEnsureServiceParams ''samba'') demo_agent))) (Add_permanent zone ''samba'')"
proof -
  let ?run = "agent_handler demo_agent_env (real_adapters demo_agent_env) ''j'' nobody (FirewallEnsureServiceParams ''samba'') demo_agent"
  have "error_code ''ALREADY_ENABLED: samba'' = ''ALREADY_ENABLED''" by code_simp
  then have "fst ?run = Inr OkResult"
    by (simp add: firewall_handler_def real_adapters_def firewall_part_def dbus_firewall_def on_part_def demo_agent_def
      demo_firewalld_def dbus_default_zone_def dbus_ensure_service_def ensure_service_sync_def in_time_def get_client_def
      fw_call_def unless_already_def fw_call_timeout_def thenE_def bindE_def tryE_def Let_def)
  then have "?run = (Inr OkResult, snd ?run)" by (metis prod.collapse)
  from firewall_rule_is_in_both [OF this] show ?thesis by (auto simp: demo_agent_def demo_firewalld_def)
qed

end
