(* ===== verification/Health.thy ===== *)
theory Health
  imports PlanService Inventory
begin

text \<open>
  The background tasks of the web process: \<open>SmartHealthPoller\<close> of \<open>services/storage/health.py\<close> over the tables,
  and \<open>Sampler\<close> of \<open>monitor/sampler.py\<close>. A task sleeps, works and starts again; the definitions say what a
  number of rounds do.
\<close>

section \<open>SMART health\<close>

definition poll_interval_seconds :: rat where
  "poll_interval_seconds = 1800"

definition alert_levels :: "storage_health \<Rightarrow> string option" where
  "alert_levels h = (case h of Health_warning \<Rightarrow> Some ''warning'' | Health_critical \<Rightarrow> Some ''critical'' | _ \<Rightarrow> None)"

definition health_of :: "disk_info \<Rightarrow> storage_health" where
  "health_of d = (case dk_smart d of None \<Rightarrow> Health_unknown | Some sm \<Rightarrow> sm_health sm)"

definition health_alert :: "disk_info \<Rightarrow> string \<Rightarrow> notification_row" where
  "health_alert d serial = (let health = health_str (health_of d) in
     \<lparr>no_level = health, no_title = ''Disk health: '' @ health,
      no_message = (case dk_model d of None \<Rightarrow> dk_path d | Some m \<Rightarrow> or_else m (dk_path d))
        @ '' ('' @ serial @ '') SMART health is now '' @ health,
      no_source = ''storage''\<rparr>)"

text \<open>\<open>_update\<close> of a disk with its serial number.\<close>

definition disk_seen :: "string \<Rightarrow> 'a web \<Rightarrow> disk_row option" where
  "disk_seen serial w = find_row (\<lambda>r. ds_serial r = serial) (wb_disks w)"

definition put_disk :: "disk_row \<Rightarrow> 'a web \<Rightarrow> 'a web" where
  "put_disk row w = w\<lparr>wb_disks := (if disk_seen (ds_serial row) w = None then wb_disks w @ [row]
     else update_rows (\<lambda>r. ds_serial r = ds_serial row) (\<lambda>_. row) (wb_disks w))\<rparr>"

definition update_health :: "disk_info \<times> string \<Rightarrow> 'a web \<Rightarrow> 'a web" where
  "update_health ds w = (case ds of (d, serial) \<Rightarrow>
     let health = health_str (health_of d);
         previous_health = (case disk_seen serial w of None \<Rightarrow> None | Some row \<Rightarrow> ds_last_health row);
         w1 = put_disk \<lparr>ds_serial = serial, ds_path = dk_path d, ds_model = dk_model d, ds_size = dk_size d,
           ds_last_health = Some health\<rparr> w
     in if Some health \<noteq> previous_health \<and> alert_levels (health_of d) \<noteq> None
        then w1\<lparr>wb_notifications := wb_notifications w1 @ [health_alert d serial]\<rparr> else w1)"

text \<open>\<open>if disk.serial\<close>: nodes without one, or with an empty one, are skipped.\<close>

fun with_serials :: "disk_node list \<Rightarrow> (disk_info \<times> string) list" where
  "with_serials [] = []"
| "with_serials (n # ns) = (case dk_serial (node_info n) of None \<Rightarrow> with_serials ns
     | Some s \<Rightarrow> if s = [] then with_serials ns else (node_info n, s) # with_serials ns)"

definition web_ctx :: rpc_context where
  "web_ctx = \<lparr>ctx_user = None, ctx_role = None, ctx_ip = None\<rparr>"

definition poll_once :: "'a agent \<Rightarrow> ('a, unit) web_prog" where
  "poll_once agent = bindE
     (tryE (bindE (agent_call agent web_ctx (Storage StorageInventoryParams)) (\<lambda>r. ret (Some r)))
       (\<lambda>e. case e of RpcCallError _ _ \<Rightarrow> ret None | _ \<Rightarrow> raise e))
     (\<lambda>r. case r of None \<Rightarrow> ret ()
        | Some (StorageInventoryResult iv) \<Rightarrow> modifyE (\<lambda>w. fold update_health (with_serials (flatten (inv_disks iv))) w)
        | Some _ \<Rightarrow> raise (AttributeError ''disks''))"

text \<open>\<open>_run\<close>: sleep first, then poll; what a poll raises is logged. \<open>n\<close> rounds.\<close>

fun health_rounds :: "'a agent \<Rightarrow> nat \<Rightarrow> 'a web \<Rightarrow> 'a web" where
  "health_rounds agent 0 w = w"
| "health_rounds agent (Suc n) w = health_rounds agent n
     (snd (poll_once agent (w\<lparr>wb_now := wb_now w + poll_interval_seconds, wb_mono := wb_mono w + poll_interval_seconds\<rparr>)))"

section \<open>The sampler\<close>

text \<open>\<open>psutil\<close> answers the percentage and the two sizes; one sample a second is published on the bus.\<close>

definition sample_topic :: string where "sample_topic = ''monitor.sample''"
definition sample_interval :: rat where "sample_interval = 1"

type_synonym psutil = "nat \<Rightarrow> rat \<times> int \<times> int"

definition sample :: "psutil \<Rightarrow> nat \<Rightarrow> (string, rat) dict" where
  "sample ps k = (case ps k of (cpu, used, avail) \<Rightarrow>
     [(''cpu_percent'', cpu), (''mem_used'', of_int used), (''mem_total'', of_int avail)])"

fun sampler_rounds :: "psutil \<Rightarrow> (string \<Rightarrow> (string, rat) dict \<Rightarrow> 'b \<Rightarrow> 'b) \<Rightarrow> nat \<Rightarrow> nat \<Rightarrow> 'b \<times> rat \<Rightarrow> 'b \<times> rat" where
  "sampler_rounds ps send 0 k st = st"
| "sampler_rounds ps send (Suc n) k (bus, now) =
     sampler_rounds ps send n (k + 1) (send sample_topic (sample ps k) bus, now + sample_interval)"

section \<open>What a poll does\<close>

definition last_health :: "'a web \<Rightarrow> string \<Rightarrow> string option" where
  "last_health w serial = (case disk_seen serial w of None \<Rightarrow> None | Some row \<Rightarrow> ds_last_health row)"

text \<open>The alerts due for disks with these serial numbers, before any of them is stored.\<close>

definition due :: "'a web \<Rightarrow> disk_info \<times> string \<Rightarrow> bool" where
  "due w ds \<longleftrightarrow> Some (health_str (health_of (fst ds))) \<noteq> last_health w (snd ds) \<and> alert_levels (health_of (fst ds)) \<noteq> None"

lemma find_row_append: "find_row P (xs @ ys) = (case find_row P xs of None \<Rightarrow> find_row P ys | Some r \<Rightarrow> Some r)"
  by (induction xs) (auto simp: find_row_def)

lemma find_row_update:
  assumes "\<And>r. ds_serial (g r) = s"
  shows "find_row (\<lambda>r. ds_serial r = t) (update_rows (\<lambda>r. ds_serial r = s) g rows) =
    (if t = s then map_option g (find_row (\<lambda>r. ds_serial r = s) rows) else find_row (\<lambda>r. ds_serial r = t) rows)"
  by (induction rows) (auto simp: find_row_def update_rows_def assms)

lemma disk_seen_put: "disk_seen t (put_disk row w) = (if t = ds_serial row then Some row else disk_seen t w)"
proof (cases "disk_seen (ds_serial row) w")
  case None
  have "find_row P [row] = (if P row then Some row else None)" for P by (simp add: find_row_def)
  with None show ?thesis
    by (auto simp: put_disk_def disk_seen_def find_row_append split: option.split)
next
  case (Some r)
  then show ?thesis by (simp add: put_disk_def disk_seen_def find_row_update)
qed

lemma disk_seen_notify [simp]: "disk_seen t (w\<lparr>wb_notifications := ns\<rparr>) = disk_seen t w"
  by (simp add: disk_seen_def)

lemma update_health_seen: "last_health (update_health (d, s) w) t =
    (if t = s then Some (health_str (health_of d)) else last_health w t)"
  by (simp add: update_health_def Let_def last_health_def disk_seen_put)

lemma update_health_notes: "wb_notifications (update_health ds w) =
    wb_notifications w @ (if due w ds then [health_alert (fst ds) (snd ds)] else [])"
  by (cases ds) (simp add: update_health_def Let_def due_def last_health_def put_disk_def)

lemma due_other: "snd ds \<noteq> s \<Longrightarrow> due (update_health (d, s) w) ds = due w ds"
  by (simp add: due_def update_health_seen)

lemma updates_notes:
  "distinct (map snd dss) \<Longrightarrow> wb_notifications (fold update_health dss w) =
     wb_notifications w @ map (\<lambda>(d, s). health_alert d s) (filter (due w) dss)"
proof (induction dss arbitrary: w)
  case (Cons ds dss)
  obtain d s where ds: "ds = (d, s)" by fastforce
  have "filter (due (update_health ds w)) dss = filter (due w) dss"
  proof (rule filter_cong [OF refl])
    fix x assume "x \<in> set dss"
    with Cons.prems ds have "snd x \<noteq> s" by force
    then show "due (update_health ds w) x = due w x" by (simp add: due_other ds)
  qed
  with Cons ds show ?case by (simp add: update_health_notes)
qed simp

lemma updates_seen_other:
  "s \<notin> set (map snd dss) \<Longrightarrow> last_health (fold update_health dss w) s = last_health w s"
  by (induction dss arbitrary: w) (auto simp: update_health_seen)

lemma updates_seen:
  "distinct (map snd dss) \<Longrightarrow> (d, s) \<in> set dss \<Longrightarrow> last_health (fold update_health dss w) s = Some (health_str (health_of d))"
proof (induction dss arbitrary: w)
  case (Cons ds dss)
  show ?case
  proof (cases "(d, s) = ds")
    case True
    then have ds: "ds = (d, s)" ..
    with Cons.prems have "s \<notin> set (map snd dss)" by simp
    then have "last_health (fold update_health dss (update_health ds w)) s = last_health (update_health ds w) s"
      by (rule updates_seen_other)
    with ds show ?thesis by (simp add: update_health_seen)
  next
    case False
    with Cons show ?thesis by simp
  qed
qed simp

section \<open>Properties\<close>

lemma poll_once_found:
  assumes "agent web_ctx (Storage StorageInventoryParams) (wb_agent w) = (Inr (StorageInventoryResult iv), a)"
  shows "poll_once agent w = (Inr (), fold update_health (with_serials (flatten (inv_disks iv))) (w\<lparr>wb_agent := a\<rparr>))"
  using assms by (simp add: poll_once_def agent_call_def bindE_def tryE_def)

lemma due_agent [simp]: "due (w\<lparr>wb_agent := a\<rparr>) = due w"
  by (rule ext) (simp add: due_def last_health_def disk_seen_def)

text \<open>C38: A poll that gets an inventory, in which no two disks have the same serial number, adds exactly one notification
  for each disk whose health differs from the one stored for its serial number and is \<open>warning\<close> or
  \<open>critical\<close>, in the order of the inventory, and stores the health of every disk; a second poll with the same
  inventory adds nothing.\<close>

theorem polls_alert_once:
  assumes "agent web_ctx (Storage StorageInventoryParams) (wb_agent w) = (Inr (StorageInventoryResult iv), a)"
    and "agent web_ctx (Storage StorageInventoryParams) a = (Inr (StorageInventoryResult iv), b)"
    and unique: "distinct (map snd (with_serials (flatten (inv_disks iv))))"
  defines "dss \<equiv> with_serials (flatten (inv_disks iv))" and "w1 \<equiv> snd (poll_once agent w)"
  shows "wb_notifications w1 = wb_notifications w @ map (\<lambda>(d, s). health_alert d s) (filter (due w) dss) \<and>
    (\<forall>(d, s) \<in> set dss. last_health w1 s = Some (health_str (health_of d))) \<and>
    wb_notifications (snd (poll_once agent w1)) = wb_notifications w1"
proof -
  have w1: "w1 = fold update_health dss (w\<lparr>wb_agent := a\<rparr>)"
    unfolding w1_def dss_def using poll_once_found [where agent = agent and w = w and iv = iv and a = a] assms(1) by simp
  have "wb_agent (update_health x v) = wb_agent v" for x and v :: "'a web"
    by (cases x) (simp add: update_health_def Let_def put_disk_def)
  then have "wb_agent (fold update_health xs v) = wb_agent v" for xs and v :: "'a web"
    by (induction xs arbitrary: v) simp_all
  then have "wb_agent w1 = a" by (simp add: w1)
  with assms(2) have again: "snd (poll_once agent w1) = fold update_health dss (w1\<lparr>wb_agent := b\<rparr>)"
    by (simp add: poll_once_found dss_def)
  note added = updates_notes [OF unique [folded dss_def]] and seen = updates_seen [OF unique [folded dss_def]]
  have stored: "\<forall>(d, s) \<in> set dss. last_health w1 s = Some (health_str (health_of d))"
    using seen by (auto simp: w1)
  then have "filter (due w1) dss = []" by (auto simp: filter_empty_conv due_def)
  then have "wb_notifications (snd (poll_once agent w1)) = wb_notifications w1"
    by (simp add: again added)
  moreover have "wb_notifications w1 = wb_notifications w @ map (\<lambda>(d, s). health_alert d s) (filter (due w) dss)"
    by (simp add: w1 added)
  ultimately show ?thesis using stored by blast
qed

definition failing_disk :: disk_node where
  "failing_disk = DiskNode \<lparr>dk_name = ''sda'', dk_path = ''/dev/sda'', dk_type = ''disk'', dk_serial = Some ''S1'', dk_model = None,
     dk_wwn = None, dk_size = 8, dk_rota = True, dk_transport = ''sata'', dk_fstype = None, dk_mountpoint = None, dk_uuid = None,
     dk_smart = Some \<lparr>sm_health = Health_critical, sm_temperature_c = None, sm_power_on_hours = None, sm_attributes = []\<rparr>,
     dk_protected = False, dk_protected_reason = None\<rparr> []"

definition failing_inventory :: inventory where
  "failing_inventory = \<lparr>inv_disks = [failing_disk], inv_arrays = [], inv_vgs = [], inv_lvs = []\<rparr>"

theorem polls_alert_once_witness:
  "map no_message (wb_notifications (snd (poll_once (\<lambda>_ _ a. (Inr (StorageInventoryResult failing_inventory), a)) (demo_web ())))) =
     map no_message (wb_notifications (demo_web ())) @ [''/dev/sda (S1) SMART health is now critical'']"
proof -
  have disks: "with_serials (flatten (inv_disks failing_inventory)) = [(node_info failing_disk, ''S1'')]"
    by (simp add: failing_inventory_def failing_disk_def flatten_def)
  have "due (demo_web ()) (node_info failing_disk, ''S1'')" by code_simp
  moreover have "no_message (health_alert (node_info failing_disk) ''S1'') = ''/dev/sda (S1) SMART health is now critical''"
    by code_simp
  ultimately show ?thesis
    using polls_alert_once [where agent = "\<lambda>_ _ a. (Inr (StorageInventoryResult failing_inventory), a)" and w = "demo_web ()"
      and iv = failing_inventory and a = "wb_agent (demo_web ())" and b = "wb_agent (demo_web ())"]
    by (simp add: disks)
qed

end
