(* ===== verification/WorkerProcess.thy ===== *)
theory WorkerProcess
  imports Adapters FileData
begin

text \<open>
  The process of a file worker, \<open>agent/fileworker.py\<close>: giving up the rights of root (\<open>_drop_privileges\<close>), what
  \<open>run\<close> builds before it serves its first connection, and the watchdog that ends an idle worker.

  The credentials of the process are a record with the rules the kernel applies to them: only root changes its groups,
  and only root becomes another user. \<open>pc_fault\<close> adds any further failure of a system call.
\<close>

section \<open>Credentials\<close>

datatype cred_call = Init_groups string int | Set_gid int | Set_uid int | No_new_privs | Umask nat | Getpw_nasos

record creds =
  pc_uid :: int
  pc_gid :: int
  pc_groups :: "int list"
  pc_no_new_privs :: bool
  pc_umask :: nat
  pc_accounts :: os_accounts
  pc_log :: "cred_call list"
  pc_fault :: "cred_call list \<Rightarrow> cred_call \<Rightarrow> bool"

definition cred_do :: "cred_call \<Rightarrow> (creds \<Rightarrow> bool) \<Rightarrow> (creds \<Rightarrow> creds) \<Rightarrow> (creds, unit) prog" where
  "cred_do c allowed f s = (let s' = s\<lparr>pc_log := pc_log s @ [c]\<rparr> in
     if pc_fault s (pc_log s) c \<or> \<not> allowed s then (Inl (OSError PermissionError []), s') else (Inr (), f s'))"

text \<open>\<open>os.initgroups\<close>, \<open>os.setgid\<close> and \<open>os.setuid\<close>: real, effective and saved ids together.\<close>

definition supplementary :: "os_accounts \<Rightarrow> string \<Rightarrow> int \<Rightarrow> int list" where
  "supplementary db name gid = gid # map grp_gid (filter (\<lambda>g. name \<in> set (grp_mem g)) (oa_groups db))"

definition os_initgroups :: "string \<Rightarrow> int \<Rightarrow> (creds, unit) prog" where
  "os_initgroups name gid = cred_do (Init_groups name gid) (\<lambda>s. pc_uid s = 0)
     (\<lambda>s. s\<lparr>pc_groups := supplementary (pc_accounts s) name gid\<rparr>)"

definition os_setgid :: "int \<Rightarrow> (creds, unit) prog" where
  "os_setgid gid = cred_do (Set_gid gid) (\<lambda>s. pc_uid s = 0 \<or> pc_gid s = gid) (\<lambda>s. s\<lparr>pc_gid := gid\<rparr>)"

definition os_setuid :: "int \<Rightarrow> (creds, unit) prog" where
  "os_setuid uid = cred_do (Set_uid uid) (\<lambda>s. pc_uid s = 0 \<or> pc_uid s = uid) (\<lambda>s. s\<lparr>pc_uid := uid\<rparr>)"

definition set_no_new_privs :: "(creds, unit) prog" where
  "set_no_new_privs = cred_do No_new_privs (\<lambda>_. True) (\<lambda>s. s\<lparr>pc_no_new_privs := True\<rparr>)"

definition os_umask :: "nat \<Rightarrow> (creds, unit) prog" where
  "os_umask m = cred_do (Umask m) (\<lambda>_. True) (\<lambda>s. s\<lparr>pc_umask := m\<rparr>)"

definition getpwuid :: "os_accounts \<Rightarrow> int \<Rightarrow> passwd_entry option" where
  "getpwuid db uid = List.find (\<lambda>e. pw_uid e = uid) (oa_passwd db)"

text \<open>\<open>0o002\<close> is 2.\<close>

definition drop_privileges :: "int \<Rightarrow> (creds, string) prog" where
  "drop_privileges uid = bindE (getsE (\<lambda>s. getpwuid (pc_accounts s) uid)) (\<lambda>e. case e of
       None \<Rightarrow> raise (KeyError (int_str uid))
     | Some pw \<Rightarrow> thenE (os_initgroups (pw_name pw) (pw_gid pw))
        (thenE (os_setgid (pw_gid pw))
        (thenE (os_setuid uid)
        (thenE set_no_new_privs
        (thenE (os_umask 2) (ret (pw_name pw)))))))"

definition trusted_uid :: "(creds, int) prog" where
  "trusted_uid = bindE (getsE (\<lambda>s. getpwnam (pc_accounts s) ''nasos'')) (\<lambda>e. case e of
       None \<Rightarrow> raise (KeyError ''nasos'') | Some pw \<Rightarrow> ret (pw_uid pw))"

text \<open>\<open>run\<close> up to the server: the state of the worker, and whom it trusts; \<open>machine\<close> gives the file system and the clock.\<close>

definition worker_start :: "int \<Rightarrow> 'a \<Rightarrow> 'a worker \<Rightarrow> (creds, 'a worker \<times> int) prog" where
  "worker_start uid acl machine = bindE (drop_privileges uid) (\<lambda>username.
     bindE trusted_uid (\<lambda>trusted.
       ret (machine\<lparr>wk_uid := uid, wk_username := username, wk_jobs := job_runner_init True, wk_acl := acl,
          wk_uploads := []\<rparr>, trusted)))"

section \<open>The watchdog\<close>

definition idle_timeout :: rat where "idle_timeout = 900"
definition idle_check_interval :: rat where "idle_check_interval = 30"

text \<open>\<open>_IdleTracker.watch\<close>: \<open>active t\<close> is the time of the last activity up to time \<open>t\<close>. The server is closed at the
  time returned; \<open>None\<close> is not yet, after \<open>n\<close> turns.\<close>

fun watch :: "nat \<Rightarrow> (rat \<Rightarrow> rat) \<Rightarrow> rat \<Rightarrow> rat option" where
  "watch 0 active now = None"
| "watch (Suc n) active now = (let t = now + idle_check_interval in
     if idle_timeout \<le> t - active t then Some t else watch n active t)"

section \<open>Facts\<close>

lemma cred_do_Inr: "cred_do c allowed f s = (Inr x, t) \<longleftrightarrow>
    \<not> pc_fault s (pc_log s) c \<and> allowed s \<and> t = f (s\<lparr>pc_log := pc_log s @ [c]\<rparr>)"
  by (auto simp: cred_do_def Let_def)

lemma getpwuid_SomeD: "getpwuid db uid = Some pw \<Longrightarrow> pw \<in> set (oa_passwd db) \<and> pw_uid pw = uid"
  by (auto simp: getpwuid_def find_Some_iff)

lemmas cred_defs = os_initgroups_def os_setgid_def os_setuid_def set_no_new_privs_def os_umask_def

lemma drop_privileges_Inr:
  assumes "drop_privileges uid s = (Inr name, t)"
  obtains pw where "getpwuid (pc_accounts s) uid = Some pw" "name = pw_name pw" "pc_uid t = uid" "pc_gid t = pw_gid pw"
    "pc_groups t = supplementary (pc_accounts s) name (pw_gid pw)" "pc_no_new_privs t" "pc_umask t = 2"
    "pc_accounts t = pc_accounts s"
  using assms by (auto simp: drop_privileges_def thenE_def bindE_eq_Inr cred_defs cred_do_Inr split: option.splits)

lemma watch_ends:
  assumes "\<forall>t. active t \<le> since" "idle_timeout + since \<le> now + of_nat n * idle_check_interval" "0 < n"
  shows "\<exists>t. watch n active now = Some t"
  using assms(2,3)
proof (induction n arbitrary: now)
  case (Suc n)
  show ?case
  proof (cases n)
    case 0
    with Suc.prems assms(1) have "idle_timeout \<le> now + idle_check_interval - active (now + idle_check_interval)"
      by (smt (verit) add.commute add_0 le_diff_eq mult_1 of_nat_0 of_nat_Suc order_trans add_left_mono)
    with 0 show ?thesis by (simp add: Let_def)
  next
    case (Suc m)
    then show ?thesis using Suc.IH [of "now + idle_check_interval"] Suc.prems
      by (auto simp: Let_def algebra_simps)
  qed
qed simp

lemma watch_time:
  "watch n active now = Some t \<Longrightarrow> idle_timeout \<le> t - active t \<and> now + idle_check_interval \<le> t"
proof (induction n arbitrary: now)
  case (Suc n)
  then show ?case by (fastforce simp: Let_def idle_check_interval_def split: if_splits)
qed simp

text \<open>The watchdog closes the server no later than a check interval after the time limit, counted from the last activity.\<close>

lemma watch_upper:
  "watch n active now = Some t \<Longrightarrow> t = now + idle_check_interval \<or>
     t - idle_check_interval - active (t - idle_check_interval) < idle_timeout"
proof (induction n arbitrary: now)
  case (Suc n)
  show ?case
  proof (cases "idle_timeout \<le> now + idle_check_interval - active (now + idle_check_interval)")
    case True
    with Suc.prems show ?thesis by (simp add: Let_def)
  next
    case False
    with Suc.prems have "watch n active (now + idle_check_interval) = Some t" by (simp add: Let_def)
    from Suc.IH [OF this] show ?thesis
    proof
      assume "t = now + idle_check_interval + idle_check_interval"
      then have "t - idle_check_interval = now + idle_check_interval" by simp
      with False show ?thesis by (simp only: not_le simp_thms)
    qed simp
  qed
qed simp

lemma idle_worker_exits:
  assumes "\<forall>t. active t \<le> since" "0 \<le> since"
  shows "\<exists>n t. watch n active 0 = Some t \<and> idle_timeout \<le> t - active t \<and> t < since + idle_timeout + idle_check_interval"
proof -
  obtain n :: nat where n: "(idle_timeout + since) / idle_check_interval \<le> of_nat n" "0 < n"
  proof -
    obtain m :: nat where "(idle_timeout + since) / idle_check_interval \<le> of_nat m"
      using real_arch_simple by blast
    moreover have "(of_nat m :: rat) \<le> of_nat (Suc m)" by simp
    ultimately show thesis using that [of "Suc m"] by (meson order_trans zero_less_Suc)
  qed
  then have "idle_timeout + since \<le> 0 + of_nat n * idle_check_interval"
    by (simp add: pos_divide_le_eq idle_check_interval_def)
  with watch_ends [OF assms(1), of 0 n] n(2) obtain t where t: "watch n active 0 = Some t" by blast
  from watch_upper [OF t] have "t < since + idle_timeout + idle_check_interval"
  proof
    assume "t = 0 + idle_check_interval"
    with assms(2) show ?thesis by (simp add: idle_timeout_def)
  next
    assume "t - idle_check_interval - active (t - idle_check_interval) < idle_timeout"
    moreover have "active (t - idle_check_interval) \<le> since" using assms(1) by blast
    ultimately show ?thesis by simp
  qed
  with watch_time [OF t] t show ?thesis by blast
qed

section \<open>Properties\<close>

text \<open>C14: A worker that gets as far as serving connections runs as the user it was started for and cannot become anyone else: its
  user id, group and supplementary groups are those of the account, no new privileges are possible, a user other
  than root cannot change the user id back, and the only peer it trusts besides root is the web process.\<close>

theorem worker_runs_as_user:
  assumes "worker_start uid acl machine s = (Inr (k, trusted), t)"
  shows "pc_uid t = uid \<and> wk_uid k = uid \<and> pc_no_new_privs t \<and> pc_umask t = 2 \<and>
    (\<exists>pw \<in> set (oa_passwd (pc_accounts s)). pw_uid pw = uid \<and> wk_username k = pw_name pw \<and> pc_gid t = pw_gid pw \<and>
      set (pc_groups t) = insert (pw_gid pw) (grp_gid ` {g \<in> set (oa_groups (pc_accounts s)). pw_name pw \<in> set (grp_mem g)})) \<and>
    (uid \<noteq> 0 \<longrightarrow> (\<forall>v. v \<noteq> uid \<longrightarrow> fst (os_setuid v t) \<noteq> Inr ())) \<and>
    (\<exists>nasos. getpwnam (pc_accounts s) ''nasos'' = Some nasos \<and> trusted = pw_uid nasos)"
proof -
  from assms obtain name u where drop: "drop_privileges uid s = (Inr name, u)" and trust: "trusted_uid u = (Inr trusted, t)"
    and k: "wk_uid k = uid" "wk_username k = name"
    by (auto simp: worker_start_def bindE_eq_Inr)
  from drop obtain pw where pw: "getpwuid (pc_accounts s) uid = Some pw" "name = pw_name pw" "pc_uid u = uid" "pc_gid u = pw_gid pw"
    "pc_groups u = supplementary (pc_accounts s) name (pw_gid pw)" "pc_no_new_privs u" "pc_umask u = 2"
    "pc_accounts u = pc_accounts s"
    by (rule drop_privileges_Inr)
  from trust have t: "t = u" and nasos: "\<exists>nasos. getpwnam (pc_accounts s) ''nasos'' = Some nasos \<and> trusted = pw_uid nasos"
    by (auto simp: trusted_uid_def bindE_eq_Inr pw(8) split: option.splits)
  have "fst (os_setuid v u) \<noteq> Inr ()" if "uid \<noteq> 0" "v \<noteq> uid" for v
    using that pw(3) by (simp add: os_setuid_def cred_do_def Let_def)
  with k pw t nasos getpwuid_SomeD [OF pw(1)] show ?thesis
    by (auto simp: supplementary_def)
qed

definition demo_creds :: creds where
  "demo_creds = \<lparr>pc_uid = 0, pc_gid = 0, pc_groups = [0], pc_no_new_privs = False, pc_umask = 18,
     pc_accounts = \<lparr>oa_pam = (\<lambda>_ _. False),
       oa_passwd = [\<lparr>pw_name = ''nasos'', pw_uid = 990, pw_gid = 990, pw_gecos = []\<rparr>,
         \<lparr>pw_name = ''anna'', pw_uid = 1000, pw_gid = 900, pw_gecos = []\<rparr>],
       oa_groups = [\<lparr>grp_name = ''media'', grp_gid = 901, grp_mem = [''anna'']\<rparr>]\<rparr>,
     pc_log = [], pc_fault = (\<lambda>_ _. False)\<rparr>"

theorem worker_runs_as_user_witness:
  "let t = snd (worker_start 1000 () demo_uploading demo_creds) in
     pc_uid t = 1000 \<and> set (pc_groups t) = {900, 901} \<and> fst (os_setuid 0 t) \<noteq> Inr ()"
proof -
  obtain r t where rt: "worker_start 1000 () demo_uploading demo_creds = (r, t)" by fastforce
  have "\<exists>x. r = Inr x"
    using rt by (auto simp: worker_start_def drop_privileges_def trusted_uid_def getpwuid_def getpwnam_def demo_creds_def
      cred_defs cred_do_def thenE_def bindE_def Let_def)
  then obtain k trusted where "r = Inr (k, trusted)" by auto
  with rt have run: "worker_start 1000 () demo_uploading demo_creds = (Inr (k, trusted), t)" by simp
  from worker_runs_as_user [OF run] rt show ?thesis
    by (auto simp: demo_creds_def)
qed

end
