(* ===== verification/Transport.thy ===== *)
theory Transport
  imports Dispatch
begin

text \<open>
  \<open>UnixSocketTransport\<close> of \<open>rpc/transport.py\<close>: many concurrent calls over one stream of lines. Calls, read loops
  and the connection change at the awaits of the event loop, so the transport is a step relation over its
  state; between two awaits a step is one piece of the code.

  A line of the stream is the bytes before its newline. What a line means (\<open>json.loads\<close> and the models) is
  the argument \<open>decode\<close>. \<open>asyncio\<close> gives a stream a limit of 64 KiB: \<open>readline\<close> raises \<open>ValueError\<close> for a
  longer line.
\<close>

section \<open>State\<close>

datatype 'd frame = Response_frame rpc_response | Event_frame string 'd | Unknown_frame | Malformed_frame

datatype call_outcome = Answered rpc_response | Failed exn | Cancelled_call

text \<open>The future of a call, and whether its caller has left before the future was done.\<close>

record pending_call =
  ca_future :: "call_outcome option"
  ca_left :: "exn option"

text \<open>
  Connections are numbered in the order they are opened. \<open>tp_conn\<close> is \<open>_reader\<close> and \<open>_writer\<close>, which are
  always set together; \<open>tp_lost\<close> are the connections whose \<open>is_closing()\<close> holds. \<open>tp_loops\<close> are the
  running \<open>_read_loop\<close> tasks, each with the connection whose \<open>readline\<close> it waits for.
\<close>

record 'd transport =
  tp_conn :: "nat option"
  tp_lost :: "nat set"
  tp_next :: nat
  tp_loops :: "(nat, nat) dict"
  tp_task :: "nat option"
  tp_pending :: "string list"
  tp_calls :: "(string, pending_call) dict"
  tp_events :: "(string \<times> 'd) list"

definition transport_init :: "'d transport" where
  "transport_init = \<lparr>tp_conn = None, tp_lost = {}, tp_next = 0, tp_loops = [], tp_task = None, tp_pending = [],
     tp_calls = [], tp_events = []\<rparr>"

definition stream_limit :: nat where
  "stream_limit = 65536"

section \<open>Operations\<close>

definition connected :: "'d transport \<Rightarrow> bool" where
  "connected s \<longleftrightarrow> (case tp_conn s of None \<Rightarrow> False | Some c \<Rightarrow> c \<notin> tp_lost s)"

text \<open>\<open>_ensure_connected\<close>, once the socket is open.\<close>

definition open_connection :: "'d transport \<Rightarrow> 'd transport" where
  "open_connection s = s\<lparr>tp_conn := Some (tp_next s), tp_next := tp_next s + 1,
     tp_loops := dset (tp_next s) (tp_next s) (tp_loops s), tp_task := Some (tp_next s)\<rparr>"

text \<open>\<open>call\<close> up to the first await after the future is registered.\<close>

definition begin_call :: "string \<Rightarrow> 'd transport \<Rightarrow> 'd transport" where
  "begin_call rid s = s\<lparr>tp_pending := List.insert rid (tp_pending s),
     tp_calls := dset rid \<lparr>ca_future = None, ca_left = None\<rparr> (tp_calls s)\<rparr>"

text \<open>\<open>fut.set_result\<close> and \<open>fut.set_exception\<close>, when \<open>not fut.done()\<close>.\<close>

definition resolve :: "call_outcome \<Rightarrow> string \<Rightarrow> 'd transport \<Rightarrow> 'd transport" where
  "resolve out rid s = (case dget (tp_calls s) rid of None \<Rightarrow> s
     | Some c \<Rightarrow> if ca_future c \<noteq> None then s
         else s\<lparr>tp_calls := dset rid (c\<lparr>ca_future := Some out\<rparr>) (tp_calls s)\<rparr>)"

definition forget_call :: "string \<Rightarrow> 'd transport \<Rightarrow> 'd transport" where
  "forget_call rid s = s\<lparr>tp_pending := removeAll rid (tp_pending s)\<rparr>"

text \<open>The caller is left with an exception of \<open>drain()\<close>, before the \<open>try\<close>: the future stays registered.\<close>

definition leave_call :: "exn \<Rightarrow> string \<Rightarrow> 'd transport \<Rightarrow> 'd transport" where
  "leave_call e rid s = (case dget (tp_calls s) rid of None \<Rightarrow> s
     | Some c \<Rightarrow> s\<lparr>tp_calls := dset rid (c\<lparr>ca_left := Some e\<rparr>) (tp_calls s)\<rparr>)"

text \<open>The caller is cancelled while it waits: the future is cancelled with it and unregistered.\<close>

definition cancel_call :: "string \<Rightarrow> 'd transport \<Rightarrow> 'd transport" where
  "cancel_call rid s = forget_call rid (resolve Cancelled_call rid s)"

definition closed_error :: exn where
  "closed_error = ConnectionError ''agent connection closed''"

text \<open>The \<open>finally\<close> block of a read loop, however the loop ends.\<close>

definition loop_end :: "nat \<Rightarrow> 'd transport \<Rightarrow> 'd transport" where
  "loop_end l s = (fold (resolve (Failed closed_error)) (tp_pending s) s)
     \<lparr>tp_pending := [], tp_conn := None, tp_loops := dpop l (tp_loops s)\<rparr>"

text \<open>\<open>_dispatch_frame\<close>.\<close>

fun dispatch_frame :: "'d frame \<Rightarrow> 'd transport \<Rightarrow> 'd transport" where
  "dispatch_frame (Response_frame r) s =
     (if rp_id r \<in> set (tp_pending s) then resolve (Answered r) (rp_id r) (forget_call (rp_id r) s) else s)"
| "dispatch_frame (Event_frame topic d) s = s\<lparr>tp_events := tp_events s @ [(topic, d)]\<rparr>"
| "dispatch_frame _ s = s"

text \<open>
  A turn of the loop \<open>l\<close>: an exception ends it; after a frame it waits for the next line of \<open>self._reader\<close>,
  which fails when there is none or when another loop waits there already.
\<close>

definition read_turn :: "(bytes \<Rightarrow> 'd frame) \<Rightarrow> nat \<Rightarrow> bytes \<Rightarrow> 'd transport \<Rightarrow> 'd transport" where
  "read_turn decode l line s =
     (if stream_limit < length line \<or> decode line = Malformed_frame then loop_end l s
      else (let s' = dispatch_frame (decode line) s in
        case tp_conn s' of
          None \<Rightarrow> loop_end l s'
        | Some c \<Rightarrow> if \<exists>k \<in> fst ` set (tp_loops s'). k \<noteq> l \<and> dget (tp_loops s') k = Some c then loop_end l s'
            else s'\<lparr>tp_loops := dset l c (tp_loops s')\<rparr>))"

text \<open>\<open>close\<close>: the latest loop is cancelled, the connection closed.\<close>

definition close_transport :: "'d transport \<Rightarrow> 'd transport" where
  "close_transport s = (let s' = (case tp_conn s of None \<Rightarrow> s | Some c \<Rightarrow> s\<lparr>tp_lost := insert c (tp_lost s)\<rparr>) in
     case tp_task s of None \<Rightarrow> s'
     | Some l \<Rightarrow> if dget (tp_loops s) l = None then s' else loop_end l s')"

section \<open>What can happen\<close>

text \<open>\<open>uuid4\<close> gives every call an identifier of its own. A caller is awaiting while its future is not done and it has not left.\<close>

definition awaiting :: "'d transport \<Rightarrow> string \<Rightarrow> bool" where
  "awaiting s rid \<longleftrightarrow> (\<exists>c. dget (tp_calls s) rid = Some c \<and> ca_future c = None \<and> ca_left c = None)"

inductive tp_step :: "(bytes \<Rightarrow> 'd frame) \<Rightarrow> 'd transport \<Rightarrow> 'd transport \<Rightarrow> bool" for decode where
  Open: "\<not> connected s \<Longrightarrow> tp_step decode s (open_connection s)"
| Call: "connected s \<Longrightarrow> dget (tp_calls s) rid = None \<Longrightarrow> tp_step decode s (begin_call rid s)"
| Line: "dget (tp_loops s) l \<noteq> None \<Longrightarrow> tp_step decode s (read_turn decode l line s)"
| Ends: "dget (tp_loops s) l \<noteq> None \<Longrightarrow> tp_step decode s (loop_end l s)"
| Lost: "tp_step decode s (s\<lparr>tp_lost := insert c (tp_lost s)\<rparr>)"
| Drain: "awaiting s rid \<Longrightarrow> tp_step decode s (leave_call e rid s)"
| Cancel: "awaiting s rid \<Longrightarrow> tp_step decode s (cancel_call rid s)"
| Close: "tp_step decode s (close_transport s)"

inductive tp_reachable :: "(bytes \<Rightarrow> 'd frame) \<Rightarrow> 'd transport \<Rightarrow> bool" for decode where
  Start: "tp_reachable decode transport_init"
| Step: "tp_reachable decode s \<Longrightarrow> tp_step decode s t \<Longrightarrow> tp_reachable decode t"

section \<open>The invariant\<close>

text \<open>An answered call has the answer with its own identifier; a call whose future is open is registered; a
  registered call needs a connection; the loop of the current connection runs.\<close>

definition calls_ok :: "'d transport \<Rightarrow> bool" where
  "calls_ok s \<longleftrightarrow> (\<forall>rid c. dget (tp_calls s) rid = Some c \<longrightarrow>
     (\<forall>r. ca_future c = Some (Answered r) \<longrightarrow> rp_id r = rid) \<and>
     (ca_future c = None \<longrightarrow> rid \<in> set (tp_pending s)))"

definition conn_ok :: "'d transport \<Rightarrow> bool" where
  "conn_ok s \<longleftrightarrow> (tp_conn s = None \<longrightarrow> tp_pending s = []) \<and>
     (\<forall>c. tp_conn s = Some c \<longrightarrow> c < tp_next s \<and> dget (tp_loops s) c = Some c)"

definition loops_ok :: "'d transport \<Rightarrow> bool" where
  "loops_ok s \<longleftrightarrow> (\<forall>l \<in> fst ` set (tp_loops s). l < tp_next s)"

definition transport_ok :: "'d transport \<Rightarrow> bool" where
  "transport_ok s \<longleftrightarrow> calls_ok s \<and> conn_ok s \<and> loops_ok s"

section \<open>What the operations do\<close>

lemma resolve_simps [simp]:
  "tp_conn (resolve out rid s) = tp_conn s" "tp_pending (resolve out rid s) = tp_pending s"
  "tp_loops (resolve out rid s) = tp_loops s" "tp_next (resolve out rid s) = tp_next s"
  by (simp_all add: resolve_def split: option.split)

lemma resolve_calls: "dget (tp_calls (resolve out rid s)) q = (case dget (tp_calls s) q of None \<Rightarrow> None
    | Some c \<Rightarrow> Some (if q = rid \<and> ca_future c = None then c\<lparr>ca_future := Some out\<rparr> else c))"
  by (auto simp: resolve_def dget_dset split: option.split)

lemma fold_resolve_simps [simp]:
  "tp_conn (fold (resolve out) ps s) = tp_conn s" "tp_pending (fold (resolve out) ps s) = tp_pending s"
  "tp_loops (fold (resolve out) ps s) = tp_loops s" "tp_next (fold (resolve out) ps s) = tp_next s"
  by (induction ps arbitrary: s) simp_all

lemma fold_resolve_calls: "dget (tp_calls (fold (resolve out) ps s)) q = (case dget (tp_calls s) q of None \<Rightarrow> None
    | Some c \<Rightarrow> Some (if q \<in> set ps \<and> ca_future c = None then c\<lparr>ca_future := Some out\<rparr> else c))"
  by (induction ps arbitrary: s) (auto simp: resolve_calls split: option.split)

text \<open>The end of a loop, whichever it is: every open future fails.\<close>

lemma loop_end_calls:
  assumes "calls_ok s" "dget (tp_calls s) rid = Some c"
  shows "dget (tp_calls (loop_end l s)) rid =
    Some (if ca_future c = None then c\<lparr>ca_future := Some (Failed closed_error)\<rparr> else c)"
  using assms by (simp add: loop_end_def fold_resolve_calls calls_ok_def)

lemma loop_end_ok:
  assumes "calls_ok s" "loops_ok s" shows "transport_ok (loop_end l s)"
proof -
  have "calls_ok (loop_end l s)"
    using assms(1) by (auto simp: calls_ok_def loop_end_def fold_resolve_calls split: option.splits if_splits)
  moreover have "conn_ok (loop_end l s)" by (simp add: conn_ok_def loop_end_def)
  moreover have "loops_ok (loop_end l s)"
    using assms(2) by (auto simp: loops_ok_def loop_end_def AList.delete_eq)
  ultimately show ?thesis by (simp add: transport_ok_def)
qed

text \<open>A future that is done may be unregistered.\<close>

lemma settle_ok:
  assumes "transport_ok s" "\<And>r. out = Answered r \<Longrightarrow> rp_id r = rid"
  shows "transport_ok (forget_call rid (resolve out rid s))"
proof -
  have "(\<forall>r. ca_future c = Some (Answered r) \<longrightarrow> rp_id r = q) \<and>
      (ca_future c = None \<longrightarrow> q \<in> set (tp_pending (forget_call rid (resolve out rid s))))"
    if c: "dget (tp_calls (forget_call rid (resolve out rid s))) q = Some c" for q c
  proof -
    from c have "dget (tp_calls (resolve out rid s)) q = Some c" by (simp add: forget_call_def)
    then obtain c' where c': "dget (tp_calls s) q = Some c'"
      and eq: "c = (if q = rid \<and> ca_future c' = None then c'\<lparr>ca_future := Some out\<rparr> else c')"
      by (auto simp: resolve_calls split: option.splits)
    from assms(1) c' have "(\<forall>r. ca_future c' = Some (Answered r) \<longrightarrow> rp_id r = q) \<and> (ca_future c' = None \<longrightarrow> q \<in> set (tp_pending s))"
      by (simp add: transport_ok_def calls_ok_def)
    with eq assms(2) show ?thesis by (auto simp: forget_call_def split: if_splits)
  qed
  then have "calls_ok (forget_call rid (resolve out rid s))" by (simp add: calls_ok_def)
  moreover have "conn_ok (forget_call rid (resolve out rid s))" "loops_ok (forget_call rid (resolve out rid s))"
    using assms(1) by (simp_all add: transport_ok_def conn_ok_def loops_ok_def forget_call_def)
  ultimately show ?thesis by (simp add: transport_ok_def)
qed

lemma forget_resolve: "forget_call rid (resolve out q s) = resolve out q (forget_call rid s)"
  by (simp add: forget_call_def resolve_def split: option.split)

lemma dispatch_frame_ok:
  assumes "transport_ok s" shows "transport_ok (dispatch_frame f s)"
proof (cases f)
  case (Response_frame r)
  have "transport_ok (forget_call (rp_id r) (resolve (Answered r) (rp_id r) s))"
    by (rule settle_ok [OF assms]) simp
  with assms Response_frame show ?thesis by (simp add: forget_resolve)
qed (use assms in \<open>simp_all add: transport_ok_def calls_ok_def conn_ok_def loops_ok_def\<close>)

lemma read_turn_ok:
  assumes "transport_ok s" "dget (tp_loops s) l \<noteq> None"
  shows "transport_ok (read_turn decode l line s)"
proof -
  let ?s = "dispatch_frame (decode line) s"
  have ok: "transport_ok ?s" using assms(1) by (rule dispatch_frame_ok)
  then have ends: "transport_ok (loop_end l ?s)" by (intro loop_end_ok) (simp_all add: transport_ok_def)
  have now: "transport_ok (loop_end l s)" using assms(1) by (intro loop_end_ok) (simp_all add: transport_ok_def)
  have "transport_ok (?s\<lparr>tp_loops := dset l c (tp_loops ?s)\<rparr>)"
    if "tp_conn ?s = Some c" "\<not> (\<exists>k \<in> fst ` set (tp_loops ?s). k \<noteq> l \<and> dget (tp_loops ?s) k = Some c)" for c
  proof -
    from ok that(1) have c: "dget (tp_loops ?s) c = Some c" by (simp add: transport_ok_def conn_ok_def)
    then have "c \<in> fst ` set (tp_loops ?s)" by (metis map_of_eq_None_iff option.distinct(1))
    with that(2) c have "c = l" by blast
    with ok that(1) c show ?thesis
      by (simp add: transport_ok_def calls_ok_def conn_ok_def loops_ok_def dget_dset dom_update)
  qed
  with ends now show ?thesis
    by (auto simp: read_turn_def Let_def split: option.split)
qed

lemma open_ok: "transport_ok s \<Longrightarrow> \<not> connected s \<Longrightarrow> transport_ok (open_connection s)"
  by (auto simp: transport_ok_def calls_ok_def conn_ok_def loops_ok_def open_connection_def dom_update dget_dset)

lemma begin_ok: "transport_ok s \<Longrightarrow> connected s \<Longrightarrow> transport_ok (begin_call rid s)"
  by (auto simp: transport_ok_def calls_ok_def conn_ok_def loops_ok_def begin_call_def dget_dset connected_def
      split: option.splits)

lemma leave_ok: "transport_ok s \<Longrightarrow> transport_ok (leave_call e rid s)"
  by (auto simp: transport_ok_def calls_ok_def conn_ok_def loops_ok_def leave_call_def dget_dset split: option.split)

lemma lost_ok: "transport_ok s \<Longrightarrow> transport_ok (s\<lparr>tp_lost := ls\<rparr>)"
  by (simp add: transport_ok_def calls_ok_def conn_ok_def loops_ok_def)

lemma close_ok:
  assumes "transport_ok s" shows "transport_ok (close_transport s)"
proof -
  define s' where "s' = (case tp_conn s of None \<Rightarrow> s | Some c \<Rightarrow> s\<lparr>tp_lost := insert c (tp_lost s)\<rparr>)"
  have "transport_ok s'" using assms by (simp add: s'_def lost_ok split: option.split)
  moreover from this have "transport_ok (loop_end l s')" for l by (intro loop_end_ok) (simp_all add: transport_ok_def)
  ultimately show ?thesis by (simp add: close_transport_def s'_def [symmetric] split: option.split)
qed

lemma tp_step_ok: "tp_step decode s t \<Longrightarrow> transport_ok s \<Longrightarrow> transport_ok t"
proof (induction rule: tp_step.induct)
  case (Ends s l)
  then show ?case by (intro loop_end_ok) (simp_all add: transport_ok_def)
next
  case (Cancel s rid)
  then show ?case unfolding cancel_call_def by (intro settle_ok) simp_all
qed (simp_all add: open_ok begin_ok read_turn_ok leave_ok lost_ok close_ok)

lemma tp_reachable_ok: "tp_reachable decode s \<Longrightarrow> transport_ok s"
proof (induction rule: tp_reachable.induct)
  case Start
  then show ?case by (simp add: transport_ok_def calls_ok_def conn_ok_def loops_ok_def transport_init_def)
next
  case (Step s t)
  then show ?case by (blast intro: tp_step_ok)
qed

text \<open>A future that is done stays as it is.\<close>

definition settled :: "'d transport \<Rightarrow> string \<Rightarrow> call_outcome \<Rightarrow> bool" where
  "settled s rid out \<longleftrightarrow> (\<exists>c. dget (tp_calls s) rid = Some c \<and> ca_future c = Some out)"

lemma settled_calls: "tp_calls t = tp_calls s \<Longrightarrow> settled t = settled s"
  by (rule ext, rule ext) (simp add: settled_def)

lemma settled_resolve: "settled s rid out \<Longrightarrow> settled (resolve o' q s) rid out"
  by (auto simp: settled_def resolve_calls)

lemma settled_fold: "settled s rid out \<Longrightarrow> settled (fold (resolve o') ps s) rid out"
  by (induction ps arbitrary: s) (simp_all add: settled_resolve)

lemma settled_loop_end: "settled s rid out \<Longrightarrow> settled (loop_end l s) rid out"
  using settled_fold [of s rid out "Failed closed_error" "tp_pending s"] by (simp add: loop_end_def settled_def)

lemma settled_dispatch: "settled s rid out \<Longrightarrow> settled (dispatch_frame f s) rid out"
  by (cases f) (auto intro: settled_resolve simp: forget_call_def settled_calls [of "s\<lparr>tp_pending := _\<rparr>"]
    settled_calls [of "s\<lparr>tp_events := _\<rparr>"])

lemma settled_turn: "settled s rid out \<Longrightarrow> settled (read_turn decode l line s) rid out"
proof -
  assume s: "settled s rid out"
  let ?s = "dispatch_frame (decode line) s"
  from s have "settled ?s rid out" by (rule settled_dispatch)
  moreover from this have "settled (loop_end l ?s) rid out" by (rule settled_loop_end)
  moreover from s have "settled (loop_end l s) rid out" by (rule settled_loop_end)
  moreover have "settled (?s\<lparr>tp_loops := ls\<rparr>) = settled ?s" for ls by (rule settled_calls) simp
  ultimately show ?thesis by (simp add: read_turn_def Let_def split: option.split)
qed

lemma settled_step: "tp_step decode s t \<Longrightarrow> settled s rid out \<Longrightarrow> settled t rid out"
proof (induction rule: tp_step.induct)
  case (Close s)
  define s' where "s' = (case tp_conn s of None \<Rightarrow> s | Some c \<Rightarrow> s\<lparr>tp_lost := insert c (tp_lost s)\<rparr>)"
  have "settled s' rid out" using Close by (simp add: s'_def settled_def split: option.split)
  moreover from this have "settled (loop_end l s') rid out" for l by (rule settled_loop_end)
  ultimately show ?case by (simp add: close_transport_def s'_def [symmetric] split: option.split)
next
  case (Cancel s q)
  from settled_resolve [OF Cancel(2)] show ?case by (simp add: cancel_call_def forget_call_def settled_def)
next
  case (Drain s q e)
  then show ?case by (auto simp: leave_call_def settled_def dget_dset split: option.split)
next
  case (Call s q)
  then show ?case by (auto simp: begin_call_def settled_def dget_dset)
next
  case (Line s l line)
  from Line(2) show ?case by (rule settled_turn)
next
  case (Ends s l)
  from Ends(2) show ?case by (rule settled_loop_end)
qed (simp_all add: open_connection_def settled_def)

section \<open>Properties\<close>


text \<open>C16: An answer of more than 64 KiB in one line, whatever it says, is never delivered: the call it answers and every other
  call waiting on the transport fails with a \<open>ConnectionError\<close>, and the connection is gone.\<close>

theorem long_answer_fails_every_call:
  assumes "tp_reachable decode s" "awaiting s rid" "stream_limit < length line"
  shows "settled (read_turn decode l line s) rid (Failed closed_error) \<and> tp_conn (read_turn decode l line s) = None"
proof -
  from tp_reachable_ok [OF assms(1)] have ok: "calls_ok s" by (simp add: transport_ok_def)
  from assms(2) obtain c where c: "dget (tp_calls s) rid = Some c" "ca_future c = None" by (auto simp: awaiting_def)
  from loop_end_calls [OF ok c(1)] c(2) assms(3) show ?thesis
    by (simp add: read_turn_def settled_def) (simp add: loop_end_def)
qed

text \<open>Two calls on a new connection.\<close>

definition two_calls :: "unit transport" where
  "two_calls = begin_call ''b'' (begin_call ''a'' (open_connection transport_init))"

lemma two_calls_reachable: "tp_reachable decode two_calls"
proof -
  let ?s0 = "transport_init :: unit transport" and ?s1 = "open_connection transport_init :: unit transport"
  have 1: "tp_reachable decode ?s1"
    by (rule tp_reachable.Step [OF tp_reachable.Start tp_step.Open]) (simp add: connected_def transport_init_def)
  have conn: "connected ?s1" "connected (begin_call ''a'' ?s1)"
    by (simp_all add: connected_def open_connection_def transport_init_def begin_call_def)
  have "tp_reachable decode (begin_call ''a'' ?s1)"
    by (rule tp_reachable.Step [OF 1 tp_step.Call]) (use conn(1) in \<open>simp_all add: open_connection_def transport_init_def\<close>)
  then show ?thesis unfolding two_calls_def
    by (rule tp_reachable.Step [OF _ tp_step.Call])
      (use conn(2) in \<open>simp_all add: open_connection_def transport_init_def begin_call_def dget_dset\<close>)
qed


theorem long_answer_fails_every_call_witness:
  "settled (read_turn (\<lambda>_. Unknown_frame) 0 (replicate 65537 CHR ''x'') two_calls) ''b'' (Failed closed_error)"
proof -
  have "awaiting two_calls ''b''"
    by (simp add: awaiting_def two_calls_def begin_call_def open_connection_def transport_init_def dget_dset)
  moreover have "stream_limit < length (replicate 65537 CHR ''x'')"
    by (simp only: length_replicate stream_limit_def)
  ultimately show ?thesis
    using long_answer_fails_every_call [OF two_calls_reachable [of "\<lambda>_. Unknown_frame"]] by blast
qed

end
