(* ===== verification/AgentServer.thy ===== *)
theory AgentServer
  imports Supervisor Adapters Transport
begin

text \<open>
  The daemon side of the socket: \<open>agent/main.py\<close>, from the listening socket to the tasks that answer the lines of the
  connections, and the \<open>EventBroadcaster\<close> of \<open>agent/broadcaster.py\<close>. Connections, lines, tasks and events come in any
  order, so the server is a step relation. A task is one step: what happens between the awaits inside a handler
  is left to the theories of the handlers.
\<close>

section \<open>The listening socket\<close>

text \<open>\<open>_listen_socket_from_systemd\<close>: whether file descriptor 3 is the socket, given the environment and the process id.\<close>

definition env_get :: "(string, string) dict \<Rightarrow> string \<Rightarrow> string" where
  "env_get environ k = (case dget environ k of None \<Rightarrow> [] | Some v \<Rightarrow> v)"

definition env_int :: "string \<Rightarrow> exn + int" where
  "env_int v = from_option (ValueError v) (parse_int v)"

definition listen_socket_from_systemd :: "(string, string) dict \<Rightarrow> int \<Rightarrow> exn + bool" where
  "listen_socket_from_systemd environ pid =
     (let fds = env_get environ ''LISTEN_FDS''; lpid = env_get environ ''LISTEN_PID'' in
      if fds = [] then Inr False
      else rbind (if lpid = [] then Inr pid else env_int lpid) (\<lambda>l.
        if l \<noteq> pid then Inr False else rbind (env_int fds) (\<lambda>n. Inr (1 \<le> n))))"

text \<open>\<open>_bind_socket\<close>; mode \<open>0o660\<close> is 432.\<close>

definition bind_agent_socket :: "string \<Rightarrow> (host, nat) prog" where
  "bind_agent_socket p =
     thenE (host_do (Mkdir_parents p) p (ret ()))
     (thenE (bindE (getsE (\<lambda>h. dget (ho_sockets h) p)) (\<lambda>s. whenE (s \<noteq> None)
        (host_do (Unlink_path p) p (modifyE (\<lambda>h. h\<lparr>ho_sockets := dpop p (ho_sockets h)\<rparr>)))))
     (bindE (bind_socket p) (\<lambda>sock.
      thenE (host_do (Chmod_path p 432) p (change_socket p (\<lambda>s. s\<lparr>so_mode := 432\<rparr>)))
      (thenE (host_do (Listen sock) p (change_socket p (\<lambda>s. s\<lparr>so_backlog := Some 128\<rparr>)))
       (ret sock)))))"

text \<open>\<open>_trusted_uid\<close>: the developer in development mode, otherwise the account of the web process.\<close>

definition agent_trusted_uid :: "bool \<Rightarrow> int \<Rightarrow> os_accounts \<Rightarrow> exn + int" where
  "agent_trusted_uid dev own_uid db = (if dev then Inr own_uid
     else (case getpwnam db ''nasos'' of None \<Rightarrow> Inl (KeyError ''nasos'') | Some pw \<Rightarrow> Inr (pw_uid pw)))"

section \<open>The server\<close>

datatype 'd out_frame = Out_response rpc_response | Out_event string 'd

text \<open>
  \<open>as_peers\<close> has the user id of every peer that ever connected, \<open>as_open\<close> the connections in their read loop,
  \<open>as_writers\<close> those the broadcaster knows, \<open>as_tasks\<close> the lines with a task that has not run, \<open>as_received\<close> every line
  that got a task and \<open>as_written\<close> every frame written to an open connection.
\<close>

record ('s, 'd) agent_server =
  as_state :: "'s journaled"
  as_peers :: "(nat, int) dict"
  as_open :: "nat list"
  as_writers :: "nat list"
  as_tasks :: "(nat \<times> bytes) list"
  as_received :: "(nat \<times> bytes) list"
  as_written :: "(nat \<times> 'd out_frame) list"

definition server_init :: "'s journaled \<Rightarrow> ('s, 'd) agent_server" where
  "server_init s = \<lparr>as_state = s, as_peers = [], as_open = [], as_writers = [], as_tasks = [], as_received = [], as_written = []\<rparr>"

text \<open>The checks at the start of \<open>_handle_connection\<close>, and its \<open>finally\<close> block.\<close>

definition accept_connection :: "int \<Rightarrow> nat \<Rightarrow> int \<Rightarrow> ('s, 'd) agent_server \<Rightarrow> ('s, 'd) agent_server" where
  "accept_connection trusted c peer s = (let s' = s\<lparr>as_peers := dset c peer (as_peers s)\<rparr> in
     if peer \<noteq> 0 \<and> peer \<noteq> trusted then s'
     else s'\<lparr>as_open := List.insert c (as_open s), as_writers := List.insert c (as_writers s)\<rparr>)"

definition close_connection :: "nat \<Rightarrow> ('s, 'd) agent_server \<Rightarrow> ('s, 'd) agent_server" where
  "close_connection c s = s\<lparr>as_open := removeAll c (as_open s), as_writers := removeAll c (as_writers s)\<rparr>"

text \<open>One turn of the read loop: a line over the limit of the stream raises and ends the connection.\<close>

definition receive_line :: "nat \<Rightarrow> bytes \<Rightarrow> ('s, 'd) agent_server \<Rightarrow> ('s, 'd) agent_server" where
  "receive_line c line s = (if stream_limit < length line then close_connection c s
     else s\<lparr>as_tasks := as_tasks s @ [(c, line)], as_received := as_received s @ [(c, line)]\<rparr>)"

definition write_frame :: "nat \<Rightarrow> 'd out_frame \<Rightarrow> ('s, 'd) agent_server \<Rightarrow> ('s, 'd) agent_server" where
  "write_frame c f s = (if c \<in> set (as_open s) then s\<lparr>as_written := as_written s @ [(c, f)]\<rparr> else s)"

text \<open>\<open>_handle_line\<close>: a line that is no request is dropped.\<close>

definition handle_line :: "(bytes \<Rightarrow> 'j rpc_request option) \<Rightarrow> ('j rpc_request \<Rightarrow> 's journaled \<Rightarrow> rpc_response \<times> 's journaled)
    \<Rightarrow> nat \<times> bytes \<Rightarrow> ('s, 'd) agent_server \<Rightarrow> ('s, 'd) agent_server" where
  "handle_line decode dispatch t s = (case decode (snd t) of None \<Rightarrow> s
     | Some rq \<Rightarrow> (let (resp, st) = dispatch rq (as_state s) in
         write_frame (fst t) (Out_response resp) (s\<lparr>as_state := st\<rparr>)))"

text \<open>\<open>EventBroadcaster.publish\<close>: a connection whose write fails is not written to again.\<close>

fun publish_to :: "nat set \<Rightarrow> string \<Rightarrow> 'd \<Rightarrow> nat list \<Rightarrow> ('s, 'd) agent_server \<Rightarrow> ('s, 'd) agent_server" where
  "publish_to broken topic d [] s = s"
| "publish_to broken topic d (c # cs) s = publish_to broken topic d cs
     (if c \<in> broken then s\<lparr>as_writers := removeAll c (as_writers s)\<rparr> else write_frame c (Out_event topic d) s)"

definition publish_event :: "nat set \<Rightarrow> string \<Rightarrow> 'd \<Rightarrow> ('s, 'd) agent_server \<Rightarrow> ('s, 'd) agent_server" where
  "publish_event broken topic d s = publish_to broken topic d (as_writers s) s"

section \<open>What can happen\<close>

inductive as_step :: "int \<Rightarrow> (bytes \<Rightarrow> 'j rpc_request option) \<Rightarrow> ('j rpc_request \<Rightarrow> 's journaled \<Rightarrow> rpc_response \<times> 's journaled)
    \<Rightarrow> ('s, 'd) agent_server \<Rightarrow> ('s, 'd) agent_server \<Rightarrow> bool" for trusted decode dispatch where
  Accept: "dget (as_peers s) c = None \<Longrightarrow> as_step trusted decode dispatch s (accept_connection trusted c peer s)"
| Receive: "c \<in> set (as_open s) \<Longrightarrow> as_step trusted decode dispatch s (receive_line c line s)"
| Leave: "as_step trusted decode dispatch s (close_connection c s)"
| Task: "t \<in> set (as_tasks s) \<Longrightarrow>
    as_step trusted decode dispatch s (handle_line decode dispatch t (s\<lparr>as_tasks := remove1 t (as_tasks s)\<rparr>))"
| Event: "as_step trusted decode dispatch s (publish_event broken topic d s)"

inductive as_reachable :: "int \<Rightarrow> (bytes \<Rightarrow> 'j rpc_request option) \<Rightarrow> ('j rpc_request \<Rightarrow> 's journaled \<Rightarrow> rpc_response \<times> 's journaled)
    \<Rightarrow> 's journaled \<Rightarrow> ('s, 'd) agent_server \<Rightarrow> bool" for trusted decode dispatch s0 where
  Start: "as_reachable trusted decode dispatch s0 (server_init s0)"
| Step: "as_reachable trusted decode dispatch s0 s \<Longrightarrow> as_step trusted decode dispatch s t
    \<Longrightarrow> as_reachable trusted decode dispatch s0 t"

section \<open>The invariant\<close>

definition peer_ok :: "int \<Rightarrow> ('s, 'd) agent_server \<Rightarrow> nat \<Rightarrow> bool" where
  "peer_ok trusted s c \<longleftrightarrow> dget (as_peers s) c = Some 0 \<or> dget (as_peers s) c = Some trusted"

definition answers :: "(bytes \<Rightarrow> 'j rpc_request option) \<Rightarrow> ('s, 'd) agent_server \<Rightarrow> nat \<Rightarrow> 'd out_frame \<Rightarrow> bool" where
  "answers decode s c f = (case f of Out_event _ _ \<Rightarrow> True
     | Out_response r \<Rightarrow> \<exists>line rq. (c, line) \<in> set (as_received s) \<and> decode line = Some rq \<and> rp_id r = rq_id rq)"

definition server_ok :: "int \<Rightarrow> (bytes \<Rightarrow> 'j rpc_request option) \<Rightarrow> ('s, 'd) agent_server \<Rightarrow> bool" where
  "server_ok trusted decode s \<longleftrightarrow> (\<forall>c \<in> set (as_open s). peer_ok trusted s c) \<and>
     (\<forall>(c, line) \<in> set (as_received s). peer_ok trusted s c) \<and> set (as_tasks s) \<subseteq> set (as_received s) \<and>
     (\<forall>(c, f) \<in> set (as_written s). peer_ok trusted s c \<and> answers decode s c f)"

lemma write_frame_ok:
  "server_ok trusted decode s \<Longrightarrow> answers decode s c f \<Longrightarrow> server_ok trusted decode (write_frame c f s)"
  by (auto simp: server_ok_def write_frame_def peer_ok_def answers_def split: out_frame.splits)

lemma accept_ok:
  assumes "server_ok trusted decode s" "dget (as_peers s) c = None"
  shows "server_ok trusted decode (accept_connection trusted c peer s)"
proof -
  let ?t = "accept_connection trusted c peer s"
  have peers: "as_peers ?t = dset c peer (as_peers s)" by (simp add: accept_connection_def Let_def)
  have same: "as_received ?t = as_received s" "as_tasks ?t = as_tasks s" "as_written ?t = as_written s"
    by (simp_all add: accept_connection_def Let_def)
  have old: "peer_ok trusted s q \<Longrightarrow> peer_ok trusted ?t q" for q
    using assms(2) by (auto simp: peer_ok_def peers dget_dset)
  have answers: "answers decode ?t q f = answers decode s q f" for q f
    by (simp add: answers_def same split: out_frame.split)
  have "peer_ok trusted ?t q" if "q \<in> set (as_open ?t)" for q
    using that assms old by (auto simp: accept_connection_def Let_def server_ok_def peer_ok_def dget_dset split: if_splits)
  with assms(1) old show ?thesis by (auto simp: server_ok_def same answers)
qed

lemma close_connection_ok: "server_ok trusted decode s \<Longrightarrow> server_ok trusted decode (close_connection c s)"
  by (auto simp: server_ok_def close_connection_def peer_ok_def answers_def split: out_frame.splits)

lemma receive_ok:
  assumes "server_ok trusted decode s" "c \<in> set (as_open s)"
  shows "server_ok trusted decode (receive_line c line s)"
proof (cases "stream_limit < length line")
  case True
  then show ?thesis using close_connection_ok [OF assms(1)] by (simp add: receive_line_def)
next
  case False
  then show ?thesis using assms
    by (fastforce simp: server_ok_def receive_line_def peer_ok_def answers_def split: out_frame.splits)
qed

lemma task_ok:
  assumes "server_ok trusted decode s" "t \<in> set (as_tasks s)" "\<And>rq j. rp_id (fst (dispatch rq j)) = rq_id rq"
  shows "server_ok trusted decode (handle_line decode dispatch t (s\<lparr>as_tasks := remove1 t (as_tasks s)\<rparr>))"
proof (cases "decode (snd t)")
  case None
  with assms(1) show ?thesis
    by (auto simp: handle_line_def server_ok_def peer_ok_def answers_def split: out_frame.splits dest: set_remove1_subset [THEN subsetD])
next
  case (Some rq)
  obtain resp st where d: "dispatch rq (as_state s) = (resp, st)" by fastforce
  let ?s = "s\<lparr>as_tasks := remove1 t (as_tasks s), as_state := st\<rparr>"
  from assms(1) have "server_ok trusted decode ?s"
    by (auto simp: server_ok_def peer_ok_def answers_def split: out_frame.splits dest: set_remove1_subset [THEN subsetD])
  moreover from assms(1,2) have "t \<in> set (as_received s)" by (auto simp: server_ok_def)
  with Some d assms(3) [of rq "as_state s"] have "answers decode ?s (fst t) (Out_response resp)"
    by (auto simp: answers_def intro: exI [of _ "snd t"])
  ultimately show ?thesis using Some d by (simp add: handle_line_def write_frame_ok)
qed

lemma publish_to_ok: "server_ok trusted decode s \<Longrightarrow> server_ok trusted decode (publish_to broken topic d cs s)"
proof (induction cs arbitrary: s)
  case (Cons c cs)
  have "server_ok trusted decode (s\<lparr>as_writers := ws\<rparr>)" for ws
    using Cons.prems by (auto simp: server_ok_def peer_ok_def answers_def split: out_frame.splits)
  with Cons show ?case by (simp add: write_frame_ok answers_def)
qed simp

lemma server_step_ok:
  assumes "as_step trusted decode dispatch s t" "server_ok trusted decode s"
    and ids: "\<And>rq j. rp_id (fst (dispatch rq j)) = rq_id rq"
  shows "server_ok trusted decode t"
  using assms(1,2)
proof (induction rule: as_step.induct)
  case (Task t s)
  then show ?case by (intro task_ok ids)
qed (simp_all add: accept_ok receive_ok close_connection_ok publish_event_def publish_to_ok)

lemma server_reachable_ok:
  assumes "as_reachable trusted decode dispatch s0 s" "\<And>rq j. rp_id (fst (dispatch rq j)) = rq_id rq"
  shows "server_ok trusted decode s"
  using assms(1)
proof (induction rule: as_reachable.induct)
  case Start
  then show ?case by (simp add: server_ok_def server_init_def)
next
  case (Step s t)
  from server_step_ok [OF Step.hyps(2) Step.IH assms(2)] show ?case .
qed

lemma handle_keeps_id: "rp_id (fst (handle dec hs rq j)) = rq_id rq"
  using every_request_is_journaled [of dec hs rq j] by blast

section \<open>Properties\<close>

text \<open>C13: In every order of connections, lines, tasks and events, the root agent takes lines only from, and writes frames only
  to, connections whose peer is root or the account of the web process, and every response it writes to a connection
  answers a request that came in on that connection, under the identifier of that request.\<close>

theorem agent_serves_only_trusted_peers:
  assumes "as_reachable trusted decode (handle dec hs) s0 s"
  shows "(\<forall>c line. (c, line) \<in> set (as_received s) \<longrightarrow> peer_ok trusted s c) \<and>
    (\<forall>c f. (c, f) \<in> set (as_written s) \<longrightarrow> peer_ok trusted s c) \<and>
    (\<forall>c r. (c, Out_response r) \<in> set (as_written s) \<longrightarrow>
      (\<exists>line rq. (c, line) \<in> set (as_received s) \<and> decode line = Some rq \<and> rp_id r = rq_id rq))"
proof -
  from server_reachable_ok [OF assms handle_keeps_id] have "server_ok trusted decode s" .
  then show ?thesis by (fastforce simp: server_ok_def answers_def)
qed

text \<open>A stranger and the web process connect; the web process sends a line.\<close>

definition demo_server :: "(unit, unit) agent_server" where
  "demo_server = receive_line 1 ''x'' (accept_connection 990 1 990 (accept_connection 990 0 1000
     (server_init \<lparr>jn_state = (), jn_lines = []\<rparr>)))"

theorem agent_serves_only_trusted_peers_witness:
  "(1, ''x'') \<in> set (as_received demo_server) \<and> peer_ok 990 demo_server 1 \<and> \<not> peer_ok 990 demo_server 0"
proof -
  let ?dec = "plain_dec :: string \<Rightarrow> rpc_params \<Rightarrow> exn + rpc_params" and ?decode = "\<lambda>_ :: bytes. None :: rpc_params rpc_request option"
  let ?s0 = "\<lparr>jn_state = (), jn_lines = []\<rparr> :: unit journaled"
  let ?s1 = "accept_connection 990 0 1000 (server_init ?s0) :: (unit, unit) agent_server"
  have 1: "as_reachable 990 ?decode (handle ?dec broken_jobs) ?s0 ?s1"
    by (rule as_reachable.Step [OF as_reachable.Start as_step.Accept]) (simp add: server_init_def)
  have 2: "as_reachable 990 ?decode (handle ?dec broken_jobs) ?s0 (accept_connection 990 1 990 ?s1)"
    by (rule as_reachable.Step [OF 1 as_step.Accept]) (simp add: server_init_def accept_connection_def)
  have "as_reachable 990 ?decode (handle ?dec broken_jobs) ?s0 demo_server"
    unfolding demo_server_def
    by (rule as_reachable.Step [OF 2 as_step.Receive]) (simp add: server_init_def accept_connection_def Let_def)
  note ok = agent_serves_only_trusted_peers [OF this]
  have line: "(1, ''x'') \<in> set (as_received demo_server)" "dget (as_peers demo_server) 0 = Some 1000"
    by (simp_all add: demo_server_def receive_line_def stream_limit_def server_init_def accept_connection_def Let_def dget_dset)
  from ok line(1) have "peer_ok 990 demo_server 1" by blast
  with line show ?thesis by (simp add: peer_ok_def)
qed

end
