(* ===== verification/Migrations.thy ===== *)
theory Migrations
  imports Json
begin

text \<open>
  The schema of the database, twice: the models of \<open>db/models.py\<close>, from which SQLAlchemy writes its statements, and the
  migrations of \<open>db/migrations/versions\<close>, which build the tables of an installed system. An operation
  of a migration is a value, a migration a list of them, and running one changes a schema or fails as
  SQLite does.
\<close>

section \<open>Schemas\<close>

datatype col_type = Integer_type | String_type nat | DateTime_type | JSON_type | Boolean_type | Float_type

text \<open>\<open>co_ref\<close> is a foreign key with whether deleting cascades.\<close>

record column =
  co_name :: string
  co_type :: col_type
  co_nullable :: bool
  co_primary :: bool
  co_ref :: "(string \<times> bool) option"

definition col :: "string \<Rightarrow> col_type \<Rightarrow> column" where
  "col n t = \<lparr>co_name = n, co_type = t, co_nullable = False, co_primary = False, co_ref = None\<rparr>"

definition null_col :: "string \<Rightarrow> col_type \<Rightarrow> column" where
  "null_col n t = (col n t)\<lparr>co_nullable := True\<rparr>"

definition pk_col :: "string \<Rightarrow> col_type \<Rightarrow> column" where
  "pk_col n t = (col n t)\<lparr>co_primary := True\<rparr>"

definition ref_col :: "string \<Rightarrow> col_type \<Rightarrow> string \<times> bool \<Rightarrow> column" where
  "ref_col n t r = (col n t)\<lparr>co_ref := Some r\<rparr>"

record table =
  tb_columns :: "column list"
  tb_uniques :: "string list list"

record db_index =
  ix_table :: string
  ix_columns :: "string list"
  ix_unique :: bool

record schema =
  sc_tables :: "(string, table) dict"
  sc_indexes :: "(string, db_index) dict"

definition empty_schema :: schema where
  "empty_schema = \<lparr>sc_tables = [], sc_indexes = []\<rparr>"

section \<open>Operations\<close>

datatype schema_op =
    Create_table string "column list" "string list list"
  | Drop_table string
  | Create_index string string "string list" bool
  | Drop_index string
  | Add_column string column
  | Drop_column string string

text \<open>Dropping a table drops its indexes with it.\<close>

definition op_error :: "string \<Rightarrow> exn" where
  "op_error n = RuntimeError n"

fun apply_op :: "schema_op \<Rightarrow> schema \<Rightarrow> exn + schema" where
  "apply_op (Create_table t cs us) s = (if dget (sc_tables s) t \<noteq> None then Inl (op_error t)
     else Inr (s\<lparr>sc_tables := sc_tables s @ [(t, \<lparr>tb_columns = cs, tb_uniques = us\<rparr>)]\<rparr>))"
| "apply_op (Drop_table t) s = (if dget (sc_tables s) t = None then Inl (op_error t)
     else Inr (s\<lparr>sc_tables := dpop t (sc_tables s), sc_indexes := filter (\<lambda>(_, i). ix_table i \<noteq> t) (sc_indexes s)\<rparr>))"
| "apply_op (Create_index n t cs u) s = (if dget (sc_indexes s) n \<noteq> None \<or> dget (sc_tables s) t = None then Inl (op_error n)
     else Inr (s\<lparr>sc_indexes := sc_indexes s @ [(n, \<lparr>ix_table = t, ix_columns = cs, ix_unique = u\<rparr>)]\<rparr>))"
| "apply_op (Drop_index n) s = (if dget (sc_indexes s) n = None then Inl (op_error n)
     else Inr (s\<lparr>sc_indexes := dpop n (sc_indexes s)\<rparr>))"
| "apply_op (Add_column t c) s = (case dget (sc_tables s) t of None \<Rightarrow> Inl (op_error t)
     | Some tb \<Rightarrow> if co_name c \<in> co_name ` set (tb_columns tb) then Inl (op_error (co_name c))
         else Inr (s\<lparr>sc_tables := dset t (tb\<lparr>tb_columns := tb_columns tb @ [c]\<rparr>) (sc_tables s)\<rparr>))"
| "apply_op (Drop_column t n) s = (case dget (sc_tables s) t of None \<Rightarrow> Inl (op_error t)
     | Some tb \<Rightarrow> if n \<notin> co_name ` set (tb_columns tb) then Inl (op_error n)
         else Inr (s\<lparr>sc_tables := dset t (tb\<lparr>tb_columns := filter (\<lambda>c. co_name c \<noteq> n) (tb_columns tb)\<rparr>) (sc_tables s)\<rparr>))"

fun apply_ops :: "schema_op list \<Rightarrow> schema \<Rightarrow> exn + schema" where
  "apply_ops [] s = Inr s"
| "apply_ops (x # xs) s = rbind (apply_op x s) (apply_ops xs)"

section \<open>The migrations\<close>

definition upgrade_0001 :: "schema_op list" where
  "upgrade_0001 =
    [Create_table ''sessions''
       [pk_col ''id'' Integer_type,
        col ''token_hash'' (String_type 64),
        col ''uid'' Integer_type,
        col ''username'' (String_type 32),
        col ''role'' (String_type 16),
        col ''created'' DateTime_type,
        col ''last_seen'' DateTime_type,
        null_col ''ip'' (String_type 45),
        null_col ''user_agent'' (String_type 255)]
       [],
     Create_index ''ix_sessions_token_hash'' ''sessions'' [''token_hash''] True,
     Create_table ''audit_log''
       [pk_col ''id'' Integer_type,
        col ''ts'' DateTime_type,
        null_col ''username'' (String_type 32),
        null_col ''role'' (String_type 16),
        null_col ''ip'' (String_type 45),
        col ''method'' (String_type 8),
        col ''path'' (String_type 255),
        col ''action'' (String_type 64),
        col ''status_code'' Integer_type,
        null_col ''detail'' (String_type 1024)]
       [],
     Create_index ''ix_audit_log_ts'' ''audit_log'' [''ts''] False,
     Create_table ''settings''
       [pk_col ''key'' (String_type 64),
        col ''value'' JSON_type,
        col ''updated_at'' DateTime_type]
       [],
     Create_table ''notifications''
       [pk_col ''id'' Integer_type,
        col ''ts'' DateTime_type,
        col ''level'' (String_type 16),
        col ''title'' (String_type 128),
        col ''message'' (String_type 1024),
        col ''source'' (String_type 64),
        null_col ''read_at'' DateTime_type]
       [],
     Create_index ''ix_notifications_ts'' ''notifications'' [''ts''] False]"

definition downgrade_0001 :: "schema_op list" where
  "downgrade_0001 =
    [Drop_table ''notifications'',
     Drop_table ''settings'',
     Drop_index ''ix_audit_log_ts'',
     Drop_table ''audit_log'',
     Drop_index ''ix_sessions_token_hash'',
     Drop_table ''sessions'']"

definition upgrade_0002 :: "schema_op list" where
  "upgrade_0002 =
    [Create_table ''users''
       [pk_col ''uid'' Integer_type,
        col ''username'' (String_type 32),
        null_col ''description'' (String_type 255),
        col ''smb_enabled'' Boolean_type,
        col ''ftp_enabled'' Boolean_type,
        col ''created_by_nasos'' Boolean_type,
        col ''smb_password_synced'' Boolean_type]
       [],
     Create_index ''ix_users_username'' ''users'' [''username''] True,
     Create_table ''groups_meta''
       [pk_col ''gid'' Integer_type,
        col ''name'' (String_type 32),
        null_col ''description'' (String_type 255),
        col ''created_by_nasos'' Boolean_type]
       [],
     Create_index ''ix_groups_meta_name'' ''groups_meta'' [''name''] True,
     Create_table ''volumes''
       [pk_col ''id'' Integer_type,
        col ''name'' (String_type 64),
        col ''mountpoint'' (String_type 255),
        col ''filesystem'' (String_type 16),
        col ''managed'' Boolean_type,
        col ''created_at'' DateTime_type]
       [[''name''], [''mountpoint'']],
     Create_table ''shares''
       [pk_col ''id'' Integer_type,
        col ''name'' (String_type 64),
        ref_col ''volume_id'' Integer_type (''volumes.id'', False),
        col ''path'' (String_type 255),
        null_col ''description'' (String_type 255),
        col ''smb_enabled'' Boolean_type,
        col ''created_at'' DateTime_type]
       [[''name''], [''path'']],
     Create_index ''ix_shares_name'' ''shares'' [''name''] False,
     Create_table ''share_permissions''
       [pk_col ''id'' Integer_type,
        ref_col ''share_id'' Integer_type (''shares.id'', True),
        col ''principal_type'' (String_type 8),
        col ''principal'' (String_type 32),
        col ''level'' (String_type 8)]
       [[''share_id'', ''principal_type'', ''principal'']],
     Create_index ''ix_share_permissions_share_id'' ''share_permissions'' [''share_id''] False,
     Create_table ''jobs''
       [pk_col ''id'' (String_type 36),
        col ''kind'' (String_type 64),
        null_col ''resource'' (String_type 128),
        col ''status'' (String_type 16),
        col ''progress'' Float_type,
        null_col ''message'' (String_type 255),
        null_col ''created_by'' (String_type 32),
        col ''created_at'' DateTime_type,
        col ''updated_at'' DateTime_type]
       [],
     Create_table ''managed_files''
       [pk_col ''path'' (String_type 255),
        col ''sha256'' (String_type 64),
        col ''updated_at'' DateTime_type]
       []]"

definition downgrade_0002 :: "schema_op list" where
  "downgrade_0002 =
    [Drop_table ''managed_files'',
     Drop_table ''jobs'',
     Drop_index ''ix_share_permissions_share_id'',
     Drop_table ''share_permissions'',
     Drop_index ''ix_shares_name'',
     Drop_table ''shares'',
     Drop_table ''volumes'',
     Drop_index ''ix_groups_meta_name'',
     Drop_table ''groups_meta'',
     Drop_index ''ix_users_username'',
     Drop_table ''users'']"

definition upgrade_0003 :: "schema_op list" where
  "upgrade_0003 =
    [Create_table ''uploads''
       [pk_col ''id'' (String_type 36),
        col ''uid'' Integer_type,
        col ''dest_path'' (String_type 255),
        col ''size'' Integer_type,
        col ''offset'' Integer_type,
        col ''status'' (String_type 16),
        col ''created_at'' DateTime_type,
        col ''updated_at'' DateTime_type]
       [],
     Create_index ''ix_uploads_created_at'' ''uploads'' [''created_at''] False]"

definition downgrade_0003 :: "schema_op list" where
  "downgrade_0003 =
    [Drop_index ''ix_uploads_created_at'',
     Drop_table ''uploads'']"

definition upgrade_0004 :: "schema_op list" where
  "upgrade_0004 =
    [Create_table ''disks_seen''
       [pk_col ''serial'' (String_type 128),
        col ''path'' (String_type 255),
        null_col ''model'' (String_type 255),
        null_col ''size'' Integer_type,
        col ''first_seen_at'' DateTime_type,
        col ''last_seen_at'' DateTime_type,
        null_col ''last_health'' (String_type 16)]
       [],
     Add_column ''volumes'' (null_col ''device'' (String_type 255)),
     Add_column ''volumes'' (null_col ''uuid'' (String_type 64)),
     Add_column ''volumes'' (null_col ''raid_level'' (String_type 16)),
     Add_column ''volumes'' (null_col ''array_name'' (String_type 64)),
     Add_column ''volumes'' (null_col ''disk_serials'' JSON_type)]"

definition downgrade_0004 :: "schema_op list" where
  "downgrade_0004 =
    [Drop_column ''volumes'' ''disk_serials'',
     Drop_column ''volumes'' ''array_name'',
     Drop_column ''volumes'' ''raid_level'',
     Drop_column ''volumes'' ''uuid'',
     Drop_column ''volumes'' ''device'',
     Drop_table ''disks_seen'']"

text \<open>A revision with the one it follows (\<open>down_revision\<close>), its upgrade and its downgrade.\<close>

record revision =
  rv_id :: string
  rv_down :: "string option"
  rv_upgrade :: "schema_op list"
  rv_downgrade :: "schema_op list"

definition revisions :: "revision list" where
  "revisions =
    [\<lparr>rv_id = ''0001'', rv_down = None, rv_upgrade = upgrade_0001, rv_downgrade = downgrade_0001\<rparr>,
     \<lparr>rv_id = ''0002'', rv_down = Some ''0001'', rv_upgrade = upgrade_0002, rv_downgrade = downgrade_0002\<rparr>,
     \<lparr>rv_id = ''0003'', rv_down = Some ''0002'', rv_upgrade = upgrade_0003, rv_downgrade = downgrade_0003\<rparr>,
     \<lparr>rv_id = ''0004'', rv_down = Some ''0003'', rv_upgrade = upgrade_0004, rv_downgrade = downgrade_0004\<rparr>]"

text \<open>The chain from the first revision: each is followed by the one that names it. \<open>n\<close> bounds its length.\<close>

fun revision_chain :: "nat \<Rightarrow> string option \<Rightarrow> revision list \<Rightarrow> revision list" where
  "revision_chain 0 r rs = []"
| "revision_chain (Suc n) r rs = (case List.find (\<lambda>v. rv_down v = r) rs of None \<Rightarrow> []
     | Some v \<Rightarrow> v # revision_chain n (Some (rv_id v)) rs)"

definition upgrade_head :: "schema \<Rightarrow> exn + schema" where
  "upgrade_head s = apply_ops (concat (map rv_upgrade (revision_chain (length revisions) None revisions))) s"

section \<open>The models\<close>

text \<open>\<open>unique\<close> and \<open>index\<close> of a mapped column; an indexed column gets an index named after table and column, which is the
  unique one when both are given.\<close>

datatype mapped_column = Mapped (mc_column: column) (mc_unique: bool) (mc_index: bool)

abbreviation plain :: "column \<Rightarrow> mapped_column" where "plain c \<equiv> Mapped c False False"
abbreviation unique :: "column \<Rightarrow> mapped_column" where "unique c \<equiv> Mapped c True False"
abbreviation indexed :: "column \<Rightarrow> mapped_column" where "indexed c \<equiv> Mapped c False True"
abbreviation unique_indexed :: "column \<Rightarrow> mapped_column" where "unique_indexed c \<equiv> Mapped c True True"

type_synonym model_table = "string \<times> mapped_column list \<times> string list list"

definition model_sessions :: model_table where
  "model_sessions = (''sessions'',
    [plain (pk_col ''id'' Integer_type),
     unique_indexed (col ''token_hash'' (String_type 64)),
     plain (col ''uid'' Integer_type),
     plain (col ''username'' (String_type 32)),
     plain (col ''role'' (String_type 16)),
     plain (col ''created'' DateTime_type),
     plain (col ''last_seen'' DateTime_type),
     plain (null_col ''ip'' (String_type 45)),
     plain (null_col ''user_agent'' (String_type 255))],
    [])"

definition model_audit_log :: model_table where
  "model_audit_log = (''audit_log'',
    [plain (pk_col ''id'' Integer_type),
     indexed (col ''ts'' DateTime_type),
     plain (null_col ''username'' (String_type 32)),
     plain (null_col ''role'' (String_type 16)),
     plain (null_col ''ip'' (String_type 45)),
     plain (col ''method'' (String_type 8)),
     plain (col ''path'' (String_type 255)),
     plain (col ''action'' (String_type 64)),
     plain (col ''status_code'' Integer_type),
     plain (null_col ''detail'' (String_type 1024))],
    [])"

definition model_settings :: model_table where
  "model_settings = (''settings'',
    [plain (pk_col ''key'' (String_type 64)),
     plain (col ''value'' JSON_type),
     plain (col ''updated_at'' DateTime_type)],
    [])"

definition model_notifications :: model_table where
  "model_notifications = (''notifications'',
    [plain (pk_col ''id'' Integer_type),
     indexed (col ''ts'' DateTime_type),
     plain (col ''level'' (String_type 16)),
     plain (col ''title'' (String_type 128)),
     plain (col ''message'' (String_type 1024)),
     plain (col ''source'' (String_type 64)),
     plain (null_col ''read_at'' DateTime_type)],
    [])"

definition model_users :: model_table where
  "model_users = (''users'',
    [plain (pk_col ''uid'' Integer_type),
     unique_indexed (col ''username'' (String_type 32)),
     plain (null_col ''description'' (String_type 255)),
     plain (col ''smb_enabled'' Boolean_type),
     plain (col ''ftp_enabled'' Boolean_type),
     plain (col ''created_by_nasos'' Boolean_type),
     plain (col ''smb_password_synced'' Boolean_type)],
    [])"

definition model_groups_meta :: model_table where
  "model_groups_meta = (''groups_meta'',
    [plain (pk_col ''gid'' Integer_type),
     unique_indexed (col ''name'' (String_type 32)),
     plain (null_col ''description'' (String_type 255)),
     plain (col ''created_by_nasos'' Boolean_type)],
    [])"

definition model_volumes :: model_table where
  "model_volumes = (''volumes'',
    [plain (pk_col ''id'' Integer_type),
     unique (col ''name'' (String_type 64)),
     unique (col ''mountpoint'' (String_type 255)),
     plain (col ''filesystem'' (String_type 16)),
     plain (col ''managed'' Boolean_type),
     plain (col ''created_at'' DateTime_type),
     plain (null_col ''device'' (String_type 255)),
     plain (null_col ''uuid'' (String_type 64)),
     plain (null_col ''raid_level'' (String_type 16)),
     plain (null_col ''array_name'' (String_type 64)),
     plain (null_col ''disk_serials'' JSON_type)],
    [])"

definition model_disks_seen :: model_table where
  "model_disks_seen = (''disks_seen'',
    [plain (pk_col ''serial'' (String_type 128)),
     plain (col ''path'' (String_type 255)),
     plain (null_col ''model'' (String_type 255)),
     plain (null_col ''size'' Integer_type),
     plain (col ''first_seen_at'' DateTime_type),
     plain (col ''last_seen_at'' DateTime_type),
     plain (null_col ''last_health'' (String_type 16))],
    [])"

definition model_shares :: model_table where
  "model_shares = (''shares'',
    [plain (pk_col ''id'' Integer_type),
     unique_indexed (col ''name'' (String_type 64)),
     plain (ref_col ''volume_id'' Integer_type (''volumes.id'', False)),
     unique (col ''path'' (String_type 255)),
     plain (null_col ''description'' (String_type 255)),
     plain (col ''smb_enabled'' Boolean_type),
     plain (col ''created_at'' DateTime_type)],
    [])"

definition model_share_permissions :: model_table where
  "model_share_permissions = (''share_permissions'',
    [plain (pk_col ''id'' Integer_type),
     indexed (ref_col ''share_id'' Integer_type (''shares.id'', True)),
     plain (col ''principal_type'' (String_type 8)),
     plain (col ''principal'' (String_type 32)),
     plain (col ''level'' (String_type 8))],
    [[''share_id'', ''principal_type'', ''principal'']])"

definition model_jobs :: model_table where
  "model_jobs = (''jobs'',
    [plain (pk_col ''id'' (String_type 36)),
     plain (col ''kind'' (String_type 64)),
     plain (null_col ''resource'' (String_type 128)),
     plain (col ''status'' (String_type 16)),
     plain (col ''progress'' Float_type),
     plain (null_col ''message'' (String_type 255)),
     plain (null_col ''created_by'' (String_type 32)),
     plain (col ''created_at'' DateTime_type),
     plain (col ''updated_at'' DateTime_type)],
    [])"

definition model_uploads :: model_table where
  "model_uploads = (''uploads'',
    [plain (pk_col ''id'' (String_type 36)),
     plain (col ''uid'' Integer_type),
     plain (col ''dest_path'' (String_type 255)),
     plain (col ''size'' Integer_type),
     plain (col ''offset'' Integer_type),
     plain (col ''status'' (String_type 16)),
     indexed (col ''created_at'' DateTime_type),
     plain (col ''updated_at'' DateTime_type)],
    [])"

definition model_managed_files :: model_table where
  "model_managed_files = (''managed_files'',
    [plain (pk_col ''path'' (String_type 255)),
     plain (col ''sha256'' (String_type 64)),
     plain (col ''updated_at'' DateTime_type)],
    [])"

definition models :: "model_table list" where
  "models = [model_sessions, model_audit_log, model_settings, model_notifications, model_users, model_groups_meta, model_volumes, model_disks_seen, model_shares, model_share_permissions, model_jobs, model_uploads, model_managed_files]"

definition table_of_model :: "model_table \<Rightarrow> string \<times> table" where
  "table_of_model m = (case m of (t, cs, us) \<Rightarrow> (t, \<lparr>tb_columns = map mc_column cs,
     tb_uniques = map (\<lambda>c. [co_name (mc_column c)]) (filter (\<lambda>c. mc_unique c \<and> \<not> mc_index c) cs) @ us\<rparr>))"

definition indexes_of_model :: "model_table \<Rightarrow> (string \<times> db_index) list" where
  "indexes_of_model m = (case m of (t, cs, us) \<Rightarrow> map (\<lambda>c. let n = co_name (mc_column c) in
     (''ix_'' @ t @ ''_'' @ n, \<lparr>ix_table = t, ix_columns = [n], ix_unique = mc_unique c\<rparr>)) (filter mc_index cs))"

text \<open>\<open>Base.metadata.create_all\<close>.\<close>

definition model_schema :: schema where
  "model_schema = \<lparr>sc_tables = map table_of_model models, sc_indexes = concat (map indexes_of_model models)\<rparr>"

section \<open>What a schema means\<close>

text \<open>The sets of columns two rows of a table may not agree on: the primary key, the constraints and the unique indexes.\<close>

definition keys_of :: "schema \<Rightarrow> string \<Rightarrow> string list list" where
  "keys_of s t = (case dget (sc_tables s) t of None \<Rightarrow> []
     | Some tb \<Rightarrow> map co_name (filter co_primary (tb_columns tb)) # tb_uniques tb
         @ map (\<lambda>(_, i). ix_columns i) (filter (\<lambda>(_, i). ix_table i = t \<and> ix_unique i) (sc_indexes s)))"

definition columns_of :: "schema \<Rightarrow> string \<Rightarrow> column list option" where
  "columns_of s t = map_option tb_columns (dget (sc_tables s) t)"

definition indexed_in :: "schema \<Rightarrow> (string \<times> string \<times> string list) list" where
  "indexed_in s = map (\<lambda>(n, i). (n, ix_table i, ix_columns i)) (sc_indexes s)"

text \<open>The same tables with the same columns, the same keys, and indexes on the same columns under the same names.\<close>

definition same_schema :: "schema \<Rightarrow> schema \<Rightarrow> bool" where
  "same_schema s m \<longleftrightarrow> columns_of s = columns_of m \<and>
     (\<forall>t. set (map set (keys_of s t)) = set (map set (keys_of m t))) \<and> set (indexed_in s) = set (indexed_in m)"

definition same_check :: "schema \<Rightarrow> schema \<Rightarrow> bool" where
  "same_check s m \<longleftrightarrow> set (map fst (sc_tables s)) = set (map fst (sc_tables m)) \<and>
     list_all (\<lambda>t. columns_of s t = columns_of m t \<and> set (map set (keys_of s t)) = set (map set (keys_of m t)))
       (map fst (sc_tables m)) \<and> set (indexed_in s) = set (indexed_in m)"

lemma same_schema_check: "same_check s m \<Longrightarrow> same_schema s m"
proof -
  assume c: "same_check s m"
  have "columns_of s t = columns_of m t \<and> set (map set (keys_of s t)) = set (map set (keys_of m t))" for t
  proof (cases "t \<in> set (map fst (sc_tables m))")
    case True
    with c show ?thesis unfolding same_check_def list_all_iff by blast
  next
    case False
    with c have "dget (sc_tables s) t = None" "dget (sc_tables m) t = None"
      by (auto simp: same_check_def map_of_eq_None_iff)
    then show ?thesis by (simp add: columns_of_def keys_of_def)
  qed
  with c show ?thesis by (auto simp: same_schema_def same_check_def)
qed

text \<open>The schema after the first \<open>n\<close> revisions of the chain.\<close>

definition chain :: "revision list" where
  "chain = revision_chain (length revisions) None revisions"

definition schema_at :: "nat \<Rightarrow> exn + schema" where
  "schema_at n = apply_ops (concat (map rv_upgrade (take n chain))) empty_schema"

definition downgrade_from :: "nat \<Rightarrow> exn + schema" where
  "downgrade_from n = rbind (schema_at n) (apply_ops (rv_downgrade (chain ! (n - 1))))"

section \<open>Properties\<close>

text \<open>C39: The migrations, run in the order of their chain on an empty database, succeed and give the schema the models
  declare: the same tables with the same columns in the same order, the same primary, unique and foreign keys, and
  indexes on the same columns.\<close>

theorem migrated_schema_is_the_models:
  "case upgrade_head empty_schema of Inl e \<Rightarrow> False | Inr s \<Rightarrow> same_schema s model_schema"
proof -
  have "case upgrade_head empty_schema of Inl e \<Rightarrow> False | Inr s \<Rightarrow> same_check s model_schema" by code_simp
  then show ?thesis by (auto split: sum.splits intro: same_schema_check)
qed


end
