(* ===== verification/Whole.thy ===== *)
theory Whole
  imports AgentSafety ApiSafety WorkerProcess
begin

text \<open>
  The parts put together as \<open>web/main.py\<close> and \<open>web/deps.py\<close> do: the web process over the handlers of the root agent, reached
  through the RPC path, and the file workers the agent starts. The properties say what a session amounts to on the
  machine.
\<close>

section \<open>The agent behind the RPC path\<close>

text \<open>The methods the modules of \<open>agent/handlers\<close> register in the root agent.\<close>

definition agent_methods :: "string list" where
  "agent_methods = [''auth.login'', ''agent.fileworker.ensure'', ''firewall.ensure_service'', ''groups.create'', ''groups.delete'',
     ''groups.add_member'', ''groups.remove_member'', ''jobs.list'', ''samba.apply_config'', ''samba.ensure_enabled'',
     ''shares.create'', ''shares.delete'', ''shares.set_permissions'', ''storage.inventory'', ''storage.execute_plan'',
     ''system.info'', ''users.create'', ''users.set_smb_enabled'', ''users.delete'', ''users.set_password'',
     ''users.import_existing'', ''volumes.register'']"

definition agent_handlers :: "agent_env \<Rightarrow> 'd adapters \<Rightarrow> string \<Rightarrow> 'd agent_state handlers" where
  "agent_handlers en A jid = map (\<lambda>m. (m, \<lambda>p ctx. agent_handler en A jid ctx p)) agent_methods"

text \<open>The agent as the services see it, over a transport that brings the request to the dispatcher and its answer back
  (\<open>Transport\<close> and \<open>AgentServer\<close> have the socket in between); \<open>rid\<close> and \<open>jid\<close> are the random identifiers of the
  request and of a job it starts.\<close>

definition rpc_agent :: "(rpc_params \<Rightarrow> 'j) \<Rightarrow> (string \<Rightarrow> 'j \<Rightarrow> exn + rpc_params) \<Rightarrow> agent_env \<Rightarrow> 'd adapters \<Rightarrow> string \<Rightarrow> string
    \<Rightarrow> 'd agent_state journaled agent" where
  "rpc_agent enc dec en A rid jid ctx p = rpc enc dec (agent_handlers en A jid) rid ctx p"

section \<open>File workers\<close>

text \<open>\<open>get_prod_client\<close>: the socket the client is connected to; \<open>get_file_worker_client\<close> asks for the worker of the session.\<close>

definition get_prod_client :: "'a agent \<Rightarrow> rpc_context \<Rightarrow> int \<Rightarrow> string \<Rightarrow> ('a, string) web_prog" where
  "get_prod_client agent ctx uid username =
     bindE (agent_call agent ctx (FileWorkerEnsureParams uid username)) (\<lambda>r. case r of
         FileWorkerEnsureResult p \<Rightarrow> ret p | _ \<Rightarrow> raise (ValidationError ''FileWorkerEnsureResult''))"

definition get_file_worker_client :: "'a env \<Rightarrow> client \<Rightarrow> ('a, string) web_prog" where
  "get_file_worker_client ev c = bindE (current_session (ev_hash ev) (ev_settings ev) (cl_cookie c)) (\<lambda>s.
     get_prod_client (ev_agent ev) (session_ctx s) (se_uid s) (se_username s))"

text \<open>\<open>main\<close> of the worker: its two options, each followed by its value, as the supervisor passes them. The other
  spellings argparse takes (\<open>--uid=5\<close>, abbreviations) do not occur and are errors here, as is anything unknown.\<close>

fun parse_worker_args :: "string list \<Rightarrow> int option \<Rightarrow> int \<Rightarrow> exn + int \<times> int" where
  "parse_worker_args [] uid fd = (case uid of None \<Rightarrow> Inl (ValueError ''--uid'') | Some u \<Rightarrow> Inr (u, fd))"
| "parse_worker_args [opt] uid fd = Inl (ValueError opt)"
| "parse_worker_args (opt # v # rest) uid fd =
     (if opt = ''--uid'' then rbind (from_option (ValueError v) (parse_int v)) (\<lambda>u. parse_worker_args rest (Some u) fd)
      else if opt = ''--listen-fd'' then rbind (from_option (ValueError v) (parse_int v)) (\<lambda>f. parse_worker_args rest uid f)
      else Inl (ValueError opt))"

definition worker_main :: "string list \<Rightarrow> 'a \<Rightarrow> 'a worker \<Rightarrow> (creds, 'a worker \<times> int) prog" where
  "worker_main argv acl machine = bindE (liftE (parse_worker_args (tl argv) None 3)) (\<lambda>(uid, fd). worker_start uid acl machine)"

section \<open>Facts\<close>

lemma agent_handlers_get:
  "method_of p \<in> set agent_methods \<Longrightarrow> dget (agent_handlers en A jid) (method_of p) = Some (\<lambda>p ctx. agent_handler en A jid ctx p)"
proof -
  have "m \<in> set ms \<Longrightarrow> dget (map (\<lambda>m. (m, f)) ms) m = Some f" for m :: string and ms and f :: "'d agent_state handler"
    by (induction ms) auto
  then show "method_of p \<in> set agent_methods \<Longrightarrow> ?thesis" by (simp add: agent_handlers_def)
qed

text \<open>A call that comes back with a result has run the handler once, on the parameters sent.\<close>

lemma rpc_agent_Inr:
  assumes call: "rpc_agent enc dec en A rid jid ctx p s = (Inr r, t)" and ok: "params_ok p"
    and codec: "dec (method_of p) (enc p) = Inr p" and m: "method_of p \<in> set agent_methods"
  shows "agent_handler en A jid ctx p (jn_state s) = (Inr r, jn_state t)"
proof -
  have h: "fst (rpc enc dec (agent_handlers en A jid) rid ctx p s) = caller_view (fst (agent_handler en A jid ctx p (jn_state s)))"
    "jn_state (snd (rpc enc dec (agent_handlers en A jid) rid ctx p s)) = snd (agent_handler en A jid ctx p (jn_state s))"
    using rpc_handled [where p = p and hs = "agent_handlers en A jid" and dec = dec and enc = enc, OF agent_handlers_get [OF m] codec ok]
    by simp_all
  obtain x u where xu: "agent_handler en A jid ctx p (jn_state s) = (x, u)" by fastforce
  from h call have "caller_view x = Inr r" "jn_state t = u" by (simp_all add: rpc_agent_def xu)
  moreover have "caller_view x = Inr r \<Longrightarrow> x = Inr r" by (cases x rule: caller_view.cases) auto
  ultimately show ?thesis by (simp add: xu)
qed

lemma parse_int_int_str: "parse_int (int_str i) = Some i"
proof (cases "i < 0")
  case True
  let ?n = "nat (- i)"
  have "last (''-'' @ nat_str ?n) \<in> set (nat_str ?n)" by simp
  then have "\<not> is_space (last (''-'' @ nat_str ?n))" by (rule digit_not_space [OF nat_str_digits])
  moreover have "\<not> is_space (hd (''-'' @ nat_str ?n))" by (simp add: is_space_def code_def)
  ultimately have "strip (''-'' @ nat_str ?n) = ''-'' @ nat_str ?n" by (intro strip_id) blast
  then show ?thesis using True by (simp add: parse_int_def int_str_def)
qed (simp add: int_str_def)

lemma get_prod_client_Inr:
  assumes "get_prod_client agent ctx uid username w = (Inr p, t)"
  shows "agent_call agent ctx (FileWorkerEnsureParams uid username) w = (Inr (FileWorkerEnsureResult p), t)"
proof -
  from assms obtain r w2 where "agent_call agent ctx (FileWorkerEnsureParams uid username) w = (Inr r, w2)"
    "(case r of FileWorkerEnsureResult q \<Rightarrow> ret q | _ \<Rightarrow> raise (ValidationError ''FileWorkerEnsureResult'')) w2 = (Inr p, t)"
    by (auto simp: get_prod_client_def bindE_eq_Inr)
  then show ?thesis by (cases r) auto
qed

lemma worker_main_argv:
  "worker_main (worker_argv b uid) acl machine = worker_start uid acl machine"
proof -
  have "parse_int ''3'' = Some 3" by code_simp
  then show ?thesis by (auto simp: worker_main_def worker_argv_def parse_int_int_str from_option_def bindE_def)
qed

lemma worker_start_uid:
  assumes "worker_start uid acl machine s = (Inr (k, trusted), t)"
  shows "pc_uid t = uid"
proof -
  from assms obtain name u where drop: "drop_privileges uid s = (Inr name, u)" and trust: "trusted_uid u = (Inr trusted, t)"
    by (auto simp: worker_start_def bindE_eq_Inr)
  from drop have "pc_uid u = uid" by (rule drop_privileges_Inr) simp
  with trust show ?thesis by (auto simp: trusted_uid_def bindE_eq_Inr split: option.splits)
qed

section \<open>Examples\<close>

text \<open>The web process of the examples over the agent of the examples.\<close>

definition demo_whole_env :: "firewalld agent_state journaled env" where
  "demo_whole_env = \<lparr>ev_settings = default_settings,
     ev_agent = rpc_agent id plain_dec demo_agent_env (real_adapters demo_agent_env) ''1'' ''j'', ev_hash = (\<lambda>t. t),
     ev_mac = (\<lambda>_. ''t''), ev_fresh = ''n''\<rparr>"

definition demo_whole :: "firewalld agent_state journaled web" where
  "demo_whole = (demo_web \<lparr>jn_state = demo_agent, jn_lines = []\<rparr>)\<lparr>wb_sessions := [demo_session 1 ''a'' 1000 ''user'']\<rparr>"

section \<open>Properties\<close>

text \<open>C11: A login from the browser, through the web process, the RPC path and PAM, opens a session only for an account whose
  password PAM accepts: the session is for its uid and name, with the role \<open>admin\<close> exactly for members of
  \<open>nasos-admin\<close>, and nobody outside the two groups gets in.\<close>

theorem session_roles_follow_groups:
  assumes "serve ev c (Login u p) w = (Inr (Logged_in t sec age idn), w')"
    and "ev_agent ev = rpc_agent enc dec en (real_adapters en) rid jid"
    and "\<forall>q. params_ok q \<longrightarrow> dec (method_of q) (enc q) = Inr q"
  shows "let db = en_accounts en (ag_world (jn_state (wb_agent w))) in
    \<exists>pw. oa_pam db u p \<and> getpwnam db u = Some pw \<and> id_uid idn = pw_uid pw \<and> id_username idn = u \<and>
      (if member_of db pw ''nasos-admin'' then id_role idn = ''admin''
       else member_of db pw ''nasos-users'' \<and> id_role idn = ''user'')"
proof -
  from assms(1) have "login ev c u p w = (Inr (Logged_in t sec age idn), w')"
    by (auto simp: serve_def split: option.splits)
  then obtain uid name role d w1 where
    call: "agent_call (ev_agent ev) \<lparr>ctx_user = None, ctx_role = None, ctx_ip = cl_ip c\<rparr> (Auth (AuthLoginParams u p)) w =
       (Inr (AuthLoginResult uid name role d), w1)"
    and idn: "idn = \<lparr>id_uid = uid, id_username = name, id_role = role\<rparr>"
    by (rule login_Inr) auto
  from call obtain a where ok: "params_ok (Auth (AuthLoginParams u p))"
    and run: "rpc_agent enc dec en (real_adapters en) rid jid \<lparr>ctx_user = None, ctx_role = None, ctx_ip = cl_ip c\<rparr>
      (Auth (AuthLoginParams u p)) (wb_agent w) = (Inr (AuthLoginResult uid name role d), a)"
    unfolding assms(2) by (rule agent_call_InrE)
  have m: "method_of (Auth (AuthLoginParams u p)) \<in> set agent_methods" by (simp add: agent_methods_def)
  have "dec (method_of (Auth (AuthLoginParams u p))) (enc (Auth (AuthLoginParams u p))) = Inr (Auth (AuthLoginParams u p))"
    using assms(3) ok by blast
  from rpc_agent_Inr [OF run ok this m]
  have "fst (agent_handler en (real_adapters en) jid \<lparr>ctx_user = None, ctx_role = None, ctx_ip = cl_ip c\<rparr>
      (Auth (AuthLoginParams u p)) (jn_state (wb_agent w))) = Inr (AuthLoginResult uid name role d)" by simp
  then show ?thesis unfolding pam_login_iff [unfolded Let_def] Let_def by (auto simp: idn)
qed

text \<open>C12: The file requests of a session go to a process of the session's user: the socket the web process connects
  to belongs to a child of the agent that was started for the uid of the session, and if that process gets as
  far as serving connections it does so under this uid, whatever the machine and its accounts were.\<close>

theorem file_requests_run_as_session_user:
  assumes "get_file_worker_client ev c w = (Inr path, w')"
    and "ev_agent ev = rpc_agent enc dec en A rid jid"
    and "\<forall>q. params_ok q \<longrightarrow> dec (method_of q) (enc q) = Inr q"
    and "sup_reachable d h (ag_workers (jn_state (wb_agent w)))" "host_ok h"
  shows "\<exists>s e proc. let sv = ag_workers (jn_state (wb_agent w')) in
    fst (current_session (ev_hash ev) (ev_settings ev) (cl_cookie c) w) = Inr s \<and>
    path = worker_socket_path (sv_run_dir sv) (se_uid s) \<and>
    dget (sv_workers sv) (se_uid s) = Some e \<and> dget (sv_procs sv) (we_pid e) = Some proc \<and> serves sv (se_uid s) proc \<and>
    (\<forall>acl machine cs k trusted cs'. worker_main (pr_argv proc) acl machine cs = (Inr (k, trusted), cs') \<longrightarrow> pc_uid cs' = se_uid s)"
proof -
  from assms(1) obtain s w1 where s: "current_session (ev_hash ev) (ev_settings ev) (cl_cookie c) w = (Inr s, w1)"
    and g: "get_prod_client (ev_agent ev) (session_ctx s) (se_uid s) (se_username s) w1 = (Inr path, w')"
    by (auto simp: get_file_worker_client_def bindE_eq_Inr)
  from s have same: "wb_agent w1 = wb_agent w" by (cases rule: current_session_cases [of ev c w]) auto
  let ?q = "FileWorkerEnsureParams (se_uid s) (se_username s)"
  note call = get_prod_client_Inr [OF g]
  from call obtain a where ok: "params_ok ?q" and w2: "w' = w1\<lparr>wb_agent := a\<rparr>"
    and run: "rpc_agent enc dec en A rid jid (session_ctx s) ?q (wb_agent w) = (Inr (FileWorkerEnsureResult path), a)"
    unfolding assms(2) same [symmetric] by (rule agent_call_InrE)
  have m: "method_of ?q \<in> set agent_methods" by (simp add: agent_methods_def)
  have "dec (method_of ?q) (enc ?q) = Inr ?q" using assms(3) ok by blast
  from rpc_agent_Inr [OF run ok this m]
  have "agent_handler en A jid (session_ctx s) ?q (jn_state (wb_agent w)) = (Inr (FileWorkerEnsureResult path), jn_state a)" by simp
  then have ens: "ensure_worker (se_uid s) (ag_workers (jn_state (wb_agent w))) = (Inr path, ag_workers (jn_state a))"
    by (auto simp: fileworker_ensure_def bindE_eq_Inr on_workers_def Let_def split: prod.splits
        dest!: arg_cong [of _ "jn_state a" ag_workers])
  note old = reachable_ok [OF assms(4,5)]
  note new = ensure_ok [OF old ens]
  from new(3) obtain e where e: "path = worker_socket_path (sv_run_dir (ag_workers (jn_state a))) (se_uid s)"
    "dget (sv_workers (ag_workers (jn_state a))) (se_uid s) = Some e" unfolding new(2) by blast
  from supervisor_okD(3) [OF new(1) e(2)] obtain proc where
    p: "dget (sv_procs (ag_workers (jn_state a))) (we_pid e) = Some proc" "serves (ag_workers (jn_state a)) (se_uid s) proc"
    by (auto simp: tracks_def)
  from p(2) have "pr_argv proc = worker_argv (sv_binary (ag_workers (jn_state a))) (se_uid s)" by (simp add: serves_def)
  then show ?thesis
    by (intro exI [of _ s] exI [of _ e] exI [of _ proc])
      (use e p s in \<open>simp add: w2 Let_def worker_main_argv worker_start_uid\<close>)
qed


theorem session_roles_follow_groups_witness:
  "\<exists>t sec age idn w'. serve demo_whole_env (demo_client ''a'') (Login ''anna'' ''secret'') demo_whole =
       (Inr (Logged_in t sec age idn), w') \<and> id_uid idn = 1000 \<and> id_role idn = ''user''"
proof -
  have "fst (serve demo_whole_env (demo_client ''a'') (Login ''anna'' ''secret'') demo_whole) =
      Inr (Logged_in ''n'' (cookie_secure default_settings) (st_session_idle_timeout_minutes default_settings * 60)
        \<lparr>id_uid = 1000, id_username = ''anna'', id_role = ''user''\<rparr>)"
    by code_simp
  then obtain t sec age idn w' where serve: "serve demo_whole_env (demo_client ''a'') (Login ''anna'' ''secret'') demo_whole =
       (Inr (Logged_in t sec age idn), w')" by (metis prod.collapse)
  from session_roles_follow_groups [OF serve, of id plain_dec demo_agent_env "''1''" "''j''"] serve show ?thesis
    by (auto simp: demo_whole_env_def plain_dec_def demo_agent_env_def demo_accounts_def getpwnam_def Let_def member_of_def)
qed

theorem file_requests_run_as_session_user_witness:
  "\<exists>path w'. get_file_worker_client demo_whole_env (demo_client ''a'') demo_whole = (Inr path, w') \<and>
     (\<exists>e proc. dget (sv_workers (ag_workers (jn_state (wb_agent w')))) 1000 = Some e \<and>
        dget (sv_procs (ag_workers (jn_state (wb_agent w')))) (we_pid e) = Some proc \<and>
        serves (ag_workers (jn_state (wb_agent w'))) 1000 proc)"
proof -
  have "fst (get_file_worker_client demo_whole_env (demo_client ''a'') demo_whole) = Inr ''/run/workers/1000.sock''"
    by code_simp
  then obtain path w' where got: "get_file_worker_client demo_whole_env (demo_client ''a'') demo_whole = (Inr path, w')"
    by (metis prod.collapse)
  have start: "sup_reachable ''/run'' demo_host (ag_workers (jn_state (wb_agent demo_whole)))"
    by (simp add: demo_whole_def demo_web_def demo_agent_def Start)
  have "se_uid s = 1000" if "fst (current_session (ev_hash demo_whole_env) (ev_settings demo_whole_env)
      (cl_cookie (demo_client ''a'')) demo_whole) = Inr s" for s
    using that by (auto simp: current_session_def resolve_session_def demo_client_def or_else_def demo_whole_env_def demo_whole_def
      demo_web_def demo_session_def find_row_def update_rows_def bindE_def Let_def)
  then show ?thesis
    using file_requests_run_as_session_user [OF got, of id plain_dec demo_agent_env "real_adapters demo_agent_env" "''1''" "''j''",
        OF _ _ start demo_host_ok] got
    by (fastforce simp: demo_whole_env_def plain_dec_def Let_def)
qed

end
