(* ===== verification/Spec2Isabelle.thy ===== *)
theory Spec2Isabelle
  imports StorageSafety Jobs Accounts Acl Samba Dispatch PlanService ApiSafety UploadSafety Systemd Supervisor Events AgentSafety Health WorkerProcess Transport AgentServer Migrations Whole
begin

text \<open>
  NAS-OS: the back end (\<open>src/backend/nasos\<close>) of a network-storage appliance, as HOL functions, with
  what makes it correct.

  \<^bold>\<open>The program.\<close> Three kinds of processes work together. The \<^emph>\<open>web process\<close> runs as the unprivileged user
  \<open>nasos\<close>: it keeps the tables (SQLite), the sessions, the REST routes and the plans of the storage manager. The
  \<^emph>\<open>agent\<close> runs as root behind a Unix socket: it changes accounts, access-control lists, the Samba
  configuration and the disks, one RPC method each, long operations as jobs. A \<^emph>\<open>file worker\<close> per user, started
  by the agent and running as that user, does the file operations. The web process reaches agent and workers
  by RPC; jobs report their progress as events. In development all of it runs in one process with fakes in place of
  the adapters.

  \<^bold>\<open>How it is modelled.\<close> A Python function is a HOL function. One that changes state or may raise is a \<open>prog\<close>
  (\<open>Prelude\<close>): it takes the state and returns a value or an exception, with the new state. The classes of
  exceptions are the constructors of \<open>exn\<close>. The code is asynchronous; a function without an \<open>await\<close> on
  anything shared is one step, and where tasks interleave (jobs, WebSocket connections, the RPC connection,
  the supervisor) there is a step relation instead. Integers are Python's and unbounded, so no word arithmetic
  occurs; a string is a list of characters up to code 255, and where the code encodes it, UTF-8 is
  written out. What is outside the repository is a parameter: commands, D-Bus, kernel and file system answer as
  functions of all calls made so far (\<open>World\<close>, \<open>UserFs\<close>, \<open>Systemd\<close>, \<open>Supervisor\<close>), so
  that a theorem about all of them is one about every behaviour of the system; \<open>json.loads\<close>, hashes, PAM and the
  clock are arguments.

  \<^bold>\<open>The theories\<close>, in the order they build on each other:

  \<^item> \<open>Prelude\<close>: exceptions, programs and their rules (\<open>keeps\<close> for relations, \<open>preserves\<close> for
    invariants), strings, numbers as text, dictionaries.
  \<^item> \<open>World\<close>: \<open>system/runner.py\<close>, POSIX files and systemd units as root sees them; the interface of a runner as
    a locale, interpreted on \<open>FakeRunner\<close> and on the world.
  \<^item> \<open>Json\<close>, \<open>Schemas\<close>: decoded JSON; \<open>rpc/schemas.py\<close>: the models, their field constraints and the registry.
  \<^item> \<open>Devices\<close>: \<open>system/lsblk.py\<close>, \<open>lvm.py\<close>, \<open>mdadm.py\<close>, \<open>parted.py\<close>, \<open>mkfs.py\<close>, \<open>smart.py\<close>,
    \<open>mdstat.py\<close>: argument lists and parsers.
  \<^item> \<open>Inventory\<close>: \<open>agent/inventory.py\<close> and \<open>services/storage/guard.py\<close>, which marks the devices in use.
  \<^item> \<open>PlanSteps\<close>: \<open>system/storage_plan.py\<close>, \<open>system/mount_units.py\<close>: the commands of a plan.
  \<^item> \<open>ManagedFile\<close>: \<open>system/managedfile.py\<close>: write, validate, apply, roll back.
  \<^item> \<open>Jobs\<close>: \<open>agent/jobs.py\<close> as a step relation: slots, resource locks, records.
  \<^item> \<open>Config\<close>, \<open>DevSeed\<close>: \<open>config.py\<close> and the seed of \<open>agent/state.py\<close>.
  \<^item> \<open>StorageAgent\<close>, \<open>StorageSafety\<close>: \<open>agent/handlers/storage.py\<close> and what executing a plan may do to the disks.
  \<^item> \<open>Samba\<close>, \<open>Accounts\<close>, \<open>Acl\<close>: \<open>system/samba.py\<close>, \<open>system/users.py\<close>, \<open>system/acl.py\<close> with their handlers.
  \<^item> \<open>Systemd\<close>: \<open>system/systemd.py\<close> over a bus, with time. \<open>Supervisor\<close>: \<open>agent/fileworker_supervisor.py\<close>.
  \<^item> \<open>Dispatch\<close>: \<open>agent/dispatcher.py\<close>, the in-process transport and \<open>AgentClient\<close>.
  \<^item> \<open>UserFs\<close>, \<open>FileOps\<close>, \<open>FileTrees\<close>, \<open>FileSafety\<close>, \<open>FileData\<close>: the files of the users, the handlers of
    \<open>agent/handlers/files.py\<close> and \<open>uploads.py\<close>, the theory of file trees, \<open>agent/filedata.py\<close> and the
    connection of \<open>agent/fileworker.py\<close>.
  \<^item> \<open>Web\<close>, \<open>PlanStore\<close>, \<open>Services\<close>, \<open>PlanService\<close>, \<open>Api\<close>, \<open>UploadApi\<close>: tables and sessions, the
    services and the routes (\<open>db/models.py\<close>, \<open>services\<close>, \<open>api\<close>, \<open>web/deps.py\<close>, \<open>web/main.py\<close>).
  \<^item> \<open>ApiTables\<close>, \<open>ApiSafety\<close>, \<open>UploadSafety\<close>: what the requests preserve and guarantee.

  \<^bold>\<open>What the lemmas show.\<close> Storage: only disks that were chosen and are found unused on a second look are wiped, in
  the order that was previewed; a plan runs once, after its confirmation. Jobs: mutual exclusion, the bound on
  running bodies, no deadlock. Accounts, access control and Samba: what a handler leaves behind, on success and
  on every failure. Requests: who may change what, tables that stay consistent, an agent that follows the tables.
  Files: copying keeps what is there, deleting stays within what was named, an upload arrives as it was sent.
  Several theorems record what the code does and its documentation does not say; the manifest lists them as findings.

  \<^bold>\<open>Bounds and fuel.\<close> \<open>follow\<close> follows 40 symbolic links, as Linux does. A walk over directories takes one level of
  fuel per directory of the file system and one more, which no path exceeds; \<open>shutil\<close> recursion is limited by
  \<open>wk_depth\<close>, as Python limits it. \<open>serve_lines\<close> takes as many lines as there are tokens. Everything else
  recurses on its data or has a proved measure.

  \<^bold>\<open>Not modelled.\<close> JSON and the parsing of requests by pydantic and FastAPI (models arrive decoded), SQL (a table is
  its rows), TLS, the real PAM stack, the sampler's figures, start-up of the processes, command line tools, migrations,
  packaging and the front end. Time passes only where the code looks at a clock.
\<close>

end
